(* ===== verification/Prelude.thy ===== *)
theory Prelude
  imports Complex_Main "HOL-Library.Signed_Division" "HOL-Library.Word"
begin

text \<open>
  What every component shares: bytes and public keys, results (a thrown error or a value) with their sequencing
  operators, indexing with a default (the source's \<open>xs[i] ?? d\<close>), the truncating
  division of unbounded integers, and the fact collections the component proofs use.
\<close>

named_theorems result_simps \<open>equations that evaluate sequenced results\<close>
named_theorems result_elims \<open>what a successful sequenced result implies\<close>

section \<open>Bytes and keys\<close>

text \<open>A public key is its 32 bytes; the base 58 text form is a parameter where it is used.\<close>

type_synonym bytes = "8 word list"

datatype pubkey = PublicKey (key_bytes: bytes)

definition ascii :: "string \<Rightarrow> bytes" where
  "ascii s = map of_char s"

section \<open>Results\<close>

text \<open>
  \<open>Inl e\<close> is a thrown error, an error return or a panic, \<open>Inr x\<close> a returned value. The three
  operators are statement sequencing, a call applied to the result of another, and an array
  \<open>map\<close> whose callback may throw (elements in order, the first error wins).
\<close>

definition rbind :: "'e + 'a \<Rightarrow> ('a \<Rightarrow> 'e + 'b) \<Rightarrow> 'e + 'b" where
  "rbind m f = (case m of Inl e \<Rightarrow> Inl e | Inr x \<Rightarrow> f x)"

definition rmap :: "('a \<Rightarrow> 'b) \<Rightarrow> 'e + 'a \<Rightarrow> 'e + 'b" where
  "rmap f m = (case m of Inl e \<Rightarrow> Inl e | Inr x \<Rightarrow> Inr (f x))"

fun rmapM :: "('a \<Rightarrow> 'e + 'b) \<Rightarrow> 'a list \<Rightarrow> 'e + 'b list" where
  "rmapM f [] = Inr []"
| "rmapM f (x # xs) = rbind (f x) (\<lambda>y. rbind (rmapM f xs) (\<lambda>ys. Inr (y # ys)))"

text \<open>The same with the index the callback also receives.\<close>

definition rmapM_idx :: "(nat \<Rightarrow> 'a \<Rightarrow> 'e + 'b) \<Rightarrow> 'a list \<Rightarrow> 'e + 'b list" where
  "rmapM_idx f xs = rmapM (\<lambda>(i, x). f i x) (enumerate 0 xs)"

definition map_idx :: "(nat \<Rightarrow> 'a \<Rightarrow> 'b) \<Rightarrow> 'a list \<Rightarrow> 'b list" where
  "map_idx f xs = map (\<lambda>(i, x). f i x) (enumerate 0 xs)"

fun rfold :: "('s \<Rightarrow> 'a \<Rightarrow> 'e + 's) \<Rightarrow> 's \<Rightarrow> 'a list \<Rightarrow> 'e + 's" where
  "rfold f s [] = Inr s"
| "rfold f s (x # xs) = rbind (f s x) (\<lambda>s'. rfold f s' xs)"

lemma rbind_simps [simp, result_simps]:
  "rbind (Inl e) f = Inl e" "rbind (Inr x) f = f x"
  by (simp_all add: rbind_def)

lemma rmap_simps [simp, result_simps]:
  "rmap f (Inl e) = Inl e" "rmap f (Inr x) = Inr (f x)"
  by (simp_all add: rmap_def)

lemma rbind_Inr_iff [result_elims]: "rbind m f = Inr y \<longleftrightarrow> (\<exists>x. m = Inr x \<and> f x = Inr y)"
  by (cases m) auto

lemma rbind_Inl_iff: "rbind m f = Inl e \<longleftrightarrow> m = Inl e \<or> (\<exists>x. m = Inr x \<and> f x = Inl e)"
  by (cases m) auto

lemma rmap_Inr_iff [result_elims]: "rmap f m = Inr y \<longleftrightarrow> (\<exists>x. m = Inr x \<and> y = f x)"
  by (cases m) auto

lemma rmap_Inl_iff: "rmap f m = Inl e \<longleftrightarrow> m = Inl e"
  by (cases m) auto

lemma if_Inl_Inr_iff [result_elims]:
  "(if c then Inl e else m) = Inr y \<longleftrightarrow> \<not> c \<and> m = Inr y"
  by simp

lemma rbind_assoc: "rbind (rbind m f) g = rbind m (\<lambda>x. rbind (f x) g)"
  by (cases m) auto

lemma rbind_cong [fundef_cong]:
  "m = m' \<Longrightarrow> (\<And>x. m' = Inr x \<Longrightarrow> f x = f' x) \<Longrightarrow> rbind m f = rbind m' f'"
  by (cases m') auto

lemma rmapM_Inr_iff: "rmapM f xs = Inr ys \<longleftrightarrow> list_all2 (\<lambda>x y. f x = Inr y) xs ys"
proof (induction xs arbitrary: ys)
  case Nil
  then show ?case by auto
next
  case (Cons x xs)
  then show ?case by (cases ys) (auto simp: rbind_Inr_iff list_all2_Cons1)
qed

lemma rmapM_all_Inr: "(\<And>x. x \<in> set xs \<Longrightarrow> f x = Inr (g x)) \<Longrightarrow> rmapM f xs = Inr (map g xs)"
  by (induction xs) auto

lemma rmapM_length: "rmapM f xs = Inr ys \<Longrightarrow> length ys = length xs"
  by (auto simp: rmapM_Inr_iff dest: list_all2_lengthD)

lemma rmapM_nth: "rmapM f xs = Inr ys \<Longrightarrow> i < length xs \<Longrightarrow> f (xs ! i) = Inr (ys ! i)"
  by (auto simp: rmapM_Inr_iff list_all2_conv_all_nth)

lemma rmapM_Inl: "rmapM f xs = Inl e \<Longrightarrow> \<exists>x\<in>set xs. f x = Inl e"
  by (induction xs) (auto simp: rbind_Inl_iff)

lemma rmapM_cong [fundef_cong]:
  "xs = ys \<Longrightarrow> (\<And>x. x \<in> set ys \<Longrightarrow> f x = g x) \<Longrightarrow> rmapM f xs = rmapM g ys"
  by (induction ys arbitrary: xs) auto

lemma rmapM_idx_length: "rmapM_idx f xs = Inr ys \<Longrightarrow> length ys = length xs"
  by (auto simp: rmapM_idx_def dest: rmapM_length)

lemma rmapM_idx_nth:
  "rmapM_idx f xs = Inr ys \<Longrightarrow> i < length xs \<Longrightarrow> f i (xs ! i) = Inr (ys ! i)"
  using rmapM_nth [of "\<lambda>(i, x). f i x" "enumerate 0 xs" ys i]
  by (simp add: rmapM_idx_def nth_enumerate_eq)

lemma rmapM_idx_all_Inr:
  assumes "\<And>i. i < length xs \<Longrightarrow> f i (xs ! i) = Inr (g i (xs ! i))"
  shows "rmapM_idx f xs = Inr (map_idx g xs)"
  unfolding rmapM_idx_def map_idx_def
  by (rule rmapM_all_Inr) (use assms in \<open>auto simp: in_set_enumerate_eq\<close>)

lemma length_map_idx [simp]: "length (map_idx f xs) = length xs"
  by (simp add: map_idx_def)

lemma nth_map_idx [simp]: "i < length xs \<Longrightarrow> map_idx f xs ! i = f i (xs ! i)"
  by (simp add: map_idx_def nth_enumerate_eq)

section \<open>Indexing with a default\<close>

definition nth_or :: "'a \<Rightarrow> 'a list \<Rightarrow> nat \<Rightarrow> 'a" where
  "nth_or d xs i = (if i < length xs then xs ! i else d)"

lemma nth_or_nth [simp]: "i < length xs \<Longrightarrow> nth_or d xs i = xs ! i"
  by (simp add: nth_or_def)

lemma nth_or_default [simp]: "length xs \<le> i \<Longrightarrow> nth_or d xs i = d"
  by (simp add: nth_or_def)

section \<open>Integer division\<close>

text \<open>Division of unbounded integers truncates towards zero; on the naturals it is \<open>div\<close>.\<close>

lemma sdiv_nonneg [simp]: "0 \<le> (a::int) \<Longrightarrow> 0 \<le> b \<Longrightarrow> a sdiv b = a div b"
  by (cases "b = 0") (auto simp: signed_divide_int_def sgn_if)

lemma div_mult_bounds:
  fixes a d :: int
  assumes "0 < d"
  shows "a div d * d \<le> a" "a < (a div d + 1) * d"
proof -
  have eq: "a = a div d * d + a mod d" by simp
  have lo: "0 \<le> a mod d" and hi: "a mod d < d" using assms by simp_all
  show "a div d * d \<le> a" using eq lo by linarith
  have "(a div d + 1) * d = a div d * d + d" by (simp add: distrib_right)
  then show "a < (a div d + 1) * d" using eq hi by linarith
qed

lemma div_le_self_int:
  fixes a d :: int
  assumes "0 \<le> a" "0 < d"
  shows "a div d \<le> a"
proof -
  have "a div d * 1 \<le> a div d * d"
    using assms by (intro mult_left_mono) (auto simp: pos_imp_zdiv_nonneg_iff)
  then show ?thesis using div_mult_bounds(1) [OF assms(2), of a] by simp
qed

text \<open>The ceiling the code computes as \<open>(n - 1) / d + 1\<close>.\<close>

definition ceil_div :: "int \<Rightarrow> int \<Rightarrow> int" where
  "ceil_div n d = (if n = 0 then 0 else (n - 1) div d + 1)"

lemma ceil_div_ge:
  assumes "0 < d" shows "n \<le> ceil_div n d * d"
  using div_mult_bounds [OF assms, of "n - 1"] by (simp add: ceil_div_def)

lemma ceil_div_less:
  assumes "0 < d" "0 < n" shows "(ceil_div n d - 1) * d < n"
  using div_mult_bounds [OF assms(1), of "n - 1"] assms(2) by (simp add: ceil_div_def)

lemma ceil_div_nonneg: "0 < d \<Longrightarrow> 0 \<le> n \<Longrightarrow> 0 \<le> ceil_div n d"
  by (auto simp: ceil_div_def pos_imp_zdiv_nonneg_iff)

lemma ceil_div_least:
  assumes "0 < d" "0 \<le> n" "n \<le> q * d" "0 \<le> q"
  shows "ceil_div n d \<le> q"
proof (cases "n = 0")
  case True
  then show ?thesis using assms by (simp add: ceil_div_def)
next
  case False
  then have "(ceil_div n d - 1) * d < q * d"
    using ceil_div_less [of d n] assms by linarith
  then have "ceil_div n d - 1 < q" using assms(1) mult_less_cancel_right_pos by blast
  then show ?thesis by simp
qed

lemma ceil_div_floor:
  assumes "0 < d" "0 \<le> n"
  shows "n div d \<le> ceil_div n d" "ceil_div n d \<le> n div d + 1"
proof -
  show "n div d \<le> ceil_div n d"
  proof -
    have "n div d * d \<le> ceil_div n d * d"
      using div_mult_bounds(1) [OF assms(1), of n] ceil_div_ge [OF assms(1), of n] by linarith
    then show ?thesis using assms(1) mult_le_cancel_right_pos by blast
  qed
  show "ceil_div n d \<le> n div d + 1"
    by (rule ceil_div_least)
       (use assms div_mult_bounds(2) [OF assms(1), of n] in
         \<open>auto simp: pos_imp_zdiv_nonneg_iff add_nonneg_nonneg\<close>)
qed

end
