(* ===== verification/JsNumber.thy ===== *)
theory JsNumber
  imports Prelude "HOL-Library.Log_Nat"
begin

text \<open>
  The two numeric types of the TypeScript sources. A \<open>bigint\<close> is an \<open>int\<close>. A \<open>number\<close> is an
  IEEE 754 double: a finite one is the rational it denotes, and every arithmetic operation is
  the exact result rounded to nearest, ties to even, with 53 bits of precision, gradual
  underflow and overflow to infinity. The two zeros are one value here: the sources never
  divide by a computed zero they have not tested and never compare with \<open>Object.is\<close>.
\<close>

datatype jsnum = Fin rat | PosInf | NegInf | NaN

text \<open>Errors the sources throw or let through. A message built by a template literal is kept as
  the list of its literal chunks and of the values it interpolates; \<open>PUsd\<close> is a number formatted
  as US dollars by the platform's locale data.\<close>

datatype chunk = Lit string | PInt int | PNum jsnum | PKey pubkey | PStr "16 word list" | PUsd jsnum

datatype js_error = Error "chunk list" | RangeError | TypeError | SyntaxError

type_synonym 'a result = "js_error + 'a"

section \<open>Rounding to double precision\<close>

definition round_half_even :: "rat \<Rightarrow> int" where
  "round_half_even x =
     (let f = \<lfloor>x\<rfloor>; d = x - of_int f
      in if d < 1/2 then f else if 1/2 < d then f + 1 else if even f then f else f + 1)"

text \<open>The binary exponent of a positive rational, \<open>2 ^ e \<le> x < 2 ^ (e + 1)\<close>.\<close>

definition ilog2 :: "rat \<Rightarrow> int" where
  "ilog2 x =
     (let p = fst (quotient_of x); q = snd (quotient_of x); e = bitlen p - bitlen q
      in if 2 powi e \<le> x then e else e - 1)"

definition quantum :: "rat \<Rightarrow> rat" where
  "quantum x = 2 powi (max (ilog2 x - 52) (- 1074))"

definition round_mag :: "rat \<Rightarrow> rat" where
  "round_mag x = of_int (round_half_even (x / quantum x)) * quantum x"

definition to_double :: "rat \<Rightarrow> jsnum" where
  "to_double x =
     (if x = 0 then Fin 0
      else if 2 ^ 1024 \<le> round_mag \<bar>x\<bar> then (if 0 < x then PosInf else NegInf)
      else Fin (sgn x * round_mag \<bar>x\<bar>))"

lemma round_half_even_of_int [simp]: "round_half_even (of_int i) = i"
  by (simp add: round_half_even_def)

lemma round_half_even_error: "\<bar>of_int (round_half_even x) - x\<bar> \<le> 1/2"
proof -
  have "of_int \<lfloor>x\<rfloor> \<le> x" "x < of_int \<lfloor>x\<rfloor> + 1" by linarith+
  then show ?thesis by (auto simp: round_half_even_def Let_def)
qed

lemma round_half_even_ge: "of_int n \<le> x \<Longrightarrow> n \<le> round_half_even x"
proof -
  assume "of_int n \<le> x"
  then have "n \<le> \<lfloor>x\<rfloor>" by (simp add: le_floor_iff)
  then show ?thesis by (auto simp: round_half_even_def Let_def)
qed

lemma pow2_powi: "0 \<le> n \<Longrightarrow> (2::rat) ^ nat n = 2 powi n"
  by (simp add: power_int_def)

lemma bitlen_powi:
  assumes "0 < (p::int)"
  shows "2 powi (bitlen p - 1) \<le> (of_int p :: rat)" "(of_int p :: rat) < 2 powi (bitlen p)"
proof -
  have b: "2 ^ nat (bitlen p - 1) \<le> p" "p < 2 ^ nat (bitlen p)"
    using bitlen_bounds [OF assms] by auto
  have pos: "0 \<le> bitlen p - 1" using assms
    by (metis add_0 bitlen_nonneg bitlen_zero diff_ge_0_iff_ge linorder_not_less
        order_le_less zle_add1_eq_le zero_less_iff_neq_zero bitlen_eq_zero_iff less_imp_neq)
  have "(of_int (2 ^ nat (bitlen p - 1)) :: rat) \<le> of_int p" using b(1) by (simp only: of_int_le_iff)
  then show "2 powi (bitlen p - 1) \<le> (of_int p :: rat)" using pos by (simp add: pow2_powi)
  have "(of_int p :: rat) < of_int (2 ^ nat (bitlen p))" using b(2) by (simp only: of_int_less_iff)
  then show "(of_int p :: rat) < 2 powi (bitlen p)"
    using pow2_powi [OF bitlen_nonneg [of p]] by simp
qed

lemma ilog2_bounds:
  assumes "0 < x"
  shows "2 powi (ilog2 x) \<le> x" "x < 2 powi (ilog2 x + 1)"
proof -
  obtain p q where pq: "quotient_of x = (p, q)" by (cases "quotient_of x")
  have q: "0 < q" and x: "x = of_int p / of_int q"
    using quotient_of_denom_pos [OF pq] quotient_of_div [OF pq] by auto
  have p: "0 < p" using assms q by (simp add: x zero_less_divide_iff)
  define e where "e = bitlen p - bitlen q"
  have ple: "2 powi (bitlen p - 1) \<le> (of_int p :: rat)" "(of_int p :: rat) < 2 powi (bitlen p)"
    by (rule bitlen_powi [OF p])+
  have qle: "2 powi (bitlen q - 1) \<le> (of_int q :: rat)" "(of_int q :: rat) < 2 powi (bitlen q)"
    by (rule bitlen_powi [OF q])+
  have q0: "(0::rat) < of_int q" using q by simp
  have lo: "2 powi (e - 1) \<le> x"
  proof -
    have "2 powi (e - 1) * of_int q \<le> 2 powi (e - 1) * (2 powi (bitlen q) :: rat)"
      using qle(2) by (intro mult_left_mono) auto
    also have "\<dots> = 2 powi (bitlen p - 1)" by (simp add: e_def flip: power_int_add)
    also have "\<dots> \<le> of_int p" by (rule ple(1))
    finally show ?thesis using q0 by (simp add: x pos_le_divide_eq)
  qed
  have hi: "x < 2 powi (e + 1)"
  proof -
    have "(of_int p :: rat) < 2 powi (bitlen p)" by (rule ple(2))
    also have "\<dots> = 2 powi (e + 1) * 2 powi (bitlen q - 1)"
      by (simp add: e_def flip: power_int_add)
    also have "\<dots> \<le> 2 powi (e + 1) * of_int q" using qle(1) by (intro mult_left_mono) auto
    finally show ?thesis using q0 by (simp add: x pos_divide_less_eq)
  qed
  show "2 powi (ilog2 x) \<le> x" "x < 2 powi (ilog2 x + 1)"
    using lo hi by (auto simp: ilog2_def pq Let_def e_def not_le)
qed

lemma quantum_pos [simp]: "0 < quantum x"
  by (simp add: quantum_def)

lemma quantum_nonzero [simp]: "quantum x \<noteq> 0"
  using quantum_pos [of x] by linarith

lemma round_mag_error: "\<bar>round_mag x - x\<bar> \<le> quantum x / 2"
proof -
  have "round_mag x - x = (of_int (round_half_even (x / quantum x)) - x / quantum x) * quantum x"
    by (simp add: round_mag_def left_diff_distrib)
  then have "\<bar>round_mag x - x\<bar> = \<bar>of_int (round_half_even (x / quantum x)) - x / quantum x\<bar> * quantum x"
    by (simp add: abs_mult abs_of_pos)
  also have "\<dots> \<le> 1/2 * quantum x"
    using round_half_even_error quantum_pos [THEN less_imp_le] by (rule mult_right_mono)
  finally show ?thesis by simp
qed

lemma round_mag_exact: "x = of_int m * quantum x \<Longrightarrow> round_mag x = x"
proof -
  assume x: "x = of_int m * quantum x"
  from x have "x / quantum x = of_int m * quantum x / quantum x" by (rule arg_cong)
  also have "\<dots> = of_int m" by simp
  finally have "round_mag x = of_int m * quantum x" by (simp only: round_mag_def round_half_even_of_int)
  then show ?thesis by (rule trans) (rule x [symmetric])
qed

lemma ilog2_less:
  assumes "0 < x" "x < 2 powi k" shows "ilog2 x < k"
proof (rule ccontr)
  assume "\<not> ilog2 x < k"
  then have "(2::rat) powi k \<le> 2 powi (ilog2 x)" by (intro power_int_increasing) auto
  then show False using ilog2_bounds(1) [OF assms(1)] assms(2) by linarith
qed

lemma ilog2_ge:
  assumes "0 < x" "2 powi k \<le> x" shows "k \<le> ilog2 x"
proof (rule ccontr)
  assume "\<not> k \<le> ilog2 x"
  then have "(2::rat) powi (ilog2 x + 1) \<le> 2 powi k" by (intro power_int_increasing) auto
  then show False using ilog2_bounds(2) [OF assms(1)] assms(2) by linarith
qed

text \<open>Below \<open>2 ^ 53\<close> the quantum divides one, so rounding never crosses an integer.\<close>

lemma quantum_le_one:
  assumes "0 < x" "x < 2 ^ 53"
  shows "\<exists>k. quantum x = 1 / 2 ^ k"
proof -
  have "x < 2 powi 53" using assms(2) by simp
  then have "ilog2 x < 53" by (rule ilog2_less [OF assms(1)])
  then have m: "max (ilog2 x - 52) (- 1074) \<le> 0" by simp
  have "quantum x = 1 / 2 ^ nat (- max (ilog2 x - 52) (- 1074))"
    using m by (auto simp: quantum_def power_int_def inverse_eq_divide power_divide)
  then show ?thesis ..
qed

lemma of_int_quantum:
  assumes "quantum x = 1 / 2 ^ k"
  shows "(of_int n :: rat) = of_int (n * 2 ^ k) * quantum x"
  using assms by simp

lemma round_mag_of_int:
  assumes "0 < i" "i < 2 ^ 53" shows "round_mag (of_int i) = of_int i"
proof -
  have "(of_int i :: rat) < of_int (2 ^ 53)" using assms(2) by (simp only: of_int_less_iff)
  then obtain k where "quantum (of_int i) = 1 / 2 ^ k"
    using quantum_le_one [of "of_int i"] assms(1) by auto
  then show ?thesis by (intro round_mag_exact [of _ "i * 2 ^ k"] of_int_quantum)
qed

lemma round_mag_ge_int:
  assumes "0 < x" "x < 2 ^ 53" "of_int n \<le> x" shows "of_int n \<le> round_mag x"
proof -
  obtain k where k: "quantum x = 1 / 2 ^ k" using quantum_le_one [OF assms(1,2)] by auto
  have "of_int (n * 2 ^ k) * quantum x \<le> x" using assms(3) of_int_quantum [OF k] by metis
  then have "of_int (n * 2 ^ k) \<le> x / quantum x" by (simp add: pos_le_divide_eq)
  then have "n * 2 ^ k \<le> round_half_even (x / quantum x)" by (rule round_half_even_ge)
  then have "(of_int (n * 2 ^ k) :: rat) * quantum x
      \<le> of_int (round_half_even (x / quantum x)) * quantum x"
    by (intro mult_right_mono) (simp_all only: of_int_le_iff quantum_pos less_imp_le)
  then show ?thesis using of_int_quantum [OF k, of n] by (simp only: round_mag_def)
qed

text \<open>The relative error of rounding a value that is not subnormal.\<close>

lemma round_mag_rel_error:
  assumes "0 < x" "2 powi (- 1022) \<le> x"
  shows "\<bar>round_mag x - x\<bar> \<le> x / 2 ^ 53"
proof -
  have "- 1022 \<le> ilog2 x" by (rule ilog2_ge [OF assms])
  then have "quantum x = 2 powi (ilog2 x - 52)" by (simp add: quantum_def)
  also have "\<dots> = 2 powi (ilog2 x) / 2 ^ 52" by (simp add: power_int_diff)
  also have "\<dots> \<le> x / 2 ^ 52" using ilog2_bounds(1) [OF assms(1)] by (intro divide_right_mono) auto
  finally show ?thesis using round_mag_error [of x] by simp
qed

section \<open>Operations on numbers\<close>

definition nint :: "int \<Rightarrow> jsnum" where
  "nint i = Fin (of_int i)"

text \<open>\<open>Number(b)\<close> of a bigint rounds; \<open>BigInt(x)\<close> of a number that is no integer throws.\<close>

definition number_of :: "int \<Rightarrow> jsnum" where
  "number_of b = to_double (of_int b)"

fun bigint_of :: "jsnum \<Rightarrow> int result" where
  "bigint_of (Fin r) = (if r = of_int \<lfloor>r\<rfloor> then Inr \<lfloor>r\<rfloor> else Inl RangeError)"
| "bigint_of _ = Inl RangeError"

fun nneg :: "jsnum \<Rightarrow> jsnum" where
  "nneg (Fin a) = Fin (- a)"
| "nneg PosInf = NegInf"
| "nneg NegInf = PosInf"
| "nneg NaN = NaN"

fun nadd :: "jsnum \<Rightarrow> jsnum \<Rightarrow> jsnum" where
  "nadd (Fin a) (Fin b) = to_double (a + b)"
| "nadd NaN _ = NaN"
| "nadd _ NaN = NaN"
| "nadd PosInf NegInf = NaN"
| "nadd NegInf PosInf = NaN"
| "nadd PosInf _ = PosInf"
| "nadd NegInf _ = NegInf"
| "nadd (Fin _) PosInf = PosInf"
| "nadd (Fin _) NegInf = NegInf"

definition nsub :: "jsnum \<Rightarrow> jsnum \<Rightarrow> jsnum" where
  "nsub a b = nadd a (nneg b)"

definition inf_of_sign :: "rat \<Rightarrow> jsnum" where
  "inf_of_sign s = (if 0 < s then PosInf else if s < 0 then NegInf else NaN)"

fun nsign :: "jsnum \<Rightarrow> rat" where
  "nsign (Fin a) = sgn a"
| "nsign PosInf = 1"
| "nsign NegInf = - 1"
| "nsign NaN = 0"

fun nmul :: "jsnum \<Rightarrow> jsnum \<Rightarrow> jsnum" where
  "nmul (Fin a) (Fin b) = to_double (a * b)"
| "nmul a b = inf_of_sign (nsign a * nsign b)"

fun ndiv :: "jsnum \<Rightarrow> jsnum \<Rightarrow> jsnum" where
  "ndiv (Fin a) (Fin b) = (if b = 0 then inf_of_sign (sgn a) else to_double (a / b))"
| "ndiv NaN _ = NaN"
| "ndiv _ NaN = NaN"
| "ndiv (Fin _) _ = Fin 0"
| "ndiv a (Fin b) = inf_of_sign (nsign a * (if b < 0 then - 1 else 1))"
| "ndiv _ _ = NaN"

fun nless :: "jsnum \<Rightarrow> jsnum \<Rightarrow> bool" where
  "nless (Fin a) (Fin b) = (a < b)"
| "nless NaN _ = False"
| "nless _ NaN = False"
| "nless NegInf b = (b \<noteq> NegInf)"
| "nless PosInf _ = False"
| "nless (Fin _) PosInf = True"
| "nless (Fin _) NegInf = False"

text \<open>\<open>===\<close> on numbers: equality, but for NaN.\<close>

definition neq :: "jsnum \<Rightarrow> jsnum \<Rightarrow> bool" where
  "neq a b = (a = b \<and> a \<noteq> NaN)"

definition nle :: "jsnum \<Rightarrow> jsnum \<Rightarrow> bool" where
  "nle a b = (nless a b \<or> neq a b)"

definition is_finite :: "jsnum \<Rightarrow> bool" where
  "is_finite a = (case a of Fin _ \<Rightarrow> True | _ \<Rightarrow> False)"

definition trunc_rat :: "rat \<Rightarrow> int" where
  "trunc_rat r = (if 0 \<le> r then \<lfloor>r\<rfloor> else \<lceil>r\<rceil>)"

fun ntrunc :: "jsnum \<Rightarrow> jsnum" where
  "ntrunc (Fin r) = nint (trunc_rat r)"
| "ntrunc a = a"

text \<open>\<open>Math.round\<close>: to nearest, ties upwards.\<close>

fun nround :: "jsnum \<Rightarrow> jsnum" where
  "nround (Fin r) = nint \<lfloor>r + 1/2\<rfloor>"
| "nround a = a"

fun nfloor :: "jsnum \<Rightarrow> jsnum" where
  "nfloor (Fin r) = nint \<lfloor>r\<rfloor>"
| "nfloor a = a"

section \<open>Integers in the safe range\<close>

text \<open>Integer-valued numbers below \<open>2 ^ 53\<close> in magnitude compute exactly.\<close>

definition safe_int :: "int \<Rightarrow> bool" where
  "safe_int i = (\<bar>i\<bar> < 2 ^ 53)"

lemma to_double_safe:
  assumes "safe_int i" shows "to_double (of_int i) = nint i"
proof (cases "i = 0")
  case True
  then show ?thesis by (simp add: to_double_def nint_def)
next
  case False
  then have b: "0 < \<bar>i\<bar>" "\<bar>i\<bar> < 2 ^ 53" using assms by (auto simp: safe_int_def)
  have m: "round_mag \<bar>of_int i\<bar> = \<bar>of_int i\<bar>"
    using round_mag_of_int [OF b] by (simp add: of_int_abs)
  have "(of_int \<bar>i\<bar> :: rat) < of_int (2 ^ 53)" using b(2) by (simp only: of_int_less_iff)
  moreover have "(2 :: rat) ^ 53 \<le> 2 ^ 1024" by (rule power_increasing) simp_all
  ultimately have "\<not> (2 :: rat) ^ 1024 \<le> \<bar>of_int i\<bar>" by (simp add: not_le)
  then show ?thesis using False by (simp add: to_double_def nint_def m sgn_mult_abs del: power_numeral)
qed

lemma number_of_safe [simp]: "safe_int i \<Longrightarrow> number_of i = nint i"
  by (simp add: number_of_def to_double_safe)

lemma bigint_of_nint [simp]: "bigint_of (nint i) = Inr i"
  by (simp add: nint_def)

lemma bigint_of_Inr_iff: "bigint_of x = Inr i \<longleftrightarrow> x = nint i"
  by (cases x) (auto simp: nint_def)

lemma nint_inject [simp]: "nint i = nint j \<longleftrightarrow> i = j"
  by (simp add: nint_def)

lemma nint_neq_NaN [simp]: "nint i \<noteq> NaN" "nint i \<noteq> PosInf" "nint i \<noteq> NegInf"
  by (simp_all add: nint_def)

lemma nadd_nint: "safe_int (i + j) \<Longrightarrow> nadd (nint i) (nint j) = nint (i + j)"
  using to_double_safe [of "i + j"] by (simp add: nint_def)

lemma nsub_nint: "safe_int (i - j) \<Longrightarrow> nsub (nint i) (nint j) = nint (i - j)"
  using to_double_safe [of "i - j"] by (simp add: nint_def nsub_def)

lemma nmul_nint: "safe_int (i * j) \<Longrightarrow> nmul (nint i) (nint j) = nint (i * j)"
  using to_double_safe [of "i * j"] by (simp add: nint_def)

lemma ncompare_nint [simp]:
  "nless (nint i) (nint j) \<longleftrightarrow> i < j" "nle (nint i) (nint j) \<longleftrightarrow> i \<le> j"
  "neq (nint i) (nint j) \<longleftrightarrow> i = j"
  by (auto simp: nint_def nle_def neq_def)

lemma ntrunc_nint [simp]: "ntrunc (nint i) = nint i" "nround (nint i) = nint i" "nfloor (nint i) = nint i"
proof -
  have "\<lfloor>of_int i + 1/2 :: rat\<rfloor> = i" by (simp add: floor_unique)
  then show "ntrunc (nint i) = nint i" "nround (nint i) = nint i" "nfloor (nint i) = nint i"
    by (simp_all add: nint_def trunc_rat_def)
qed

lemma is_finite_nint [simp]: "is_finite (nint i)"
  by (simp add: is_finite_def nint_def)

text \<open>
  A quotient of safe integers is rounded, yet it truncates to the exact integer quotient: the
  rounding error is below the distance to the next integer above.
\<close>

lemma ratio_normal:
  fixes p q :: int
  assumes "0 < p" "0 < q" "q < 2 ^ 53"
  shows "2 powi (- 1022) \<le> (of_int p / of_int q :: rat)"
proof -
  have "(of_int q :: rat) < of_int (2 ^ 53)" using assms(3) by (simp only: of_int_less_iff)
  then have q: "(of_int q :: rat) < 2 ^ 53" by simp
  have "(2 :: rat) powi (- 1022) \<le> 2 powi (- 53)" by (rule power_int_increasing) simp_all
  also have "\<dots> = 1 / 2 ^ 53" by (simp add: power_int_def inverse_eq_divide power_one_over)
  also have "\<dots> \<le> 1 / of_int q" using q assms(2) by (intro divide_left_mono) auto
  also have "\<dots> \<le> of_int p / of_int q" using assms by (intro divide_right_mono) auto
  finally show ?thesis .
qed

lemma round_ratio_floor:
  fixes p q :: int
  assumes "0 < p" "p < 2 ^ 53" "0 < q" "q < 2 ^ 53"
  shows "\<lfloor>round_mag (of_int p / of_int q)\<rfloor> = p div q"
proof (rule floor_unique)
  let ?x = "of_int p / of_int q :: rat"
  have q0: "(0::rat) < of_int q" using assms(3) by simp
  have pb: "(of_int p :: rat) < 2 ^ 53"
  proof -
    have "(of_int p :: rat) < of_int (2 ^ 53)" using assms(2) by (simp only: of_int_less_iff)
    then show ?thesis by simp
  qed
  have x0: "0 < ?x" using assms by simp
  have "?x \<le> of_int p"
    using assms by (simp add: pos_divide_le_eq mult_le_cancel_left1 flip: of_int_mult)
  then have xb: "?x < 2 ^ 53" using pb by linarith
  have "of_int (p div q) \<le> ?x"
  proof -
    have "(of_int (p div q * q) :: rat) \<le> of_int p"
      using div_mult_bounds(1) [OF assms(3), of p] by (simp only: of_int_le_iff)
    then show ?thesis using q0 by (simp add: pos_le_divide_eq)
  qed
  then show "of_int (p div q) \<le> round_mag ?x" by (rule round_mag_ge_int [OF x0 xb])
  have up: "?x + 1 / of_int q \<le> of_int (p div q) + 1"
  proof -
    have "p + 1 \<le> (p div q + 1) * q" using div_mult_bounds(2) [OF assms(3), of p] by simp
    then have "(of_int (p + 1) :: rat) \<le> of_int ((p div q + 1) * q)" by (simp only: of_int_le_iff)
    then have "(of_int p + 1) / of_int q \<le> (of_int (p div q) + 1 :: rat)"
      using q0 by (simp add: pos_divide_le_eq)
    then show ?thesis by (simp add: add_divide_distrib)
  qed
  have "round_mag ?x - ?x \<le> ?x / 2 ^ 53"
    using round_mag_rel_error [OF x0 ratio_normal [OF assms(1,3,4)]] by simp
  also have "\<dots> < 1 / of_int q"
  proof -
    have "?x / 2 ^ 53 = of_int p / 2 ^ 53 / of_int q" by simp
    also have "\<dots> < 1 / of_int q" using pb q0 by (intro divide_strict_right_mono) auto
    finally show ?thesis .
  qed
  finally show "round_mag ?x < of_int (p div q) + 1" using up by linarith
qed

lemma ntrunc_ratio_pos:
  fixes p q :: int
  assumes "0 < p" "p < 2 ^ 53" "0 < q" "q < 2 ^ 53"
  shows "ntrunc (to_double (of_int p / of_int q)) = nint (p div q)"
    "ntrunc (to_double (- (of_int p / of_int q))) = nint (- (p div q))"
proof -
  let ?x = "of_int p / of_int q :: rat"
  have x0: "0 < ?x" using assms by simp
  have f: "\<lfloor>round_mag ?x\<rfloor> = p div q" by (rule round_ratio_floor [OF assms])
  have dn: "0 \<le> p div q" using assms by (simp add: pos_imp_zdiv_nonneg_iff)
  then have nonneg: "0 \<le> round_mag ?x" using f by linarith
  have "p div q \<le> p" using assms by (simp add: div_le_self_int)
  then have "\<lfloor>round_mag ?x\<rfloor> < 2 ^ 53" using f assms(2) by linarith
  then have "round_mag ?x < of_int (2 ^ 53)" by (simp only: floor_less_iff)
  then have "round_mag ?x < 2 ^ 53" by simp
  moreover have "(2 :: rat) ^ 53 \<le> 2 ^ 1024" by (rule power_increasing) simp_all
  ultimately have fin: "\<not> 2 ^ 1024 \<le> round_mag ?x" by linarith
  have nz: "?x \<noteq> 0" "\<bar>?x\<bar> = ?x" "sgn ?x = 1"
    by (use x0 in linarith, rule abs_of_pos [OF x0], rule sgn_pos [OF x0])
  show "ntrunc (to_double ?x) = nint (p div q)"
    using fin nz nonneg f by (simp add: to_double_def trunc_rat_def del: power_numeral)
  have nz': "- ?x \<noteq> 0" "\<bar>- ?x\<bar> = ?x" "sgn (- ?x) = - 1"
    by (use x0 in linarith, simp only: abs_minus_cancel nz(2), rule sgn_neg, use x0 in linarith)
  have "trunc_rat (- round_mag ?x) = - (p div q)"
    using nonneg f by (auto simp: trunc_rat_def ceiling_minus)
  then show "ntrunc (to_double (- ?x)) = nint (- (p div q))"
    using fin nz' by (simp add: to_double_def del: power_numeral)
qed

lemma ntrunc_ndiv_safe:
  assumes "safe_int p" "safe_int q" "0 < q"
  shows "ntrunc (ndiv (nint p) (nint q)) = nint (p sdiv q)"
proof -
  have q: "0 < q" "q < 2 ^ 53" using assms by (auto simp: safe_int_def)
  consider "p = 0" | "0 < p" | "p < 0" by linarith
  then show ?thesis
  proof cases
    case 1
    then show ?thesis using q by (simp add: nint_def to_double_def trunc_rat_def)
  next
    case 2
    then have "p < 2 ^ 53" using assms(1) by (simp add: safe_int_def)
    from ntrunc_ratio_pos(1) [OF 2 this q] show ?thesis using q 2 by (simp add: nint_def)
  next
    case 3
    then have "0 < - p" "- p < 2 ^ 53" using assms(1) by (simp_all add: safe_int_def)
    from ntrunc_ratio_pos(2) [OF this q] show ?thesis
      using q 3 by (simp add: nint_def signed_divide_int_def sgn_if)
  qed
qed

lemma safe_sdiv: "safe_int p \<Longrightarrow> 0 < q \<Longrightarrow> safe_int (p sdiv q)"
proof -
  assume p: "safe_int p" and q: "0 < q"
  have "\<bar>p\<bar> div q \<le> \<bar>p\<bar>" using q by (simp add: div_le_self_int)
  moreover have "0 \<le> \<bar>p\<bar> div q" using q by (simp add: pos_imp_zdiv_nonneg_iff)
  ultimately show ?thesis using p q by (auto simp: safe_int_def signed_divide_int_def sgn_if)
qed

end
