(* ===== verification/JsBytes.thy ===== *)
theory JsBytes
  imports JsNumber
begin

text \<open>
  What the sources use of Node's \<open>Buffer\<close> and of JavaScript strings: little-endian reads and
  writes with their range checks, UTF-16 strings, and UTF-8 in both directions (the encoder
  never splits a character, the decoder replaces malformed sequences by U+FFFD).
\<close>

section \<open>Little-endian integers\<close>

fun le_bytes :: "nat \<Rightarrow> int \<Rightarrow> bytes" where
  "le_bytes 0 n = []"
| "le_bytes (Suc k) n = word_of_int n # le_bytes k (n div 256)"

fun le_val :: "bytes \<Rightarrow> int" where
  "le_val [] = 0"
| "le_val (b # bs) = uint b + 256 * le_val bs"

definition le_sval :: "bytes \<Rightarrow> int" where
  "le_sval bs =
     (let v = le_val bs; m = 256 ^ length bs in if 2 * v < m then v else v - m)"

lemma length_le_bytes [simp]: "length (le_bytes k n) = k"
  by (induction k arbitrary: n) auto

lemma le_val_bounds: "0 \<le> le_val bs" "le_val bs < 256 ^ length bs"
proof -
  show "0 \<le> le_val bs" by (induction bs) auto
  show "le_val bs < 256 ^ length bs"
  proof (induction bs)
    case (Cons b bs)
    have "uint b < 256" using uint_lt2p [of b] by simp
    with Cons show ?case by simp
  qed simp
qed

lemma le_val_le_bytes: "le_val (le_bytes k n) = n mod 256 ^ k"
proof (induction k arbitrary: n)
  case (Suc k)
  have "uint (word_of_int n :: 8 word) = n mod 256" by (simp add: uint_word_of_int)
  then show ?case by (simp add: Suc mod_mult2_eq mult.commute zmod_zmult2_eq)
qed simp

lemma le_bytes_le_val: "length bs = k \<Longrightarrow> le_bytes k (le_val bs) = bs"
proof (induction bs arbitrary: k)
  case (Cons b bs)
  have b: "0 \<le> uint b" "uint b < 256" using uint_lt2p [of b] by simp_all
  have "uint (word_of_int (uint b + 256 * le_val bs) :: 8 word)
      = (uint b + 256 * le_val bs) mod 2 ^ LENGTH(8)" by (rule uint_word_of_int)
  also have "\<dots> = uint b" using b by simp
  finally have "word_of_int (uint b + 256 * le_val bs) = b" by (rule word_uint_eqI)
  moreover have "(uint b + 256 * le_val bs) div 256 = le_val bs" using b by simp
  ultimately show ?case using Cons by (cases k) auto
qed simp

lemma le_val_unsigned: "0 \<le> n \<Longrightarrow> n < 256 ^ k \<Longrightarrow> le_val (le_bytes k n) = n"
  by (simp add: le_val_le_bytes)

lemma le_sval_signed:
  assumes "0 < k" "- (256 ^ k) \<le> 2 * n" "2 * n < 256 ^ k"
  shows "le_sval (le_bytes k n) = n"
proof (cases "0 \<le> n")
  case True
  then show ?thesis using assms by (simp add: le_sval_def le_val_le_bytes Let_def)
next
  case False
  then have "n mod 256 ^ k = (n + 256 ^ k) mod 256 ^ k" by simp
  also have "\<dots> = n + 256 ^ k" using assms False by (intro mod_pos_pos_trivial) auto
  finally show ?thesis using assms False by (simp add: le_sval_def le_val_le_bytes Let_def)
qed

section \<open>Range-checked writes and reads\<close>

text \<open>
  \<open>writeUInt8\<close> and its kin compare the number itself with the range (so NaN passes) and store
  its truncation; an infinite value is always out of range.
\<close>

definition to_integer :: "jsnum \<Rightarrow> int" where
  "to_integer x = (case x of Fin r \<Rightarrow> trunc_rat r | _ \<Rightarrow> 0)"

definition write_num :: "nat \<Rightarrow> int \<Rightarrow> int \<Rightarrow> jsnum \<Rightarrow> bytes result" where
  "write_num k lo hi x =
     (if nless (nint hi) x \<or> nless x (nint lo) then Inl RangeError
      else Inr (le_bytes k (to_integer x)))"

definition writeUInt8 :: "jsnum \<Rightarrow> bytes result" where "writeUInt8 = write_num 1 0 255"
definition writeUInt16LE :: "jsnum \<Rightarrow> bytes result" where "writeUInt16LE = write_num 2 0 65535"
definition writeInt16LE :: "jsnum \<Rightarrow> bytes result" where
  "writeInt16LE = write_num 2 (- 32768) 32767"
definition writeUInt32LE :: "jsnum \<Rightarrow> bytes result" where "writeUInt32LE = write_num 4 0 4294967295"

definition writeBigUInt64LE :: "int \<Rightarrow> bytes result" where
  "writeBigUInt64LE n = (if n < 0 \<or> 18446744073709551615 < n then Inl RangeError else Inr (le_bytes 8 n))"

definition sub_bytes :: "nat \<Rightarrow> nat \<Rightarrow> bytes \<Rightarrow> bytes" where
  "sub_bytes off len data = take len (drop off data)"

definition read_bytes :: "(bytes \<Rightarrow> 'a) \<Rightarrow> nat \<Rightarrow> bytes \<Rightarrow> nat \<Rightarrow> 'a result" where
  "read_bytes f k data off =
     (if off + k \<le> length data then Inr (f (sub_bytes off k data)) else Inl RangeError)"

definition readUInt8 :: "bytes \<Rightarrow> nat \<Rightarrow> jsnum result" where
  "readUInt8 = read_bytes (\<lambda>bs. nint (le_val bs)) 1"
definition readUInt16LE :: "bytes \<Rightarrow> nat \<Rightarrow> jsnum result" where
  "readUInt16LE = read_bytes (\<lambda>bs. nint (le_val bs)) 2"
definition readInt16LE :: "bytes \<Rightarrow> nat \<Rightarrow> jsnum result" where
  "readInt16LE = read_bytes (\<lambda>bs. nint (le_sval bs)) 2"
definition readUInt32LE :: "bytes \<Rightarrow> nat \<Rightarrow> jsnum result" where
  "readUInt32LE = read_bytes (\<lambda>bs. nint (le_val bs)) 4"
definition readBigUInt64LE :: "bytes \<Rightarrow> nat \<Rightarrow> int result" where
  "readBigUInt64LE = read_bytes le_val 8"
definition readBigInt64LE :: "bytes \<Rightarrow> nat \<Rightarrow> int result" where
  "readBigInt64LE = read_bytes le_sval 8"

lemma to_integer_nint [simp]: "to_integer (nint i) = i"
  by (simp add: to_integer_def nint_def trunc_rat_def)

lemma write_num_nint: "lo \<le> i \<Longrightarrow> i \<le> hi \<Longrightarrow> write_num k lo hi (nint i) = Inr (le_bytes k i)"
  by (simp add: write_num_def)

lemma write_num_length: "write_num k lo hi x = Inr bs \<Longrightarrow> length bs = k"
  by (auto simp: write_num_def split: if_splits)

lemma sub_bytes_append:
  "sub_bytes off len (xs @ ys) =
     (if length xs \<le> off then sub_bytes (off - length xs) len ys
      else if off + len \<le> length xs then sub_bytes off len xs
      else drop off xs @ take (len - (length xs - off)) ys)"
  by (auto simp: sub_bytes_def not_le)

section \<open>Fixed-width fields\<close>

text \<open>
  A fixed-width encoding and its reader, as an interface. From the two laws follows what every
  layout proof needs: a field is read back from the middle of a record, and a vector of fields
  element by element.
\<close>

locale field =
  fixes enc :: "'a \<Rightarrow> bytes" and dec :: "bytes \<Rightarrow> 'b" and view :: "'a \<Rightarrow> 'b"
    and width :: nat and ok :: "'a \<Rightarrow> bool"
  assumes enc_length: "ok x \<Longrightarrow> length (enc x) = width"
    and dec_enc: "ok x \<Longrightarrow> dec (enc x) = view x"
begin

lemma sub_bytes_at: "ok x \<Longrightarrow> length pre = off \<Longrightarrow> sub_bytes off width (pre @ enc x @ post) = enc x"
  by (simp add: sub_bytes_def enc_length)

lemma read_at:
  "ok x \<Longrightarrow> length pre = off \<Longrightarrow> read_bytes dec width (pre @ enc x @ post) off = Inr (view x)"
  by (simp add: read_bytes_def sub_bytes_at enc_length dec_enc)

lemma sub_bytes_nth:
  assumes "\<forall>x\<in>set xs. ok x" "i < length xs"
  shows "sub_bytes (i * width) width (concat (map enc xs)) = enc (xs ! i)"
  using assms
proof (induction xs arbitrary: i)
  case (Cons x xs)
  then have len: "length (enc x) = width" by (simp add: enc_length)
  show ?case
  proof (cases i)
    case 0
    then show ?thesis using len by (simp add: sub_bytes_def)
  next
    case (Suc j)
    then have "sub_bytes (j * width) width (concat (map enc xs)) = enc (xs ! j)"
      using Cons by simp
    then show ?thesis using Suc len by (simp add: sub_bytes_def)
  qed
qed simp

lemma concat_length: "\<forall>x\<in>set xs. ok x \<Longrightarrow> length (concat (map enc xs)) = length xs * width"
  by (induction xs) (auto simp: enc_length)

lemma enc_inj: "ok x \<Longrightarrow> ok y \<Longrightarrow> enc x = enc y \<Longrightarrow> view x = view y"
  by (metis dec_enc)

end

text \<open>The integer fields of the protocol, and the 32 bytes of a key.\<close>

definition fits_u :: "nat \<Rightarrow> int \<Rightarrow> bool" where "fits_u k n \<longleftrightarrow> 0 \<le> n \<and> n < 256 ^ k"
definition fits_s :: "nat \<Rightarrow> int \<Rightarrow> bool" where
  "fits_s k n \<longleftrightarrow> - (256 ^ k) \<le> 2 * n \<and> 2 * n < 256 ^ k"
definition fits_key :: "pubkey \<Rightarrow> bool" where "fits_key k \<longleftrightarrow> length (key_bytes k) = 32"

interpretation f_u8: field "le_bytes 1" le_val "\<lambda>n. n" 1 "fits_u 1"
  by unfold_locales (simp_all only: length_le_bytes fits_u_def le_val_unsigned)
interpretation f_u16: field "le_bytes 2" le_val "\<lambda>n. n" 2 "fits_u 2"
  by unfold_locales (simp_all only: length_le_bytes fits_u_def le_val_unsigned)
interpretation f_u32: field "le_bytes 4" le_val "\<lambda>n. n" 4 "fits_u 4"
  by unfold_locales (simp_all only: length_le_bytes fits_u_def le_val_unsigned)
interpretation f_u64: field "le_bytes 8" le_val "\<lambda>n. n" 8 "fits_u 8"
  by unfold_locales (simp_all only: length_le_bytes fits_u_def le_val_unsigned)
interpretation f_i16: field "le_bytes 2" le_sval "\<lambda>n. n" 2 "fits_s 2"
  by unfold_locales (simp_all only: length_le_bytes fits_s_def le_sval_signed zero_less_numeral)
interpretation f_i64: field "le_bytes 8" le_sval "\<lambda>n. n" 8 "fits_s 8"
  by unfold_locales (simp_all only: length_le_bytes fits_s_def le_sval_signed zero_less_numeral)
interpretation f_key: field key_bytes PublicKey "\<lambda>k. k" 32 fits_key
  by unfold_locales (simp_all add: fits_key_def)

end
