(* ===== verification/JsString.thy ===== *)
theory JsString
  imports JsBytes
begin

text \<open>
  JavaScript strings as lists of UTF-16 code units, and the two conversions the sources use:
  \<open>Buffer.write(s, "utf8")\<close>, which stops before a character that does not fit, and
  \<open>Buffer.toString("utf8")\<close>, which replaces each malformed sequence by U+FFFD as the encoding
  standard prescribes.
\<close>

type_synonym jsstring = "16 word list"

definition js :: "string \<Rightarrow> jsstring" where
  "js s = map of_char s"

section \<open>Code points\<close>

definition is_high :: "16 word \<Rightarrow> bool" where "is_high u \<longleftrightarrow> 0xD800 \<le> uint u \<and> uint u < 0xDC00"
definition is_low :: "16 word \<Rightarrow> bool" where "is_low u \<longleftrightarrow> 0xDC00 \<le> uint u \<and> uint u < 0xE000"

fun code_points :: "jsstring \<Rightarrow> int list" where
  "code_points [] = []"
| "code_points [u] = [if is_high u \<or> is_low u then 0xFFFD else uint u]"
| "code_points (u # v # us) =
     (if is_high u \<and> is_low v
      then (0x10000 + (uint u - 0xD800) * 0x400 + (uint v - 0xDC00)) # code_points us
      else (if is_high u \<or> is_low u then 0xFFFD else uint u) # code_points (v # us))"

definition unit_of :: "int \<Rightarrow> 16 word" where "unit_of x = word_of_int x"
definition byte_of :: "int \<Rightarrow> 8 word" where "byte_of x = word_of_int x"

definition utf16 :: "int \<Rightarrow> jsstring" where
  "utf16 c =
     (if c < 0x10000 then [unit_of c]
      else [unit_of (0xD800 + (c - 0x10000) div 0x400), unit_of (0xDC00 + (c - 0x10000) mod 0x400)])"

definition scalar :: "int \<Rightarrow> bool" where
  "scalar c \<longleftrightarrow> 0 \<le> c \<and> c < 0x110000 \<and> \<not> (0xD800 \<le> c \<and> c < 0xE000)"

section \<open>Encoding\<close>

definition utf8_char :: "int \<Rightarrow> bytes" where
  "utf8_char c =
     (if c < 0x80 then [byte_of c]
      else if c < 0x800 then [byte_of (0xC0 + c div 0x40), byte_of (0x80 + c mod 0x40)]
      else if c < 0x10000 then
        [byte_of (0xE0 + c div 0x1000), byte_of (0x80 + c div 0x40 mod 0x40),
         byte_of (0x80 + c mod 0x40)]
      else
        [byte_of (0xF0 + c div 0x40000), byte_of (0x80 + c div 0x1000 mod 0x40),
         byte_of (0x80 + c div 0x40 mod 0x40), byte_of (0x80 + c mod 0x40)])"

definition utf8 :: "int list \<Rightarrow> bytes" where
  "utf8 cs = concat (map utf8_char cs)"

text \<open>As much of the text as fits into \<open>n\<close> bytes, whole characters only.\<close>

fun utf8_fill :: "nat \<Rightarrow> int list \<Rightarrow> bytes" where
  "utf8_fill n [] = []"
| "utf8_fill n (c # cs) =
     (let e = utf8_char c
      in if length e \<le> n then e @ utf8_fill (n - length e) cs else [])"

section \<open>Decoding\<close>

datatype utf8_state = Ready | Pending int nat int int

fun start_byte :: "int \<Rightarrow> int list \<times> utf8_state" where
  "start_byte b =
     (if b \<le> 0x7F then ([b], Ready)
      else if 0xC2 \<le> b \<and> b \<le> 0xDF then ([], Pending (b - 0xC0) 1 0x80 0xBF)
      else if 0xE0 \<le> b \<and> b \<le> 0xEF then
        ([], Pending (b - 0xE0) 2 (if b = 0xE0 then 0xA0 else 0x80) (if b = 0xED then 0x9F else 0xBF))
      else if 0xF0 \<le> b \<and> b \<le> 0xF4 then
        ([], Pending (b - 0xF0) 3 (if b = 0xF0 then 0x90 else 0x80) (if b = 0xF4 then 0x8F else 0xBF))
      else ([0xFFFD], Ready))"

fun utf8_step :: "utf8_state \<Rightarrow> int \<Rightarrow> int list \<times> utf8_state" where
  "utf8_step Ready b = start_byte b"
| "utf8_step (Pending acc k lo hi) b =
     (if lo \<le> b \<and> b \<le> hi then
        (let acc' = acc * 64 + (b - 0x80)
         in if k = 1 then ([acc'], Ready) else ([], Pending acc' (k - 1) 0x80 0xBF))
      else (0xFFFD # fst (start_byte b), snd (start_byte b)))"

fun utf8_run :: "utf8_state \<Rightarrow> bytes \<Rightarrow> int list" where
  "utf8_run s [] = (if s = Ready then [] else [0xFFFD])"
| "utf8_run s (b # bs) = fst (utf8_step s (uint b)) @ utf8_run (snd (utf8_step s (uint b))) bs"

definition toString_utf8 :: "bytes \<Rightarrow> jsstring" where
  "toString_utf8 bs = concat (map utf16 (utf8_run Ready bs))"

section \<open>Round trips\<close>

lemma uint_byte: "0 \<le> x \<Longrightarrow> x < 256 \<Longrightarrow> uint (byte_of x) = x"
  by (simp add: byte_of_def uint_word_of_int)

lemma digits3:
  fixes c :: int
  obtains a b d where "c = (a * 64 + b) * 64 + d" "0 \<le> b" "b < 0x40" "0 \<le> d" "d < 0x40"
    "c div 0x1000 = a" "c div 0x40 mod 0x40 = b" "c mod 0x40 = d"
proof -
  have "c div 0x40 div 0x40 = c div 0x1000" by (simp flip: zdiv_zmult2_eq)
  then have e: "c div 0x1000 * 64 + c div 0x40 mod 0x40 = c div 0x40"
    by (metis div_mult_mod_eq)
  have "c = (c div 0x1000 * 64 + c div 0x40 mod 0x40) * 64 + c mod 0x40"
    unfolding e by simp
  then show thesis by (rule that) simp_all
qed

lemma utf8_step_last:
  "lo \<le> 0x80 + x \<Longrightarrow> 0x80 + x \<le> hi \<Longrightarrow>
   utf8_step (Pending acc (Suc 0) lo hi) (0x80 + x) = ([acc * 64 + x], Ready)"
  by simp

lemma utf8_step_more:
  "lo \<le> 0x80 + x \<Longrightarrow> 0x80 + x \<le> hi \<Longrightarrow>
   utf8_step (Pending acc 2 lo hi) (0x80 + x) = ([], Pending (acc * 64 + x) (Suc 0) 0x80 0xBF)"
  "lo \<le> 0x80 + x \<Longrightarrow> 0x80 + x \<le> hi \<Longrightarrow>
   utf8_step (Pending acc 3 lo hi) (0x80 + x) = ([], Pending (acc * 64 + x) 2 0x80 0xBF)"
  by simp_all

lemma utf8_run_char:
  assumes "scalar c"
  shows "utf8_run Ready (utf8_char c @ bs) = c # utf8_run Ready bs"
proof -
  have c: "0 \<le> c" "c < 0x110000" "\<not> (0xD800 \<le> c \<and> c < 0xE000)" using assms by (auto simp: scalar_def)
  consider (1) "c < 0x80" | (2) "0x80 \<le> c" "c < 0x800" | (3) "0x800 \<le> c" "c < 0x10000" | (4) "0x10000 \<le> c"
    by linarith
  then show ?thesis
  proof cases
    case 1
    then show ?thesis using c by (simp add: utf8_char_def uint_byte)
  next
    case 2
    obtain a b where ab: "c = a * 0x40 + b" "0 \<le> b" "b < 0x40" "c div 0x40 = a" "c mod 0x40 = b"
      by (metis div_mult_mod_eq pos_mod_bound pos_mod_sign zero_less_numeral)
    have enc: "utf8_char c = [byte_of (0xC0 + a), byte_of (0x80 + b)]"
      using 2 by (simp add: utf8_char_def ab(4,5))
    have a: "2 \<le> a" "a < 0x20" using ab(1-3) 2 by linarith+
    then have "utf8_step Ready (0xC0 + a) = ([], Pending a (Suc 0) 0x80 0xBF)" by simp
    then show ?thesis using a ab(2,3) by (simp add: enc uint_byte utf8_step_last ab(1) [symmetric] del: utf8_step.simps)
  next
    case 3
    obtain a b d where abd: "c = (a * 64 + b) * 64 + d" "0 \<le> b" "b < 0x40" "0 \<le> d" "d < 0x40"
      "c div 0x1000 = a" "c div 0x40 mod 0x40 = b" "c mod 0x40 = d" by (rule digits3)
    have enc: "utf8_char c = [byte_of (0xE0 + a), byte_of (0x80 + b), byte_of (0x80 + d)]"
      using 3 by (simp add: utf8_char_def abd(6-8))
    have abd': "c = a * 4096 + b * 64 + d" using abd(1) by (simp add: distrib_right)
    have sur: "c < 0xE000 \<Longrightarrow> c < 0xD800" using c(3) by linarith
    have a: "0 \<le> a" "a < 0x10" using abd' abd(2-5) 3 by linarith+
    have a0: "0x20 \<le> b" if "a = 0" using abd' abd(2-5) 3 that by linarith
    have aD: "b < 0x20" if "a = 0xD"
    proof -
      have "c < 0xD800" using abd' abd(2-5) that by (intro sur) linarith
      then show ?thesis using abd' abd(2-5) that by linarith
    qed
    define lo hi :: int where "lo = (if a = 0 then 0xA0 else 0x80)" and "hi = (if a = 0xD then 0x9F else 0xBF)"
    have st: "utf8_step Ready (0xE0 + a) = ([], Pending a 2 lo hi)"
      using a by (simp add: lo_def hi_def)
    have "lo \<le> 0x80 + b" "0x80 + b \<le> hi"
      using abd(2,3) a0 aD by (auto simp: lo_def hi_def)
    note st = st this
    have "utf8_run Ready (utf8_char c @ bs) = ((a * 64 + b) * 64 + d) # utf8_run Ready bs"
      using a abd(2-5) by (simp add: enc uint_byte st utf8_step_more utf8_step_last del: utf8_step.simps)
    then show ?thesis by (simp only: abd(1) [symmetric])
  next
    case 4
    obtain e b d where ebd: "c = (e * 64 + b) * 64 + d" "0 \<le> b" "b < 0x40" "0 \<le> d" "d < 0x40"
      "c div 0x1000 = e" "c div 0x40 mod 0x40 = b" "c mod 0x40 = d" by (rule digits3)
    obtain a f where af: "e = a * 0x40 + f" "0 \<le> f" "f < 0x40" "e div 0x40 = a" "e mod 0x40 = f"
      by (metis div_mult_mod_eq pos_mod_bound pos_mod_sign zero_less_numeral)
    have "c div 0x40000 = c div 0x1000 div 0x40" by (simp flip: zdiv_zmult2_eq)
    then have enc: "utf8_char c =
        [byte_of (0xF0 + a), byte_of (0x80 + f), byte_of (0x80 + b), byte_of (0x80 + d)]"
      using 4 by (simp add: utf8_char_def ebd(6-8) af(4,5))
    have cc: "c = ((a * 64 + f) * 64 + b) * 64 + d" using ebd(1) af(1) by simp
    then have cc': "c = a * 262144 + f * 4096 + b * 64 + d" by (simp add: distrib_right)
    have a: "0 \<le> a" "a < 5" using cc' ebd(2-5) af(2-3) 4 c(2) by linarith+
    have a0: "0x10 \<le> f" if "a = 0" using cc' ebd(2-5) af(2-3) 4 that by linarith
    have a4: "f < 0x10" if "a = 4" using cc' ebd(2-5) af(2-3) c(2) that by linarith
    define lo hi :: int where "lo = (if a = 0 then 0x90 else 0x80)" and "hi = (if a = 4 then 0x8F else 0xBF)"
    have st: "utf8_step Ready (0xF0 + a) = ([], Pending a 3 lo hi)"
      using a by (simp add: lo_def hi_def)
    have "lo \<le> 0x80 + f" "0x80 + f \<le> hi"
      using af(2,3) a0 a4 by (auto simp: lo_def hi_def)
    note st = st this
    have "utf8_run Ready (utf8_char c @ bs) = (((a * 64 + f) * 64 + b) * 64 + d) # utf8_run Ready bs"
      using a ebd(2-5) af(2,3)
      by (simp add: enc uint_byte st utf8_step_more utf8_step_last del: utf8_step.simps)
    then show ?thesis by (simp only: cc [symmetric])
  qed
qed

lemma utf8_run_utf8: "\<forall>c\<in>set cs. scalar c \<Longrightarrow> utf8_run Ready (utf8 cs) = cs"
  by (induction cs) (auto simp: utf8_def utf8_run_char)

lemma utf8_fill_all: "length (utf8 cs) \<le> n \<Longrightarrow> utf8_fill n cs = utf8 cs"
  by (induction cs arbitrary: n) (auto simp: utf8_def)

lemma utf8_fill_le: "length (utf8_fill n cs) \<le> n"
  by (induction n cs rule: utf8_fill.induct) (auto simp: Let_def)

lemma code_points_scalar: "c \<in> set (code_points s) \<Longrightarrow> scalar c"
proof (induction s rule: code_points.induct)
  case (2 u)
  then show ?case using uint_lt2p [of u] by (auto simp: scalar_def is_high_def is_low_def split: if_splits)
next
  case (3 u v us)
  have b: "0 \<le> uint u" "uint u < 65536" "0 \<le> uint v" "uint v < 65536"
    using uint_lt2p [of u] uint_lt2p [of v] by simp_all
  show ?case
  proof (cases "is_high u \<and> is_low v")
    case True
    then have "c = 0x10000 + (uint u - 0xD800) * 0x400 + (uint v - 0xDC00) \<or> c \<in> set (code_points us)"
      using 3 by simp
    then show ?thesis using 3(1) [OF True] True by (auto simp: scalar_def is_high_def is_low_def)
  next
    case False
    have "c = (if is_high u \<or> is_low u then 0xFFFD else uint u) \<or> c \<in> set (code_points (v # us))"
      using 3(3) by (simp only: code_points.simps(3) False if_False set_simps insert_iff)
    moreover have "scalar (if is_high u \<or> is_low u then 0xFFFD else uint u)"
      using b by (auto simp: scalar_def is_high_def is_low_def)
    ultimately show ?thesis using 3(2) [OF False] by blast
  qed
qed simp

text \<open>A string without lone surrogates.\<close>

fun well_formed :: "jsstring \<Rightarrow> bool" where
  "well_formed [] = True"
| "well_formed [u] = (\<not> is_high u \<and> \<not> is_low u)"
| "well_formed (u # v # us) =
     (if is_high u then is_low v \<and> well_formed us else \<not> is_low u \<and> well_formed (v # us))"

lemma unit_of_uint [simp]: "unit_of (uint u) = u"
  by (simp add: unit_of_def)

lemma utf16_code_points: "well_formed s \<Longrightarrow> concat (map utf16 (code_points s)) = s"
proof (induction s rule: well_formed.induct)
  case (2 u)
  then show ?case using uint_lt2p [of u] by (simp add: utf16_def)
next
  case (3 u v us)
  show ?case
  proof (cases "is_high u")
    case True
    let ?x = "(uint u - 0xD800) * 0x400 + (uint v - 0xDC00)"
    have v: "is_low v" using 3 True by simp
    then have r: "0 \<le> uint v - 0xDC00" "uint v - 0xDC00 < 0x400" by (simp_all add: is_low_def)
    have "?x div 0x400 = uint u - 0xD800"
      by (rule int_div_pos_eq [where r = "uint v - 0xDC00"]) (use r in auto)
    moreover have "?x mod 0x400 = uint v - 0xDC00"
      by (rule int_mod_pos_eq [where q = "uint u - 0xD800"]) (use r in auto)
    moreover have "\<not> 0x10000 + ?x < 0x10000" using True v by (simp add: is_high_def is_low_def)
    ultimately have "utf16 (0x10000 + ?x) = [u, v]" by (simp add: utf16_def)
    then show ?thesis using 3 True v by (simp add: add.assoc)
  next
    case False
    then show ?thesis using 3 uint_lt2p [of u] by (simp add: utf16_def)
  qed
qed simp

lemma utf8_char_nonzero: "scalar c \<Longrightarrow> c \<noteq> 0 \<Longrightarrow> 0 \<notin> set (utf8_char c)"
proof -
  assume s: "scalar c" and c: "c \<noteq> 0"
  have nz: "byte_of x \<noteq> 0" "0 \<noteq> byte_of x" if "0 < x" "x < 256" for x
    using uint_byte [of x] that by auto
  have cont: "byte_of (128 + x mod 64) \<noteq> 0" "0 \<noteq> byte_of (128 + x mod 64)" for x
  proof -
    have "0 \<le> x mod 64" "x mod 64 < 64" by simp_all
    then show "byte_of (128 + x mod 64) \<noteq> 0" "0 \<noteq> byte_of (128 + x mod 64)"
      by (intro nz; linarith)+
  qed
  have cb: "0 \<le> c" "c < 0x110000" using s by (simp_all add: scalar_def)
  then have q: "0 \<le> c div 0x40" "0 \<le> c div 0x1000" "0 \<le> c div 0x40000"
    by (simp_all add: pos_imp_zdiv_nonneg_iff)
  have "c div 0x40000 < 0x10" "c < 0x10000 \<Longrightarrow> c div 0x1000 < 0x20" "c < 0x800 \<Longrightarrow> c div 0x40 < 0x20"
    using cb by linarith+
  then show ?thesis using cb c q by (auto simp: utf8_char_def nz cont)
qed

end
