(* ===== verification/SdkProgram.thy ===== *)
theory SdkProgram
  imports JsString
begin

text \<open>
  \<open>packages/sdk/src/program.ts\<close>: the program id, the protocol's constants and the two derived
  addresses. \<open>PublicKey.findProgramAddressSync\<close> and the parsing of a base 58 key belong to
  \<open>@solana/web3.js\<close>; they are the parameters \<open>find_pda\<close> and \<open>parse_key\<close>.
\<close>

type_synonym pda_finder = "bytes list \<Rightarrow> pubkey \<Rightarrow> pubkey \<times> nat"
type_synonym key_parser = "jsstring \<Rightarrow> pubkey result"

datatype program_ref = IdKey pubkey | IdString jsstring

text \<open>\<open>env\<close> is \<open>process.env.FLOCK_PROGRAM_ID\<close>. An empty string is not nullish but is falsy.\<close>

definition programId :: "key_parser \<Rightarrow> jsstring option \<Rightarrow> program_ref option \<Rightarrow> pubkey result" where
  "programId parse_key env ref =
     (case ref of
        Some (IdKey k) \<Rightarrow> Inr k
      | _ \<Rightarrow>
        (let raw = (case ref of Some (IdString s) \<Rightarrow> Some s | _ \<Rightarrow> env)
         in case raw of
              None \<Rightarrow> Inl (Error [Lit ''No program id. Pass one explicitly or set FLOCK_PROGRAM_ID (see deployments/<cluster>.json).''])
            | Some s \<Rightarrow>
                if s = [] then Inl (Error [Lit ''No program id. Pass one explicitly or set FLOCK_PROGRAM_ID (see deployments/<cluster>.json).''])
                else parse_key s))"

definition SEED_INDEX :: bytes where "SEED_INDEX = ascii ''index''"
definition SEED_VAULT :: bytes where "SEED_VAULT = ascii ''vault''"

definition indexPda :: "pda_finder \<Rightarrow> pubkey \<Rightarrow> pubkey \<Rightarrow> pubkey \<times> nat" where
  "indexPda find_pda program indexMint = find_pda [SEED_INDEX, key_bytes indexMint] program"

definition vaultPda :: "pda_finder \<Rightarrow> pubkey \<Rightarrow> pubkey \<Rightarrow> pubkey \<Rightarrow> pubkey \<times> nat" where
  "vaultPda find_pda program indexMint componentMint =
     find_pda [SEED_VAULT, key_bytes indexMint, key_bytes componentMint] program"

definition UNIT_SCALE :: int where "UNIT_SCALE = 1000000000"
definition BPS :: int where "BPS = 10000"
definition SECONDS_PER_YEAR :: int where "SECONDS_PER_YEAR = 31536000"

definition MAX_COMPONENTS :: int where "MAX_COMPONENTS = 16"
definition MAX_STREAMING_FEE_BPS :: int where "MAX_STREAMING_FEE_BPS = 500"
definition MAX_MINT_REDEEM_FEE_BPS :: int where "MAX_MINT_REDEEM_FEE_BPS = 100"
definition MAX_PREMIUM_CEILING_BPS :: int where "MAX_PREMIUM_CEILING_BPS = 1000"
definition MIN_REBALANCE_DELAY :: int where "MIN_REBALANCE_DELAY = 300"

lemma scale_pos [simp]: "0 < UNIT_SCALE" "0 < BPS" "0 < SECONDS_PER_YEAR"
  "UNIT_SCALE \<noteq> 0" "BPS \<noteq> 0" "0 \<le> UNIT_SCALE" "0 \<le> BPS"
  by (simp_all add: UNIT_SCALE_def BPS_def SECONDS_PER_YEAR_def)

end
