(* ===== verification/Rounding.thy ===== *)
theory Rounding
  imports Prelude
begin

text \<open>
  The rounding contract the whole protocol rests on, as an interface: one multiply-divide that
  rounds down and one that rounds up, over any representation of the naturals. Both the
  on-chain routines on 128-bit words and the client's on bigints satisfy it, so what follows
  from it (no profit from a round trip, units that never overclaim a vault, backing per token
  that never falls) is proved once.
\<close>

locale muldiv =
  fixes val :: "'n \<Rightarrow> int"
    and mdf :: "'n \<Rightarrow> 'n \<Rightarrow> 'n \<Rightarrow> 'e + 'n"
    and mdc :: "'n \<Rightarrow> 'n \<Rightarrow> 'n \<Rightarrow> 'e + 'n"
  assumes floor_spec:
      "mdf a b d = Inr q \<Longrightarrow> 0 \<le> val a \<Longrightarrow> 0 \<le> val b \<Longrightarrow> 0 < val d \<Longrightarrow> val q = val a * val b div val d"
    and ceil_spec:
      "mdc a b d = Inr q \<Longrightarrow> 0 \<le> val a \<Longrightarrow> 0 \<le> val b \<Longrightarrow> 0 < val d \<Longrightarrow> val q = ceil_div (val a * val b) (val d)"
begin

lemma floor_nonneg:
  "mdf a b d = Inr q \<Longrightarrow> 0 \<le> val a \<Longrightarrow> 0 \<le> val b \<Longrightarrow> 0 < val d \<Longrightarrow> 0 \<le> val q"
  by (simp add: floor_spec pos_imp_zdiv_nonneg_iff)

lemma ceil_nonneg:
  "mdc a b d = Inr q \<Longrightarrow> 0 \<le> val a \<Longrightarrow> 0 \<le> val b \<Longrightarrow> 0 < val d \<Longrightarrow> 0 \<le> val q"
  by (simp add: ceil_spec ceil_div_nonneg)

lemma floor_le_exact:
  assumes "mdf a b d = Inr q" "0 \<le> val a" "0 \<le> val b" "0 < val d"
  shows "val q * val d \<le> val a * val b" "val a * val b < (val q + 1) * val d"
  using assms div_mult_bounds [of "val d" "val a * val b"] by (simp_all add: floor_spec)

lemma ceil_ge_exact:
  assumes "mdc a b d = Inr q" "0 \<le> val a" "0 \<le> val b" "0 < val d"
  shows "val a * val b \<le> val q * val d"
  using assms ceil_div_ge by (simp add: ceil_spec)

lemma ceil_least:
  assumes "mdc a b d = Inr q" "0 \<le> val a" "0 \<le> val b" "0 < val d"
    and "0 \<le> k" "val a * val b \<le> k * val d"
  shows "val q \<le> k"
  using assms ceil_div_least by (simp add: ceil_spec)

text \<open>What a caller delivers is at least what the same caller would be paid, and at most one more.\<close>

lemma floor_le_ceil:
  assumes "mdf a b d = Inr p" "mdc a b d = Inr q" "0 \<le> val a" "0 \<le> val b" "0 < val d"
  shows "val p \<le> val q" "val q \<le> val p + 1"
  using assms ceil_div_floor [of "val d" "val a * val b"] by (simp_all add: floor_spec ceil_spec)

text \<open>Units derived from a balance never claim more than the balance.\<close>

lemma units_never_overclaim:
  assumes "mdf bal scale supply = Inr u" "mdf u supply scale = Inr claim"
    and "0 \<le> val bal" "0 < val scale" "0 < val supply"
  shows "val claim \<le> val bal"
proof -
  have u0: "0 \<le> val u" using assms by (auto dest: floor_nonneg)
  have "val claim * val scale \<le> val u * val supply"
    using floor_le_exact(1) [OF assms(2) u0] assms by simp
  also have "\<dots> \<le> val bal * val scale"
    using floor_le_exact(1) [OF assms(1)] assms by simp
  finally show ?thesis using assms(4) mult_le_cancel_right_pos by blast
qed

text \<open>
  Backing per token never falls: a delivery rounded up together with the supply it mints, and a
  payout rounded down together with the supply it burns, keep \<open>u\<close> units per token covered.
\<close>

lemma deliver_keeps_backing:
  assumes "mdc u amt scale = Inr i" "0 \<le> val u" "0 \<le> val amt" "0 < val scale"
    and "val u * supply \<le> bal * val scale"
  shows "val u * (supply + val amt) \<le> (bal + val i) * val scale"
  using ceil_ge_exact [OF assms(1-4)] assms(5) by (simp add: distrib_left distrib_right)

lemma payout_keeps_backing:
  assumes "mdf u amt scale = Inr out" "0 \<le> val u" "0 \<le> val amt" "0 < val scale"
    and "val u * supply \<le> bal * val scale"
  shows "val u * (supply - val amt) \<le> (bal - val out) * val scale"
  using floor_le_exact(1) [OF assms(1-4)] assms(5)
  by (simp add: right_diff_distrib left_diff_distrib)

lemma payout_covered:
  assumes "mdf u amt scale = Inr out" "0 \<le> val u" "0 \<le> val amt" "0 < val scale"
    and "val u * supply \<le> bal * val scale" "val amt \<le> supply"
  shows "val out \<le> bal"
proof -
  have "0 \<le> val u * (supply - val amt)" using assms by simp
  also have "\<dots> \<le> (bal - val out) * val scale" by (rule payout_keeps_backing) (use assms in auto)
  finally show ?thesis using assms(4) by (simp add: zero_le_mult_iff)
qed

text \<open>A fee in basis points never exceeds the amount it is charged on.\<close>

lemma fee_le_amount:
  assumes "mdc amt bps whole = Inr fee" "0 \<le> val amt" "0 \<le> val bps" "val bps \<le> val whole"
    "0 < val whole"
  shows "val fee \<le> val amt"
  by (rule ceil_least [OF assms(1)]) (use assms in \<open>auto intro: mult_left_mono\<close>)

end

end
