(* ===== verification/SdkMath.thy ===== *)
theory SdkMath
  imports SdkProgram Rounding
begin

text \<open>
  \<open>packages/sdk/src/math.ts\<close>: the client's mirror of the on-chain arithmetic, function by
  function. A bigint is an \<open>int\<close> (its \<open>/\<close> is \<open>sdiv\<close>), a number a \<open>jsnum\<close>. The lemmas give
  each function's value on the naturals, its errors, and the rounding contract of
  \<open>Rounding\<close>, interpreted on \<open>mulDivFloor\<close> and \<open>mulDivCeil\<close>.
\<close>

section \<open>Fixed point\<close>

definition mulDivFloor :: "int \<Rightarrow> int \<Rightarrow> int \<Rightarrow> int result" where
  "mulDivFloor a b d =
     (if d = 0 then Inl (Error [Lit ''division by zero'']) else Inr ((a * b) sdiv d))"

definition mulDivCeil :: "int \<Rightarrow> int \<Rightarrow> int \<Rightarrow> int result" where
  "mulDivCeil a b d =
     (if d = 0 then Inl (Error [Lit ''division by zero''])
      else let n = a * b in Inr (if n = 0 then 0 else (n - 1) sdiv d + 1))"

definition unitsIn :: "int \<Rightarrow> int \<Rightarrow> int result" where
  "unitsIn units amount = mulDivCeil units amount UNIT_SCALE"

definition unitsOut :: "int \<Rightarrow> int \<Rightarrow> int result" where
  "unitsOut units amount = mulDivFloor units amount UNIT_SCALE"

definition unitsFromBalance :: "int \<Rightarrow> int \<Rightarrow> int result" where
  "unitsFromBalance balance supply =
     (if supply = 0 then Inr 0 else mulDivFloor balance UNIT_SCALE supply)"

text \<open>\<open>10n ** BigInt(decimals)\<close>: a fractional or negative exponent is a RangeError.\<close>

definition pow10 :: "jsnum \<Rightarrow> int result" where
  "pow10 decimals = rbind (bigint_of decimals) (\<lambda>n. if n < 0 then Inl RangeError else Inr (10 ^ nat n))"

definition valueE9 :: "int \<Rightarrow> jsnum \<Rightarrow> int \<Rightarrow> int result" where
  "valueE9 balance decimals priceE9 =
     rbind (pow10 decimals) (\<lambda>scale. mulDivFloor balance priceE9 scale)"

definition amountFromValueCeil :: "int \<Rightarrow> jsnum \<Rightarrow> int \<Rightarrow> int result" where
  "amountFromValueCeil value decimals priceE9 =
     (if priceE9 = 0 then Inl (Error [Lit ''a price of zero cannot value anything''])
      else rbind (pow10 decimals) (\<lambda>scale. mulDivCeil value scale priceE9))"

section \<open>Fees and the auction premium\<close>

definition streamingFeeTokens :: "int \<Rightarrow> jsnum \<Rightarrow> jsnum \<Rightarrow> int result" where
  "streamingFeeTokens supply feeBps dtSeconds =
     (if supply = 0 \<or> neq feeBps (nint 0) \<or> nle dtSeconds (nint 0) then Inr 0
      else rbind (bigint_of feeBps) (\<lambda>f.
           rbind (bigint_of dtSeconds) (\<lambda>dt.
             let num = f * dt; den = BPS * SECONDS_PER_YEAR
             in if den \<le> num then Inl (Error [Lit ''fee period overflows''])
                else mulDivFloor supply num (den - num))))"

definition premiumAt :: "jsnum \<Rightarrow> jsnum \<Rightarrow> jsnum \<Rightarrow> jsnum \<Rightarrow> jsnum \<Rightarrow> jsnum result" where
  "premiumAt startBps endBps startTs endTs now =
     (if nless now startTs \<or> nless endTs now then Inl (Error [Lit ''the auction is not open''])
      else if nle endTs startTs then Inl (Error [Lit ''the auction window is inverted''])
      else let span = nsub endTs startTs; elapsed = nsub now startTs
           in Inr (nadd startBps (ntrunc (ndiv (nmul (nsub endBps startBps) elapsed) span))))"

record bid_args =
  ba_sellAmount :: int
  ba_sellDecimals :: jsnum
  ba_sellPriceE9 :: int
  ba_buyDecimals :: jsnum
  ba_buyPriceE9 :: int
  ba_premiumBps :: jsnum

record bid_quote =
  bq_valueOutE9 :: int
  bq_valueInE9 :: int
  bq_buyAmount :: int

definition bidCost :: "bid_args \<Rightarrow> bid_quote result" where
  "bidCost args =
     rbind (valueE9 (ba_sellAmount args) (ba_sellDecimals args) (ba_sellPriceE9 args)) (\<lambda>valueOutE9.
     rbind (bigint_of (ba_premiumBps args)) (\<lambda>p.
     let marked = BPS - p in
     rbind (mulDivCeil valueOutE9 marked BPS) (\<lambda>valueInE9.
     rbind (amountFromValueCeil valueInE9 (ba_buyDecimals args) (ba_buyPriceE9 args)) (\<lambda>buyAmount.
     Inr \<lparr>bq_valueOutE9 = valueOutE9, bq_valueInE9 = valueInE9, bq_buyAmount = buyAmount\<rparr>))))"

section \<open>Weights\<close>

definition weightsBps :: "int list \<Rightarrow> jsnum list \<Rightarrow> int list \<Rightarrow> (int \<times> jsnum list) result" where
  "weightsBps balances decimals pricesE9 =
     rbind (rmapM_idx (\<lambda>i balance. valueE9 balance (nth_or (nint 0) decimals i) (nth_or 0 pricesE9 i)) balances)
       (\<lambda>values.
         let navE9 = foldl (+) 0 values
         in if navE9 = 0 then Inr (navE9, map (\<lambda>_. nint 0) values)
            else Inr (navE9, map (\<lambda>v. number_of ((v * BPS) sdiv navE9)) values))"

record units_args =
  ua_weightsBps :: "jsnum list"
  ua_pricesE9 :: "int list"
  ua_decimals :: "jsnum list"
  ua_navE9 :: int
  ua_supply :: int

definition unitsForWeights :: "units_args \<Rightarrow> int list result" where
  "unitsForWeights args =
     (if ua_supply args = 0 then Inl (Error [Lit ''cannot size units against an empty fund''])
      else rmapM_idx (\<lambda>i weight.
        let price = nth_or 0 (ua_pricesE9 args) i in
        if price = 0 then Inl (Error [Lit ''component '', PInt (int i), Lit '' has no price''])
        else rbind (bigint_of weight) (\<lambda>w.
             rbind (mulDivFloor (ua_navE9 args) w BPS) (\<lambda>targetValueE9.
             rbind (pow10 (nth_or (nint 0) (ua_decimals args) i)) (\<lambda>scale.
             rbind (mulDivFloor targetValueE9 scale price) (\<lambda>targetAmount.
             mulDivFloor targetAmount UNIT_SCALE (ua_supply args))))))
        (ua_weightsBps args))"

section \<open>Values on the naturals\<close>

named_theorems math_simps \<open>values of the fixed-point routines\<close>

lemma mulDivFloor_nat [math_simps]:
  "0 \<le> a \<Longrightarrow> 0 \<le> b \<Longrightarrow> 0 < d \<Longrightarrow> mulDivFloor a b d = Inr (a * b div d)"
  by (simp add: mulDivFloor_def)

lemma mulDivCeil_nat [math_simps]:
  assumes "0 \<le> a" "0 \<le> b" "0 < d"
  shows "mulDivCeil a b d = Inr (ceil_div (a * b) d)"
proof (cases "a * b = 0")
  case False
  moreover have "0 \<le> a * b" using assms by simp
  ultimately have "0 \<le> a * b - 1" by linarith
  then show ?thesis using assms False by (simp add: mulDivCeil_def ceil_div_def Let_def)
qed (use assms in \<open>simp add: mulDivCeil_def ceil_div_def\<close>)

lemma pow10_nint [math_simps]: "0 \<le> n \<Longrightarrow> pow10 (nint n) = Inr (10 ^ nat n)"
  by (simp add: pow10_def)

lemma pow10_pos: "pow10 d = Inr s \<Longrightarrow> 0 < s"
  by (auto simp: pow10_def rbind_Inr_iff split: if_splits)

lemma valueE9_nat [math_simps]:
  "0 \<le> b \<Longrightarrow> 0 \<le> p \<Longrightarrow> 0 \<le> d \<Longrightarrow> valueE9 b (nint d) p = Inr (b * p div 10 ^ nat d)"
  by (simp add: valueE9_def math_simps)

lemma amountFromValueCeil_nat [math_simps]:
  "0 \<le> v \<Longrightarrow> 0 < p \<Longrightarrow> 0 \<le> d \<Longrightarrow>
   amountFromValueCeil v (nint d) p = Inr (ceil_div (v * 10 ^ nat d) p)"
  by (simp add: amountFromValueCeil_def math_simps)

interpretation sdk: muldiv "\<lambda>n. n" mulDivFloor mulDivCeil
  by unfold_locales (auto simp: math_simps)

section \<open>Fees on the naturals\<close>

lemma streamingFeeTokens_nat:
  assumes "0 \<le> S" "0 \<le> f" "0 < dt" "f * dt < BPS * SECONDS_PER_YEAR"
  shows "streamingFeeTokens S (nint f) (nint dt) = Inr (S * (f * dt) div (BPS * SECONDS_PER_YEAR - f * dt))"
  using assms by (auto simp: streamingFeeTokens_def Let_def math_simps)

lemma streamingFeeTokens_zero [math_simps]:
  "streamingFeeTokens 0 f t = Inr 0" "streamingFeeTokens S (nint 0) t = Inr 0"
  "dt \<le> 0 \<Longrightarrow> streamingFeeTokens S f (nint dt) = Inr 0"
  by (simp_all add: streamingFeeTokens_def)

lemma streamingFeeTokens_nonneg:
  assumes "streamingFeeTokens S (nint f) (nint dt) = Inr m" "0 \<le> S" "0 \<le> f"
  shows "0 \<le> m"
  using assms
  by (auto simp: streamingFeeTokens_def Let_def mulDivFloor_def pos_imp_zdiv_nonneg_iff split: if_splits)

section \<open>The premium in integers\<close>

text \<open>The schedule the program computes: linear, truncated towards the opening premium's side of zero.\<close>

definition premium_int :: "int \<Rightarrow> int \<Rightarrow> int \<Rightarrow> int \<Rightarrow> int \<Rightarrow> int" where
  "premium_int startBps endBps startTs endTs now =
     startBps + ((endBps - startBps) * (now - startTs)) sdiv (endTs - startTs)"

text \<open>16-bit premiums and timestamps of an auction that lasts less than \<open>2 ^ 36\<close> seconds stay exact.\<close>

definition auction_range :: "int \<Rightarrow> int \<Rightarrow> int \<Rightarrow> int \<Rightarrow> bool" where
  "auction_range startBps endBps startTs endTs \<longleftrightarrow>
     \<bar>startBps\<bar> \<le> 2 ^ 15 \<and> \<bar>endBps\<bar> \<le> 2 ^ 15 \<and> endTs - startTs < 2 ^ 36"

lemma sdiv_between:
  fixes d e s :: int
  assumes "0 \<le> e" "e \<le> s" "0 < s"
  shows "\<bar>(d * e) sdiv s\<bar> \<le> \<bar>d\<bar>" "0 \<le> d \<Longrightarrow> 0 \<le> (d * e) sdiv s" "d \<le> 0 \<Longrightarrow> (d * e) sdiv s \<le> 0"
proof -
  have "\<bar>d\<bar> * e \<le> \<bar>d\<bar> * s" using assms by (intro mult_left_mono) auto
  then have "\<bar>d\<bar> * e div s \<le> \<bar>d\<bar> * s div s" using assms by (intro zdiv_mono1) auto
  then have b: "\<bar>d\<bar> * e div s \<le> \<bar>d\<bar>" using assms by simp
  have nn: "0 \<le> \<bar>d\<bar> * e div s" using assms by (simp add: pos_imp_zdiv_nonneg_iff)
  have eq: "(d * e) sdiv s = sgn d * (\<bar>d\<bar> * e div s)"
  proof (cases "e = 0")
    case False
    then have "sgn e = 1" "sgn s = 1" "\<bar>e\<bar> = e" "\<bar>s\<bar> = s" using assms by (simp_all add: sgn_if)
    then show ?thesis by (simp add: signed_divide_int_def sgn_mult abs_mult)
  qed simp
  show "\<bar>(d * e) sdiv s\<bar> \<le> \<bar>d\<bar>" using b nn by (auto simp: eq abs_mult sgn_if)
  show "0 \<le> d \<Longrightarrow> 0 \<le> (d * e) sdiv s" using nn by (auto simp: eq sgn_if)
  show "d \<le> 0 \<Longrightarrow> (d * e) sdiv s \<le> 0" using nn by (auto simp: eq sgn_if)
qed

lemma premiumAt_int:
  assumes r: "auction_range sb eb st en" and w: "st < en" "st \<le> now" "now \<le> en"
  shows "premiumAt (nint sb) (nint eb) (nint st) (nint en) (nint now) = Inr (nint (premium_int sb eb st en now))"
proof -
  have e: "0 \<le> now - st" "now - st \<le> en - st" "en - st < 2 ^ 36" "0 < en - st"
    using r w by (auto simp: auction_range_def)
  have d: "\<bar>eb - sb\<bar> \<le> 2 ^ 16" using r by (auto simp: auction_range_def)
  have safe_d: "safe_int (eb - sb)" using d by (simp add: safe_int_def)
  have safe_s: "safe_int (en - st)" "safe_int (now - st)" using e by (auto simp: safe_int_def)
  have "\<bar>(eb - sb) * (now - st)\<bar> \<le> 2 ^ 16 * 2 ^ 36"
    unfolding abs_mult using d e by (intro mult_mono) auto
  then have safe_p: "safe_int ((eb - sb) * (now - st))" by (simp add: safe_int_def)
  have "\<bar>((eb - sb) * (now - st)) sdiv (en - st)\<bar> \<le> 2 ^ 16"
    using sdiv_between(1) [OF e(1,2,4), of "eb - sb"] d by linarith
  then have safe_r: "safe_int (sb + ((eb - sb) * (now - st)) sdiv (en - st))"
    using r by (auto simp: auction_range_def safe_int_def)
  show ?thesis using w
    by (simp add: premiumAt_def Let_def nsub_nint [OF safe_s(1)] nsub_nint [OF safe_s(2)]
        nsub_nint [OF safe_d] nmul_nint [OF safe_p] ntrunc_ndiv_safe [OF safe_p safe_s(1) e(4)]
        nadd_nint [OF safe_r] premium_int_def)
qed

lemma premium_int_ends: "st < en \<Longrightarrow> premium_int sb eb st en st = sb"
  "st < en \<Longrightarrow> premium_int sb eb st en en = eb"
proof -
  show "premium_int sb eb st en st = sb" if "st < en" using that by (simp add: premium_int_def)
  have "(d * s) sdiv s = d" if "0 < s" for d s :: int
    using that by (simp add: signed_divide_int_def abs_mult sgn_mult sgn_mult_abs)
  then show "premium_int sb eb st en en = eb" if "st < en" using that by (simp add: premium_int_def)
qed

lemma sdiv_mono:
  fixes a b s :: int
  assumes "a \<le> b" "0 < s"
  shows "a sdiv s \<le> b sdiv s"
proof -
  have div: "x div s \<le> y div s" if "x \<le> y" for x y using that assms(2) by (rule zdiv_mono1)
  have nn: "0 \<le> x div s" if "0 \<le> x" for x using that assms(2) by (simp add: pos_imp_zdiv_nonneg_iff)
  show ?thesis using assms div [of a b] div [of "- b" "- a"] nn [of b] nn [of "- a"]
    by (auto simp: signed_divide_int_def sgn_if)
qed

lemma premium_int_mono:
  assumes "sb \<le> eb" "st < en" "t1 \<le> t2"
  shows "premium_int sb eb st en t1 \<le> premium_int sb eb st en t2"
  unfolding premium_int_def using assms
  by (intro add_left_mono sdiv_mono mult_left_mono) auto

lemma premium_int_bounds:
  assumes "sb \<le> eb" "st < en" "st \<le> now" "now \<le> en"
  shows "sb \<le> premium_int sb eb st en now" "premium_int sb eb st en now \<le> eb"
  using premium_int_mono [of sb eb st en st now] premium_int_mono [of sb eb st en now en] assms
  by (simp_all add: premium_int_ends)

section \<open>What the arithmetic guarantees\<close>

lemma unitsIn_unitsOut_nat [math_simps]:
  "0 \<le> u \<Longrightarrow> 0 \<le> a \<Longrightarrow> unitsIn u a = Inr (ceil_div (u * a) UNIT_SCALE)"
  "0 \<le> u \<Longrightarrow> 0 \<le> a \<Longrightarrow> unitsOut u a = Inr (u * a div UNIT_SCALE)"
  by (simp_all add: unitsIn_def unitsOut_def math_simps)

text \<open>C20: For every recipe and amount, unitsIn and unitsOut both answer, the delivery is never
  below the payout, exceeds it by at most one base unit, and the exact product lies between the
  two.
\<close>

theorem issue_redeem_spread:
  assumes "0 \<le> units" "0 \<le> amount"
  shows "\<exists>paid returned. unitsIn units amount = Inr paid \<and> unitsOut units amount = Inr returned
           \<and> returned \<le> paid \<and> paid \<le> returned + 1
           \<and> returned * UNIT_SCALE \<le> units * amount \<and> units * amount \<le> paid * UNIT_SCALE"
proof -
  obtain p r where e: "unitsIn units amount = Inr p" "unitsOut units amount = Inr r"
    using assms by (simp add: math_simps)
  note io = e [unfolded unitsIn_def unitsOut_def]
  show ?thesis
    using e sdk.floor_le_ceil [OF io(2,1)] sdk.floor_le_exact(1) [OF io(2)] sdk.ceil_ge_exact [OF io(1)] assms
    by simp
qed

theorem issue_redeem_spread_witness:
  "\<exists>paid returned. unitsIn 1500000001 7 = Inr paid \<and> unitsOut 1500000001 7 = Inr returned
           \<and> returned \<le> paid \<and> paid \<le> returned + 1
           \<and> returned * UNIT_SCALE \<le> 1500000001 * 7 \<and> 1500000001 * 7 \<le> paid * UNIT_SCALE"
  by (rule issue_redeem_spread) simp_all

text \<open>C23: Units derived from a vault never claim more than the vault holds when the whole supply is
  redeemed, and they are the largest integer with that property.
\<close>

theorem units_from_balance_tight:
  assumes "0 \<le> balance" "0 < supply"
  shows "\<exists>u claim. unitsFromBalance balance supply = Inr u \<and> unitsOut u supply = Inr claim
           \<and> claim \<le> balance \<and> u * supply \<le> balance * UNIT_SCALE \<and> balance * UNIT_SCALE < (u + 1) * supply"
proof -
  let ?u = "balance * UNIT_SCALE div supply"
  have u: "unitsFromBalance balance supply = Inr ?u" using assms by (simp add: unitsFromBalance_def math_simps)
  have f: "mulDivFloor balance UNIT_SCALE supply = Inr ?u" using assms by (simp add: math_simps)
  have u0: "0 \<le> ?u" using assms by (simp add: pos_imp_zdiv_nonneg_iff)
  then have o: "unitsOut ?u supply = Inr (?u * supply div UNIT_SCALE)" using assms by (simp add: math_simps)
  show ?thesis
    using u o sdk.units_never_overclaim [OF f o [unfolded unitsOut_def]] sdk.floor_le_exact [OF f] assms
    by simp
qed

theorem units_from_balance_tight_witness:
  "\<exists>u claim. unitsFromBalance 1000 3 = Inr u \<and> unitsOut u 3 = Inr claim
           \<and> claim \<le> 1000 \<and> u * 3 \<le> 1000 * UNIT_SCALE \<and> 1000 * UNIT_SCALE < (u + 1) * 3"
  by (rule units_from_balance_tight) simp_all

text \<open>C19: The tokens minted as a streaming fee are the largest whole number whose share of the
  supply after minting is at most the annual rate times the elapsed time.
\<close>

theorem streaming_fee_exact_share:
  assumes "0 \<le> supply" "0 \<le> bps" "0 < dt" "bps * dt < BPS * SECONDS_PER_YEAR"
  shows "\<exists>m. streamingFeeTokens supply (nint bps) (nint dt) = Inr m \<and> 0 \<le> m
           \<and> m * (BPS * SECONDS_PER_YEAR) \<le> (supply + m) * (bps * dt)
           \<and> (supply + (m + 1)) * (bps * dt) < (m + 1) * (BPS * SECONDS_PER_YEAR)"
proof -
  let ?den = "BPS * SECONDS_PER_YEAR" and ?num = "bps * dt"
  let ?m = "supply * ?num div (?den - ?num)"
  have m: "streamingFeeTokens supply (nint bps) (nint dt) = Inr ?m"
    using assms by (rule streamingFeeTokens_nat)
  have pos: "0 < ?den - ?num" using assms by simp
  have "?m * (?den - ?num) \<le> supply * ?num" "supply * ?num < (?m + 1) * (?den - ?num)"
    by (rule div_mult_bounds [OF pos])+
  then show ?thesis
    using m streamingFeeTokens_nonneg [OF m assms(1,2)] by (simp add: algebra_simps)
qed

theorem streaming_fee_exact_share_witness:
  "\<exists>m. streamingFeeTokens 1000000000000 (nint 200) (nint 86400) = Inr m \<and> 0 \<le> m
           \<and> m * (BPS * SECONDS_PER_YEAR) \<le> (1000000000000 + m) * (200 * 86400)
           \<and> (1000000000000 + (m + 1)) * (200 * 86400) < (m + 1) * (BPS * SECONDS_PER_YEAR)"
  by (rule streaming_fee_exact_share) (simp_all add: BPS_def SECONDS_PER_YEAR_def)

text \<open>C21: Within an auction window the double-precision premium opens at the start premium, closes
  at the end premium, never decreases in between, and is always an integer inside those bounds.
\<close>

theorem premium_schedule:
  assumes "auction_range sb eb st en" "sb \<le> eb" "st < en" "st \<le> t1" "t1 \<le> t2" "t2 \<le> en"
  shows "premiumAt (nint sb) (nint eb) (nint st) (nint en) (nint st) = Inr (nint sb)
         \<and> premiumAt (nint sb) (nint eb) (nint st) (nint en) (nint en) = Inr (nint eb)
         \<and> (\<exists>p1 p2. premiumAt (nint sb) (nint eb) (nint st) (nint en) (nint t1) = Inr (nint p1)
              \<and> premiumAt (nint sb) (nint eb) (nint st) (nint en) (nint t2) = Inr (nint p2)
              \<and> sb \<le> p1 \<and> p1 \<le> p2 \<and> p2 \<le> eb)"
proof -
  have at: "premiumAt (nint sb) (nint eb) (nint st) (nint en) (nint t) = Inr (nint (premium_int sb eb st en t))"
    if "st \<le> t" "t \<le> en" for t
    by (rule premiumAt_int [OF assms(1,3) that])
  show ?thesis
    using at [of st] at [of en] at [of t1] at [of t2] assms premium_int_ends [OF assms(3)]
      premium_int_bounds [OF assms(2,3), of t1] premium_int_bounds [OF assms(2,3), of t2]
      premium_int_mono [OF assms(2,3,5)]
    by simp
qed

theorem premium_schedule_witness:
  "premiumAt (nint (-50)) (nint 200) (nint 1700000000) (nint 1700003600) (nint 1700000000) = Inr (nint (-50))
         \<and> premiumAt (nint (-50)) (nint 200) (nint 1700000000) (nint 1700003600) (nint 1700003600) = Inr (nint 200)
         \<and> (\<exists>p1 p2. premiumAt (nint (-50)) (nint 200) (nint 1700000000) (nint 1700003600) (nint 1700000700) = Inr (nint p1)
              \<and> premiumAt (nint (-50)) (nint 200) (nint 1700000000) (nint 1700003600) (nint 1700003599) = Inr (nint p2)
              \<and> -50 \<le> p1 \<and> p1 \<le> p2 \<and> p2 \<le> 200)"
  by (rule premium_schedule) (simp_all add: auction_range_def)

text \<open>C17: A bid always has a cost: its outgoing value is the exact floor, the incoming value covers
  the marked value, and the payment is the least amount of the bought token worth the incoming
  value.
\<close>

theorem bid_cost_covers_value:
  fixes p :: int
  assumes "0 \<le> ba_sellAmount a" "0 \<le> ba_sellPriceE9 a" "0 < ba_buyPriceE9 a"
    and "ba_sellDecimals a = nint ds" "ba_buyDecimals a = nint db" "ba_premiumBps a = nint p"
    and "0 \<le> ds" "0 \<le> db" "p \<le> BPS"
  shows "\<exists>q. bidCost a = Inr q
           \<and> bq_valueOutE9 q = ba_sellAmount a * ba_sellPriceE9 a div 10 ^ nat ds
           \<and> bq_valueOutE9 q * (BPS - p) \<le> bq_valueInE9 q * BPS
           \<and> bq_valueInE9 q * 10 ^ nat db \<le> bq_buyAmount q * ba_buyPriceE9 a
           \<and> (\<forall>k\<ge>0. bq_valueInE9 q * 10 ^ nat db \<le> k * ba_buyPriceE9 a \<longrightarrow> bq_buyAmount q \<le> k)"
proof -
  let ?vo = "ba_sellAmount a * ba_sellPriceE9 a div 10 ^ nat ds"
  let ?vi = "ceil_div (?vo * (BPS - p)) BPS"
  let ?ba = "ceil_div (?vi * 10 ^ nat db) (ba_buyPriceE9 a)"
  have vo: "0 \<le> ?vo" using assms by (simp add: pos_imp_zdiv_nonneg_iff)
  have m: "0 \<le> ?vo * (BPS - p)" using vo assms by simp
  have vi: "0 \<le> ?vi" by (rule ceil_div_nonneg [OF scale_pos(2) m])
  have q: "bidCost a = Inr \<lparr>bq_valueOutE9 = ?vo, bq_valueInE9 = ?vi, bq_buyAmount = ?ba\<rparr>"
    using assms vo vi by (simp add: bidCost_def Let_def math_simps)
  have least: "?ba \<le> k" if "0 \<le> k" "?vi * 10 ^ nat db \<le> k * ba_buyPriceE9 a" for k
    by (rule ceil_div_least) (use assms(3) vi that in auto)
  show ?thesis
    using q ceil_div_ge [OF scale_pos(2), of "?vo * (BPS - p)"]
      ceil_div_ge [OF assms(3), of "?vi * 10 ^ nat db"] least
    by auto
qed

theorem bid_cost_covers_value_witness:
  "\<exists>q. bidCost \<lparr>ba_sellAmount = 1234567, ba_sellDecimals = nint 6, ba_sellPriceE9 = 150000000000,
          ba_buyDecimals = nint 9, ba_buyPriceE9 = 999999999, ba_premiumBps = nint (-100)\<rparr> = Inr q
     \<and> bq_valueOutE9 q = 1234567 * 150000000000 div 10 ^ nat 6
     \<and> bq_valueOutE9 q * (BPS - (-100)) \<le> bq_valueInE9 q * BPS
     \<and> bq_valueInE9 q * 10 ^ nat 9 \<le> bq_buyAmount q * 999999999
     \<and> (\<forall>k\<ge>0. bq_valueInE9 q * 10 ^ nat 9 \<le> k * 999999999 \<longrightarrow> bq_buyAmount q \<le> k)"
  using bid_cost_covers_value [of "\<lparr>ba_sellAmount = 1234567, ba_sellDecimals = nint 6, ba_sellPriceE9 = 150000000000,
          ba_buyDecimals = nint 9, ba_buyPriceE9 = 999999999, ba_premiumBps = nint (-100)\<rparr>" 6 9 "- 100"]
  by (simp add: BPS_def)

section \<open>Weights\<close>

lemma foldl_add_sum_list: "foldl (+) (a::int) xs = a + sum_list xs"
  by (induction xs arbitrary: a) auto

text \<open>Rounding each part of a whole down loses less than one unit per part.\<close>

lemma div_shares_sum:
  fixes vs :: "int list"
  assumes "0 < n" "vs \<noteq> []"
  shows "sum_list (map (\<lambda>v. v * k div n) vs) * n \<le> sum_list vs * k"
    "sum_list vs * k < (sum_list (map (\<lambda>v. v * k div n) vs) + int (length vs)) * n"
proof -
  have lo: "sum_list (map (\<lambda>v. v * k div n) us) * n \<le> sum_list us * k" for us
    using div_mult_bounds(1) [OF assms(1)] by (induction us) (auto simp: distrib_right add_mono)
  show "sum_list (map (\<lambda>v. v * k div n) vs) * n \<le> sum_list vs * k" by (rule lo)
  have hi: "sum_list us * k \<le> (sum_list (map (\<lambda>v. v * k div n) us) + int (length us)) * n" for us
  proof (induction us)
    case (Cons v us)
    then show ?case using div_mult_bounds(2) [OF assms(1), of "v * k"] by (simp add: algebra_simps)
  qed simp
  obtain v us where "vs = v # us" using assms(2) by (cases vs) auto
  then show "sum_list vs * k < (sum_list (map (\<lambda>v. v * k div n) vs) + int (length vs)) * n"
    using hi [of us] div_mult_bounds(2) [OF assms(1), of "v * k"] by (simp add: algebra_simps)
qed

lemma sum_list_member_le: "(\<And>v. v \<in> set vs \<Longrightarrow> 0 \<le> v) \<Longrightarrow> v \<in> set vs \<Longrightarrow> (v::int) \<le> sum_list vs"
  by (rule member_le_sum_list) auto

definition component_values :: "int list \<Rightarrow> nat list \<Rightarrow> int list \<Rightarrow> int list" where
  "component_values balances decimals pricesE9 =
     map_idx (\<lambda>i b. b * pricesE9 ! i div 10 ^ (decimals ! i)) balances"

lemma component_values_eval:
  assumes "\<forall>b\<in>set balances. 0 \<le> b" "\<forall>p\<in>set pricesE9. 0 \<le> p"
    "length decimals = length balances" "length pricesE9 = length balances"
  shows "rmapM_idx (\<lambda>i balance. valueE9 balance (nth_or (nint 0) (map (\<lambda>d. nint (int d)) decimals) i) (nth_or 0 pricesE9 i)) balances
    = Inr (component_values balances decimals pricesE9)"
  unfolding component_values_def
  by (rule rmapM_idx_all_Inr) (use assms in \<open>auto simp: valueE9_nat\<close>)

lemma component_values_nonneg:
  assumes "\<forall>b\<in>set balances. 0 \<le> b" "\<forall>p\<in>set pricesE9. 0 \<le> p" "length pricesE9 = length balances"
    "v \<in> set (component_values balances decimals pricesE9)"
  shows "0 \<le> v"
  using assms by (auto simp: component_values_def in_set_conv_nth[of v] pos_imp_zdiv_nonneg_iff intro!: mult_nonneg_nonneg)

lemma weightsBps_nat:
  assumes "\<forall>b\<in>set balances. 0 \<le> b" "\<forall>p\<in>set pricesE9. 0 \<le> p"
    "length decimals = length balances" "length pricesE9 = length balances"
  defines "vs \<equiv> component_values balances decimals pricesE9"
  shows "weightsBps balances (map (\<lambda>d. nint (int d)) decimals) pricesE9
     = Inr (sum_list vs, map (\<lambda>v. nint (if sum_list vs = 0 then 0 else v * BPS div sum_list vs)) vs)"
proof (cases "sum_list vs = 0")
  case True
  then show ?thesis
    using assms by (simp add: weightsBps_def component_values_eval foldl_add_sum_list vs_def Let_def)
next
  case False
  have nn: "0 \<le> v" if "v \<in> set vs" for v using component_values_nonneg that assms by blast
  then have pos: "0 < sum_list vs" using False sum_list_nonneg [of vs] by auto
  have w: "number_of ((v * BPS) sdiv sum_list vs) = nint (v * BPS div sum_list vs)" if "v \<in> set vs" for v
  proof -
    have v: "0 \<le> v" "v \<le> sum_list vs" using nn that sum_list_member_le [of vs v] by auto
    have "v * BPS div sum_list vs \<le> sum_list vs * BPS div sum_list vs"
      using v pos by (intro zdiv_mono1 mult_right_mono) auto
    then have "v * BPS div sum_list vs \<le> 10000" using pos by (simp add: BPS_def)
    moreover have "0 \<le> v * BPS div sum_list vs" using v pos by (simp add: pos_imp_zdiv_nonneg_iff)
    ultimately have "safe_int (v * BPS div sum_list vs)" by (simp add: safe_int_def)
    then show ?thesis using v pos by simp
  qed
  show ?thesis
    using False assms(1-4) w by (simp add: weightsBps_def component_values_eval foldl_add_sum_list Let_def flip: vs_def)
qed

text \<open>C22: Portfolio weights are non-negative integers summing to at most 10000 bps, and to more
  than 10000 less the number of components when the fund has value; the reported NAV is the sum
  of the component values.
\<close>

theorem weights_partition_nav:
  assumes "\<forall>b\<in>set balances. 0 \<le> b" "\<forall>p\<in>set pricesE9. 0 \<le> p"
    and "length decimals = length balances" "length pricesE9 = length balances"
  shows "\<exists>nav ws. weightsBps balances (map (\<lambda>d. nint (int d)) decimals) pricesE9 = Inr (nav, map nint ws)
           \<and> nav = sum_list (component_values balances decimals pricesE9)
           \<and> length ws = length balances \<and> (\<forall>w\<in>set ws. 0 \<le> w) \<and> sum_list ws \<le> BPS
           \<and> (0 < nav \<longrightarrow> BPS - int (length balances) < sum_list ws)"
proof -
  define vs where "vs = component_values balances decimals pricesE9"
  define n where "n = sum_list vs"
  define ws where "ws = map (\<lambda>v. if n = 0 then 0 else v * BPS div n) vs"
  have e: "weightsBps balances (map (\<lambda>d. nint (int d)) decimals) pricesE9 = Inr (n, map nint ws)"
    using weightsBps_nat [OF assms] by (simp add: n_def vs_def ws_def o_def)
  have nn: "0 \<le> v" if "v \<in> set vs" for v using component_values_nonneg that assms by (metis vs_def)
  then have n0: "0 \<le> n" unfolding n_def by (rule sum_list_nonneg)
  have w0: "\<forall>w\<in>set ws. 0 \<le> w" using nn n0 by (auto simp: ws_def pos_imp_zdiv_nonneg_iff)
  have len: "length vs = length balances" "length ws = length balances"
    by (simp_all add: vs_def ws_def component_values_def)
  have "sum_list ws \<le> BPS \<and> (0 < n \<longrightarrow> BPS - int (length balances) < sum_list ws)"
  proof (cases "n = 0")
    case True
    then have "ws = map (\<lambda>v. 0) vs" by (simp add: ws_def)
    then show ?thesis using True by (simp add: sum_list_triv)
  next
    case False
    then have pos: "0 < n" "vs \<noteq> []" using n0 by (auto simp: n_def)
    have ws: "ws = map (\<lambda>v. v * BPS div n) vs" using False by (simp add: ws_def)
    have "sum_list ws * n \<le> BPS * n" "BPS * n < (sum_list ws + int (length vs)) * n"
      using div_shares_sum [OF pos, of BPS] by (simp_all add: ws flip: n_def) (simp_all add: mult.commute)
    then have "sum_list ws \<le> BPS" "BPS < sum_list ws + int (length vs)"
      using pos(1) by (auto dest: mult_right_le_imp_le mult_right_less_imp_less)
    then show ?thesis using len by simp
  qed
  then show ?thesis using e w0 len by (auto simp flip: vs_def n_def)
qed

theorem weights_partition_nav_witness:
  "\<exists>nav ws. weightsBps [100, 250, 7] (map (\<lambda>d. nint (int d)) [0, 1, 2]) [3, 11, 900] = Inr (nav, map nint ws)
           \<and> nav = sum_list (component_values [100, 250, 7] [0, 1, 2] [3, 11, 900])
           \<and> length ws = length [100::int, 250, 7] \<and> (\<forall>w\<in>set ws. 0 \<le> w) \<and> sum_list ws \<le> BPS
           \<and> (0 < nav \<longrightarrow> BPS - int (length [100::int, 250, 7]) < sum_list ws)"
  by (rule weights_partition_nav) simp_all


lemma target_value_le:
  fixes t :: int
  assumes "0 \<le> t" "0 < s" "0 < p" "0 < spl"
  shows "(t * s div p * UNIT_SCALE div spl) * spl div UNIT_SCALE * p div s \<le> t"
proof -
  let ?a = "t * s div p"
  let ?u = "?a * UNIT_SCALE div spl"
  have a: "0 \<le> ?a" using assms by (simp add: pos_imp_zdiv_nonneg_iff)
  have "?u * spl \<le> ?a * UNIT_SCALE" by (rule div_mult_bounds(1) [OF assms(4)])
  then have "?u * spl div UNIT_SCALE \<le> ?a * UNIT_SCALE div UNIT_SCALE" by (intro zdiv_mono1) auto
  then have "?u * spl div UNIT_SCALE \<le> ?a" by simp
  then have "?u * spl div UNIT_SCALE * p \<le> ?a * p" using assms(3) by (intro mult_right_mono) auto
  also have "\<dots> \<le> t * s" by (rule div_mult_bounds(1) [OF assms(3)])
  finally have "?u * spl div UNIT_SCALE * p div s \<le> t * s div s" using assms(2) by (intro zdiv_mono1) auto
  then show ?thesis using assms(2) by simp
qed

definition units_for :: "int \<Rightarrow> int \<Rightarrow> nat \<Rightarrow> int \<Rightarrow> int \<Rightarrow> int" where
  "units_for nav w d p spl = (nav * w div BPS) * 10 ^ d div p * UNIT_SCALE div spl"

lemma unitsForWeights_nat:
  assumes "0 \<le> nav" "0 < spl" "\<forall>w\<in>set ws. 0 \<le> w" "\<forall>p\<in>set ps. 0 < p"
    and "length ps = length ws" "length ds = length ws"
  shows "unitsForWeights \<lparr>ua_weightsBps = map nint ws, ua_pricesE9 = ps, ua_decimals = map (\<lambda>d. nint (int d)) ds,
            ua_navE9 = nav, ua_supply = spl\<rparr> = Inr (map_idx (\<lambda>i w. units_for nav w (ds ! i) (ps ! i) spl) ws)"
proof -
  have p: "0 < ps ! i" if "i < length ws" for i using assms(4,5) that by auto
  have w: "0 \<le> ws ! i" if "i < length ws" for i using assms(3) that by auto
  have v: "0 \<le> nav * ws ! i div BPS" if "i < length ws" for i
    using assms(1) w [OF that] by (simp add: pos_imp_zdiv_nonneg_iff)
  have a: "0 \<le> nav * ws ! i div BPS * 10 ^ ds ! i div ps ! i" if "i < length ws" for i
    using v [OF that] p [OF that] by (simp add: pos_imp_zdiv_nonneg_iff)
  define g where "g i (x :: jsnum) = units_for nav (ws ! i) (ds ! i) (ps ! i) spl" for i x
  have "unitsForWeights \<lparr>ua_weightsBps = map nint ws, ua_pricesE9 = ps, ua_decimals = map (\<lambda>d. nint (int d)) ds,
            ua_navE9 = nav, ua_supply = spl\<rparr> = Inr (map_idx g (map nint ws))"
    unfolding unitsForWeights_def using assms(2)
    by (auto simp: less_le [of 0 spl] simp del: nth_map intro!: rmapM_idx_all_Inr)
       (use p w v a assms in \<open>auto simp: g_def units_for_def mulDivFloor_nat pow10_nint less_imp_neq [THEN not_sym]\<close>)
  also have "map_idx g (map nint ws) = map_idx (\<lambda>i w. units_for nav w (ds ! i) (ps ! i) spl) ws"
    by (rule nth_equalityI) (auto simp: g_def)
  finally show ?thesis .
qed

text \<open>C18: Sizing units for weights that sum to at most 10000 bps always succeeds with one unit
  count per weight, and the holdings those units call for are worth at most each weight's share
  and in total at most the NAV.
\<close>

theorem units_for_weights_affordable:
  assumes "0 \<le> nav" "0 < supply" "\<forall>w\<in>set ws. 0 \<le> w" "sum_list ws \<le> BPS" "\<forall>p\<in>set ps. 0 < p"
    and "length ps = length ws" "length ds = length ws"
  shows "\<exists>us. unitsForWeights \<lparr>ua_weightsBps = map nint ws, ua_pricesE9 = ps,
              ua_decimals = map (\<lambda>d. nint (int d)) ds, ua_navE9 = nav, ua_supply = supply\<rparr> = Inr us
           \<and> length us = length ws
           \<and> (\<forall>i<length ws. us ! i * supply div UNIT_SCALE * ps ! i div 10 ^ (ds ! i) \<le> nav * ws ! i div BPS)
           \<and> sum_list (map (\<lambda>i. us ! i * supply div UNIT_SCALE * ps ! i div 10 ^ (ds ! i)) [0..<length ws]) \<le> nav"
proof -
  define us where "us = map_idx (\<lambda>i w. units_for nav w (ds ! i) (ps ! i) supply) ws"
  let ?val = "\<lambda>i. us ! i * supply div UNIT_SCALE * ps ! i div 10 ^ (ds ! i)"
  have each: "?val i \<le> nav * ws ! i div BPS" if "i < length ws" for i
  proof -
    have "0 < ps ! i" "0 \<le> ws ! i" using assms that by auto
    then have "0 \<le> nav * ws ! i div BPS" using assms(1) by (simp add: pos_imp_zdiv_nonneg_iff)
    from target_value_le [OF this _ \<open>0 < ps ! i\<close> assms(2), of "10 ^ ds ! i"]
    show ?thesis using that by (simp add: us_def units_for_def)
  qed
  have "sum_list (map ?val [0..<length ws]) \<le> sum_list (map (\<lambda>i. nav * ws ! i div BPS) [0..<length ws])"
    using each by (intro sum_list_mono) auto
  also have "map (\<lambda>i. nav * ws ! i div BPS) [0..<length ws] = map (\<lambda>w. w * nav div BPS) ws"
    by (rule nth_equalityI) (auto simp: mult.commute)
  also have "sum_list \<dots> \<le> nav"
  proof (cases "ws = []")
    case False
    have "sum_list (map (\<lambda>w. w * nav div BPS) ws) * BPS \<le> sum_list ws * nav"
      using div_shares_sum(1) [OF scale_pos(2) False] .
    also have "\<dots> \<le> BPS * nav" using assms by (intro mult_right_mono)
    finally show ?thesis by (simp add: mult.commute)
  qed (simp add: assms(1))
  finally show ?thesis
    using unitsForWeights_nat [OF assms(1,2,3,5,6,7)] each by (auto simp flip: us_def) (simp add: us_def)
qed

theorem units_for_weights_affordable_witness:
  "\<exists>us. unitsForWeights \<lparr>ua_weightsBps = map nint [6000, 4000], ua_pricesE9 = [150000000000, 1000000000],
              ua_decimals = map (\<lambda>d. nint (int d)) [9, 6], ua_navE9 = 12345678901234, ua_supply = 777000000000\<rparr> = Inr us
           \<and> length us = length [6000::int, 4000]
           \<and> (\<forall>i<length [6000::int, 4000]. us ! i * 777000000000 div UNIT_SCALE * [150000000000, 1000000000] ! i
                div 10 ^ ([9, 6] ! i) \<le> 12345678901234 * [6000, 4000] ! i div BPS)
           \<and> sum_list (map (\<lambda>i. us ! i * 777000000000 div UNIT_SCALE * [150000000000, 1000000000] ! i
                div 10 ^ ([9, 6] ! i)) [0..<length [6000::int, 4000]]) \<le> 12345678901234"
  by (rule units_for_weights_affordable) (simp_all add: BPS_def)

end
