(* ===== verification/ChainMath.thy ===== *)
theory ChainMath
  imports Rounding
begin

text \<open>
  \<open>program/src/error.rs\<close> and \<open>program/src/math.rs\<close>: the error codes and the checked
  fixed-point routines of the on-chain program, on machine words. A \<open>u64\<close> is a 64-bit word read
  by \<open>uint\<close>, an \<open>i64\<close> the same word read by \<open>sint\<close>; \<open>as u128\<close> is \<open>ucast\<close>. The \<open>i128\<close>
  intermediates of \<open>premium_at\<close> are integers, since 17-bit times 64-bit values fit.
\<close>

type_synonym u8 = "8 word"
type_synonym u16 = "16 word"
type_synonym i16 = "16 word"
type_synonym u32 = "32 word"
type_synonym i32 = "32 word"
type_synonym u64 = "64 word"
type_synonym i64 = "64 word"
type_synonym u128 = "128 word"

datatype flock_error =
    InvalidAccountOwner | SeedsMismatch | MissingSignature | NotGovernor | NotManager
  | AlreadySealed | NotSealed | Paused | TooManyComponents | DuplicateComponent
  | UnknownComponent | InvalidTokenAccount | InvalidIndexMint | FeeTooHigh | MathOverflow
  | ZeroAmount | SlippageExceeded | RebalanceActive | NoRebalance | AuctionClosed
  | SellLegAtTarget | NavFloorBreached | InvalidPremium | ArityMismatch | InvalidPrice
  | TimelockNotMet | SupplyTooSmall | StaleProposal | SameComponent
  | SellAmountExceedsExcess | BuyLegAtCap | BuyAmountExceedsCap

text \<open>The discriminants, \<open>e as u32\<close>.\<close>

fun error_code :: "flock_error \<Rightarrow> nat" where
  "error_code InvalidAccountOwner = 0"
| "error_code SeedsMismatch = 1"
| "error_code MissingSignature = 2"
| "error_code NotGovernor = 3"
| "error_code NotManager = 4"
| "error_code AlreadySealed = 5"
| "error_code NotSealed = 6"
| "error_code Paused = 7"
| "error_code TooManyComponents = 8"
| "error_code DuplicateComponent = 9"
| "error_code UnknownComponent = 10"
| "error_code InvalidTokenAccount = 11"
| "error_code InvalidIndexMint = 12"
| "error_code FeeTooHigh = 13"
| "error_code MathOverflow = 14"
| "error_code ZeroAmount = 15"
| "error_code SlippageExceeded = 16"
| "error_code RebalanceActive = 17"
| "error_code NoRebalance = 18"
| "error_code AuctionClosed = 19"
| "error_code SellLegAtTarget = 20"
| "error_code NavFloorBreached = 21"
| "error_code InvalidPremium = 22"
| "error_code ArityMismatch = 23"
| "error_code InvalidPrice = 24"
| "error_code TimelockNotMet = 25"
| "error_code SupplyTooSmall = 26"
| "error_code StaleProposal = 27"
| "error_code SameComponent = 28"
| "error_code SellAmountExceedsExcess = 29"
| "error_code BuyLegAtCap = 30"
| "error_code BuyAmountExceedsCap = 31"

section \<open>Checked arithmetic\<close>

definition unit_scale :: u128 where "unit_scale = 1000000000"
definition bps_whole :: u128 where "bps_whole = 10000"
definition seconds_per_year :: u128 where "seconds_per_year = 31536000"

definition checked_mul :: "u128 \<Rightarrow> u128 \<Rightarrow> flock_error + u128" where
  "checked_mul a b = (if uint a * uint b < 2 ^ 128 then Inr (a * b) else Inl MathOverflow)"

definition mul_div_floor :: "u128 \<Rightarrow> u128 \<Rightarrow> u128 \<Rightarrow> flock_error + u128" where
  "mul_div_floor a b d =
     (if d = 0 then Inl MathOverflow else rmap (\<lambda>x. x div d) (checked_mul a b))"

text \<open>\<open>n.div_ceil(d)\<close> of the standard library: the quotient, plus one when there is a remainder.\<close>

definition word_div_ceil :: "u128 \<Rightarrow> u128 \<Rightarrow> u128" where
  "word_div_ceil n d = (if n mod d > 0 then n div d + 1 else n div d)"

definition mul_div_ceil :: "u128 \<Rightarrow> u128 \<Rightarrow> u128 \<Rightarrow> flock_error + u128" where
  "mul_div_ceil a b d =
     (if d = 0 then Inl MathOverflow
      else rbind (checked_mul a b) (\<lambda>n. Inr (word_div_ceil n d)))"

definition to_u64 :: "u128 \<Rightarrow> flock_error + u64" where
  "to_u64 x = (if uint x < 2 ^ 64 then Inr (ucast x) else Inl MathOverflow)"

definition units_in :: "u64 \<Rightarrow> u64 \<Rightarrow> flock_error + u64" where
  "units_in units amount = rbind (mul_div_ceil (ucast units) (ucast amount) unit_scale) to_u64"

definition units_out :: "u64 \<Rightarrow> u64 \<Rightarrow> flock_error + u64" where
  "units_out units amount = rbind (mul_div_floor (ucast units) (ucast amount) unit_scale) to_u64"

definition units_from_balance :: "u64 \<Rightarrow> u64 \<Rightarrow> flock_error + u64" where
  "units_from_balance balance supply =
     (if supply = 0 then Inl SupplyTooSmall
      else rbind (mul_div_floor (ucast balance) unit_scale (ucast supply)) to_u64)"

definition checked_pow10 :: "u8 \<Rightarrow> flock_error + u128" where
  "checked_pow10 decimals =
     (if (10::int) ^ unat decimals < 2 ^ 128 then Inr (10 ^ unat decimals) else Inl MathOverflow)"

definition value_e9 :: "u64 \<Rightarrow> u8 \<Rightarrow> u64 \<Rightarrow> flock_error + u128" where
  "value_e9 balance decimals price_e9 =
     rbind (checked_pow10 decimals) (\<lambda>scale. mul_div_floor (ucast balance) (ucast price_e9) scale)"

definition amount_from_value_ceil :: "u128 \<Rightarrow> u8 \<Rightarrow> u64 \<Rightarrow> flock_error + u64" where
  "amount_from_value_ceil value decimals price_e9 =
     (if price_e9 = 0 then Inl InvalidPrice
      else rbind (checked_pow10 decimals) (\<lambda>scale.
           rbind (mul_div_ceil value scale (ucast price_e9)) to_u64))"

definition streaming_fee_tokens :: "u64 \<Rightarrow> u16 \<Rightarrow> i64 \<Rightarrow> flock_error + u64" where
  "streaming_fee_tokens supply fee_bps dt =
     (if supply = 0 \<or> fee_bps = 0 \<or> sint dt \<le> 0 then Inr 0
      else rbind (checked_mul (ucast fee_bps) (scast dt)) (\<lambda>num.
           rbind (checked_mul bps_whole seconds_per_year) (\<lambda>den.
           if num \<ge> den then Inl MathOverflow
           else rbind (mul_div_floor (ucast supply) num (den - num)) to_u64)))"

text \<open>The \<open>i64\<close> differences wrap in a release build; the window tests come first.\<close>

definition premium_at :: "i16 \<Rightarrow> i16 \<Rightarrow> i64 \<Rightarrow> i64 \<Rightarrow> i64 \<Rightarrow> flock_error + i32" where
  "premium_at start_bps end_bps start_ts end_ts now =
     (if sint now < sint start_ts \<or> sint now > sint end_ts then Inl AuctionClosed
      else if sint end_ts \<le> sint start_ts then Inl InvalidPremium
      else let span = sint (end_ts - start_ts); elapsed = sint (now - start_ts);
               delta = ((sint end_bps - sint start_bps) * elapsed) sdiv span;
               p = sint start_bps + delta
           in if - (2 ^ 31) \<le> p \<and> p < 2 ^ 31 then Inr (word_of_int p) else Inl MathOverflow)"

section \<open>Unsigned values of the checked routines\<close>

named_theorems chain_simps \<open>unsigned readings of constants and casts\<close>

lemma uint_consts [chain_simps]:
  "uint unit_scale = 1000000000" "uint bps_whole = 10000" "uint seconds_per_year = 31536000"
  by (simp_all add: unit_scale_def bps_whole_def seconds_per_year_def)

lemma uint_ucast_128 [chain_simps]:
  "uint (ucast (x :: u64) :: u128) = uint x" "uint (ucast (y :: u16) :: u128) = uint y"
  by (simp_all add: uint_up_ucast is_up)

lemma uint_bounds:
  "0 \<le> uint (x :: 'a::len word)" "uint (w :: u64) < 2 ^ 64" "uint (v :: u128) < 2 ^ 128"
  "uint (h :: u16) < 2 ^ 16" "uint (b :: u8) < 2 ^ 8"
  using uint_lt2p [of w] uint_lt2p [of v] uint_lt2p [of h] uint_lt2p [of b] by simp_all

lemma uint_mult_128:
  "uint (a :: u128) * uint b < 2 ^ 128 \<Longrightarrow> uint (a * b) = uint a * uint b"
  by (simp add: uint_word_ariths)

lemma mul_u64_fits: "uint (a :: u64) * uint (b :: u64) < 2 ^ 128"
proof -
  have "uint a * uint b < 2 ^ 64 * 2 ^ 64"
    using uint_bounds(2) [of a] uint_bounds(2) [of b] by (intro mult_strict_mono') auto
  then show ?thesis by simp
qed

lemma checked_mul_Inr: "checked_mul a b = Inr c \<Longrightarrow> uint c = uint a * uint b"
  by (auto simp: checked_mul_def uint_mult_128 split: if_splits)

lemma mul_div_floor_Inr: "mul_div_floor a b d = Inr q \<Longrightarrow> uint q = uint a * uint b div uint d"
  by (auto simp: mul_div_floor_def rmap_Inr_iff uint_div dest: checked_mul_Inr split: if_splits)

lemma uint_div_ceil:
  assumes "d \<noteq> 0" shows "uint (word_div_ceil n d) = ceil_div (uint n) (uint d)"
proof -
  have d: "0 < uint d" using assms uint_bounds(1) [of d] by (simp add: word_neq_0_conv word_less_def)
  have n: "uint n = uint n div uint d * uint d + uint n mod uint d" by simp
  show ?thesis
  proof (cases "uint n mod uint d = 0")
    case True
    then have eq: "uint n = uint n div uint d * uint d" using n by simp
    have "ceil_div (uint n) (uint d) = uint n div uint d"
    proof (rule antisym)
      show "ceil_div (uint n) (uint d) \<le> uint n div uint d"
        by (rule ceil_div_least) (use d eq in \<open>auto simp: pos_imp_zdiv_nonneg_iff\<close>)
    qed (rule ceil_div_floor(1) [OF d uint_bounds(1)])
    then show ?thesis using True by (simp add: word_div_ceil_def word_less_def uint_mod uint_div)
  next
    case False
    then have m: "0 < uint n mod uint d" using pos_mod_sign [OF d, of "uint n"] by linarith
    have div1: "(uint n - 1) div uint d = uint n div uint d"
      by (rule int_div_pos_eq [where r = "uint n mod uint d - 1"]) (use m n pos_mod_bound [OF d, of "uint n"] in \<open>auto simp: mult.commute\<close>)
    have n0: "uint n \<noteq> 0" using m by auto
    have "uint d \<noteq> 1" using m by auto
    then have "1 < uint d" using d by linarith
    then have "uint n div uint d < uint n"
      using n0 uint_bounds(1) [of n] by (intro int_div_less_self) linarith+
    then have "uint n div uint d < 2 ^ 128 - 1" using uint_bounds(3) [of n] by linarith
    then have "uint (n div d + 1) = uint n div uint d + 1"
      by (simp add: uint_word_ariths uint_div pos_imp_zdiv_nonneg_iff d)
    then show ?thesis using m n0 div1
      by (simp add: word_div_ceil_def word_less_def uint_mod ceil_div_def)
  qed
qed

lemma mul_div_ceil_Inr: "mul_div_ceil a b d = Inr q \<Longrightarrow> uint q = ceil_div (uint a * uint b) (uint d)"
  by (auto simp: mul_div_ceil_def rbind_Inr_iff uint_div_ceil dest: checked_mul_Inr split: if_splits)

lemma to_u64_Inr: "to_u64 x = Inr y \<Longrightarrow> uint y = uint x"
  by (auto simp: to_u64_def unsigned_ucast_eq take_bit_int_eq_self split: if_splits)

interpretation chain: muldiv uint mul_div_floor mul_div_ceil
  by unfold_locales (auto dest: mul_div_floor_Inr mul_div_ceil_Inr)

end
