(* ===== verification/MathParity.thy ===== *)
theory MathParity
  imports SdkMath ChainMath
begin

text \<open>
  The client's arithmetic against the program's: on every machine input the bigint routine and
  the checked word routine agree, and the program's only extra outcome is \<open>MathOverflow\<close> when
  the result does not fit its word.
\<close>

text \<open>What the program makes of an unbounded result.\<close>

definition narrow :: "int \<Rightarrow> flock_error + u64" where
  "narrow r = (if r < 2 ^ 64 then Inr (word_of_int r) else Inl MathOverflow)"

section \<open>Readings of the word routines\<close>

lemma to_u64_narrow: "to_u64 x = narrow (uint x)"
  by (simp add: to_u64_def narrow_def flip: ucast_eq)

lemma narrow_value: "narrow r = Inr x \<Longrightarrow> 0 \<le> r \<Longrightarrow> uint x = r"
  by (auto simp: narrow_def uint_word_of_int split: if_splits)

lemma uint_pos_iff: "0 < uint (x :: 'a::len word) \<longleftrightarrow> x \<noteq> 0"
  by (simp add: word_neq_0_conv word_less_def)

lemma mul_div_floor_fits:
  assumes "uint a * uint b < 2 ^ 128" "d \<noteq> 0"
  obtains q where "mul_div_floor a b d = Inr q" "uint q = uint a * uint b div uint d"
  using assms by (auto simp: mul_div_floor_def checked_mul_def uint_div uint_mult_128)

lemma mul_div_ceil_fits:
  assumes "uint a * uint b < 2 ^ 128" "d \<noteq> 0"
  obtains q where "mul_div_ceil a b d = Inr q" "uint q = ceil_div (uint a * uint b) (uint d)"
  using assms by (auto simp: mul_div_ceil_def checked_mul_def uint_div_ceil uint_mult_128)

lemma ucast_eq_0_iff_64 [simp]: "(ucast (x :: u64) :: u128) = 0 \<longleftrightarrow> x = 0"
  by (metis uint_pos_iff uint_ucast_128(1))

lemma unit_scale_nz [simp]: "unit_scale \<noteq> 0" "bps_whole \<noteq> 0"
  by (metis uint_consts uint_pos_iff zero_less_numeral)+

lemma unit_scale_int: "uint unit_scale = UNIT_SCALE" "uint bps_whole = BPS"
  "uint seconds_per_year = SECONDS_PER_YEAR"
  by (simp_all add: chain_simps UNIT_SCALE_def BPS_def SECONDS_PER_YEAR_def)

lemma units_in_parity:
  "unitsIn (uint u) (uint a) = Inr (ceil_div (uint u * uint a) UNIT_SCALE)"
  "units_in u a = narrow (ceil_div (uint u * uint a) UNIT_SCALE)"
proof -
  show "unitsIn (uint u) (uint a) = Inr (ceil_div (uint u * uint a) UNIT_SCALE)"
    by (simp add: unitsIn_def math_simps)
  have "uint (ucast u :: u128) * uint (ucast a :: u128) < 2 ^ 128"
    using mul_u64_fits by (simp only: chain_simps)
  then obtain q where "mul_div_ceil (ucast u) (ucast a) unit_scale = Inr q"
      "uint q = ceil_div (uint u * uint a) UNIT_SCALE"
    by (rule mul_div_ceil_fits [where d = unit_scale]) (auto simp: uint_ucast_128 unit_scale_int)
  then show "units_in u a = narrow (ceil_div (uint u * uint a) UNIT_SCALE)"
    by (simp add: units_in_def to_u64_narrow)
qed

lemma units_out_parity:
  "unitsOut (uint u) (uint a) = Inr (uint u * uint a div UNIT_SCALE)"
  "units_out u a = narrow (uint u * uint a div UNIT_SCALE)"
proof -
  show "unitsOut (uint u) (uint a) = Inr (uint u * uint a div UNIT_SCALE)"
    by (simp add: unitsOut_def math_simps)
  have "uint (ucast u :: u128) * uint (ucast a :: u128) < 2 ^ 128"
    using mul_u64_fits by (simp only: chain_simps)
  then obtain q where "mul_div_floor (ucast u) (ucast a) unit_scale = Inr q"
      "uint q = uint u * uint a div UNIT_SCALE"
    by (rule mul_div_floor_fits [where d = unit_scale]) (auto simp: uint_ucast_128 unit_scale_int)
  then show "units_out u a = narrow (uint u * uint a div UNIT_SCALE)"
    by (simp add: units_out_def to_u64_narrow)
qed

lemma units_from_balance_parity:
  assumes "s \<noteq> 0"
  shows "unitsFromBalance (uint b) (uint s) = Inr (uint b * UNIT_SCALE div uint s)"
    "units_from_balance b s = narrow (uint b * UNIT_SCALE div uint s)"
proof -
  have s: "0 < uint s" using assms by (simp add: uint_pos_iff)
  then show "unitsFromBalance (uint b) (uint s) = Inr (uint b * UNIT_SCALE div uint s)"
    by (simp add: unitsFromBalance_def math_simps)
  have "uint b * 1000000000 < 2 ^ 128" using uint_bounds(2) [of b] by simp
  then have "uint (ucast b :: u128) * uint unit_scale < 2 ^ 128" by (simp only: chain_simps)
  then obtain q where "mul_div_floor (ucast b) unit_scale (ucast s) = Inr q"
      "uint q = uint b * UNIT_SCALE div uint s"
    by (rule mul_div_floor_fits [where d = "ucast s"]) (use assms in \<open>auto simp: uint_ucast_128 unit_scale_int\<close>)
  then show "units_from_balance b s = narrow (uint b * UNIT_SCALE div uint s)"
    using assms by (simp add: units_from_balance_def to_u64_narrow)
qed

lemma scast_i64: "0 < sint (t :: i64) \<Longrightarrow> uint (scast t :: u128) = sint t"
proof -
  assume pos: "0 < sint t"
  have "sint t < 2 ^ 128" using sint_lt [of t] by simp
  with pos have "take_bit 128 (sint t) = sint t" by (intro take_bit_int_eq_self) linarith+
  moreover have "uint (scast t :: u128) = take_bit LENGTH(128) (sint t)"
    by (simp only: scast_eq uint_word_of_int_eq)
  moreover have "LENGTH(128) = (128 :: nat)" by simp
  ultimately show ?thesis by (simp only:)
qed

text \<open>The streaming fee: equal values, and an error on one side is an error on the other.\<close>

definition fee_agrees :: "int result \<Rightarrow> flock_error + u64 \<Rightarrow> bool" where
  "fee_agrees sdk chain =
     (case sdk of Inr m \<Rightarrow> chain = narrow m | Inl _ \<Rightarrow> chain = Inl MathOverflow)"

lemma streaming_fee_parity:
  "fee_agrees (streamingFeeTokens (uint s) (nint (uint f)) (nint (sint t))) (streaming_fee_tokens s f t)"
proof (cases "s = 0 \<or> f = 0 \<or> sint t \<le> 0")
  case True
  then have "streaming_fee_tokens s f t = Inr 0" by (simp add: streaming_fee_tokens_def)
  moreover have "streamingFeeTokens (uint s) (nint (uint f)) (nint (sint t)) = Inr 0"
    using True by (auto simp: math_simps)
  ultimately show ?thesis by (simp add: fee_agrees_def narrow_def)
next
  case False
  then have nz: "uint s \<noteq> 0" "uint f \<noteq> 0" and t: "0 < sint t" by (auto simp: uint_0_iff)
  have tb: "sint t < 2 ^ 63" using sint_lt [of t] by simp
  have num_b: "uint f * sint t < 2 ^ 79"
  proof -
    have "uint f * sint t < 2 ^ 16 * 2 ^ 63"
      using uint_bounds(4) [of f] tb t by (intro mult_strict_mono') auto
    then show ?thesis by simp
  qed
  define num :: u128 where "num = ucast f * scast t"
  define den :: u128 where "den = bps_whole * seconds_per_year"
  have m1: "checked_mul (ucast f) (scast t) = Inr num" "uint num = uint f * sint t"
    using num_b t by (simp_all add: checked_mul_def num_def uint_mult_128 chain_simps scast_i64)
  have m2: "checked_mul bps_whole seconds_per_year = Inr den" "uint den = BPS * SECONDS_PER_YEAR"
    by (simp_all add: checked_mul_def den_def uint_mult_128 chain_simps BPS_def SECONDS_PER_YEAR_def)
  show ?thesis
  proof (cases "den \<le> num")
    case True
    then have "BPS * SECONDS_PER_YEAR \<le> uint f * sint t" by (simp add: word_le_def m1 m2)
    then show ?thesis using True False nz t
      by (simp add: fee_agrees_def streaming_fee_tokens_def streamingFeeTokens_def m1(1) m2(1) Let_def)
  next
    case lt: False
    then have lt': "uint f * sint t < BPS * SECONDS_PER_YEAR" by (simp add: word_le_def m1 m2)
    have df: "uint (den - num) = BPS * SECONDS_PER_YEAR - uint f * sint t"
    proof -
      have "uint num \<le> uint den" using lt' by (simp add: m1 m2)
      then have "uint (den - num) = uint den - uint num" by (simp add: uint_sub_lem)
      then show ?thesis by (simp add: m1 m2)
    qed
    then have dnz: "den - num \<noteq> 0" using lt' by (metis diff_gt_0_iff_gt uint_pos_iff)
    have "uint f * sint t < 315360000000" using lt' by (simp add: BPS_def SECONDS_PER_YEAR_def)
    then have "uint s * (uint f * sint t) < 2 ^ 64 * 315360000000"
      using uint_bounds(2) [of s] t by (intro mult_strict_mono') auto
    then have "uint (ucast s :: u128) * uint num < 2 ^ 128" by (simp add: chain_simps m1)
    then obtain q where q: "mul_div_floor (ucast s) num (den - num) = Inr q"
        "uint q = uint s * (uint f * sint t) div (BPS * SECONDS_PER_YEAR - uint f * sint t)"
      by (rule mul_div_floor_fits [OF _ dnz]) (auto simp: chain_simps m1 df)
    have "streaming_fee_tokens s f t = to_u64 q"
      using False lt t by (simp add: streaming_fee_tokens_def m1(1) m2(1) q(1))
    then show ?thesis using lt' t
      by (simp add: fee_agrees_def to_u64_narrow q(2) streamingFeeTokens_nat)
  qed
qed

text \<open>The premium: the same schedule, the same refusals.\<close>

definition premium_agrees :: "jsnum result \<Rightarrow> flock_error + i32 \<Rightarrow> bool" where
  "premium_agrees sdk chain =
     (case chain of Inr p \<Rightarrow> sdk = Inr (nint (sint p)) | Inl _ \<Rightarrow> (\<exists>m. sdk = Inl (Error m)))"

lemma sint_diff_i64:
  assumes "0 \<le> sint (a :: i64) - sint b" "sint a - sint b < 2 ^ 63"
  shows "sint (a - b) = sint a - sint b"
  using assms by (simp add: sint_word_ariths signed_take_bit_int_eq_self)

lemma sint_i16_bound: "\<bar>sint (x :: i16)\<bar> \<le> 2 ^ 15"
  using sint_ge [of x] sint_lt [of x] by simp

lemma premium_parity:
  assumes "sint en - sint st < 2 ^ 36"
  shows "premium_agrees (premiumAt (nint (sint sb)) (nint (sint eb)) (nint (sint st)) (nint (sint en)) (nint (sint now)))
           (premium_at sb eb st en now)"
proof (cases "sint now < sint st \<or> sint now > sint en \<or> sint en \<le> sint st")
  case True
  then show ?thesis by (auto simp: premium_agrees_def premium_at_def premiumAt_def)
next
  case False
  then have w: "sint st < sint en" "sint st \<le> sint now" "sint now \<le> sint en" by auto
  let ?p = "premium_int (sint sb) (sint eb) (sint st) (sint en) (sint now)"
  have r: "auction_range (sint sb) (sint eb) (sint st) (sint en)"
    using assms sint_i16_bound by (simp add: auction_range_def)
  have d: "sint (en - st) = sint en - sint st" "sint (now - st) = sint now - sint st"
    by (rule sint_diff_i64; use assms w in simp)+
  have "\<bar>((sint eb - sint sb) * (sint now - sint st)) sdiv (sint en - sint st)\<bar> \<le> \<bar>sint eb - sint sb\<bar>"
    by (rule sdiv_between) (use w in auto)
  then have b: "\<bar>?p\<bar> < 2 ^ 31"
    using sint_i16_bound [of sb] sint_i16_bound [of eb] by (simp add: premium_int_def)
  then have "- (2 ^ 31) \<le> ?p" "?p < 2 ^ 31" by linarith+
  then have "premium_at sb eb st en now = Inr (word_of_int ?p)"
    using w by (simp add: premium_at_def Let_def d premium_int_def)
  moreover have "sint (word_of_int ?p :: i32) = ?p" using b by (simp add: signed_of_int signed_take_bit_int_eq_self)
  ultimately show ?thesis by (simp add: premium_agrees_def premiumAt_int [OF r w])
qed

text \<open>The value of an amount and the amount of a value, where the program accepts them.\<close>

lemma u128_of_int: "0 \<le> i \<Longrightarrow> i < 2 ^ 128 \<Longrightarrow> uint (word_of_int i :: u128) = i"
  unfolding uint_word_of_int by simp

lemma uint_pow10: assumes "(10::int) ^ n < 2 ^ 128" shows "uint ((10::u128) ^ n) = 10 ^ n"
proof -
  have "word_of_int (10 ^ n) = (10::u128) ^ n" by simp
  then show ?thesis using u128_of_int [OF _ assms] by (metis zero_le_numeral zero_le_power)
qed

lemma value_parity:
  assumes "value_e9 b d p = Inr v" shows "valueE9 (uint b) (nint (uint d)) (uint p) = Inr (uint v)"
proof -
  have fits: "(10::int) ^ unat d < 2 ^ 128" and v: "mul_div_floor (ucast b) (ucast p) (10 ^ unat d) = Inr v"
    using assms by (auto simp: value_e9_def checked_pow10_def rbind_Inr_iff split: if_splits)
  have "uint v = uint b * uint p div 10 ^ unat d"
    using mul_div_floor_Inr [OF v] uint_pow10 [OF fits] by (simp add: chain_simps)
  then show ?thesis by (simp add: math_simps nat_uint_eq)
qed

lemma amount_parity:
  assumes "amount_from_value_ceil v d p = Inr a" shows "amountFromValueCeil (uint v) (nint (uint d)) (uint p) = Inr (uint a)"
proof -
  obtain q where p: "p \<noteq> 0" and fits: "(10::int) ^ unat d < 2 ^ 128"
    and q: "mul_div_ceil v (10 ^ unat d) (ucast p) = Inr q" "to_u64 q = Inr a"
    using assms by (auto simp: amount_from_value_ceil_def checked_pow10_def rbind_Inr_iff split: if_splits)
  have "uint a = ceil_div (uint v * 10 ^ unat d) (uint p)"
    using mul_div_ceil_Inr [OF q(1)] to_u64_Inr [OF q(2)] uint_pow10 [OF fits] by (simp add: chain_simps)
  moreover have "0 < uint p" using p by (simp add: uint_pos_iff)
  ultimately show ?thesis by (simp add: math_simps nat_uint_eq)
qed

text \<open>The three steps of a bid's price, as \<open>bid\<close> of \<open>processor.rs\<close> takes them.\<close>

lemma bid_cost_parity:
  assumes "value_e9 n ds ps = Inr vo" "\<not> 10000 - sint premium < 0" "sint (premium :: i32) \<ge> - (2 ^ 31)"
    "mul_div_ceil vo (word_of_int (10000 - sint premium)) bps_whole = Inr vi" "amount_from_value_ceil vi db pb = Inr pay"
  shows "bidCost \<lparr>ba_sellAmount = uint n, ba_sellDecimals = nint (uint ds), ba_sellPriceE9 = uint ps,
      ba_buyDecimals = nint (uint db), ba_buyPriceE9 = uint pb, ba_premiumBps = nint (sint premium)\<rparr>
    = Inr \<lparr>bq_valueOutE9 = uint vo, bq_valueInE9 = uint vi, bq_buyAmount = uint pay\<rparr>"
proof -
  have "uint (word_of_int (10000 - sint premium) :: u128) = 10000 - sint premium"
    using assms(2,3) by (intro u128_of_int) auto
  then have "uint vi = ceil_div (uint vo * (BPS - sint premium)) BPS"
    using mul_div_ceil_Inr [OF assms(4)] by (simp add: chain_simps BPS_def)
  then have "mulDivCeil (uint vo) (BPS - sint premium) BPS = Inr (uint vi)"
    using assms(2) by (simp add: math_simps BPS_def)
  then show ?thesis using value_parity [OF assms(1)] amount_parity [OF assms(5)] by (simp add: bidCost_def Let_def)
qed

end
