(* ===== verification/SdkState.thy ===== *)
theory SdkState
  imports JsString
begin

text \<open>
  \<open>packages/sdk/src/state.ts\<close>: the decoder of the on-chain index account, read by read in the
  order of the source, with the errors it throws. \<open>new PublicKey\<close> of 32 bytes is the key with
  those bytes; a shorter slice can only arise past the end of the data, where the next read throws.
\<close>

definition INDEX_ACCOUNT_LEN :: nat where "INDEX_ACCOUNT_LEN = 1304"
definition ACCOUNT_TAG_INDEX :: int where "ACCOUNT_TAG_INDEX = 0xF1"
definition COMPONENT_LEN :: nat where "COMPONENT_LEN = 64"
definition COMPONENTS_OFFSET :: nat where "COMPONENTS_OFFSET = 208"
definition REBALANCE_OFFSET :: nat where "REBALANCE_OFFSET = COMPONENTS_OFFSET + COMPONENT_LEN * 16"

datatype index_state = S_bootstrapping | S_live | S_paused

fun stateText :: "index_state \<Rightarrow> string" where
  "stateText S_bootstrapping = ''bootstrapping''"
| "stateText S_live = ''live''"
| "stateText S_paused = ''paused''"

record component_account =
  ca_mint :: pubkey
  ca_units :: int
  ca_targetUnits :: int
  ca_refPriceE9 :: int
  ca_decimals :: jsnum
  ca_vaultBump :: jsnum

record rebalance_account =
  ra_active :: bool
  ra_proposer :: pubkey
  ra_proposedAt :: jsnum
  ra_startTs :: jsnum
  ra_endTs :: jsnum
  ra_navFloorE6 :: int
  ra_startPremiumBps :: jsnum
  ra_endPremiumBps :: jsnum
  ra_maxNavLossBps :: jsnum

record index_account =
  xa_indexMint :: pubkey
  xa_governor :: pubkey
  xa_manager :: pubkey
  xa_feeRecipient :: pubkey
  xa_lastFeeAccrual :: jsnum
  xa_createdAt :: jsnum
  xa_rebalanceDelay :: jsnum
  xa_streamingFeeBps :: jsnum
  xa_issueFeeBps :: jsnum
  xa_redeemFeeBps :: jsnum
  xa_maxPremiumBps :: jsnum
  xa_version :: jsnum
  xa_bump :: jsnum
  xa_state :: index_state
  xa_decimals :: jsnum
  xa_name :: jsstring
  xa_symbol :: jsstring
  xa_components :: "component_account list"
  xa_rebalance :: rebalance_account

definition key :: "bytes \<Rightarrow> nat \<Rightarrow> pubkey" where
  "key data off = PublicKey (sub_bytes off 32 data)"

text \<open>\<open>indexOf(0)\<close> finds the first zero byte; without one the whole field is the text.\<close>

definition text_field :: "bytes \<Rightarrow> nat \<Rightarrow> nat \<Rightarrow> jsstring" where
  "text_field data off len = toString_utf8 (takeWhile (\<lambda>b. b \<noteq> 0) (sub_bytes off len data))"

definition stateName :: "jsnum \<Rightarrow> index_state result" where
  "stateName value =
     (if neq value (nint 0) then Inr S_bootstrapping
      else if neq value (nint 1) then Inr S_live
      else if neq value (nint 2) then Inr S_paused
      else Inl (Error [Lit ''Unknown index state '', PNum value]))"

definition readTimestamp :: "bytes \<Rightarrow> nat \<Rightarrow> jsnum result" where
  "readTimestamp data off = rmap number_of (readBigInt64LE data off)"

text \<open>The body of the loop over the component table.\<close>

definition decodeComponent :: "bytes \<Rightarrow> nat \<Rightarrow> component_account result" where
  "decodeComponent data i =
     (let base = COMPONENTS_OFFSET + i * COMPONENT_LEN in
      rbind (readBigUInt64LE data (base + 32)) (\<lambda>units.
      rbind (readBigUInt64LE data (base + 40)) (\<lambda>targetUnits.
      rbind (readBigUInt64LE data (base + 48)) (\<lambda>refPriceE9.
      rbind (readUInt8 data (base + 56)) (\<lambda>decimals.
      rbind (readUInt8 data (base + 57)) (\<lambda>vaultBump.
      Inr \<lparr>ca_mint = key data base, ca_units = units, ca_targetUnits = targetUnits,
           ca_refPriceE9 = refPriceE9, ca_decimals = decimals, ca_vaultBump = vaultBump\<rparr>))))))"

definition decodeRebalance :: "bytes \<Rightarrow> rebalance_account result" where
  "decodeRebalance data =
     rbind (readTimestamp data (REBALANCE_OFFSET + 32)) (\<lambda>proposedAt.
     rbind (readTimestamp data (REBALANCE_OFFSET + 40)) (\<lambda>startTs.
     rbind (readTimestamp data (REBALANCE_OFFSET + 48)) (\<lambda>endTs.
     rbind (readBigUInt64LE data (REBALANCE_OFFSET + 56)) (\<lambda>navFloorE6.
     rbind (readInt16LE data (REBALANCE_OFFSET + 64)) (\<lambda>startPremiumBps.
     rbind (readInt16LE data (REBALANCE_OFFSET + 66)) (\<lambda>endPremiumBps.
     rbind (readUInt16LE data (REBALANCE_OFFSET + 68)) (\<lambda>maxNavLossBps.
     rbind (readUInt8 data (REBALANCE_OFFSET + 70)) (\<lambda>active.
     Inr \<lparr>ra_active = neq active (nint 1), ra_proposer = key data REBALANCE_OFFSET,
          ra_proposedAt = proposedAt, ra_startTs = startTs, ra_endTs = endTs,
          ra_navFloorE6 = navFloorE6, ra_startPremiumBps = startPremiumBps,
          ra_endPremiumBps = endPremiumBps, ra_maxNavLossBps = maxNavLossBps\<rparr>))))))))"

definition decodeHeader :: "bytes \<Rightarrow> component_account list \<Rightarrow> index_account result" where
  "decodeHeader data components =
     rbind (readTimestamp data 128) (\<lambda>lastFeeAccrual.
     rbind (readTimestamp data 136) (\<lambda>createdAt.
     rbind (readUInt32LE data 144) (\<lambda>rebalanceDelay.
     rbind (readUInt16LE data 148) (\<lambda>streamingFeeBps.
     rbind (readUInt16LE data 150) (\<lambda>issueFeeBps.
     rbind (readUInt16LE data 152) (\<lambda>redeemFeeBps.
     rbind (readUInt16LE data 154) (\<lambda>maxPremiumBps.
     rbind (readUInt8 data 157) (\<lambda>version.
     rbind (readUInt8 data 158) (\<lambda>bump.
     rbind (rbind (readUInt8 data 159) stateName) (\<lambda>state.
     rbind (readUInt8 data 160) (\<lambda>decimals.
     rbind (decodeRebalance data) (\<lambda>rebalance.
     Inr \<lparr>xa_indexMint = key data 0, xa_governor = key data 32, xa_manager = key data 64,
          xa_feeRecipient = key data 96, xa_lastFeeAccrual = lastFeeAccrual, xa_createdAt = createdAt,
          xa_rebalanceDelay = rebalanceDelay, xa_streamingFeeBps = streamingFeeBps,
          xa_issueFeeBps = issueFeeBps, xa_redeemFeeBps = redeemFeeBps,
          xa_maxPremiumBps = maxPremiumBps, xa_version = version, xa_bump = bump, xa_state = state,
          xa_decimals = decimals, xa_name = text_field data 162 32, xa_symbol = text_field data 194 12,
          xa_components = components, xa_rebalance = rebalance\<rparr>))))))))))))"

definition decodeIndex :: "bytes \<Rightarrow> index_account result" where
  "decodeIndex data =
     (if length data < INDEX_ACCOUNT_LEN then
        Inl (Error [Lit ''Index account is '', PInt (int (length data)), Lit '' bytes, expected at least '',
                    PInt (int INDEX_ACCOUNT_LEN)])
      else rbind (readUInt8 data 156) (\<lambda>tag.
        if \<not> neq tag (nint ACCOUNT_TAG_INDEX) then Inl (Error [Lit ''Account is not a Flock index (wrong tag)''])
        else rbind (readUInt8 data 161) (\<lambda>componentCount.
             rbind (rmapM (decodeComponent data) [0..<nat (to_integer componentCount)]) (\<lambda>components.
             decodeHeader data components))))"

end
