(* ===== verification/ChainData.thy ===== *)
theory ChainData
  imports ChainMath JsBytes
begin

text \<open>
  The program's data: the instruction enum of \<open>program/src/instruction.rs\<close> with its Borsh
  bytes, and the account record of \<open>program/src/state.rs\<close> with its C layout. Explicit padding
  fields are always written as zeroes by the program and are not carried in the records.
\<close>

section \<open>Instructions\<close>

datatype flock_instruction =
    InitIndex "u8 list" "u8 list" u16 u16 u16 u16 u32
  | AddComponent u64
  | SealIndex
  | Issue u64 "u64 list"
  | Redeem u64 "u64 list"
  | AccrueFees
  | ProposeRebalance "u64 list" "u64 list" u32 i16 i16 u16
  | Bid u8 u8 u64 u64
  | EndRebalance
  | SetParams u16 u16 u16 u16 u32
  | SetAuthority u8 pubkey
  | SetPaused bool

definition le_word :: "nat \<Rightarrow> 'a::len word \<Rightarrow> bytes" where
  "le_word k w = le_bytes k (uint w)"

definition borsh_vec :: "u64 list \<Rightarrow> bytes" where
  "borsh_vec xs = le_bytes 4 (int (length xs)) @ concat (map (le_word 8) xs)"

fun borsh :: "flock_instruction \<Rightarrow> bytes" where
  "borsh (InitIndex name symbol sf isf rf mp delay) =
     le_bytes 1 0 @ name @ symbol @ le_word 2 sf @ le_word 2 isf @ le_word 2 rf @ le_word 2 mp @ le_word 4 delay"
| "borsh (AddComponent units) = le_bytes 1 1 @ le_word 8 units"
| "borsh SealIndex = le_bytes 1 2"
| "borsh (Issue amount max_in) = le_bytes 1 3 @ le_word 8 amount @ borsh_vec max_in"
| "borsh (Redeem amount min_out) = le_bytes 1 4 @ le_word 8 amount @ borsh_vec min_out"
| "borsh AccrueFees = le_bytes 1 5"
| "borsh (ProposeRebalance target_units ref_prices_e9 duration sp ep loss) =
     le_bytes 1 6 @ borsh_vec target_units @ borsh_vec ref_prices_e9 @ le_word 4 duration
     @ le_word 2 sp @ le_word 2 ep @ le_word 2 loss"
| "borsh (Bid s b sell_amount max_buy_amount) =
     le_bytes 1 7 @ le_word 1 s @ le_word 1 b @ le_word 8 sell_amount @ le_word 8 max_buy_amount"
| "borsh EndRebalance = le_bytes 1 8"
| "borsh (SetParams sf isf rf mp delay) =
     le_bytes 1 9 @ le_word 2 sf @ le_word 2 isf @ le_word 2 rf @ le_word 2 mp @ le_word 4 delay"
| "borsh (SetAuthority role new_authority) = le_bytes 1 10 @ le_word 1 role @ key_bytes new_authority"
| "borsh (SetPaused paused) = le_bytes 1 11 @ le_bytes 1 (if paused then 1 else 0)"

section \<open>The index account\<close>

record component =
  c_mint :: pubkey
  c_units :: u64
  c_target_units :: u64
  c_ref_price_e9 :: u64
  c_decimals :: u8
  c_vault_bump :: u8

record rebalance =
  r_proposer :: pubkey
  r_proposed_at :: i64
  r_start_ts :: i64
  r_end_ts :: i64
  r_nav_floor_e6 :: u64
  r_start_premium_bps :: i16
  r_end_premium_bps :: i16
  r_max_nav_loss_bps :: u16
  r_active :: u8

record index =
  x_index_mint :: pubkey
  x_governor :: pubkey
  x_manager :: pubkey
  x_fee_recipient :: pubkey
  x_last_fee_accrual :: i64
  x_created_at :: i64
  x_rebalance_delay :: u32
  x_streaming_fee_bps :: u16
  x_issue_fee_bps :: u16
  x_redeem_fee_bps :: u16
  x_max_premium_bps :: u16
  x_tag :: u8
  x_version :: u8
  x_bump :: u8
  x_state :: u8
  x_decimals :: u8
  x_component_count :: u8
  x_name :: bytes
  x_symbol :: bytes
  x_components :: "component list"
  x_rebalance :: rebalance

definition MAX_COMPONENTS :: nat where "MAX_COMPONENTS = 16"
definition INDEX_DECIMALS :: u8 where "INDEX_DECIMALS = 9"
definition TAG_INDEX :: u8 where "TAG_INDEX = 0xF1"
definition STATE_VERSION :: u8 where "STATE_VERSION = 1"
definition STATE_BOOTSTRAPPING :: u8 where "STATE_BOOTSTRAPPING = 0"
definition STATE_LIVE :: u8 where "STATE_LIVE = 1"
definition STATE_PAUSED :: u8 where "STATE_PAUSED = 2"

text \<open>The bytes of \<open>#[repr(C)]\<close>: fields in order, each at its own alignment by construction.\<close>

definition component_bytes :: "component \<Rightarrow> bytes" where
  "component_bytes c =
     key_bytes (c_mint c) @ le_word 8 (c_units c) @ le_word 8 (c_target_units c)
     @ le_word 8 (c_ref_price_e9 c) @ le_word 1 (c_decimals c) @ le_word 1 (c_vault_bump c)
     @ replicate 6 0"

definition rebalance_bytes :: "rebalance \<Rightarrow> bytes" where
  "rebalance_bytes r =
     key_bytes (r_proposer r) @ le_word 8 (r_proposed_at r) @ le_word 8 (r_start_ts r)
     @ le_word 8 (r_end_ts r) @ le_word 8 (r_nav_floor_e6 r) @ le_word 2 (r_start_premium_bps r)
     @ le_word 2 (r_end_premium_bps r) @ le_word 2 (r_max_nav_loss_bps r) @ le_word 1 (r_active r)
     @ replicate 1 0"

definition header_bytes :: "index \<Rightarrow> bytes" where
  "header_bytes x =
     key_bytes (x_index_mint x) @ key_bytes (x_governor x) @ key_bytes (x_manager x)
     @ key_bytes (x_fee_recipient x) @ le_word 8 (x_last_fee_accrual x) @ le_word 8 (x_created_at x)
     @ le_word 4 (x_rebalance_delay x) @ le_word 2 (x_streaming_fee_bps x) @ le_word 2 (x_issue_fee_bps x)
     @ le_word 2 (x_redeem_fee_bps x) @ le_word 2 (x_max_premium_bps x) @ le_word 1 (x_tag x)
     @ le_word 1 (x_version x) @ le_word 1 (x_bump x) @ le_word 1 (x_state x) @ le_word 1 (x_decimals x)
     @ le_word 1 (x_component_count x) @ x_name x @ x_symbol x @ replicate 2 0"

definition index_bytes :: "index \<Rightarrow> bytes" where
  "index_bytes x =
     header_bytes x @ concat (map component_bytes (x_components x)) @ rebalance_bytes (x_rebalance x)"

text \<open>The array sizes of the Rust types.\<close>

definition index_typed :: "index \<Rightarrow> bool" where
  "index_typed x \<longleftrightarrow>
     fits_key (x_index_mint x) \<and> fits_key (x_governor x) \<and> fits_key (x_manager x)
     \<and> fits_key (x_fee_recipient x) \<and> length (x_name x) = 32 \<and> length (x_symbol x) = 12
     \<and> length (x_components x) = MAX_COMPONENTS
     \<and> (\<forall>c\<in>set (x_components x). fits_key (c_mint c)) \<and> fits_key (r_proposer (x_rebalance x))"

lemma length_le_word [simp]: "length (le_word k w) = k"
  by (simp add: le_word_def)

lemma component_bytes_length: "fits_key (c_mint c) \<Longrightarrow> length (component_bytes c) = 64"
  by (simp add: component_bytes_def fits_key_def)

lemma rebalance_bytes_length: "fits_key (r_proposer r) \<Longrightarrow> length (rebalance_bytes r) = 72"
  by (simp add: rebalance_bytes_def fits_key_def)

lemma header_bytes_length: "index_typed x \<Longrightarrow> length (header_bytes x) = 208"
  by (simp add: header_bytes_def index_typed_def fits_key_def)

lemma components_bytes_length:
  assumes "\<forall>c\<in>set cs. fits_key (c_mint c)"
  shows "length (concat (map component_bytes cs)) = length cs * 64"
  using assms by (induction cs) (simp_all add: component_bytes_length)

lemma index_bytes_length:
  assumes "index_typed x" shows "length (index_bytes x) = 1304"
  using assms by (simp add: index_bytes_def header_bytes_length components_bytes_length
      rebalance_bytes_length index_typed_def MAX_COMPONENTS_def del: length_concat)

end
