(* ===== verification/SdkEncode.thy ===== *)
theory SdkEncode
  imports JsString
begin

text \<open>
  \<open>packages/sdk/src/encode.ts\<close>: the hand-written Borsh writer and the instruction tags. A
  writer is its list of chunks; every method returns the writer with one more chunk, or the
  range error of the \<open>Buffer\<close> method it calls.
\<close>

type_synonym writer = "bytes list"

definition new_writer :: writer where "new_writer = []"

definition push :: "writer \<Rightarrow> bytes \<Rightarrow> writer" where
  "push w b = w @ [b]"

definition w_u8 :: "jsnum \<Rightarrow> writer \<Rightarrow> writer result" where
  "w_u8 value w = rmap (push w) (writeUInt8 value)"

definition w_u16 :: "jsnum \<Rightarrow> writer \<Rightarrow> writer result" where
  "w_u16 value w = rmap (push w) (writeUInt16LE value)"

definition w_i16 :: "jsnum \<Rightarrow> writer \<Rightarrow> writer result" where
  "w_i16 value w = rmap (push w) (writeInt16LE value)"

definition w_u32 :: "jsnum \<Rightarrow> writer \<Rightarrow> writer result" where
  "w_u32 value w = rmap (push w) (writeUInt32LE value)"

text \<open>\<open>bigint | number\<close>; \<open>BigInt(value)\<close> is the identity on a bigint.\<close>

datatype intlike = BigV int | NumV jsnum

fun to_bigint :: "intlike \<Rightarrow> int result" where
  "to_bigint (BigV i) = Inr i"
| "to_bigint (NumV x) = bigint_of x"

definition w_u64 :: "intlike \<Rightarrow> writer \<Rightarrow> writer result" where
  "w_u64 value w = rbind (to_bigint value) (\<lambda>i. rmap (push w) (writeBigUInt64LE i))"

definition w_bytes :: "bytes \<Rightarrow> writer \<Rightarrow> writer result" where
  "w_bytes value w = Inr (push w value)"

text \<open>\<open>Buffer.alloc(n)\<close> is zero-filled; \<open>slice\<close> counts UTF-16 units, \<open>write\<close> bytes.\<close>

definition fixed_bytes :: "jsstring \<Rightarrow> nat \<Rightarrow> bytes" where
  "fixed_bytes text len =
     (let b = utf8_fill len (code_points (take len text)) in b @ replicate (len - length b) 0)"

definition w_fixed :: "jsstring \<Rightarrow> nat \<Rightarrow> writer \<Rightarrow> writer result" where
  "w_fixed text len w = Inr (push w (fixed_bytes text len))"

fun w_u64s :: "intlike list \<Rightarrow> writer \<Rightarrow> writer result" where
  "w_u64s [] w = Inr w"
| "w_u64s (value # values) w = rbind (w_u64 value w) (w_u64s values)"

definition w_vecU64 :: "intlike list \<Rightarrow> writer \<Rightarrow> writer result" where
  "w_vecU64 values w = rbind (w_u32 (nint (int (length values))) w) (w_u64s values)"

definition toBuffer :: "writer \<Rightarrow> bytes" where
  "toBuffer w = concat w"

datatype variant =
    V_InitIndex | V_AddComponent | V_SealIndex | V_Issue | V_Redeem | V_AccrueFees
  | V_ProposeRebalance | V_Bid | V_EndRebalance | V_SetParams | V_SetAuthority | V_SetPaused

fun VARIANT :: "variant \<Rightarrow> int" where
  "VARIANT V_InitIndex = 0"
| "VARIANT V_AddComponent = 1"
| "VARIANT V_SealIndex = 2"
| "VARIANT V_Issue = 3"
| "VARIANT V_Redeem = 4"
| "VARIANT V_AccrueFees = 5"
| "VARIANT V_ProposeRebalance = 6"
| "VARIANT V_Bid = 7"
| "VARIANT V_EndRebalance = 8"
| "VARIANT V_SetParams = 9"
| "VARIANT V_SetAuthority = 10"
| "VARIANT V_SetPaused = 11"

text \<open>A chain of method calls ending in \<open>toBuffer\<close>.\<close>

definition build :: "(writer \<Rightarrow> writer result) list \<Rightarrow> bytes result" where
  "build steps = rmap toBuffer (rfold (\<lambda>w f. f w) new_writer steps)"

section \<open>What a writer accumulates\<close>

text \<open>\<open>writes f bs\<close>: the step \<open>f\<close> succeeds on every writer and appends exactly \<open>bs\<close>.\<close>

definition writes :: "(writer \<Rightarrow> writer result) \<Rightarrow> bytes \<Rightarrow> bool" where
  "writes f bs \<longleftrightarrow> (\<forall>w. \<exists>w'. f w = Inr w' \<and> toBuffer w' = toBuffer w @ bs)"

named_theorems writes_intros \<open>what each writer method appends\<close>

lemma toBuffer_simps [simp]: "toBuffer new_writer = []" "toBuffer (push w b) = toBuffer w @ b"
  by (simp_all add: toBuffer_def new_writer_def push_def)

lemma writes_rmap_push: "r = Inr bs \<Longrightarrow> writes (\<lambda>w. rmap (push w) r) bs"
  by (simp add: writes_def)

lemma writes_seq:
  assumes "writes f bs" "writes g cs"
  shows "writes (\<lambda>w. rbind (f w) g) (bs @ cs)"
  unfolding writes_def
proof
  fix w
  obtain w' where w': "f w = Inr w'" "toBuffer w' = toBuffer w @ bs" using assms(1) by (auto simp: writes_def)
  obtain w'' where "g w' = Inr w''" "toBuffer w'' = toBuffer w' @ cs" using assms(2) by (auto simp: writes_def)
  then show "\<exists>w'. rbind (f w) g = Inr w' \<and> toBuffer w' = toBuffer w @ bs @ cs" using w' by simp
qed

lemma writes_u8 [writes_intros]: "0 \<le> i \<Longrightarrow> i < 256 \<Longrightarrow> writes (w_u8 (nint i)) (le_bytes 1 i)"
  unfolding w_u8_def writeUInt8_def by (intro writes_rmap_push write_num_nint) auto

lemma writes_u16 [writes_intros]: "0 \<le> i \<Longrightarrow> i < 65536 \<Longrightarrow> writes (w_u16 (nint i)) (le_bytes 2 i)"
  unfolding w_u16_def writeUInt16LE_def by (intro writes_rmap_push write_num_nint) auto

lemma writes_i16 [writes_intros]:
  "- 32768 \<le> i \<Longrightarrow> i < 32768 \<Longrightarrow> writes (w_i16 (nint i)) (le_bytes 2 i)"
  unfolding w_i16_def writeInt16LE_def by (intro writes_rmap_push write_num_nint) auto

lemma writes_u32 [writes_intros]:
  "0 \<le> i \<Longrightarrow> i < 4294967296 \<Longrightarrow> writes (w_u32 (nint i)) (le_bytes 4 i)"
  unfolding w_u32_def writeUInt32LE_def by (intro writes_rmap_push write_num_nint) auto

lemma writes_u64 [writes_intros]:
  "0 \<le> i \<Longrightarrow> i < 18446744073709551616 \<Longrightarrow> writes (w_u64 (BigV i)) (le_bytes 8 i)"
  by (simp add: writes_def w_u64_def writeBigUInt64LE_def)

lemma writes_bytes [writes_intros]: "writes (w_bytes bs) bs"
  by (simp add: writes_def w_bytes_def)

lemma writes_fixed [writes_intros]: "writes (w_fixed s n) (fixed_bytes s n)"
  by (simp add: writes_def w_fixed_def)

lemma writes_u64s:
  "\<forall>i\<in>set is. 0 \<le> i \<and> i < 18446744073709551616 \<Longrightarrow>
   writes (w_u64s (map BigV is)) (concat (map (le_bytes 8) is))"
proof (induction "is")
  case Nil
  then show ?case by (simp add: writes_def)
next
  case (Cons i "is")
  then show ?case using writes_seq [OF writes_u64 [of i] Cons.IH] by (simp add: writes_def)
qed

lemma writes_vecU64 [writes_intros]:
  assumes "\<forall>i\<in>set is. 0 \<le> i \<and> i < 18446744073709551616" "length is < 4294967296"
  shows "writes (w_vecU64 (map BigV is)) (le_bytes 4 (int (length is)) @ concat (map (le_bytes 8) is))"
proof -
  have "writes (w_u32 (nint (int (length (map BigV is))))) (le_bytes 4 (int (length is)))"
    using assms(2) by (simp add: writes_u32)
  from writes_seq [OF this writes_u64s [OF assms(1)]] show ?thesis
    by (simp add: writes_def w_vecU64_def)
qed

lemma rfold_writes:
  "list_all2 writes fs bss \<Longrightarrow> \<exists>w'. rfold (\<lambda>w f. f w) w fs = Inr w' \<and> toBuffer w' = toBuffer w @ concat bss"
proof (induction fs bss arbitrary: w rule: list_all2_induct)
  case (Cons f fs bs bss)
  from Cons(1) obtain w1 where "f w = Inr w1" "toBuffer w1 = toBuffer w @ bs" by (auto simp: writes_def)
  moreover obtain w2 where "rfold (\<lambda>w f. f w) w1 fs = Inr w2" "toBuffer w2 = toBuffer w1 @ concat bss"
    using Cons(3) [of w1] by blast
  ultimately show ?case by simp
qed simp

lemma build_writes: "list_all2 writes fs bss \<Longrightarrow> build fs = Inr (concat bss)"
  using rfold_writes [of fs bss new_writer] by (auto simp: build_def)

lemma list_all2_writes [writes_intros]:
  "list_all2 writes [] []"
  "writes f bs \<Longrightarrow> list_all2 writes fs bss \<Longrightarrow> list_all2 writes (f # fs) (bs # bss)"
  by simp_all

lemma fixed_bytes_length: "length (fixed_bytes s n) = n"
  using utf8_fill_le [of n "code_points (take n s)"] by (simp add: fixed_bytes_def Let_def)

section \<open>Refusals\<close>

lemma w_u64_range: "i < 0 \<or> 18446744073709551616 \<le> i \<Longrightarrow> w_u64 (BigV i) w = Inl RangeError"
  by (auto simp: w_u64_def writeBigUInt64LE_def)

lemma w_u16_range: "i < 0 \<or> 65536 \<le> i \<Longrightarrow> w_u16 (nint i) w = Inl RangeError"
  by (auto simp: w_u16_def writeUInt16LE_def write_num_def)

lemma w_u8_range: "i < 0 \<or> 256 \<le> i \<Longrightarrow> w_u8 (nint i) w = Inl RangeError"
  by (auto simp: w_u8_def writeUInt8_def write_num_def)

end
