(* ===== verification/SdkInstructions.thy ===== *)
theory SdkInstructions
  imports SdkEncode SdkProgram
begin

text \<open>
  \<open>packages/sdk/src/instructions.ts\<close>: the twelve instruction builders with their account
  lists. The ids and derivations of \<open>@solana/web3.js\<close> and \<open>@solana/spl-token\<close> come in as one
  record of parameters.
\<close>

record web3 =
  find_pda :: pda_finder
  SystemProgram_id :: pubkey
  TOKEN_PROGRAM_ID :: pubkey

record account_meta =
  am_pubkey :: pubkey
  am_isSigner :: bool
  am_isWritable :: bool

record transaction_instruction =
  ti_programId :: pubkey
  ti_keys :: "account_meta list"
  ti_data :: bytes

definition ro :: "pubkey \<Rightarrow> account_meta" where
  "ro k = \<lparr>am_pubkey = k, am_isSigner = False, am_isWritable = False\<rparr>"
definition rw :: "pubkey \<Rightarrow> account_meta" where
  "rw k = \<lparr>am_pubkey = k, am_isSigner = False, am_isWritable = True\<rparr>"
definition signerRo :: "pubkey \<Rightarrow> account_meta" where
  "signerRo k = \<lparr>am_pubkey = k, am_isSigner = True, am_isWritable = False\<rparr>"
definition signerRw :: "pubkey \<Rightarrow> account_meta" where
  "signerRw k = \<lparr>am_pubkey = k, am_isSigner = True, am_isWritable = True\<rparr>"

text \<open>The constructor, once the data has been written.\<close>

definition instruction :: "pubkey \<Rightarrow> account_meta list \<Rightarrow> bytes result \<Rightarrow> transaction_instruction result" where
  "instruction program keys data =
     rmap (\<lambda>d. \<lparr>ti_programId = program, ti_keys = keys, ti_data = d\<rparr>) data"

definition tag :: "variant \<Rightarrow> writer \<Rightarrow> writer result" where
  "tag v = w_u8 (nint (VARIANT v))"

definition index_of :: "web3 \<Rightarrow> pubkey \<Rightarrow> pubkey \<Rightarrow> pubkey" where
  "index_of w3 program indexMint = fst (indexPda (find_pda w3) program indexMint)"

definition vault_of :: "web3 \<Rightarrow> pubkey \<Rightarrow> pubkey \<Rightarrow> pubkey \<Rightarrow> pubkey" where
  "vault_of w3 program indexMint mint = fst (vaultPda (find_pda w3) program indexMint mint)"

section \<open>Creation\<close>

record init_index_args =
  ii_programId :: pubkey
  ii_payer :: pubkey
  ii_indexMint :: pubkey
  ii_governor :: pubkey
  ii_manager :: pubkey
  ii_feeRecipient :: pubkey
  ii_name :: jsstring
  ii_symbol :: jsstring
  ii_streamingFeeBps :: jsnum
  ii_issueFeeBps :: jsnum
  ii_redeemFeeBps :: jsnum
  ii_maxPremiumBps :: jsnum
  ii_rebalanceDelay :: jsnum

definition initIndex :: "web3 \<Rightarrow> init_index_args \<Rightarrow> transaction_instruction result" where
  "initIndex w3 args =
     instruction (ii_programId args)
       [signerRw (ii_payer args),
        rw (index_of w3 (ii_programId args) (ii_indexMint args)),
        ro (ii_indexMint args),
        ro (ii_governor args),
        ro (ii_manager args),
        ro (ii_feeRecipient args),
        ro (SystemProgram_id w3)]
       (build
         [tag V_InitIndex,
          w_fixed (ii_name args) 32,
          w_fixed (ii_symbol args) 12,
          w_u16 (ii_streamingFeeBps args),
          w_u16 (ii_issueFeeBps args),
          w_u16 (ii_redeemFeeBps args),
          w_u16 (ii_maxPremiumBps args),
          w_u32 (ii_rebalanceDelay args)])"

definition addComponent ::
  "web3 \<Rightarrow> pubkey \<Rightarrow> pubkey \<Rightarrow> pubkey \<Rightarrow> pubkey \<Rightarrow> pubkey \<Rightarrow> int \<Rightarrow> transaction_instruction result" where
  "addComponent w3 program manager payer indexMint componentMint units =
     instruction program
       [signerRo manager,
        signerRw payer,
        rw (index_of w3 program indexMint),
        ro indexMint,
        ro componentMint,
        rw (vault_of w3 program indexMint componentMint),
        ro (SystemProgram_id w3),
        ro (TOKEN_PROGRAM_ID w3)]
       (build [tag V_AddComponent, w_u64 (BigV units)])"

definition sealIndex :: "web3 \<Rightarrow> pubkey \<Rightarrow> pubkey \<Rightarrow> pubkey \<Rightarrow> transaction_instruction result" where
  "sealIndex w3 program manager indexMint =
     instruction program
       [signerRo manager, rw (index_of w3 program indexMint), ro indexMint]
       (build [tag V_SealIndex])"

section \<open>Issuance, redemption, fees\<close>

record component_pair =
  cp_mint :: pubkey
  cp_tokenAccount :: pubkey

definition componentMetas :: "web3 \<Rightarrow> pubkey \<Rightarrow> pubkey \<Rightarrow> component_pair list \<Rightarrow> account_meta list" where
  "componentMetas w3 program indexMint components =
     concat (map (\<lambda>component.
       [rw (vault_of w3 program indexMint (cp_mint component)), rw (cp_tokenAccount component)]) components)"

definition issue ::
  "web3 \<Rightarrow> pubkey \<Rightarrow> pubkey \<Rightarrow> pubkey \<Rightarrow> pubkey \<Rightarrow> pubkey \<Rightarrow> component_pair list \<Rightarrow> int \<Rightarrow> int list
   \<Rightarrow> transaction_instruction result" where
  "issue w3 program user indexMint userIndexAccount feeAccount components amount maxIn =
     instruction program
       ([signerRo user,
         rw (index_of w3 program indexMint),
         rw indexMint,
         rw userIndexAccount,
         rw feeAccount,
         ro (TOKEN_PROGRAM_ID w3)] @ componentMetas w3 program indexMint components)
       (build [tag V_Issue, w_u64 (BigV amount), w_vecU64 (map BigV maxIn)])"

definition redeem ::
  "web3 \<Rightarrow> pubkey \<Rightarrow> pubkey \<Rightarrow> pubkey \<Rightarrow> pubkey \<Rightarrow> pubkey \<Rightarrow> component_pair list \<Rightarrow> int \<Rightarrow> int list
   \<Rightarrow> transaction_instruction result" where
  "redeem w3 program user indexMint userIndexAccount feeAccount components amount minOut =
     instruction program
       ([signerRo user,
         rw (index_of w3 program indexMint),
         rw indexMint,
         rw userIndexAccount,
         rw feeAccount,
         ro (TOKEN_PROGRAM_ID w3)] @ componentMetas w3 program indexMint components)
       (build [tag V_Redeem, w_u64 (BigV amount), w_vecU64 (map BigV minOut)])"

definition accrueFees ::
  "web3 \<Rightarrow> pubkey \<Rightarrow> pubkey \<Rightarrow> pubkey \<Rightarrow> pubkey list \<Rightarrow> transaction_instruction result" where
  "accrueFees w3 program indexMint feeAccount componentMints =
     instruction program
       ([rw (index_of w3 program indexMint),
         rw indexMint,
         rw feeAccount,
         ro (TOKEN_PROGRAM_ID w3)]
        @ map (\<lambda>mint. ro (vault_of w3 program indexMint mint)) componentMints)
       (build [tag V_AccrueFees])"

section \<open>Rebalancing\<close>

record propose_args =
  pr_programId :: pubkey
  pr_manager :: pubkey
  pr_indexMint :: pubkey
  pr_componentMints :: "pubkey list"
  pr_targetUnits :: "int list"
  pr_refPricesE9 :: "int list"
  pr_duration :: jsnum
  pr_startPremiumBps :: jsnum
  pr_endPremiumBps :: jsnum
  pr_maxNavLossBps :: jsnum

definition proposeRebalance :: "web3 \<Rightarrow> propose_args \<Rightarrow> transaction_instruction result" where
  "proposeRebalance w3 args =
     instruction (pr_programId args)
       ([signerRo (pr_manager args),
         rw (index_of w3 (pr_programId args) (pr_indexMint args)),
         ro (pr_indexMint args)]
        @ map (\<lambda>mint. ro (vault_of w3 (pr_programId args) (pr_indexMint args) mint)) (pr_componentMints args))
       (build
         [tag V_ProposeRebalance,
          w_vecU64 (map BigV (pr_targetUnits args)),
          w_vecU64 (map BigV (pr_refPricesE9 args)),
          w_u32 (pr_duration args),
          w_i16 (pr_startPremiumBps args),
          w_i16 (pr_endPremiumBps args),
          w_u16 (pr_maxNavLossBps args)])"

record bid_ix_args =
  bi_programId :: pubkey
  bi_bidder :: pubkey
  bi_indexMint :: pubkey
  bi_componentMints :: "pubkey list"
  bi_bidderReceiveAccount :: pubkey
  bi_bidderPayAccount :: pubkey
  bi_sellComponent :: jsnum
  bi_buyComponent :: jsnum
  bi_sellAmount :: int
  bi_maxBuyAmount :: int

definition bid :: "web3 \<Rightarrow> bid_ix_args \<Rightarrow> transaction_instruction result" where
  "bid w3 args =
     instruction (bi_programId args)
       ([signerRo (bi_bidder args),
         rw (index_of w3 (bi_programId args) (bi_indexMint args)),
         ro (bi_indexMint args),
         rw (bi_bidderReceiveAccount args),
         rw (bi_bidderPayAccount args),
         ro (TOKEN_PROGRAM_ID w3)]
        @ map (\<lambda>mint. rw (vault_of w3 (bi_programId args) (bi_indexMint args) mint)) (bi_componentMints args))
       (build
         [tag V_Bid,
          w_u8 (bi_sellComponent args),
          w_u8 (bi_buyComponent args),
          w_u64 (BigV (bi_sellAmount args)),
          w_u64 (BigV (bi_maxBuyAmount args))])"

definition endRebalance ::
  "web3 \<Rightarrow> pubkey \<Rightarrow> pubkey \<Rightarrow> pubkey \<Rightarrow> pubkey list \<Rightarrow> transaction_instruction result" where
  "endRebalance w3 program caller indexMint componentMints =
     instruction program
       ([signerRo caller, rw (index_of w3 program indexMint), ro indexMint]
        @ map (\<lambda>mint. ro (vault_of w3 program indexMint mint)) componentMints)
       (build [tag V_EndRebalance])"

section \<open>Administration\<close>

record set_params_args =
  sp_programId :: pubkey
  sp_governor :: pubkey
  sp_indexMint :: pubkey
  sp_streamingFeeBps :: jsnum
  sp_issueFeeBps :: jsnum
  sp_redeemFeeBps :: jsnum
  sp_maxPremiumBps :: jsnum
  sp_rebalanceDelay :: jsnum

definition setParams :: "web3 \<Rightarrow> set_params_args \<Rightarrow> transaction_instruction result" where
  "setParams w3 args =
     instruction (sp_programId args)
       [signerRo (sp_governor args),
        rw (index_of w3 (sp_programId args) (sp_indexMint args)),
        ro (sp_indexMint args)]
       (build
         [tag V_SetParams,
          w_u16 (sp_streamingFeeBps args),
          w_u16 (sp_issueFeeBps args),
          w_u16 (sp_redeemFeeBps args),
          w_u16 (sp_maxPremiumBps args),
          w_u32 (sp_rebalanceDelay args)])"

datatype role = R_governor | R_manager | R_feeRecipient

fun ROLE :: "role \<Rightarrow> int" where
  "ROLE R_governor = 0"
| "ROLE R_manager = 1"
| "ROLE R_feeRecipient = 2"

definition setAuthority ::
  "web3 \<Rightarrow> pubkey \<Rightarrow> pubkey \<Rightarrow> pubkey \<Rightarrow> role \<Rightarrow> pubkey \<Rightarrow> transaction_instruction result" where
  "setAuthority w3 program governor indexMint role newAuthority =
     instruction program
       [signerRo governor, rw (index_of w3 program indexMint), ro indexMint]
       (build [tag V_SetAuthority, w_u8 (nint (ROLE role)), w_bytes (key_bytes newAuthority)])"

definition setPaused :: "web3 \<Rightarrow> pubkey \<Rightarrow> pubkey \<Rightarrow> pubkey \<Rightarrow> bool \<Rightarrow> transaction_instruction result" where
  "setPaused w3 program caller indexMint paused =
     instruction program
       [signerRo caller, rw (index_of w3 program indexMint), ro indexMint]
       (build [tag V_SetPaused, w_u8 (nint (if paused then 1 else 0))])"

lemma writes_tag [writes_intros]: "writes (tag v) (le_bytes 1 (VARIANT v))"
  unfolding tag_def by (rule writes_u8; cases v; simp)

lemma instruction_build:
  "list_all2 writes fs bss \<Longrightarrow>
   instruction p keys (build fs) = Inr \<lparr>ti_programId = p, ti_keys = keys, ti_data = concat bss\<rparr>"
  by (simp add: instruction_def build_writes)

end
