(* ===== verification/ChainBuilders.thy ===== *)
theory ChainBuilders
  imports ChainData SdkInstructions
begin

text \<open>
  \<open>program/src/builders.rs\<close>: the program crate's own instruction builders, over machine words
  and UTF-8 text. \<open>Pubkey::find_program_address\<close> and the two program ids are the same
  parameters as the client's.
\<close>

text \<open>\<open>fixed::<N>\<close> copies the first \<open>N\<close> bytes, wherever a character ends.\<close>

definition fixed_field :: "nat \<Rightarrow> bytes \<Rightarrow> bytes" where
  "fixed_field n text = take n text @ replicate (n - length text) 0"

definition build_ix :: "pubkey \<Rightarrow> account_meta list \<Rightarrow> flock_instruction \<Rightarrow> transaction_instruction" where
  "build_ix program accounts ix = \<lparr>ti_programId = program, ti_keys = accounts, ti_data = borsh ix\<rparr>"

record init_args =
  ia_name :: bytes
  ia_symbol :: bytes
  ia_streaming_fee_bps :: u16
  ia_issue_fee_bps :: u16
  ia_redeem_fee_bps :: u16
  ia_max_premium_bps :: u16
  ia_rebalance_delay :: u32

definition b_init_index ::
  "web3 \<Rightarrow> pubkey \<Rightarrow> pubkey \<Rightarrow> pubkey \<Rightarrow> pubkey \<Rightarrow> pubkey \<Rightarrow> pubkey \<Rightarrow> init_args \<Rightarrow> transaction_instruction" where
  "b_init_index w3 program payer index_mint governor manager fee_recipient args =
     build_ix program
       [signerRw payer, rw (index_of w3 program index_mint), ro index_mint, ro governor, ro manager,
        ro fee_recipient, ro (SystemProgram_id w3)]
       (InitIndex (ia_name args) (ia_symbol args) (ia_streaming_fee_bps args) (ia_issue_fee_bps args)
         (ia_redeem_fee_bps args) (ia_max_premium_bps args) (ia_rebalance_delay args))"

definition b_add_component ::
  "web3 \<Rightarrow> pubkey \<Rightarrow> pubkey \<Rightarrow> pubkey \<Rightarrow> pubkey \<Rightarrow> pubkey \<Rightarrow> u64 \<Rightarrow> transaction_instruction" where
  "b_add_component w3 program manager payer index_mint component_mint units =
     build_ix program
       [signerRo manager, signerRw payer, rw (index_of w3 program index_mint), ro index_mint,
        ro component_mint, rw (vault_of w3 program index_mint component_mint), ro (SystemProgram_id w3),
        ro (TOKEN_PROGRAM_ID w3)]
       (AddComponent units)"

definition b_seal_index :: "web3 \<Rightarrow> pubkey \<Rightarrow> pubkey \<Rightarrow> pubkey \<Rightarrow> transaction_instruction" where
  "b_seal_index w3 program manager index_mint =
     build_ix program [signerRo manager, rw (index_of w3 program index_mint), ro index_mint] SealIndex"

text \<open>The loop that pushes two accounts per component.\<close>

fun push_pairs :: "web3 \<Rightarrow> pubkey \<Rightarrow> pubkey \<Rightarrow> (pubkey \<times> pubkey) list \<Rightarrow> account_meta list \<Rightarrow> account_meta list" where
  "push_pairs w3 program index_mint [] accounts = accounts"
| "push_pairs w3 program index_mint ((mint, user_account) # cs) accounts =
     push_pairs w3 program index_mint cs
       (accounts @ [rw (vault_of w3 program index_mint mint)] @ [rw user_account])"

definition b_issue ::
  "web3 \<Rightarrow> pubkey \<Rightarrow> pubkey \<Rightarrow> pubkey \<Rightarrow> pubkey \<Rightarrow> pubkey \<Rightarrow> (pubkey \<times> pubkey) list \<Rightarrow> u64 \<Rightarrow> u64 list
   \<Rightarrow> transaction_instruction" where
  "b_issue w3 program user index_mint user_index_ata fee_ata components amount max_in =
     build_ix program
       (push_pairs w3 program index_mint components
         [signerRo user, rw (index_of w3 program index_mint), rw index_mint, rw user_index_ata, rw fee_ata,
          ro (TOKEN_PROGRAM_ID w3)])
       (Issue amount max_in)"

definition b_redeem ::
  "web3 \<Rightarrow> pubkey \<Rightarrow> pubkey \<Rightarrow> pubkey \<Rightarrow> pubkey \<Rightarrow> pubkey \<Rightarrow> (pubkey \<times> pubkey) list \<Rightarrow> u64 \<Rightarrow> u64 list
   \<Rightarrow> transaction_instruction" where
  "b_redeem w3 program user index_mint user_index_ata fee_ata components amount min_out =
     build_ix program
       (push_pairs w3 program index_mint components
         [signerRo user, rw (index_of w3 program index_mint), rw index_mint, rw user_index_ata, rw fee_ata,
          ro (TOKEN_PROGRAM_ID w3)])
       (Redeem amount min_out)"

text \<open>The loop that pushes one vault per component, read-only or writable.\<close>

fun push_vaults ::
  "web3 \<Rightarrow> pubkey \<Rightarrow> pubkey \<Rightarrow> (pubkey \<Rightarrow> account_meta) \<Rightarrow> pubkey list \<Rightarrow> account_meta list \<Rightarrow> account_meta list" where
  "push_vaults w3 program index_mint meta [] accounts = accounts"
| "push_vaults w3 program index_mint meta (mint # mints) accounts =
     push_vaults w3 program index_mint meta mints (accounts @ [meta (vault_of w3 program index_mint mint)])"

definition b_accrue_fees :: "web3 \<Rightarrow> pubkey \<Rightarrow> pubkey \<Rightarrow> pubkey \<Rightarrow> pubkey list \<Rightarrow> transaction_instruction" where
  "b_accrue_fees w3 program index_mint fee_ata component_mints =
     build_ix program
       (push_vaults w3 program index_mint ro component_mints
         [rw (index_of w3 program index_mint), rw index_mint, rw fee_ata, ro (TOKEN_PROGRAM_ID w3)])
       AccrueFees"

record auction_args =
  aa_duration :: u32
  aa_start_premium_bps :: i16
  aa_end_premium_bps :: i16
  aa_max_nav_loss_bps :: u16

definition b_propose_rebalance ::
  "web3 \<Rightarrow> pubkey \<Rightarrow> pubkey \<Rightarrow> pubkey \<Rightarrow> pubkey list \<Rightarrow> u64 list \<Rightarrow> u64 list \<Rightarrow> auction_args
   \<Rightarrow> transaction_instruction" where
  "b_propose_rebalance w3 program manager index_mint component_mints target_units ref_prices_e9 args =
     build_ix program
       (push_vaults w3 program index_mint ro component_mints
         [signerRo manager, rw (index_of w3 program index_mint), ro index_mint])
       (ProposeRebalance target_units ref_prices_e9 (aa_duration args) (aa_start_premium_bps args)
         (aa_end_premium_bps args) (aa_max_nav_loss_bps args))"

definition b_bid ::
  "web3 \<Rightarrow> pubkey \<Rightarrow> pubkey \<Rightarrow> pubkey \<Rightarrow> pubkey list \<Rightarrow> pubkey \<Rightarrow> pubkey \<Rightarrow> u8 \<Rightarrow> u8 \<Rightarrow> u64 \<Rightarrow> u64
   \<Rightarrow> transaction_instruction" where
  "b_bid w3 program bidder index_mint component_mints bidder_receive bidder_pay s b sell_amount max_buy_amount =
     build_ix program
       (push_vaults w3 program index_mint rw component_mints
         [signerRo bidder, rw (index_of w3 program index_mint), ro index_mint, rw bidder_receive, rw bidder_pay,
          ro (TOKEN_PROGRAM_ID w3)])
       (Bid s b sell_amount max_buy_amount)"

definition b_end_rebalance :: "web3 \<Rightarrow> pubkey \<Rightarrow> pubkey \<Rightarrow> pubkey \<Rightarrow> pubkey list \<Rightarrow> transaction_instruction" where
  "b_end_rebalance w3 program caller index_mint component_mints =
     build_ix program
       (push_vaults w3 program index_mint ro component_mints
         [signerRo caller, rw (index_of w3 program index_mint), ro index_mint])
       EndRebalance"

definition b_set_params ::
  "web3 \<Rightarrow> pubkey \<Rightarrow> pubkey \<Rightarrow> pubkey \<Rightarrow> u16 \<Rightarrow> u16 \<Rightarrow> u16 \<Rightarrow> u16 \<Rightarrow> u32 \<Rightarrow> transaction_instruction" where
  "b_set_params w3 program governor index_mint sf isf rf mp delay =
     build_ix program [signerRo governor, rw (index_of w3 program index_mint), ro index_mint]
       (SetParams sf isf rf mp delay)"

definition b_set_authority ::
  "web3 \<Rightarrow> pubkey \<Rightarrow> pubkey \<Rightarrow> pubkey \<Rightarrow> u8 \<Rightarrow> pubkey \<Rightarrow> transaction_instruction" where
  "b_set_authority w3 program governor index_mint role new_authority =
     build_ix program [signerRo governor, rw (index_of w3 program index_mint), ro index_mint]
       (SetAuthority role new_authority)"

definition b_set_paused :: "web3 \<Rightarrow> pubkey \<Rightarrow> pubkey \<Rightarrow> pubkey \<Rightarrow> bool \<Rightarrow> transaction_instruction" where
  "b_set_paused w3 program caller index_mint paused =
     build_ix program [signerRo caller, rw (index_of w3 program index_mint), ro index_mint] (SetPaused paused)"

lemma push_vaults_map:
  "push_vaults w3 p m meta mints accounts = accounts @ map (\<lambda>mint. meta (vault_of w3 p m mint)) mints"
  by (induction mints arbitrary: accounts) auto

lemma push_pairs_metas:
  "push_pairs w3 p m (map (\<lambda>c. (cp_mint c, cp_tokenAccount c)) cs) accounts = accounts @ componentMetas w3 p m cs"
  by (induction cs arbitrary: accounts) (auto simp: componentMetas_def)

end
