(* ===== verification/InstructionParity.thy ===== *)
theory InstructionParity
  imports ChainBuilders
begin

text \<open>
  The client's instruction builders against the program crate's: for every machine-word argument
  the two produce the same program id, the same account list and the same bytes. The one
  divergence is the padded name field, where a text longer than the field is cut at a character
  by the client and at a byte by the program crate.
\<close>

section \<open>Words as written by the client\<close>

lemma le_bytes_mod: "le_bytes k (n mod 256 ^ k) = le_bytes k n"
proof -
  have "le_bytes k (le_val (le_bytes k n)) = le_bytes k n" by (rule le_bytes_le_val) simp
  then show ?thesis by (simp add: le_val_le_bytes)
qed


lemma le_bytes_sint16: "le_bytes 2 (sint (x :: 16 word)) = le_word 2 x"
proof -
  have "uint (word_of_int (sint x) :: 16 word) = sint x mod 2 ^ LENGTH(16)" by (rule uint_word_of_int)
  then have "sint x mod 256 ^ 2 = uint x" by simp
  then show ?thesis by (metis le_bytes_mod le_word_def)
qed

lemma word_ranges:
  "0 \<le> uint (w :: 'a::len word)" "uint (a :: u64) < 18446744073709551616"
  "uint (b :: u32) < 4294967296" "uint (c :: u16) < 65536" "uint (d :: u8) < 256"
  "- 32768 \<le> sint (c :: i16)" "sint (c :: i16) < 32768"
  using uint_lt2p [of a] uint_lt2p [of b] uint_lt2p [of c] uint_lt2p [of d] sint_ge [of c] sint_lt [of c]
  by simp_all

lemma writes_word [writes_intros]:
  "writes (w_u8 (nint (uint (d :: u8)))) (le_word 1 d)"
  "writes (w_u16 (nint (uint (c :: u16)))) (le_word 2 c)"
  "writes (w_i16 (nint (sint (c :: i16)))) (le_word 2 c)"
  "writes (w_u32 (nint (uint (b :: u32)))) (le_word 4 b)"
  "writes (w_u64 (BigV (uint (a :: u64)))) (le_word 8 a)"
  using writes_u8 [of "uint d"] writes_u16 [of "uint c"] writes_i16 [of "sint c"] writes_u32 [of "uint b"]
    writes_u64 [of "uint a"]
  by (simp_all add: word_ranges le_bytes_sint16 flip: le_word_def)

lemma writes_words [writes_intros]:
  assumes "length (ws :: u64 list) < 2 ^ 32"
  shows "writes (w_vecU64 (map BigV (map uint ws))) (borsh_vec ws)"
proof -
  have e: "le_bytes 8 \<circ> uint = (le_word 8 :: u64 \<Rightarrow> bytes)" by (rule ext) (simp add: le_word_def)
  have "\<forall>i\<in>set (map uint ws). 0 \<le> i \<and> i < 18446744073709551616" by (auto simp: word_ranges)
  moreover have "length (map uint ws) < 4294967296" using assms by simp
  ultimately have "writes (w_vecU64 (map BigV (map uint ws)))
     (le_bytes 4 (int (length (map uint ws))) @ concat (map (le_bytes 8) (map uint ws)))"
    by (rule writes_vecU64)
  then show ?thesis by (simp add: borsh_vec_def e)
qed

section \<open>Padded text\<close>

lemma length_utf8_char: "1 \<le> length (utf8_char c)" "0x10000 \<le> c \<Longrightarrow> length (utf8_char c) = 4"
  by (simp_all add: utf8_char_def)

lemma utf16_length_le: "length s \<le> length (utf8 (code_points s))"
proof (induction s rule: code_points.induct)
  case (3 u v us)
  show ?case
  proof (cases "is_high u \<and> is_low v")
    case True
    then have "0x10000 \<le> 0x10000 + (uint u - 0xD800) * 0x400 + (uint v - 0xDC00)"
      by (simp add: is_high_def is_low_def)
    then show ?thesis using 3(1) [OF True] True length_utf8_char(2) by (simp add: utf8_def)
  next
    case False
    let ?c = "if is_high u \<or> is_low u then 0xFFFD else uint u"
    have "utf8 (code_points (u # v # us)) = utf8_char ?c @ utf8 (code_points (v # us))"
      using False by (simp only: code_points.simps if_False utf8_def list.map concat.simps)
    then show ?thesis using 3(2) [OF False] length_utf8_char(1) [of ?c] by simp
  qed
qed (use length_utf8_char(1) in \<open>auto simp: utf8_def\<close>)

lemma fixed_parity:
  assumes "length (utf8 (code_points s)) \<le> n"
  shows "fixed_bytes s n = fixed_field n (utf8 (code_points s))"
proof -
  have "take n s = s" using utf16_length_le [of s] assms by simp
  then show ?thesis using assms by (simp add: fixed_bytes_def fixed_field_def utf8_fill_all Let_def)
qed

section \<open>The twelve instructions\<close>

definition init_args_of :: "init_index_args \<Rightarrow> u16 \<Rightarrow> u16 \<Rightarrow> u16 \<Rightarrow> u16 \<Rightarrow> u32 \<Rightarrow> init_args" where
  "init_args_of a sf isf rf mp delay =
     \<lparr>ia_name = fixed_field 32 (utf8 (code_points (ii_name a))),
      ia_symbol = fixed_field 12 (utf8 (code_points (ii_symbol a))),
      ia_streaming_fee_bps = sf, ia_issue_fee_bps = isf, ia_redeem_fee_bps = rf,
      ia_max_premium_bps = mp, ia_rebalance_delay = delay\<rparr>"

lemma writes_fixed_parity [writes_intros]:
  "length (utf8 (code_points s)) \<le> n \<Longrightarrow> writes (w_fixed s n) (fixed_field n (utf8 (code_points s)))"
  using writes_fixed [of s n] by (simp add: fixed_parity)

lemma instruction_borsh:
  "list_all2 writes fs bss \<Longrightarrow> concat bss = borsh ix \<Longrightarrow>
   instruction p keys (build fs) = Inr (build_ix p keys ix)"
  by (simp add: instruction_build build_ix_def)

text \<open>C16: For every argument in range the client's builders for creating and administering an index
  produce the same program, account list and data bytes as the program's own builders.
\<close>

theorem creation_admin_builders_agree:
  assumes "length (utf8 (code_points (ii_name a))) \<le> 32" "length (utf8 (code_points (ii_symbol a))) \<le> 12"
    and "ii_streamingFeeBps a = nint (uint sf)" "ii_issueFeeBps a = nint (uint isf)"
    and "ii_redeemFeeBps a = nint (uint rf)" "ii_maxPremiumBps a = nint (uint mp)"
    and "ii_rebalanceDelay a = nint (uint delay)"
  shows "initIndex w3 a = Inr (b_init_index w3 (ii_programId a) (ii_payer a) (ii_indexMint a) (ii_governor a)
             (ii_manager a) (ii_feeRecipient a) (init_args_of a sf isf rf mp delay))
    \<and> addComponent w3 p who payer m c (uint units) = Inr (b_add_component w3 p who payer m c units)
    \<and> sealIndex w3 p who m = Inr (b_seal_index w3 p who m)
    \<and> setParams w3 \<lparr>sp_programId = p, sp_governor = who, sp_indexMint = m,
          sp_streamingFeeBps = nint (uint sf), sp_issueFeeBps = nint (uint isf),
          sp_redeemFeeBps = nint (uint rf), sp_maxPremiumBps = nint (uint mp),
          sp_rebalanceDelay = nint (uint delay)\<rparr> = Inr (b_set_params w3 p who m sf isf rf mp delay)
    \<and> setAuthority w3 p who m r c = Inr (b_set_authority w3 p who m (word_of_int (ROLE r)) c)
    \<and> setPaused w3 p who m flag = Inr (b_set_paused w3 p who m flag)"
proof (intro conjI)
  show "initIndex w3 a = Inr (b_init_index w3 (ii_programId a) (ii_payer a) (ii_indexMint a) (ii_governor a)
             (ii_manager a) (ii_feeRecipient a) (init_args_of a sf isf rf mp delay))"
    unfolding initIndex_def b_init_index_def assms(3-7)
    by (rule instruction_borsh) (rule writes_intros assms(1,2) | simp add: init_args_of_def)+
  show "addComponent w3 p who payer m c (uint units) = Inr (b_add_component w3 p who payer m c units)"
    unfolding addComponent_def b_add_component_def
    by (rule instruction_borsh) (rule writes_intros | simp)+
  show "sealIndex w3 p who m = Inr (b_seal_index w3 p who m)"
    unfolding sealIndex_def b_seal_index_def by (rule instruction_borsh) (rule writes_intros | simp)+
  show "setParams w3 \<lparr>sp_programId = p, sp_governor = who, sp_indexMint = m,
          sp_streamingFeeBps = nint (uint sf), sp_issueFeeBps = nint (uint isf),
          sp_redeemFeeBps = nint (uint rf), sp_maxPremiumBps = nint (uint mp),
          sp_rebalanceDelay = nint (uint delay)\<rparr> = Inr (b_set_params w3 p who m sf isf rf mp delay)"
    unfolding setParams_def b_set_params_def set_params_args.simps
    by (rule instruction_borsh) (rule writes_intros | simp)+
  have "0 \<le> ROLE r" "ROLE r < 256" by (cases r; simp)+
  then have w: "writes (w_u8 (nint (ROLE r))) (le_word 1 (word_of_int (ROLE r) :: u8))"
    using writes_u8 [of "ROLE r"] by (simp add: le_word_def uint_word_of_int)
  show "setAuthority w3 p who m r c = Inr (b_set_authority w3 p who m (word_of_int (ROLE r)) c)"
    unfolding setAuthority_def b_set_authority_def
    by (rule instruction_borsh) (rule list_all2_writes writes_tag writes_bytes w | simp)+
  show "setPaused w3 p who m flag = Inr (b_set_paused w3 p who m flag)"
    unfolding setPaused_def b_set_paused_def
    by (rule instruction_borsh) (rule writes_intros | simp)+
qed

theorem creation_admin_builders_agree_witness:
  "\<exists>a. (\<forall>w3. initIndex w3 a = Inr (b_init_index w3 (ii_programId a) (ii_payer a) (ii_indexMint a) (ii_governor a)
             (ii_manager a) (ii_feeRecipient a) (init_args_of a 200 0 30 500 3600)))
    \<and> ii_name a = js ''Solana DeFi'' \<and> ii_symbol a = js ''SDX''"
proof -
  define k where "k = PublicKey (replicate 32 7)"
  define a where "a = \<lparr>ii_programId = k, ii_payer = k, ii_indexMint = k, ii_governor = k, ii_manager = k,
     ii_feeRecipient = k, ii_name = js ''Solana DeFi'', ii_symbol = js ''SDX'', ii_streamingFeeBps = nint 200,
     ii_issueFeeBps = nint 0, ii_redeemFeeBps = nint 30, ii_maxPremiumBps = nint 500, ii_rebalanceDelay = nint 3600\<rparr>"
  have "length (utf8 (code_points (ii_name a))) \<le> 32" "length (utf8 (code_points (ii_symbol a))) \<le> 12"
    by (simp_all add: a_def js_def is_high_def utf8_def utf8_char_def is_low_def)
  moreover have "ii_streamingFeeBps a = nint (uint (200 :: u16))" "ii_issueFeeBps a = nint (uint (0 :: u16))"
    "ii_redeemFeeBps a = nint (uint (30 :: u16))" "ii_maxPremiumBps a = nint (uint (500 :: u16))"
    "ii_rebalanceDelay a = nint (uint (3600 :: u32))"
    by (simp_all add: a_def)
  ultimately have "initIndex w3 a = Inr (b_init_index w3 (ii_programId a) (ii_payer a) (ii_indexMint a)
      (ii_governor a) (ii_manager a) (ii_feeRecipient a) (init_args_of a 200 0 30 500 3600))" for w3
    by (rule creation_admin_builders_agree [THEN conjunct1])
  moreover have "ii_name a = js ''Solana DeFi''" "ii_symbol a = js ''SDX''" by (simp_all add: a_def)
  ultimately show ?thesis by blast
qed

section \<open>Instructions that move funds\<close>

text \<open>C13: For every argument in range the client's issue, redeem, accrue, propose, bid and end
  builders produce the same program, account list and data bytes as the program's own builders.
\<close>

theorem fund_builders_agree:
  fixes amount :: u64 and bounds targets prices :: "u64 list"
  assumes "length bounds < 2 ^ 32" "length targets < 2 ^ 32" "length prices < 2 ^ 32"
  shows "issue w3 p who m ata fee cs (uint amount) (map uint bounds)
      = Inr (b_issue w3 p who m ata fee (map (\<lambda>c. (cp_mint c, cp_tokenAccount c)) cs) amount bounds)
    \<and> redeem w3 p who m ata fee cs (uint amount) (map uint bounds)
      = Inr (b_redeem w3 p who m ata fee (map (\<lambda>c. (cp_mint c, cp_tokenAccount c)) cs) amount bounds)
    \<and> accrueFees w3 p m fee mints = Inr (b_accrue_fees w3 p m fee mints)
    \<and> proposeRebalance w3 \<lparr>pr_programId = p, pr_manager = who, pr_indexMint = m, pr_componentMints = mints,
          pr_targetUnits = map uint targets, pr_refPricesE9 = map uint prices,
          pr_duration = nint (uint (aa_duration q)),
          pr_startPremiumBps = nint (sint (aa_start_premium_bps q)),
          pr_endPremiumBps = nint (sint (aa_end_premium_bps q)),
          pr_maxNavLossBps = nint (uint (aa_max_nav_loss_bps q))\<rparr>
      = Inr (b_propose_rebalance w3 p who m mints targets prices q)
    \<and> bid w3 \<lparr>bi_programId = p, bi_bidder = who, bi_indexMint = m, bi_componentMints = mints,
          bi_bidderReceiveAccount = ata, bi_bidderPayAccount = fee, bi_sellComponent = nint (uint s),
          bi_buyComponent = nint (uint b), bi_sellAmount = uint amount, bi_maxBuyAmount = uint bound\<rparr>
      = Inr (b_bid w3 p who m mints ata fee s b amount bound)
    \<and> endRebalance w3 p who m mints = Inr (b_end_rebalance w3 p who m mints)"
proof (intro conjI)
  show "issue w3 p who m ata fee cs (uint amount) (map uint bounds)
      = Inr (b_issue w3 p who m ata fee (map (\<lambda>c. (cp_mint c, cp_tokenAccount c)) cs) amount bounds)"
    unfolding issue_def b_issue_def push_pairs_metas
    by (rule instruction_borsh) (rule writes_intros assms(1) | simp)+
  show "redeem w3 p who m ata fee cs (uint amount) (map uint bounds)
      = Inr (b_redeem w3 p who m ata fee (map (\<lambda>c. (cp_mint c, cp_tokenAccount c)) cs) amount bounds)"
    unfolding redeem_def b_redeem_def push_pairs_metas
    by (rule instruction_borsh) (rule writes_intros assms(1) | simp)+
  show "accrueFees w3 p m fee mints = Inr (b_accrue_fees w3 p m fee mints)"
    unfolding accrueFees_def b_accrue_fees_def push_vaults_map
    by (rule instruction_borsh) (rule writes_intros | simp)+
  show "proposeRebalance w3 \<lparr>pr_programId = p, pr_manager = who, pr_indexMint = m, pr_componentMints = mints,
          pr_targetUnits = map uint targets, pr_refPricesE9 = map uint prices,
          pr_duration = nint (uint (aa_duration q)),
          pr_startPremiumBps = nint (sint (aa_start_premium_bps q)),
          pr_endPremiumBps = nint (sint (aa_end_premium_bps q)),
          pr_maxNavLossBps = nint (uint (aa_max_nav_loss_bps q))\<rparr>
      = Inr (b_propose_rebalance w3 p who m mints targets prices q)"
    unfolding proposeRebalance_def b_propose_rebalance_def push_vaults_map propose_args.simps
    by (rule instruction_borsh) (rule writes_intros assms(2,3) | simp)+
  show "bid w3 \<lparr>bi_programId = p, bi_bidder = who, bi_indexMint = m, bi_componentMints = mints,
          bi_bidderReceiveAccount = ata, bi_bidderPayAccount = fee, bi_sellComponent = nint (uint s),
          bi_buyComponent = nint (uint b), bi_sellAmount = uint amount, bi_maxBuyAmount = uint bound\<rparr>
      = Inr (b_bid w3 p who m mints ata fee s b amount bound)"
    unfolding bid_def b_bid_def push_vaults_map bid_ix_args.simps
    by (rule instruction_borsh) (rule writes_intros | simp)+
  show "endRebalance w3 p who m mints = Inr (b_end_rebalance w3 p who m mints)"
    unfolding endRebalance_def b_end_rebalance_def push_vaults_map
    by (rule instruction_borsh) (rule writes_intros | simp)+
qed

theorem fund_builders_agree_witness:
  "\<forall>w3 p who m ata fee k t. issue w3 p who m ata fee [\<lparr>cp_mint = k, cp_tokenAccount = t\<rparr>] 5000000000 [17]
     = Inr (b_issue w3 p who m ata fee [(k, t)] 5000000000 [17])"
proof (intro allI)
  fix w3 p who m ata fee k t
  show "issue w3 p who m ata fee [\<lparr>cp_mint = k, cp_tokenAccount = t\<rparr>] 5000000000 [17]
     = Inr (b_issue w3 p who m ata fee [(k, t)] 5000000000 [17])"
    using fund_builders_agree [of "[17]" "[1]" "[2]" w3 p who m ata fee "[\<lparr>cp_mint = k, cp_tokenAccount = t\<rparr>]" 5000000000,
        THEN conjunct1]
    by simp
qed

section \<open>The divergence\<close>

lemma code_points_ascii: "us \<noteq> [] \<Longrightarrow> code_points (replicate n 97 @ us) = replicate n 97 @ code_points us"
proof (induction n)
  case (Suc n)
  have "replicate n 97 @ us \<noteq> []" using Suc by simp
  then obtain v vs where v: "replicate n 97 @ us = v # vs" by (cases "replicate n 97 @ us") auto
  have "code_points (97 # v # vs) = 97 # code_points (v # vs)" by (simp add: is_high_def is_low_def)
  then show ?case using Suc v by simp
qed simp

lemma utf8_char_ascii: "utf8_char 97 = [97]"
  by (simp add: utf8_char_def byte_of_def)

lemma utf8_ascii: "utf8 (replicate n 97 @ cs) = replicate n 97 @ utf8 cs"
  by (induction n) (simp_all add: utf8_def utf8_char_ascii)

lemma utf8_fill_ascii: "n \<le> k \<Longrightarrow> utf8_fill k (replicate n 97 @ cs) = replicate n 97 @ utf8_fill (k - n) cs"
  by (induction n arbitrary: k) (auto simp: utf8_char_ascii Let_def)

text \<open>
  A name whose 32nd byte falls inside a multi-byte character is written differently by the
  client (which drops the character) and by the program's builder (which cuts it).
\<close>

theorem padded_name_divergence:
  "utf8 (code_points (replicate 31 97 @ [0xE9])) = replicate 31 97 @ [0xC3, 0xA9]
   \<and> fixed_bytes (replicate 31 97 @ [0xE9]) 32 = replicate 31 97 @ [0]
   \<and> fixed_field 32 (utf8 (code_points (replicate 31 97 @ [0xE9]))) = replicate 31 97 @ [0xC3]"
proof -
  have cp: "code_points (replicate 31 97 @ [0xE9]) = replicate 31 97 @ [0xE9]"
    by (simp add: code_points_ascii is_high_def is_low_def)
  have e: "utf8_char 0xE9 = [0xC3, 0xA9]" by (simp add: utf8_char_def byte_of_def)
  have u: "utf8 (code_points (replicate 31 97 @ [0xE9])) = replicate 31 97 @ [0xC3, 0xA9]"
    by (simp only: cp utf8_ascii) (simp add: utf8_def e)
  have t: "take 32 (replicate 31 97 @ [0xE9]) = (replicate 31 97 @ [0xE9] :: jsstring)" by simp
  have f: "utf8_fill 32 (replicate 31 97 @ [0xE9]) = replicate 31 97"
    using utf8_fill_ascii [of 31 32] by (simp add: e)
  have "fixed_bytes (replicate 31 97 @ [0xE9]) 32 = replicate 31 97 @ [0]"
    by (simp add: fixed_bytes_def t cp f del: take_append)
  moreover have "fixed_field 32 (replicate 31 97 @ [0xC3, 0xA9]) = replicate 31 97 @ [0xC3]"
    by (simp add: fixed_field_def)
  ultimately show ?thesis using u by simp
qed

end
