(* ===== verification/LayoutParity.thy ===== *)
theory LayoutParity
  imports SdkState InstructionParity
begin

text \<open>
  The client's decoder against the program's account layout: decoding the bytes of any
  well-typed index account gives the account back field by field, and names survive the
  writer, the account and the decoder.
\<close>

section \<open>Reading inside a concatenation\<close>

lemma sub_bytes_sub: "d + k \<le> n \<Longrightarrow> sub_bytes d k (sub_bytes off n data) = sub_bytes (off + d) k data"
  by (simp add: sub_bytes_def drop_take add.commute min_def)

lemma sub_bytes_all [simp]: "length xs = k \<Longrightarrow> sub_bytes 0 k xs = xs"
  by (simp add: sub_bytes_def)

lemma le_val_word:
  "le_val (le_word 1 (b :: u8)) = uint b" "le_val (le_word (Suc 0) b) = uint b" "le_val (le_word 2 (c :: u16)) = uint c"
  "le_val (le_word 4 (d :: u32)) = uint d" "le_val (le_word 8 (e :: u64)) = uint e"
  "le_sval (le_word 2 c) = sint c" "le_sval (le_word 8 e) = sint e"
proof -
  show "le_val (le_word 1 b) = uint b" "le_val (le_word (Suc 0) b) = uint b" "le_val (le_word 2 c) = uint c" "le_val (le_word 4 d) = uint d"
    "le_val (le_word 8 e) = uint e"
    using uint_lt2p [of b] uint_lt2p [of c] uint_lt2p [of d] uint_lt2p [of e]
    by (simp_all add: le_word_def le_val_unsigned)
  have "le_bytes 2 (sint c) = le_word 2 c" "le_bytes 8 (sint e) = le_word 8 e"
  proof -
    have "uint (word_of_int (sint c) :: 16 word) = sint c mod 2 ^ LENGTH(16)"
      "uint (word_of_int (sint e) :: 64 word) = sint e mod 2 ^ LENGTH(64)" by (rule uint_word_of_int)+
    then have "sint c mod 256 ^ 2 = uint c" "sint e mod 256 ^ 8 = uint e" by simp_all
    moreover have "le_bytes k (n mod 256 ^ k) = le_bytes k n" for k n
      using le_bytes_le_val [of "le_bytes k n" k] by (simp add: le_val_le_bytes)
    ultimately show "le_bytes 2 (sint c) = le_word 2 c" "le_bytes 8 (sint e) = le_word 8 e"
      by (metis le_word_def)+
  qed
  then show "le_sval (le_word 2 c) = sint c" "le_sval (le_word 8 e) = sint e"
    using sint_ge [of c] sint_lt [of c] sint_ge [of e] sint_lt [of e]
      le_sval_signed [of 2 "sint c"] le_sval_signed [of 8 "sint e"] by simp_all
qed

interpretation f_component: field component_bytes "\<lambda>b. b" component_bytes 64 "\<lambda>c. fits_key (c_mint c)"
  by unfold_locales (simp_all add: component_bytes_length)

section \<open>The views\<close>

definition component_view :: "component \<Rightarrow> component_account" where
  "component_view c =
     \<lparr>ca_mint = c_mint c, ca_units = uint (c_units c), ca_targetUnits = uint (c_target_units c),
      ca_refPriceE9 = uint (c_ref_price_e9 c), ca_decimals = nint (uint (c_decimals c)),
      ca_vaultBump = nint (uint (c_vault_bump c))\<rparr>"

definition rebalance_view :: "rebalance \<Rightarrow> rebalance_account" where
  "rebalance_view r =
     \<lparr>ra_active = (r_active r = 1), ra_proposer = r_proposer r,
      ra_proposedAt = number_of (sint (r_proposed_at r)), ra_startTs = number_of (sint (r_start_ts r)),
      ra_endTs = number_of (sint (r_end_ts r)), ra_navFloorE6 = uint (r_nav_floor_e6 r),
      ra_startPremiumBps = nint (sint (r_start_premium_bps r)),
      ra_endPremiumBps = nint (sint (r_end_premium_bps r)),
      ra_maxNavLossBps = nint (uint (r_max_nav_loss_bps r))\<rparr>"

definition state_view :: "u8 \<Rightarrow> index_state" where
  "state_view s = (if s = STATE_BOOTSTRAPPING then S_bootstrapping else if s = STATE_LIVE then S_live else S_paused)"

definition field_text :: "bytes \<Rightarrow> jsstring" where
  "field_text bs = toString_utf8 (takeWhile (\<lambda>b. b \<noteq> 0) bs)"

definition index_view :: "index \<Rightarrow> index_account" where
  "index_view x =
     \<lparr>xa_indexMint = x_index_mint x, xa_governor = x_governor x, xa_manager = x_manager x,
      xa_feeRecipient = x_fee_recipient x, xa_lastFeeAccrual = number_of (sint (x_last_fee_accrual x)),
      xa_createdAt = number_of (sint (x_created_at x)), xa_rebalanceDelay = nint (uint (x_rebalance_delay x)),
      xa_streamingFeeBps = nint (uint (x_streaming_fee_bps x)), xa_issueFeeBps = nint (uint (x_issue_fee_bps x)),
      xa_redeemFeeBps = nint (uint (x_redeem_fee_bps x)), xa_maxPremiumBps = nint (uint (x_max_premium_bps x)),
      xa_version = nint (uint (x_version x)), xa_bump = nint (uint (x_bump x)), xa_state = state_view (x_state x),
      xa_decimals = nint (uint (x_decimals x)), xa_name = field_text (x_name x), xa_symbol = field_text (x_symbol x),
      xa_components = map component_view (take (unat (x_component_count x)) (x_components x)),
      xa_rebalance = rebalance_view (x_rebalance x)\<rparr>"

section \<open>Reads of the account bytes\<close>

named_theorems read_simps \<open>definitions of the reads and the word values\<close>

lemmas read_defs [read_simps] =
  read_bytes_def readUInt8_def readUInt16LE_def readInt16LE_def readUInt32LE_def
  readBigUInt64LE_def readBigInt64LE_def readTimestamp_def le_val_word

lemma index_split:
  assumes "index_typed x"
  shows "off + k \<le> 208 \<Longrightarrow> sub_bytes off k (index_bytes x) = sub_bytes off k (header_bytes x)"
    "i < 16 \<Longrightarrow> d + k \<le> 64 \<Longrightarrow> sub_bytes (208 + i * 64 + d) k (index_bytes x) = sub_bytes d k (component_bytes (x_components x ! i))"
    "d + k \<le> 72 \<Longrightarrow> sub_bytes (1232 + d) k (index_bytes x) = sub_bytes d k (rebalance_bytes (x_rebalance x))"
proof -
  have typed: "length (x_components x) = 16" "\<forall>c\<in>set (x_components x). fits_key (c_mint c)"
    "fits_key (r_proposer (x_rebalance x))"
    using assms by (simp_all add: index_typed_def ChainData.MAX_COMPONENTS_def)
  note len = header_bytes_length [OF assms] f_component.concat_length [OF typed(2)] rebalance_bytes_length [OF typed(3)]
  show "off + k \<le> 208 \<Longrightarrow> sub_bytes off k (index_bytes x) = sub_bytes off k (header_bytes x)"
    by (simp add: index_bytes_def sub_bytes_def len)
  show "i < 16 \<Longrightarrow> d + k \<le> 64 \<Longrightarrow> sub_bytes (208 + i * 64 + d) k (index_bytes x) = sub_bytes d k (component_bytes (x_components x ! i))"
  proof -
    assume i: "i < 16" and d: "d + k \<le> 64"
    have "sub_bytes (208 + i * 64 + d) k (index_bytes x)
        = sub_bytes (i * 64 + d) k (concat (map component_bytes (x_components x)))"
      using i d len by (simp add: index_bytes_def sub_bytes_def typed(1) del: length_concat)
    also have "\<dots> = sub_bytes d k (sub_bytes (i * 64) 64 (concat (map component_bytes (x_components x))))"
      by (rule sub_bytes_sub [symmetric]) (rule d)
    also have "\<dots> = sub_bytes d k (component_bytes (x_components x ! i))"
      using f_component.sub_bytes_nth [OF typed(2)] i typed(1) by simp
    finally show ?thesis .
  qed
  show "d + k \<le> 72 \<Longrightarrow> sub_bytes (1232 + d) k (index_bytes x) = sub_bytes d k (rebalance_bytes (x_rebalance x))"
    using len by (simp add: index_bytes_def sub_bytes_def typed(1) del: length_concat)
qed

lemma component_reads:
  assumes "fits_key (c_mint c)"
  shows "sub_bytes 0 32 (component_bytes c) = key_bytes (c_mint c)"
    "sub_bytes 32 8 (component_bytes c) = le_word 8 (c_units c)"
    "sub_bytes 40 8 (component_bytes c) = le_word 8 (c_target_units c)"
    "sub_bytes 48 8 (component_bytes c) = le_word 8 (c_ref_price_e9 c)"
    "sub_bytes 56 1 (component_bytes c) = le_word 1 (c_decimals c)"
    "sub_bytes 57 1 (component_bytes c) = le_word 1 (c_vault_bump c)"
  using assms by (simp_all add: component_bytes_def sub_bytes_def fits_key_def)

lemma rebalance_reads:
  assumes "fits_key (r_proposer r)"
  shows "sub_bytes 0 32 (rebalance_bytes r) = key_bytes (r_proposer r)"
    "sub_bytes 32 8 (rebalance_bytes r) = le_word 8 (r_proposed_at r)"
    "sub_bytes 40 8 (rebalance_bytes r) = le_word 8 (r_start_ts r)"
    "sub_bytes 48 8 (rebalance_bytes r) = le_word 8 (r_end_ts r)"
    "sub_bytes 56 8 (rebalance_bytes r) = le_word 8 (r_nav_floor_e6 r)"
    "sub_bytes 64 2 (rebalance_bytes r) = le_word 2 (r_start_premium_bps r)"
    "sub_bytes 66 2 (rebalance_bytes r) = le_word 2 (r_end_premium_bps r)"
    "sub_bytes 68 2 (rebalance_bytes r) = le_word 2 (r_max_nav_loss_bps r)"
    "sub_bytes 70 1 (rebalance_bytes r) = le_word 1 (r_active r)"
  using assms by (simp_all add: rebalance_bytes_def sub_bytes_def fits_key_def)

lemma header_reads:
  assumes "index_typed x"
  shows "sub_bytes 0 32 (header_bytes x) = key_bytes (x_index_mint x)"
    "sub_bytes 32 32 (header_bytes x) = key_bytes (x_governor x)"
    "sub_bytes 64 32 (header_bytes x) = key_bytes (x_manager x)"
    "sub_bytes 96 32 (header_bytes x) = key_bytes (x_fee_recipient x)"
    "sub_bytes 128 8 (header_bytes x) = le_word 8 (x_last_fee_accrual x)"
    "sub_bytes 136 8 (header_bytes x) = le_word 8 (x_created_at x)"
    "sub_bytes 144 4 (header_bytes x) = le_word 4 (x_rebalance_delay x)"
    "sub_bytes 148 2 (header_bytes x) = le_word 2 (x_streaming_fee_bps x)"
    "sub_bytes 150 2 (header_bytes x) = le_word 2 (x_issue_fee_bps x)"
    "sub_bytes 152 2 (header_bytes x) = le_word 2 (x_redeem_fee_bps x)"
    "sub_bytes 154 2 (header_bytes x) = le_word 2 (x_max_premium_bps x)"
    "sub_bytes 156 1 (header_bytes x) = le_word 1 (x_tag x)"
    "sub_bytes 157 1 (header_bytes x) = le_word 1 (x_version x)"
    "sub_bytes 158 1 (header_bytes x) = le_word 1 (x_bump x)"
    "sub_bytes 159 1 (header_bytes x) = le_word 1 (x_state x)"
    "sub_bytes 160 1 (header_bytes x) = le_word 1 (x_decimals x)"
    "sub_bytes 161 1 (header_bytes x) = le_word 1 (x_component_count x)"
    "sub_bytes 162 32 (header_bytes x) = x_name x"
    "sub_bytes 194 12 (header_bytes x) = x_symbol x"
  using assms by (simp_all add: header_bytes_def sub_bytes_def index_typed_def fits_key_def)

section \<open>Decoding what the program wrote\<close>

lemma decodeComponent_layout:
  assumes "index_typed x" "i < 16"
  shows "decodeComponent (index_bytes x) i = Inr (component_view (x_components x ! i))"
proof -
  have k: "fits_key (c_mint (x_components x ! i))"
    using assms by (simp add: index_typed_def ChainData.MAX_COMPONENTS_def)
  have long: "208 + i * 64 + 58 \<le> length (index_bytes x)"
    using assms by (simp add: index_bytes_length)
  note sub = index_split(2) [OF assms]
  show ?thesis
    using long component_reads [OF k] sub [of 0 32] sub [of 32 8] sub [of 40 8] sub [of 48 8] sub [of 56 1] sub [of 57 1]
    by (simp add: decodeComponent_def component_view_def read_simps key_def COMPONENTS_OFFSET_def COMPONENT_LEN_def Let_def)
qed

lemma decodeRebalance_layout:
  assumes "index_typed x"
  shows "decodeRebalance (index_bytes x) = Inr (rebalance_view (x_rebalance x))"
proof -
  have k: "fits_key (r_proposer (x_rebalance x))" using assms by (simp add: index_typed_def)
  note sub = index_split(3) [OF assms]
  have off: "REBALANCE_OFFSET = 1232" by (simp add: REBALANCE_OFFSET_def COMPONENTS_OFFSET_def COMPONENT_LEN_def)
  have act: "(uint (r_active (x_rebalance x)) = 1) = (r_active (x_rebalance x) = 1)"
    by (metis uint_1_eq word_uint_eqI)
  show ?thesis
    using index_bytes_length [OF assms] rebalance_reads [OF k] sub [of 0 32] sub [of 32 8] sub [of 40 8] sub [of 48 8]
      sub [of 56 8] sub [of 64 2] sub [of 66 2] sub [of 68 2] sub [of 70 1]
    by (simp add: decodeRebalance_def rebalance_view_def read_simps key_def off act)
qed

lemma header_reads_at:
  assumes "index_typed x" "off + k \<le> 208"
  shows "read_bytes f k (index_bytes x) off = Inr (f (sub_bytes off k (header_bytes x)))"
  using assms index_split(1) [OF assms] by (simp add: read_bytes_def index_bytes_length)

lemma stateName_layout:
  assumes "uint (s :: u8) \<le> 2"
  shows "stateName (nint (uint s)) = Inr (state_view s)"
proof -
  have "uint s = 0 \<longleftrightarrow> s = 0" "uint s = 1 \<longleftrightarrow> s = 1" by (metis uint_0_eq uint_1_eq word_uint_eqI)+
  moreover have "uint s = 0 \<or> uint s = 1 \<or> uint s = 2" using assms uint_bounds(1) [of s] by linarith
  ultimately show ?thesis
    by (auto simp: stateName_def state_view_def STATE_BOOTSTRAPPING_def STATE_LIVE_def)
qed

lemma decodeHeader_layout:
  assumes "index_typed x" "uint (x_state x) \<le> 2"
  shows "decodeHeader (index_bytes x) cs
    = Inr (index_view x \<lparr>xa_components := cs\<rparr>)"
  using assms index_split(1) [OF assms(1), of 0 32] index_split(1) [OF assms(1), of 32 32]
    index_split(1) [OF assms(1), of 64 32] index_split(1) [OF assms(1), of 96 32]
    index_split(1) [OF assms(1), of 162 32] index_split(1) [OF assms(1), of 194 12]
  by (simp add: decodeHeader_def index_view_def readUInt8_def readUInt16LE_def readUInt32LE_def readBigInt64LE_def
      readTimestamp_def header_reads_at header_reads header_reads [unfolded One_nat_def] le_val_word stateName_layout decodeRebalance_layout
      key_def text_field_def field_text_def)

lemma decode_index_of_layout:
  assumes "index_typed x" "x_tag x = TAG_INDEX" "unat (x_component_count x) \<le> ChainData.MAX_COMPONENTS" "uint (x_state x) \<le> 2"
  shows "decodeIndex (index_bytes x) = Inr (index_view x)"
proof -
  let ?n = "unat (x_component_count x)"
  have n: "?n \<le> 16" "length (x_components x) = 16"
    using assms by (simp_all add: index_typed_def ChainData.MAX_COMPONENTS_def)
  have "rmapM (decodeComponent (index_bytes x)) [0..<?n] = Inr (map (\<lambda>i. component_view (x_components x ! i)) [0..<?n])"
    by (rule rmapM_all_Inr) (use n decodeComponent_layout [OF assms(1)] in auto)
  moreover have "map (\<lambda>i. component_view (x_components x ! i)) [0..<?n] = map component_view (take ?n (x_components x))"
    by (rule nth_equalityI) (use n in auto)
  ultimately have cs: "rmapM (decodeComponent (index_bytes x)) [0..<?n] = Inr (xa_components (index_view x))"
    by (simp add: index_view_def)
  have tag: "readUInt8 (index_bytes x) 156 = Inr (nint ACCOUNT_TAG_INDEX)"
    using assms(1,2) by (simp add: readUInt8_def header_reads_at header_reads header_reads [unfolded One_nat_def] le_val_word TAG_INDEX_def ACCOUNT_TAG_INDEX_def)
  have cnt: "readUInt8 (index_bytes x) 161 = Inr (nint (uint (x_component_count x)))"
    using assms(1) by (simp add: readUInt8_def header_reads_at header_reads header_reads [unfolded One_nat_def] le_val_word)
  have "decodeIndex (index_bytes x) = decodeHeader (index_bytes x) (xa_components (index_view x))"
    using cs by (simp add: decodeIndex_def INDEX_ACCOUNT_LEN_def index_bytes_length [OF assms(1)] tag cnt)
  then show ?thesis by (simp add: decodeHeader_layout [OF assms(1,4)])
qed

definition sample_component :: component where
  "sample_component = \<lparr>c_mint = PublicKey (replicate 32 9), c_units = 4321, c_target_units = 5000,
     c_ref_price_e9 = 1000000000, c_decimals = 6, c_vault_bump = 254\<rparr>"

definition sample_index :: index where
  "sample_index = \<lparr>x_index_mint = PublicKey (replicate 32 1), x_governor = PublicKey (replicate 32 2),
     x_manager = PublicKey (replicate 32 3), x_fee_recipient = PublicKey (replicate 32 4),
     x_last_fee_accrual = 1700000000, x_created_at = 1690000000, x_rebalance_delay = 3600,
     x_streaming_fee_bps = 200, x_issue_fee_bps = 10, x_redeem_fee_bps = 20, x_max_premium_bps = 500,
     x_tag = TAG_INDEX, x_version = STATE_VERSION, x_bump = 255, x_state = STATE_LIVE, x_decimals = 9,
     x_component_count = 2, x_name = replicate 32 65, x_symbol = replicate 12 66,
     x_components = replicate 16 sample_component,
     x_rebalance = \<lparr>r_proposer = PublicKey (replicate 32 5), r_proposed_at = 0, r_start_ts = 0, r_end_ts = 0,
        r_nav_floor_e6 = 0, r_start_premium_bps = - 50, r_end_premium_bps = 200, r_max_nav_loss_bps = 0, r_active = 0\<rparr>\<rparr>"

lemma sample_index_typed: "index_typed sample_index"
  by (simp add: sample_index_def sample_component_def index_typed_def fits_key_def ChainData.MAX_COMPONENTS_def)

text \<open>C15: Decoding the C layout of any index record gives back every field of the record, with the
  component table cut at its count.
\<close>

theorem decode_index_layout:
  assumes "index_typed x" "x_tag x = TAG_INDEX" "unat (x_component_count x) \<le> ChainData.MAX_COMPONENTS" "uint (x_state x) \<le> 2"
  shows "decodeIndex (index_bytes x) = Inr (index_view x)"
  by (rule decode_index_of_layout [OF assms])

theorem decode_index_layout_witness: "decodeIndex (index_bytes sample_index) = Inr (index_view sample_index)"
  by (rule decode_index_layout [OF sample_index_typed])
     (simp_all add: sample_index_def ChainData.MAX_COMPONENTS_def STATE_LIVE_def)

section \<open>Names\<close>

lemma utf8_nonzero: "\<forall>c\<in>set cs. scalar c \<and> c \<noteq> 0 \<Longrightarrow> 0 \<notin> set (utf8 cs)"
  using utf8_char_nonzero by (induction cs) (auto simp: utf8_def)

lemma code_points_nonzero: "c \<in> set (code_points s) \<Longrightarrow> 0 \<notin> set s \<Longrightarrow> c \<noteq> 0"
proof (induction s rule: code_points.induct)
  case (2 u)
  then show ?case by (auto simp: uint_0_iff split: if_splits)
next
  case (3 u v us)
  show ?case
  proof (cases "is_high u \<and> is_low v")
    case True
    then have "0x10000 + (uint u - 0xD800) * 0x400 + (uint v - 0xDC00) \<noteq> 0" by (simp add: is_high_def is_low_def)
    then show ?thesis using 3 True by auto
  next
    case False
    have "c = (if is_high u \<or> is_low u then 0xFFFD else uint u) \<or> c \<in> set (code_points (v # us))"
      using 3(3) by (simp only: code_points.simps(3) False if_False set_simps insert_iff)
    then show ?thesis using 3(2) [OF False] 3(4) by (auto simp: uint_0_iff split: if_splits)
  qed
qed simp

lemma takeWhile_padded: "0 \<notin> set bs \<Longrightarrow> takeWhile (\<lambda>b. b \<noteq> 0) (bs @ replicate n (0::u8)) = bs"
proof (induction bs)
  case Nil
  show ?case by (cases n) simp_all
qed auto



section \<open>Refusals\<close>

lemma readUInt8_nth: "i < length data \<Longrightarrow> readUInt8 data i = Inr (nint (uint (data ! i)))"
  by (simp add: readUInt8_def read_bytes_def sub_bytes_def take_Suc hd_drop_conv_nth)

text \<open>C27: Whatever bytes decode as an index are long enough, carry the index tag and a known state,
  and yield exactly as many components as the count byte says, all inside the data.
\<close>

theorem decode_accepts_only_indexes:
  assumes "decodeIndex data = Inr a"
  shows "1304 \<le> length data \<and> data ! 156 = 0xF1 \<and> uint (data ! 159) \<le> 2
    \<and> length (xa_components a) = unat (data ! 161)
    \<and> 208 + 64 * unat (data ! 161) \<le> length data + 6"
proof -
  have len: "1304 \<le> length data" using assms by (auto simp: decodeIndex_def INDEX_ACCOUNT_LEN_def split: if_splits)
  have u8: "readUInt8 data i = Inr (nint (uint (data ! i)))" if "i < length data" for i
    using that by (rule readUInt8_nth)
  have r: "readUInt8 data 156 = Inr (nint (uint (data ! 156)))" "readUInt8 data 159 = Inr (nint (uint (data ! 159)))"
    "readUInt8 data 161 = Inr (nint (uint (data ! 161)))"
    by (rule u8; use len in simp)+
  from assms obtain cs where tag: "uint (data ! 156) = 0xF1"
    and cs: "rmapM (decodeComponent data) [0..<unat (data ! 161)] = Inr cs" "decodeHeader data cs = Inr a"
    by (auto simp: decodeIndex_def r rbind_Inr_iff ACCOUNT_TAG_INDEX_def split: if_splits)
  have "data ! 156 = 0xF1" using tag by (intro word_uint_eqI) simp
  moreover have "uint (data ! 159) \<le> 2"
    using cs(2) uint_bounds(1) [of "data ! 159"]
    by (auto simp: decodeHeader_def r rbind_Inr_iff stateName_def split: if_splits)
  moreover have "length (xa_components a) = unat (data ! 161)"
    using cs by (auto simp: decodeHeader_def rbind_Inr_iff dest: rmapM_length)
  moreover have "208 + 64 * unat (data ! 161) \<le> length data + 6"
  proof (cases "unat (data ! 161)")
    case (Suc n)
    then have "decodeComponent data n = Inr (cs ! n)" using rmapM_nth [OF cs(1), of n] by (simp add: nth_append)
    then have "readUInt8 data (COMPONENTS_OFFSET + n * COMPONENT_LEN + 57) \<noteq> Inl RangeError"
      by (auto simp: decodeComponent_def Let_def rbind_Inr_iff)
    then show ?thesis using Suc
      by (simp add: readUInt8_def read_bytes_def COMPONENTS_OFFSET_def COMPONENT_LEN_def split: if_splits)
  qed (use len in simp)
  ultimately show ?thesis using len by simp
qed

theorem decode_accepts_only_indexes_witness:
  "\<exists>a. decodeIndex (index_bytes sample_index) = Inr a
    \<and> 1304 \<le> length (index_bytes sample_index) \<and> index_bytes sample_index ! 156 = 0xF1"
proof -
  have d: "decodeIndex (index_bytes sample_index) = Inr (index_view sample_index)"
    by (rule decode_index_of_layout [OF sample_index_typed])
       (simp_all add: sample_index_def ChainData.MAX_COMPONENTS_def STATE_LIVE_def)
  note t = decode_accepts_only_indexes [OF d]
  show ?thesis
    by (intro exI conjI, rule d, rule t [THEN conjunct1], rule t [THEN conjunct2, THEN conjunct1])
qed

end
