(* ===== verification/JsParse.thy ===== *)
theory JsParse
  imports JsString
begin

text \<open>
  The string operations of the language the sources rely on: splitting and trimming, and the
  conversions \<open>Number(s)\<close>, \<open>BigInt(s)\<close> and \<open>BigInt.toString\<close>, literal by literal.
\<close>

section \<open>Characters\<close>

definition unit_in :: "int \<Rightarrow> int \<Rightarrow> 16 word \<Rightarrow> bool" where
  "unit_in lo hi u \<longleftrightarrow> lo \<le> uint u \<and> uint u \<le> hi"

definition is_dec :: "16 word \<Rightarrow> bool" where "is_dec u \<longleftrightarrow> unit_in 48 57 u"
definition is_hex :: "16 word \<Rightarrow> bool" where
  "is_hex u \<longleftrightarrow> unit_in 48 57 u \<or> unit_in 97 102 u \<or> unit_in 65 70 u"

definition digit_value :: "16 word \<Rightarrow> int" where
  "digit_value u =
     (if unit_in 48 57 u then uint u - 48 else if unit_in 97 102 u then uint u - 87 else uint u - 55)"

definition parse_digits :: "int \<Rightarrow> jsstring \<Rightarrow> int" where
  "parse_digits base ds = foldl (\<lambda>n u. n * base + digit_value u) 0 ds"

text \<open>White space and line terminators, which \<open>trim\<close> and the numeric conversions strip.\<close>

definition is_space :: "16 word \<Rightarrow> bool" where
  "is_space u \<longleftrightarrow>
     unit_in 9 13 u \<or> unit_in 0x2000 0x200A u
     \<or> uint u \<in> {0x20, 0xA0, 0x1680, 0x2028, 0x2029, 0x202F, 0x205F, 0x3000, 0xFEFF}"

definition trim :: "jsstring \<Rightarrow> jsstring" where
  "trim s = rev (dropWhile is_space (rev (dropWhile is_space s)))"

text \<open>What follows \<open>p\<close> when the text starts with it.\<close>

fun after :: "jsstring \<Rightarrow> jsstring \<Rightarrow> jsstring option" where
  "after [] s = Some s"
| "after (p # ps) [] = None"
| "after (p # ps) (u # us) = (if p = u then after ps us else None)"

text \<open>\<open>split\<close> at a one-unit separator: always at least one piece.\<close>

fun split_on :: "16 word \<Rightarrow> jsstring \<Rightarrow> jsstring list" where
  "split_on c [] = [[]]"
| "split_on c (u # us) =
     (if u = c then [] # split_on c us
      else case split_on c us of [] \<Rightarrow> [[u]] | p # ps \<Rightarrow> (u # p) # ps)"

section \<open>Numbers from text\<close>

definition digits_or :: "(16 word \<Rightarrow> bool) \<Rightarrow> int \<Rightarrow> jsstring \<Rightarrow> int option" where
  "digits_or ok base s = (if s \<noteq> [] \<and> list_all ok s then Some (parse_digits base s) else None)"

text \<open>The radix literals \<open>0x\<close>, \<open>0o\<close> and \<open>0b\<close>, which take no sign.\<close>

definition radix_literal :: "jsstring \<Rightarrow> int option" where
  "radix_literal s =
     (case s of
        z # r # ds \<Rightarrow>
          if uint z \<noteq> 48 then None
          else if uint r \<in> {120, 88} then digits_or is_hex 16 ds
          else if uint r \<in> {111, 79} then digits_or (unit_in 48 55) 8 ds
          else if uint r \<in> {98, 66} then digits_or (unit_in 48 49) 2 ds
          else None
      | _ \<Rightarrow> None)"

definition signed :: "(jsstring \<Rightarrow> 'a option) \<Rightarrow> ('a \<Rightarrow> 'a) \<Rightarrow> jsstring \<Rightarrow> 'a option" where
  "signed f neg s =
     (case s of
        u # us \<Rightarrow> if uint u = 45 then map_option neg (f us) else if uint u = 43 then f us else f s
      | [] \<Rightarrow> f s)"

definition exponent_part :: "jsstring \<Rightarrow> int option" where
  "exponent_part s =
     (case s of
        [] \<Rightarrow> Some 0
      | u # us \<Rightarrow> if uint u \<in> {101, 69} then signed (digits_or is_dec 10) uminus us else None)"

text \<open>Digits, an optional fraction, an optional exponent; at least one digit before the exponent.\<close>

definition decimal_literal :: "jsstring \<Rightarrow> rat option" where
  "decimal_literal s =
     (let ip = takeWhile is_dec s; r = dropWhile is_dec s;
          fp = (case after (js ''.'') r of None \<Rightarrow> [] | Some t \<Rightarrow> takeWhile is_dec t);
          rest = (case after (js ''.'') r of None \<Rightarrow> r | Some t \<Rightarrow> dropWhile is_dec t)
      in if ip = [] \<and> fp = [] then None
         else map_option (\<lambda>e. of_int (parse_digits 10 (ip @ fp)) * 10 powi (e - int (length fp)))
                (exponent_part rest))"

definition number_literal :: "jsstring \<Rightarrow> jsnum option" where
  "number_literal s = (if s = js ''Infinity'' then Some PosInf else map_option to_double (decimal_literal s))"

text \<open>\<open>Number(s)\<close>\<close>

definition Number :: "jsstring \<Rightarrow> jsnum" where
  "Number s =
     (let t = trim s
      in if t = [] then nint 0
         else case radix_literal t of
                Some i \<Rightarrow> number_of i
              | None \<Rightarrow> (case signed number_literal nneg t of Some x \<Rightarrow> x | None \<Rightarrow> NaN))"

text \<open>\<open>BigInt(s)\<close>\<close>

definition BigInt :: "jsstring \<Rightarrow> int result" where
  "BigInt s =
     (let t = trim s
      in if t = [] then Inr 0
         else case radix_literal t of
                Some i \<Rightarrow> Inr i
              | None \<Rightarrow> (case signed (digits_or is_dec 10) uminus t of
                  Some i \<Rightarrow> Inr i
                | None \<Rightarrow> Inl SyntaxError))"

section \<open>Text from integers\<close>

text \<open>The decimal digits of a non-negative integer below \<open>10 ^ fuel\<close>, most significant first.\<close>

fun decimal :: "nat \<Rightarrow> int \<Rightarrow> jsstring" where
  "decimal 0 n = []"
| "decimal (Suc fuel) n =
     (if n < 10 then [unit_of (48 + n)] else decimal fuel (n div 10) @ [unit_of (48 + n mod 10)])"

text \<open>\<open>toString\<close> of a bigint; a number below \<open>2 ^ k\<close> has at most \<open>k\<close> decimal digits.\<close>

definition bigint_text :: "int \<Rightarrow> jsstring" where
  "bigint_text i =
     (let d = decimal (Suc (nat (bitlen \<bar>i\<bar>))) \<bar>i\<bar> in if i < 0 then js ''-'' @ d else d)"

lemma after_append [simp]: "after p (p @ s) = Some s"
  by (induction p) auto

lemma uint_unit: "0 \<le> x \<Longrightarrow> x < 65536 \<Longrightarrow> uint (unit_of x) = x"
  by (simp add: unit_of_def uint_word_of_int)

lemma digit_unit:
  assumes "0 \<le> d" "d < 10"
  shows "is_dec (unit_of (48 + d)) \<and> digit_value (unit_of (48 + d)) = d"
proof -
  have "uint (unit_of (48 + d)) = 48 + d" by (rule uint_unit) (use assms in auto)
  then show ?thesis using assms by (simp add: is_dec_def unit_in_def digit_value_def)
qed

lemma parse_digits_snoc: "parse_digits b (ds @ [u]) = parse_digits b ds * b + digit_value u"
  by (simp add: parse_digits_def)

lemma decimal_round_trip:
  "0 \<le> n \<Longrightarrow> n < 10 ^ fuel \<Longrightarrow> 0 < fuel \<Longrightarrow>
   parse_digits 10 (decimal fuel n) = n \<and> decimal fuel n \<noteq> [] \<and> list_all is_dec (decimal fuel n)"
proof (induction fuel arbitrary: n)
  case (Suc fuel)
  show ?case
  proof (cases "n < 10")
    case True
    then show ?thesis using Suc.prems digit_unit [of n] by (simp add: parse_digits_def)
  next
    case False
    then have f: "0 < fuel" using Suc.prems by (cases fuel) auto
    have d: "0 \<le> n div 10" "n div 10 < 10 ^ fuel" using Suc.prems False by (auto simp: pos_imp_zdiv_nonneg_iff)
    have m: "0 \<le> n mod 10" "n mod 10 < 10" by simp_all
    show ?thesis
      using Suc.IH [OF d f] digit_unit [OF m] False by (simp add: parse_digits_snoc)
  qed
qed simp

lemma decimal_fuel:
  assumes "0 \<le> n" shows "n < 10 ^ Suc (nat (bitlen n))"
proof (cases "n = 0")
  case False
  then have "n < 2 ^ nat (bitlen n)" using assms bitlen_bounds [of n] by simp
  also have "(2::int) ^ nat (bitlen n) \<le> 10 ^ nat (bitlen n)" by (rule power_mono) simp_all
  also have "\<dots> \<le> 10 ^ Suc (nat (bitlen n))" by simp
  finally show ?thesis .
qed simp

lemma bigint_text_parse:
  assumes "0 \<le> n" shows "parse_digits 10 (bigint_text n) = n" "list_all is_dec (bigint_text n)"
  using decimal_round_trip [OF assms decimal_fuel [OF assms]] assms by (simp_all add: bigint_text_def)

text \<open>A text without white space is its own trimmed form, and \<open>BigInt\<close> reads back what \<open>toString\<close> wrote.\<close>

lemma trim_unspaced:
  assumes "\<forall>u\<in>set s. \<not> is_space u" shows "trim s = s"
proof -
  have d: "dropWhile is_space t = t" if "\<forall>u\<in>set t. \<not> is_space u" for t using that by (cases t) auto
  show ?thesis unfolding trim_def using d [of s] d [of "rev s"] assms by simp
qed

lemma is_dec_unspaced: "is_dec u \<Longrightarrow> \<not> is_space u"
  by (auto simp: is_dec_def is_space_def unit_in_def)

lemma BigInt_text: "BigInt (bigint_text n) = Inr n"
proof -
  define d where "d = bigint_text \<bar>n\<bar>"
  have d: "parse_digits 10 d = \<bar>n\<bar>" "list_all is_dec d" "d \<noteq> []"
    using bigint_text_parse [of "\<bar>n\<bar>"] decimal_round_trip [OF _ decimal_fuel, of "\<bar>n\<bar>"] unfolding d_def by (simp_all add: bigint_text_def)
  have dig: "\<forall>u\<in>set d. is_dec u" using d(2) by (simp add: list_all_iff)
  have dec: "digits_or is_dec 10 d = Some \<bar>n\<bar>" using d by (simp add: digits_or_def)
  show ?thesis
  proof (cases "n < 0")
    case True
    let ?m = "unit_of 45"
    have um: "uint ?m = 45" by (simp add: uint_unit)
    have t: "bigint_text n = ?m # d" using True by (simp add: d_def bigint_text_def js_def unit_of_def)
    have "\<not> is_space ?m" by (simp add: is_space_def unit_in_def um)
    then have "trim (?m # d) = ?m # d" by (intro trim_unspaced) (use dig is_dec_unspaced in auto)
    moreover have "radix_literal (?m # d) = None" using d(3) um by (cases d) (simp_all add: radix_literal_def)
    ultimately show ?thesis using True by (simp add: BigInt_def t signed_def um dec)
  next
    case False
    then have t: "bigint_text n = d" by (simp add: d_def)
    have "trim d = d" by (rule trim_unspaced) (use dig is_dec_unspaced in blast)
    moreover have "radix_literal d = None"
      using dig by (cases d; cases "tl d") (auto simp: radix_literal_def is_dec_def unit_in_def)
    moreover have "signed (digits_or is_dec 10) uminus d = Some n"
      using dig d(3) dec False by (cases d) (auto simp: signed_def is_dec_def unit_in_def)
    ultimately show ?thesis using d(3) by (simp add: BigInt_def t)
  qed
qed

end
