(* ===== verification/SdkErrors.thy ===== *)
theory SdkErrors
  imports JsParse
begin

text \<open>
  \<open>packages/sdk/src/errors.ts\<close>: the table of error sentences and \<open>explainError\<close>, with its two
  regular expressions as matchers tried at every position from the left.
\<close>

section \<open>The table\<close>

definition flock_error_texts :: "string list" where
  "flock_error_texts =
    [''Account is not owned by the index program, or is not an index account.'',
     ''A derived address did not match the account that was passed.'',
     ''A required signature was missing.'',
     ''Only the governor can do that.'',
     ''Only the manager can do that.'',
     ''The index is sealed and cannot take new components.'',
     ''The index has not been sealed yet.'',
     ''Issuance and bidding are paused. Redemption is still open.'',
     ''The index already holds the maximum number of components.'',
     ''That mint is already a component of this index.'',
     ''No component at that position.'',
     ''A token account has the wrong mint or the wrong owner.'',
     ''The index mint must have 9 decimals, no freeze authority, and the index PDA as mint authority.'',
     ''That fee exceeds the cap the program enforces.'',
     ''Arithmetic overflow.'',
     ''Amount must be greater than zero.'',
     ''Your slippage bound was crossed: the recipe costs more, or pays less, than you allowed.'',
     ''A rebalance auction is already running.'',
     ''No rebalance auction is running.'',
     ''The auction has not opened yet, or has already closed.'',
     ''That component is already at or below its target: there is nothing to sell.'',
     ''The bid would take fund NAV below the floor the proposal committed to.'',
     ''Auction premiums are inverted or exceed the index's ceiling.'',
     ''Wrong number of entries: one is needed per component.'',
     ''A reference price of zero cannot value anything.'',
     ''The rebalance timelock has not elapsed.'',
     ''Supply is too small for that redemption.'',
     ''The proposal is stale.'',
     ''A bid must move two different components.'',
     ''The bid would sell more than the fund holds above target.'',
     ''That component is already at the cap the auction may raise it to.'',
     ''The payment would push that component past its cap.'']"

definition FLOCK_ERRORS :: "int \<Rightarrow> jsstring option" where
  "FLOCK_ERRORS code =
     (if 0 \<le> code \<and> nat code < length flock_error_texts then Some (js (flock_error_texts ! nat code)) else None)"

section \<open>Matching\<close>

definition match_hex :: "jsstring \<Rightarrow> jsstring option" where
  "match_hex s =
     (case after (js ''custom program error: 0x'') s of
        None \<Rightarrow> None
      | Some rest \<Rightarrow> (let ds = takeWhile is_hex rest in if ds = [] then None else Some ds))"

definition match_dec :: "jsstring \<Rightarrow> jsstring option" where
  "match_dec s =
     (case after (js ''Custom('') s of
        None \<Rightarrow> None
      | Some rest \<Rightarrow>
          (let ds = takeWhile is_dec rest
           in if ds = [] \<or> after (js '')'') (dropWhile is_dec rest) = None then None else Some ds))"

text \<open>\<open>exec\<close>: the leftmost position at which the expression matches.\<close>

fun exec :: "(jsstring \<Rightarrow> 'a option) \<Rightarrow> jsstring \<Rightarrow> 'a option" where
  "exec m [] = m []"
| "exec m (u # us) = (case m (u # us) of Some x \<Rightarrow> Some x | None \<Rightarrow> exec m us)"

section \<open>Explaining\<close>

text \<open>An \<open>Error\<close> with its message, or anything else with its \<open>String\<close> form.\<close>

datatype thrown = ErrorObject jsstring | OtherThrown jsstring

fun thrown_text :: "thrown \<Rightarrow> jsstring" where
  "thrown_text (ErrorObject message) = message"
| "thrown_text (OtherThrown s) = s"

definition explainError :: "thrown \<Rightarrow> jsstring" where
  "explainError error =
     (let text = thrown_text error;
          code = (case exec match_hex text of
                    Some ds \<Rightarrow> Some (parse_digits 16 ds)
                  | None \<Rightarrow> (case exec match_dec text of
                      Some ds \<Rightarrow> Some (parse_digits 10 ds)
                    | None \<Rightarrow> None))
      in case code of
           None \<Rightarrow> text
         | Some c \<Rightarrow> (case FLOCK_ERRORS c of
             Some known \<Rightarrow> known @ js '' (flock error '' @ decimal 2 c @ js '')''
           | None \<Rightarrow> text))"

section \<open>Searching\<close>

lemma exec_skip:
  "(\<And>k. k < length pre \<Longrightarrow> m (drop k (pre @ s)) = None) \<Longrightarrow> exec m (pre @ s) = exec m s"
proof (induction pre)
  case (Cons u us)
  have "m (u # us @ s) = None" using Cons.prems [of 0] by simp
  moreover have "exec m (us @ s) = exec m s"
    by (rule Cons.IH) (use Cons.prems [of "Suc k" for k] in auto)
  ultimately show ?case by simp
qed simp

lemma exec_here: "m s = Some x \<Longrightarrow> exec m s = Some x"
  by (cases s) auto

lemma exec_None: "(\<And>k. k \<le> length s \<Longrightarrow> m (drop k s) = None) \<Longrightarrow> exec m s = None"
proof (induction s)
  case (Cons u us)
  have "m (u # us) = None" using Cons.prems [of 0] by simp
  moreover have "exec m us = None" by (rule Cons.IH) (use Cons.prems [of "Suc k" for k] in auto)
  ultimately show ?case by simp
qed simp

lemma match_hex_None: "after (js ''custom program error: 0x'') s = None \<Longrightarrow> match_hex s = None"
  by (simp add: match_hex_def)

lemma match_hex_digits:
  assumes "ds \<noteq> []" "\<forall>d\<in>set ds. is_hex d" "post = [] \<or> \<not> is_hex (hd post)"
  shows "match_hex (js ''custom program error: 0x'' @ ds @ post) = Some ds"
proof -
  have "takeWhile is_hex (ds @ post) = ds"
    using assms by (cases post) (auto simp: takeWhile_append2)
  then show ?thesis using assms(1) by (simp add: match_hex_def)
qed

end
