(* ===== verification/ErrorParity.thy ===== *)
theory ErrorParity
  imports SdkErrors ChainMath
begin

text \<open>
  The client's error table against the program's error enum: every code the program can return
  has its own sentence, and the message a failed simulation carries is turned into it.
\<close>

text \<open>The lower-case hexadecimal digits the runtime prints for a custom error below 256.\<close>

definition hex_unit :: "nat \<Rightarrow> 16 word" where
  "hex_unit d = unit_of (if d < 10 then 48 + int d else 87 + int d)"

definition hex_text :: "nat \<Rightarrow> jsstring" where
  "hex_text n = (if n < 16 then [hex_unit n] else [hex_unit (n div 16), hex_unit (n mod 16)])"

lemma hex_unit_digit: "d < 16 \<Longrightarrow> is_hex (hex_unit d) \<and> digit_value (hex_unit d) = int d"
  by (auto simp: hex_unit_def is_hex_def unit_in_def digit_value_def unit_of_def uint_word_of_int)

lemma hex_text_digits:
  assumes "n < 256"
  shows "hex_text n \<noteq> []" "\<forall>d\<in>set (hex_text n). is_hex d" "parse_digits 16 (hex_text n) = int n"
proof -
  have "n div 16 < 16" "n mod 16 < 16" using assms by auto
  moreover have "int (n div 16) * 16 + int (n mod 16) = int n"
    by (metis div_mult_mod_eq of_nat_add of_nat_mult of_nat_numeral)
  ultimately show "hex_text n \<noteq> []" "\<forall>d\<in>set (hex_text n). is_hex d" "parse_digits 16 (hex_text n) = int n"
    using hex_unit_digit by (auto simp: hex_text_def parse_digits_def)
qed

lemma error_code_bound: "error_code e < 32"
  by (cases e) simp_all

lemma error_code_inj: "error_code a = error_code b \<longleftrightarrow> a = b"
  by (cases a; cases b; simp)

lemma length_error_texts: "length flock_error_texts = 32"
  by (simp add: flock_error_texts_def)

definition sentence :: "flock_error \<Rightarrow> jsstring" where
  "sentence e = js (flock_error_texts ! error_code e)"

lemma distinct_error_texts: "distinct flock_error_texts"
  by (simp add: flock_error_texts_def)

lemma js_inj: "js a = js b \<longleftrightarrow> a = b"
proof
  assume h: "js a = js b"
  have "inj (of_char :: char \<Rightarrow> 16 word)"
  proof (rule injI)
    fix c d :: char
    assume "(of_char c :: 16 word) = of_char d"
    then have "(of_nat (of_char c) :: 16 word) = of_nat (of_char d)" by (simp add: of_nat_of_char)
    moreover have "of_char c < (2 :: nat) ^ LENGTH(16)" "of_char d < (2 :: nat) ^ LENGTH(16)"
      by (rule less_trans [OF nat_of_char_less_256], simp)+
    ultimately have "(of_char c :: nat) = of_char d" by (simp add: word_of_nat_eq_iff take_bit_nat_eq_self)
    then show "c = d" by simp
  qed
  then show "a = b" using h by (simp add: js_def inj_map_eq_map)
qed simp

lemma FLOCK_ERRORS_code: "FLOCK_ERRORS (int (error_code e)) = Some (sentence e)"
  using error_code_bound [of e] by (simp add: FLOCK_ERRORS_def sentence_def length_error_texts)

lemma sentence_inj: "sentence a = sentence b \<longleftrightarrow> a = b"
  using nth_eq_iff_index_eq [OF distinct_error_texts] error_code_bound [of a] error_code_bound [of b]
  by (simp add: sentence_def js_inj length_error_texts error_code_inj)

text \<open>C28: When an error message carries a program error code in hexadecimal, explainError answers
  with the sentence of that error and its number, and different program errors have different
  sentences.
\<close>

theorem explain_program_error:
  assumes "\<forall>k<length pre. after (js ''custom program error: 0x'')
             (drop k (pre @ js ''custom program error: 0x'' @ hex_text (error_code e) @ post)) = None"
    and "post = [] \<or> \<not> is_hex (hd post)"
  shows "explainError (ErrorObject (pre @ js ''custom program error: 0x'' @ hex_text (error_code e) @ post))
         = sentence e @ js '' (flock error '' @ decimal 2 (int (error_code e)) @ js '')''
       \<and> (\<forall>e'. sentence e' = sentence e \<longrightarrow> e' = e)"
proof -
  let ?s = "js ''custom program error: 0x'' @ hex_text (error_code e) @ post"
  have c: "error_code e < 256" using error_code_bound [of e] by simp
  have "match_hex ?s = Some (hex_text (error_code e))"
    by (rule match_hex_digits) (use hex_text_digits [OF c] assms(2) in auto)
  then have "exec match_hex ?s = Some (hex_text (error_code e))" by (rule exec_here)
  moreover have "exec match_hex (pre @ ?s) = exec match_hex ?s"
    by (rule exec_skip) (use assms(1) match_hex_None in blast)
  ultimately show ?thesis
    using hex_text_digits(3) [OF c] FLOCK_ERRORS_code [of e] sentence_inj
    by (simp add: explainError_def Let_def)
qed

theorem explain_program_error_witness:
  "explainError (ErrorObject (js ''failed: custom program error: 0x14''))
     = js ''That component is already at or below its target: there is nothing to sell. (flock error 20)''"
proof -
  let ?pre = "js ''failed: ''"
  have m: "js ''failed: custom program error: 0x14''
      = ?pre @ js ''custom program error: 0x'' @ hex_text (error_code SellLegAtTarget) @ []"
    by (simp add: js_def hex_text_def hex_unit_def unit_of_def)
  have "\<forall>k<length ?pre. after (js ''custom program error: 0x'')
             (drop k (?pre @ js ''custom program error: 0x'' @ hex_text (error_code SellLegAtTarget) @ [])) = None"
    by (simp add: js_def numeral_eq_Suc All_less_Suc)
  from explain_program_error [OF this, THEN conjunct1] show ?thesis
    unfolding m by (simp add: sentence_def flock_error_texts_def js_def unit_of_def numeral_2_eq_2)
qed

end
