(* ===== verification/SdkClient.thy ===== *)
theory SdkClient
  imports SdkMath SdkState SdkInstructions
begin

text \<open>
  \<open>packages/sdk/src/client.ts\<close>: the read side of the protocol and the assembly of issue and
  redeem transactions. An RPC connection is the pair of answers it gives, and the three
  \<open>@solana/spl-token\<close> functions the client calls are parameters.
\<close>

record account_info =
  ai_owner :: pubkey
  ai_data :: bytes

record connection =
  getAccountInfo :: "pubkey \<Rightarrow> account_info option result"
  getMultipleAccountsInfo :: "pubkey list \<Rightarrow> account_info option list result"

text \<open>\<open>unpackMint(..).supply\<close>, \<open>unpackAccount(..).amount\<close> the associated token address (mint,
  owner, off-curve owners allowed) and the instruction that creates one (payer, address, owner, mint).\<close>

record spl_token =
  unpackMint_supply :: "pubkey \<Rightarrow> account_info \<Rightarrow> int result"
  unpackAccount_amount :: "pubkey \<Rightarrow> account_info \<Rightarrow> int result"
  associatedTokenAddress :: "pubkey \<Rightarrow> pubkey \<Rightarrow> bool \<Rightarrow> pubkey result"
  createAssociatedTokenAccountIdempotent :: "pubkey \<Rightarrow> pubkey \<Rightarrow> pubkey \<Rightarrow> pubkey \<Rightarrow> transaction_instruction"

record index_snapshot =
  sn_indexMint :: pubkey
  sn_address :: pubkey
  sn_account :: index_account
  sn_supply :: int
  sn_balances :: "int list"
  sn_units :: "int list"
  sn_pendingFee :: int
  sn_asOf :: jsnum

record auction_leg =
  al_mint :: pubkey
  al_balance :: int
  al_target :: int
  al_sellable :: int
  al_buyable :: int

record auction_view =
  av_active :: bool
  av_opensAt :: jsnum
  av_closesAt :: jsnum
  av_premiumBps :: "jsnum option"
  av_legs :: "auction_leg list"

section \<open>Reading\<close>

definition fetchIndex :: "web3 \<Rightarrow> connection \<Rightarrow> pubkey \<Rightarrow> pubkey \<Rightarrow> index_account result" where
  "fetchIndex w3 conn program indexMint =
     (let address = index_of w3 program indexMint in
      rbind (getAccountInfo conn address) (\<lambda>info.
        case info of
          None \<Rightarrow> Inl (Error [Lit ''No index at '', PKey address])
        | Some i \<Rightarrow>
            if ai_owner i \<noteq> program then Inl (Error [PKey address, Lit '' is not owned by the index program''])
            else decodeIndex (ai_data i)))"

definition vaultBalance :: "spl_token \<Rightarrow> account_info option list \<Rightarrow> nat \<Rightarrow> pubkey \<Rightarrow> int result" where
  "vaultBalance spl infos i vkey =
     (case nth_or None infos (i + 1) of
        None \<Rightarrow> Inl (Error [Lit ''vault '', PKey vkey, Lit '' is missing''])
      | Some info \<Rightarrow> unpackAccount_amount spl vkey info)"

definition snapshot ::
  "web3 \<Rightarrow> spl_token \<Rightarrow> connection \<Rightarrow> pubkey \<Rightarrow> pubkey \<Rightarrow> jsnum \<Rightarrow> index_snapshot result" where
  "snapshot w3 spl conn program indexMint asOf =
     (let address = index_of w3 program indexMint in
      rbind (getAccountInfo conn address) (\<lambda>first.
        case first of
          None \<Rightarrow> Inl (Error [Lit ''No index at '', PKey address])
        | Some info \<Rightarrow>
      rbind (decodeIndex (ai_data info)) (\<lambda>account.
      let vaultKeys = map (\<lambda>c. vault_of w3 program indexMint (ca_mint c)) (xa_components account) in
      rbind (getMultipleAccountsInfo conn (indexMint # vaultKeys)) (\<lambda>infos.
        case nth_or None infos 0 of
          None \<Rightarrow> Inl (Error [Lit ''index mint is missing''])
        | Some mintInfo \<Rightarrow>
      rbind (unpackMint_supply spl indexMint mintInfo) (\<lambda>supply.
      rbind (rmapM_idx (vaultBalance spl infos) vaultKeys) (\<lambda>balances.
      rbind (if supply = 0 then Inr (map ca_units (xa_components account))
             else rmapM (\<lambda>balance. unitsFromBalance balance supply) balances) (\<lambda>units.
      rbind (streamingFeeTokens supply (xa_streamingFeeBps account) (nsub asOf (xa_lastFeeAccrual account)))
        (\<lambda>pendingFee.
      Inr \<lparr>sn_indexMint = indexMint, sn_address = address, sn_account = account, sn_supply = supply,
           sn_balances = balances, sn_units = units, sn_pendingFee = pendingFee, sn_asOf = asOf\<rparr>))))))))"

section \<open>Quotes\<close>

definition unitsAt :: "index_snapshot \<Rightarrow> int \<Rightarrow> int list result" where
  "unitsAt snap supply =
     (if supply = 0 then Inr (map ca_units (xa_components (sn_account snap)))
      else rmapM (\<lambda>balance. unitsFromBalance balance supply) (sn_balances snap))"

definition quoteIssue :: "index_snapshot \<Rightarrow> int \<Rightarrow> (int list \<times> int) result" where
  "quoteIssue snap amount =
     (let supplyAfterFee = sn_supply snap + sn_pendingFee snap in
      rbind (unitsAt snap supplyAfterFee) (\<lambda>units.
      rbind (bigint_of (xa_issueFeeBps (sn_account snap))) (\<lambda>bps.
      rbind (mulDivCeil amount bps BPS) (\<lambda>feeTokens.
      let gross = amount + feeTokens in
      rbind (rmapM (\<lambda>u. unitsIn u gross) units) (\<lambda>required. Inr (required, feeTokens))))))"

definition quoteRedeem :: "index_snapshot \<Rightarrow> int \<Rightarrow> (int list \<times> int) result" where
  "quoteRedeem snap amount =
     (let supplyAfterFee = sn_supply snap + sn_pendingFee snap in
      rbind (unitsAt snap supplyAfterFee) (\<lambda>units.
      rbind (bigint_of (xa_redeemFeeBps (sn_account snap))) (\<lambda>bps.
      rbind (mulDivCeil amount bps BPS) (\<lambda>feeTokens.
      let net = amount - feeTokens in
      rbind (rmapM (\<lambda>u. unitsOut u net) units) (\<lambda>payout. Inr (payout, feeTokens))))))"

section \<open>Valuation\<close>

definition weights :: "index_snapshot \<Rightarrow> int list \<Rightarrow> (int \<times> jsnum list) result" where
  "weights snap pricesE9 =
     weightsBps (sn_balances snap) (map ca_decimals (xa_components (sn_account snap))) pricesE9"

definition navPerToken :: "index_snapshot \<Rightarrow> int list \<Rightarrow> int result" where
  "navPerToken snap pricesE9 =
     rbind (weightsBps (sn_balances snap) (map ca_decimals (xa_components (sn_account snap))) pricesE9)
       (\<lambda>(navE9, ws).
         if sn_supply snap = 0 then Inr 0 else Inr ((navE9 * UNIT_SCALE) sdiv sn_supply snap))"

definition navAtReferencePrices :: "index_snapshot \<Rightarrow> int result" where
  "navAtReferencePrices snap =
     rfold (\<lambda>total (i, component).
         rbind (valueE9 (nth_or 0 (sn_balances snap) i) (ca_decimals component) (ca_refPriceE9 component))
           (\<lambda>v. Inr (total + v)))
       0 (enumerate 0 (xa_components (sn_account snap)))"

section \<open>The auction\<close>

definition auctionLeg :: "index_snapshot \<Rightarrow> nat \<Rightarrow> component_account \<Rightarrow> auction_leg result" where
  "auctionLeg snap i component =
     (let balance = nth_or 0 (sn_balances snap) i;
          target = (ca_targetUnits component * sn_supply snap) sdiv UNIT_SCALE in
      rbind (bigint_of (xa_maxPremiumBps (sn_account snap))) (\<lambda>maxPremium.
      let cap = target + (target * maxPremium) sdiv BPS in
      Inr \<lparr>al_mint = ca_mint component, al_balance = balance, al_target = target,
           al_sellable = (if balance > target then balance - target else 0),
           al_buyable = (if cap > balance then cap - balance else 0)\<rparr>))"

definition auction :: "index_snapshot \<Rightarrow> jsnum \<Rightarrow> auction_view result" where
  "auction snap now =
     (let account = sn_account snap; reb = xa_rebalance account;
          isOpen = (ra_active reb \<and> nle (ra_startTs reb) now \<and> nle now (ra_endTs reb)) in
      rbind (rmapM_idx (auctionLeg snap) (xa_components account)) (\<lambda>legs.
      rbind (if isOpen
             then rmap Some (premiumAt (ra_startPremiumBps reb) (ra_endPremiumBps reb) (ra_startTs reb) (ra_endTs reb) now)
             else Inr None) (\<lambda>premium.
      Inr \<lparr>av_active = ra_active reb, av_opensAt = ra_startTs reb, av_closesAt = ra_endTs reb,
           av_premiumBps = premium, av_legs = legs\<rparr>)))"

section \<open>Transactions\<close>

definition componentAccounts :: "spl_token \<Rightarrow> index_snapshot \<Rightarrow> pubkey \<Rightarrow> component_pair list result" where
  "componentAccounts spl snap user =
     rmapM (\<lambda>c. rmap (\<lambda>ta. \<lparr>cp_mint = ca_mint c, cp_tokenAccount = ta\<rparr>)
                  (associatedTokenAddress spl (ca_mint c) user False))
       (xa_components (sn_account snap))"

definition issueInstruction ::
  "web3 \<Rightarrow> spl_token \<Rightarrow> pubkey \<Rightarrow> index_snapshot \<Rightarrow> pubkey \<Rightarrow> int \<Rightarrow> jsnum option \<Rightarrow> transaction_instruction result" where
  "issueInstruction w3 spl program snap user amount slippageBps =
     rbind (quoteIssue snap amount) (\<lambda>(required, fee).
     rbind (bigint_of (case slippageBps of None \<Rightarrow> nint 50 | Some s \<Rightarrow> s)) (\<lambda>slippage.
     let maxIn = map (\<lambda>value. value + (value * slippage) sdiv BPS + 1) required in
     rbind (associatedTokenAddress spl (sn_indexMint snap) user False) (\<lambda>userIndexAccount.
     rbind (associatedTokenAddress spl (sn_indexMint snap) (xa_feeRecipient (sn_account snap)) True) (\<lambda>feeAccount.
     rbind (componentAccounts spl snap user) (\<lambda>components.
     issue w3 program user (sn_indexMint snap) userIndexAccount feeAccount components amount maxIn)))))"

definition redeemInstruction ::
  "web3 \<Rightarrow> spl_token \<Rightarrow> pubkey \<Rightarrow> index_snapshot \<Rightarrow> pubkey \<Rightarrow> int \<Rightarrow> jsnum option \<Rightarrow> pubkey
   \<Rightarrow> transaction_instruction result" where
  "redeemInstruction w3 spl program snap user amount slippageBps feeAccount =
     rbind (quoteRedeem snap amount) (\<lambda>(payout, fee).
     rbind (bigint_of (case slippageBps of None \<Rightarrow> nint 50 | Some s \<Rightarrow> s)) (\<lambda>slippage.
     let minOut = map (\<lambda>value. value - (value * slippage) sdiv BPS) payout in
     rbind (associatedTokenAddress spl (sn_indexMint snap) user False) (\<lambda>userIndexAccount.
     rbind (componentAccounts spl snap user) (\<lambda>components.
     redeem w3 program user (sn_indexMint snap) userIndexAccount feeAccount components amount minOut))))"

section \<open>Values of the quotes\<close>

text \<open>The recipe the program uses at a given supply.\<close>

definition recipe :: "index_snapshot \<Rightarrow> int \<Rightarrow> int list" where
  "recipe snap supply =
     (if supply = 0 then map ca_units (xa_components (sn_account snap))
      else map (\<lambda>b. b * UNIT_SCALE div supply) (sn_balances snap))"

definition sane_snapshot :: "index_snapshot \<Rightarrow> bool" where
  "sane_snapshot snap \<longleftrightarrow>
     0 \<le> sn_supply snap \<and> 0 \<le> sn_pendingFee snap \<and> (\<forall>b\<in>set (sn_balances snap). 0 \<le> b)
     \<and> (\<forall>c\<in>set (xa_components (sn_account snap)). 0 \<le> ca_units c)"

lemma recipe_nonneg: "sane_snapshot snap \<Longrightarrow> 0 \<le> supply \<Longrightarrow> u \<in> set (recipe snap supply) \<Longrightarrow> 0 \<le> u"
  by (auto simp: recipe_def sane_snapshot_def pos_imp_zdiv_nonneg_iff split: if_splits)

lemma unitsAt_recipe:
  assumes "sane_snapshot snap" "0 \<le> supply"
  shows "unitsAt snap supply = Inr (recipe snap supply)"
proof (cases "supply = 0")
  case False
  then have "rmapM (\<lambda>b. unitsFromBalance b supply) (sn_balances snap)
      = Inr (map (\<lambda>b. b * UNIT_SCALE div supply) (sn_balances snap))"
    using assms by (intro rmapM_all_Inr) (auto simp: unitsFromBalance_def math_simps sane_snapshot_def)
  then show ?thesis using False by (simp add: unitsAt_def recipe_def)
qed (simp add: unitsAt_def recipe_def)

lemma quoteIssue_value:
  assumes "sane_snapshot snap" "0 \<le> amount" "xa_issueFeeBps (sn_account snap) = nint bps" "0 \<le> bps"
  shows "quoteIssue snap amount =
    (let fee = ceil_div (amount * bps) BPS
     in Inr (map (\<lambda>u. ceil_div (u * (amount + fee)) UNIT_SCALE) (recipe snap (sn_supply snap + sn_pendingFee snap)), fee))"
proof -
  have s: "0 \<le> sn_supply snap + sn_pendingFee snap" using assms(1) by (simp add: sane_snapshot_def)
  have fee: "0 \<le> ceil_div (amount * bps) BPS" using assms by (intro ceil_div_nonneg) auto
  have "rmapM (\<lambda>u. unitsIn u (amount + ceil_div (amount * bps) BPS)) (recipe snap (sn_supply snap + sn_pendingFee snap))
     = Inr (map (\<lambda>u. ceil_div (u * (amount + ceil_div (amount * bps) BPS)) UNIT_SCALE) (recipe snap (sn_supply snap + sn_pendingFee snap)))"
    using recipe_nonneg [OF assms(1) s] fee assms(2) by (intro rmapM_all_Inr) (simp add: math_simps)
  then show ?thesis using assms s by (simp add: quoteIssue_def unitsAt_recipe math_simps Let_def)
qed

lemma quoteRedeem_value:
  assumes "sane_snapshot snap" "0 \<le> amount" "xa_redeemFeeBps (sn_account snap) = nint bps" "0 \<le> bps" "bps \<le> BPS"
  shows "quoteRedeem snap amount =
    (let fee = ceil_div (amount * bps) BPS
     in Inr (map (\<lambda>u. u * (amount - fee) div UNIT_SCALE) (recipe snap (sn_supply snap + sn_pendingFee snap)), fee))"
    "0 \<le> ceil_div (amount * bps) BPS" "ceil_div (amount * bps) BPS \<le> amount"
proof -
  have s: "0 \<le> sn_supply snap + sn_pendingFee snap" using assms(1) by (simp add: sane_snapshot_def)
  show fee: "0 \<le> ceil_div (amount * bps) BPS" using assms by (intro ceil_div_nonneg) auto
  show fee': "ceil_div (amount * bps) BPS \<le> amount"
    by (rule ceil_div_least) (use assms in \<open>auto intro: mult_left_mono\<close>)
  have "rmapM (\<lambda>u. unitsOut u (amount - ceil_div (amount * bps) BPS)) (recipe snap (sn_supply snap + sn_pendingFee snap))
     = Inr (map (\<lambda>u. u * (amount - ceil_div (amount * bps) BPS) div UNIT_SCALE) (recipe snap (sn_supply snap + sn_pendingFee snap)))"
    using recipe_nonneg [OF assms(1) s] fee' by (intro rmapM_all_Inr) (simp add: math_simps)
  then show "quoteRedeem snap amount =
    (let fee = ceil_div (amount * bps) BPS
     in Inr (map (\<lambda>u. u * (amount - fee) div UNIT_SCALE) (recipe snap (sn_supply snap + sn_pendingFee snap)), fee))"
    using assms s by (simp add: quoteRedeem_def unitsAt_recipe math_simps Let_def)
qed

end
