(* ===== verification/JsText.thy ===== *)
theory JsText
  imports JsParse
begin

text \<open>
  Text the sources print: \<open>String(x)\<close> of a number, which writes the shortest decimal that reads
  back as the same double, \<open>toFixed\<close>, \<open>padStart\<close>, \<open>padEnd\<close> and \<open>trimEnd\<close>.
\<close>

section \<open>Padding\<close>

definition padStart :: "nat \<Rightarrow> 16 word \<Rightarrow> jsstring \<Rightarrow> jsstring" where
  "padStart n u s = replicate (n - length s) u @ s"

definition padEnd :: "nat \<Rightarrow> 16 word \<Rightarrow> jsstring \<Rightarrow> jsstring" where
  "padEnd n u s = s @ replicate (n - length s) u"

definition trimEnd :: "jsstring \<Rightarrow> jsstring" where
  "trimEnd s = rev (dropWhile is_space (rev s))"

fun join :: "jsstring \<Rightarrow> jsstring list \<Rightarrow> jsstring" where
  "join sep [] = []"
| "join sep [s] = s"
| "join sep (s # t # ts) = s @ sep @ join sep (t # ts)"

section \<open>Numbers\<close>

text \<open>The decimal exponent of a positive rational, \<open>10 ^ e \<le> x < 10 ^ (e + 1)\<close>.\<close>

definition ilog10 :: "rat \<Rightarrow> int" where
  "ilog10 x =
     (if 1 \<le> x then int (length (bigint_text \<lfloor>x\<rfloor>)) - 1
      else (let m = int (length (bigint_text \<lfloor>1 / x\<rfloor>)) - 1 in if 1 \<le> x * 10 powi m then - m else - m - 1))"

text \<open>
  The decimal \<open>s * 10 ^ e\<close> with the fewest digits that rounds to the double \<open>x\<close>, from one digit
  on; seventeen digits always suffice, so sixteen are tried.
\<close>

fun shortest :: "nat \<Rightarrow> int \<Rightarrow> rat \<Rightarrow> int \<times> int" where
  "shortest 0 e x = (\<lfloor>x * 10 powi (- e) + 1 / 2\<rfloor>, e)"
| "shortest (Suc n) e x =
     (let s = \<lfloor>x * 10 powi (- e) + 1 / 2\<rfloor>
      in if to_double (of_int s * 10 powi e) = Fin x then (s, e) else shortest n (e - 1) x)"

definition SHORTEST_TRIES :: nat where "SHORTEST_TRIES = 16"

text \<open>Digits \<open>ds\<close> with the decimal point after the first \<open>n\<close> of them.\<close>

definition place_point :: "jsstring \<Rightarrow> int \<Rightarrow> jsstring" where
  "place_point ds n =
     (let k = int (length ds) in
      if k \<le> n \<and> n \<le> 21 then ds @ replicate (nat (n - k)) (unit_of 48)
      else if 0 < n \<and> n \<le> 21 then take (nat n) ds @ js ''.'' @ drop (nat n) ds
      else if - 6 < n \<and> n \<le> 0 then js ''0.'' @ replicate (nat (- n)) (unit_of 48) @ ds
      else (if k = 1 then ds else take 1 ds @ js ''.'' @ drop 1 ds)
           @ js (if 0 < n then ''e+'' else ''e-'') @ bigint_text \<bar>n - 1\<bar>)"

definition positive_text :: "rat \<Rightarrow> jsstring" where
  "positive_text x =
     (let (s, e) = shortest SHORTEST_TRIES (ilog10 x) x; ds = bigint_text s
      in place_point (rev (dropWhile (\<lambda>u. u = unit_of 48) (rev ds))) (int (length ds) + e))"

definition number_text :: "jsnum \<Rightarrow> jsstring" where
  "number_text x =
     (case x of
        NaN \<Rightarrow> js ''NaN''
      | PosInf \<Rightarrow> js ''Infinity''
      | NegInf \<Rightarrow> js ''-Infinity''
      | Fin r \<Rightarrow> if r = 0 then js ''0'' else if r < 0 then js ''-'' @ positive_text (- r) else positive_text r)"

text \<open>
  \<open>x.toFixed(places)\<close>: the nearest decimal with that many places, the larger one on a tie, the
  sign in front; from 1e21 on it is the number's own text.
\<close>

definition toFixed :: "nat \<Rightarrow> jsnum \<Rightarrow> jsstring" where
  "toFixed places x =
     (case x of
        Fin r \<Rightarrow>
          if \<bar>r\<bar> < 10 ^ 21 then
            (let digits = padStart (places + 1) (unit_of 48) (bigint_text \<lfloor>\<bar>r\<bar> * 10 ^ places + 1 / 2\<rfloor>);
                 n = length digits - places;
                 body = (if places = 0 then digits else take n digits @ js ''.'' @ drop n digits)
             in if r < 0 then js ''-'' @ body else body)
          else number_text x
      | _ \<Rightarrow> number_text x)"

section \<open>Messages\<close>

text \<open>The text of a template literal; base 58 and the currency format belong to the platform.\<close>

fun chunk_text :: "(pubkey \<Rightarrow> jsstring) \<Rightarrow> (jsnum \<Rightarrow> jsstring) \<Rightarrow> chunk \<Rightarrow> jsstring" where
  "chunk_text toBase58 usd (Lit s) = js s"
| "chunk_text toBase58 usd (PInt i) = bigint_text i"
| "chunk_text toBase58 usd (PNum x) = number_text x"
| "chunk_text toBase58 usd (PKey k) = toBase58 k"
| "chunk_text toBase58 usd (PStr s) = s"
| "chunk_text toBase58 usd (PUsd x) = usd x"

definition message_text :: "(pubkey \<Rightarrow> jsstring) \<Rightarrow> (jsnum \<Rightarrow> jsstring) \<Rightarrow> chunk list \<Rightarrow> jsstring" where
  "message_text toBase58 usd chunks = concat (map (chunk_text toBase58 usd) chunks)"

end
