(* ===== verification/JsJson.thy ===== *)
theory JsJson
  imports JsText
begin

text \<open>
  JSON values, how the language converts and inspects them, and \<open>JSON.stringify(v, null, 2)\<close>.
  Objects keep their properties in order and do not redefine \<open>toString\<close>.
\<close>

datatype json = J_null | J_bool bool | J_num jsnum | J_str jsstring | J_arr "json list"
  | J_obj "(jsstring \<times> json) list"

section \<open>Conversions\<close>

text \<open>
  \<open>Number(v)\<close>. An array goes through its \<open>toString\<close>, the comma-joined texts of its elements: an
  empty one is 0, a singleton what its element's text converts to, a longer one holds a comma.
\<close>

fun to_number :: "json \<Rightarrow> jsnum" where
  "to_number J_null = nint 0"
| "to_number (J_bool b) = nint (if b then 1 else 0)"
| "to_number (J_num x) = x"
| "to_number (J_str s) = Number s"
| "to_number (J_arr []) = nint 0"
| "to_number (J_arr [J_bool b]) = NaN"
| "to_number (J_arr [v]) = to_number v"
| "to_number (J_arr (v # w # vs)) = NaN"
| "to_number (J_obj fs) = NaN"

text \<open>\<open>String(v)\<close>; inside an array \<open>null\<close> is the empty text.\<close>

fun to_text :: "json \<Rightarrow> jsstring" where
  "to_text J_null = js ''null''"
| "to_text (J_bool b) = js (if b then ''true'' else ''false'')"
| "to_text (J_num x) = number_text x"
| "to_text (J_str s) = s"
| "to_text (J_arr vs) = join (js '','') (map (\<lambda>v. if v = J_null then [] else to_text v) vs)"
| "to_text (J_obj fs) = js ''[object Object]''"

text \<open>\<open>Boolean(v)\<close>\<close>

definition to_bool :: "json \<Rightarrow> bool" where
  "to_bool v =
     (case v of
        J_null \<Rightarrow> False | J_bool b \<Rightarrow> b | J_num x \<Rightarrow> x \<noteq> NaN \<and> x \<noteq> Fin 0 | J_str s \<Rightarrow> s \<noteq> []
      | J_arr vs \<Rightarrow> True | J_obj fs \<Rightarrow> True)"

section \<open>Properties\<close>

text \<open>\<open>value.name\<close>: a TypeError on \<open>null\<close>, \<open>undefined\<close> (here \<open>None\<close>) on everything else without it.\<close>

definition property :: "string \<Rightarrow> json \<Rightarrow> json option result" where
  "property name v =
     (case v of J_null \<Rightarrow> Inl TypeError | J_obj fs \<Rightarrow> Inr (map_of fs (js name)) | _ \<Rightarrow> Inr None)"

definition to_number_opt :: "json option \<Rightarrow> jsnum" where
  "to_number_opt v = (case v of None \<Rightarrow> NaN | Some j \<Rightarrow> to_number j)"

text \<open>\<open>v ?? d\<close>\<close>

definition nullish :: "json option \<Rightarrow> json option" where
  "nullish v = (case v of Some J_null \<Rightarrow> None | _ \<Rightarrow> v)"

text \<open>\<open>Number(value.name ?? 0)\<close> and \<open>String(value.name ?? d)\<close>\<close>

definition number_or_zero :: "string \<Rightarrow> json \<Rightarrow> jsnum result" where
  "number_or_zero name v =
     rmap (\<lambda>p. case p of None \<Rightarrow> nint 0 | Some J_null \<Rightarrow> nint 0 | Some j \<Rightarrow> to_number j) (property name v)"

definition text_or :: "string \<Rightarrow> string \<Rightarrow> json \<Rightarrow> jsstring result" where
  "text_or d name v =
     rmap (\<lambda>p. case nullish p of None \<Rightarrow> js d | Some j \<Rightarrow> to_text j) (property name v)"

text \<open>\<open>Object.entries\<close>; the keys of an array are its indices.\<close>

fun entries :: "json \<Rightarrow> (jsstring \<times> json) list" where
  "entries (J_obj fs) = fs"
| "entries (J_arr vs) = map (\<lambda>(i, v). (bigint_text (int i), v)) (enumerate 0 vs)"
| "entries _ = []"

section \<open>Writing\<close>

definition hex_digit :: "int \<Rightarrow> 16 word" where
  "hex_digit d = unit_of (if d < 10 then 48 + d else 87 + d)"

definition unicode_escape :: "16 word \<Rightarrow> jsstring" where
  "unicode_escape u =
     js [CHR 92, CHR ''u''] @
     map (\<lambda>k. hex_digit (uint u div 16 ^ k mod 16)) [3, 2, 1, 0]"

definition escape_unit :: "16 word \<Rightarrow> jsstring" where
  "escape_unit u =
     (let c = uint u; e = (\<lambda>x. [unit_of 92, unit_of x]) in
      if c = 8 then e 98 else if c = 9 then e 116 else if c = 10 then e 110
      else if c = 12 then e 102 else if c = 13 then e 114 else if c = 34 then e 34 else if c = 92 then e 92
      else if c < 32 \<or> is_high u \<or> is_low u then unicode_escape u
      else [u])"

text \<open>A surrogate pair is kept, a lone surrogate escaped.\<close>

fun escape :: "jsstring \<Rightarrow> jsstring" where
  "escape [] = []"
| "escape [u] = escape_unit u"
| "escape (u # v # us) =
     (if is_high u \<and> is_low v then u # v # escape us else escape_unit u @ escape (v # us))"

definition quoted :: "jsstring \<Rightarrow> jsstring" where
  "quoted s = js [CHR 34] @ escape s @ js [CHR 34]"

text \<open>Members on lines of their own, one level deeper than the bracket that closes them.\<close>

definition bracketed :: "string \<Rightarrow> string \<Rightarrow> nat \<Rightarrow> jsstring list \<Rightarrow> jsstring" where
  "bracketed opening closing depth members =
     (if members = [] then js opening @ js closing
      else (let line = (\<lambda>d. unit_of 10 # replicate (2 * d) (unit_of 32)) in
            js opening @ line (Suc depth) @ join (js '','' @ line (Suc depth)) members
              @ line depth @ js closing))"

fun stringify :: "nat \<Rightarrow> json \<Rightarrow> jsstring" where
  "stringify depth J_null = js ''null''"
| "stringify depth (J_bool b) = js (if b then ''true'' else ''false'')"
| "stringify depth (J_num x) = (if is_finite x then number_text x else js ''null'')"
| "stringify depth (J_str s) = quoted s"
| "stringify depth (J_arr vs) = bracketed ''['' '']'' depth (map (stringify (Suc depth)) vs)"
| "stringify depth (J_obj fs) =
     bracketed ''{'' ''}'' depth (map (\<lambda>(k, v). quoted k @ js '': '' @ stringify (Suc depth) v) fs)"

end
