(* ===== verification/SdkPrices.thy ===== *)
theory SdkPrices
  imports SdkMath JsJson "HOL-Library.AList"
begin

text \<open>
  \<open>packages/sdk/src/prices.ts\<close>: Jupiter's price endpoint, from the retry loop to the fixed-point
  prices an auction is scored against. A payload is a JSON value whose objects do not redefine
  \<open>toString\<close>, a JavaScript \<open>Map\<close> an association list in insertion order, and the network the
  answer it gives to its n-th request. The delays between attempts are not modelled.
\<close>

section \<open>Fixed-point prices\<close>

definition toPriceE9 :: "jsnum \<Rightarrow> int result" where
  "toPriceE9 usdPrice =
     (if \<not> is_finite usdPrice \<or> nle usdPrice (nint 0)
      then Inl (Error [Lit ''cannot price a token at '', PNum usdPrice])
      else rbind (bigint_of (nround (nmul usdPrice (nint 1000000000)))) (\<lambda>scaled.
             Inr (if scaled = 0 then 1 else scaled)))"

record price_quote =
  pq_mint :: jsstring
  pq_usdPrice :: jsnum
  pq_priceE9 :: int
  pq_decimals :: jsnum
  pq_liquidityUsd :: jsnum
  pq_priceChange24h :: jsnum
  pq_blockId :: jsnum

type_synonym quotes = "(jsstring \<times> price_quote) list"

text \<open>The body of the loop over the entries; \<open>continue\<close> returns the map unchanged.\<close>

definition parsePriceEntry :: "quotes \<Rightarrow> jsstring \<times> json \<Rightarrow> quotes result" where
  "parsePriceEntry out = (\<lambda>(mint, value).
     rbind (property ''usdPrice'' value) (\<lambda>p.
     let usdPrice = to_number_opt p in
     if \<not> is_finite usdPrice \<or> nle usdPrice (nint 0) then Inr out
     else rbind (toPriceE9 usdPrice) (\<lambda>priceE9.
          rbind (number_or_zero ''decimals'' value) (\<lambda>decimals.
          rbind (number_or_zero ''liquidity'' value) (\<lambda>liquidity.
          rbind (number_or_zero ''priceChange24h'' value) (\<lambda>change.
          rbind (number_or_zero ''blockId'' value) (\<lambda>blockId.
          Inr (AList.update mint
                \<lparr>pq_mint = mint, pq_usdPrice = usdPrice, pq_priceE9 = priceE9, pq_decimals = decimals,
                 pq_liquidityUsd = liquidity, pq_priceChange24h = change, pq_blockId = blockId\<rparr> out))))))))"

definition parsePriceResponse :: "json \<Rightarrow> quotes result" where
  "parsePriceResponse payload = rfold parsePriceEntry [] (entries payload)"

section \<open>The network\<close>

text \<open>
  One call of \<open>fetchImpl\<close>: it rejects, or answers with \<open>ok\<close>, a status and a body whose parsing
  may fail. \<open>fetcher\<close> gives the outcome of the n-th call.
\<close>

datatype fetch_outcome = Rejected js_error | Response bool int "json result"

type_synonym fetcher = "nat \<Rightarrow> jsstring \<Rightarrow> fetch_outcome"

text \<open>
  One pass through the \<open>try\<close> block: the payload it returns, or the error left in \<open>lastError\<close>.
  The error thrown for a client error is raised inside the block that catches it.
\<close>

definition attempt :: "fetcher \<Rightarrow> jsstring \<Rightarrow> nat \<Rightarrow> json result" where
  "attempt fetchImpl url calls =
     (case fetchImpl calls url of
        Rejected e \<Rightarrow> Inl e
      | Response ok status body \<Rightarrow>
          if ok then body
          else if status < 500 \<and> status \<noteq> 429
          then Inl (Error [Lit ''Jupiter returned '', PInt status, Lit '' for '', PStr url])
          else Inl (Error [Lit ''Jupiter returned '', PInt status]))"

fun getJson :: "fetcher \<Rightarrow> jsstring \<Rightarrow> nat \<Rightarrow> js_error \<Rightarrow> nat \<Rightarrow> json result \<times> nat" where
  "getJson fetchImpl url 0 lastError calls = (Inl lastError, calls)"
| "getJson fetchImpl url (Suc attempts) lastError calls =
     (case attempt fetchImpl url calls of
        Inr payload \<Rightarrow> (Inr payload, Suc calls)
      | Inl e \<Rightarrow> getJson fetchImpl url attempts e (Suc calls))"

definition ATTEMPTS :: nat where "ATTEMPTS = 3"
definition PRICE_BATCH :: nat where "PRICE_BATCH = 50"
definition PRICE_ENDPOINT :: jsstring where "PRICE_ENDPOINT = js ''https://lite-api.jup.ag/price/v3''"

fun chunk :: "nat \<Rightarrow> 'a list \<Rightarrow> 'a list list" where
  "chunk sz [] = []"
| "chunk sz (x # xs) =
     (if sz = 0 then [] else (x # take (sz - 1) xs) # chunk sz (drop (sz - 1) xs))"

text \<open>\<open>[...new Set(xs)]\<close> keeps first occurrences.\<close>

definition dedup :: "'a list \<Rightarrow> 'a list" where
  "dedup xs = rev (remdups (rev xs))"

definition set_all :: "(jsstring \<times> 'a) list \<Rightarrow> (jsstring \<times> 'a) list \<Rightarrow> (jsstring \<times> 'a) list" where
  "set_all out new = fold (\<lambda>(k, v) m. AList.update k v m) new out"

fun fetchBatches :: "fetcher \<Rightarrow> jsstring list list \<Rightarrow> quotes \<Rightarrow> nat \<Rightarrow> quotes result \<times> nat" where
  "fetchBatches fetchImpl [] out calls = (Inr out, calls)"
| "fetchBatches fetchImpl (batch # batches) out calls =
     (case getJson fetchImpl (PRICE_ENDPOINT @ js ''?ids='' @ join (js '','') batch) ATTEMPTS
             (Error [Lit ''undefined'']) calls of
        (Inl e, calls') \<Rightarrow> (Inl e, calls')
      | (Inr payload, calls') \<Rightarrow>
          (case parsePriceResponse payload of
             Inl e \<Rightarrow> (Inl e, calls')
           | Inr new \<Rightarrow> fetchBatches fetchImpl batches (set_all out new) calls'))"

definition fetchPrices :: "fetcher \<Rightarrow> jsstring list \<Rightarrow> nat \<Rightarrow> quotes result \<times> nat" where
  "fetchPrices fetchImpl mints calls = fetchBatches fetchImpl (chunk PRICE_BATCH (dedup mints)) [] calls"

definition pricesInOrder :: "quotes \<Rightarrow> jsstring list \<Rightarrow> int list result" where
  "pricesInOrder quotes mints =
     rmapM (\<lambda>mint. case map_of quotes mint of
              None \<Rightarrow> Inl (Error [Lit ''No price for '', PStr mint, Lit ''; refusing to value an index without one''])
            | Some q \<Rightarrow> Inr (pq_priceE9 q)) mints"

definition fetchPricesE9 :: "fetcher \<Rightarrow> jsstring list \<Rightarrow> nat \<Rightarrow> int list result \<times> nat" where
  "fetchPricesE9 fetchImpl mints calls =
     (case fetchPrices fetchImpl mints calls of
        (Inl e, calls') \<Rightarrow> (Inl e, calls')
      | (Inr quotes, calls') \<Rightarrow> (pricesInOrder quotes mints, calls'))"

section \<open>Exact prices\<close>

text \<open>
  A price given with nine decimals, read as the nearest double, comes back exactly: the two
  roundings together stay below half a unit of the ninth decimal up to \<open>2 ^ 50\<close>.
\<close>

lemma to_double_pos:
  assumes "0 < x" "round_mag x < 2 ^ 1024"
  shows "to_double x = Fin (round_mag x)"
  using assms by (simp add: to_double_def abs_of_pos sgn_pos not_le)

lemma floor_near:
  assumes "\<bar>y - of_int n\<bar> < (1/2 :: rat)" shows "\<lfloor>y + 1/2\<rfloor> = n"
  by (rule floor_unique) (use assms in linarith)+

lemma near_twice:
  fixes x y :: rat
  assumes "0 < x" "\<bar>y - x\<bar> \<le> x / 2 ^ 53"
  shows "0 < y" "y \<le> 2 * x"
proof -
  have "x / 2 ^ 53 \<le> x / 2" using assms(1) by (intro divide_left_mono) auto
  then show "0 < y" "y \<le> 2 * x" using assms by linarith+
qed

lemma nine_decimals:
  fixes n :: int
  assumes "0 < n" "n < 2 ^ 50"
  shows "\<exists>y>0. to_double (of_int n / 10 ^ 9) = Fin y"
    "nround (nmul (to_double (of_int n / 10 ^ 9)) (nint 1000000000)) = nint n"
proof -
  let ?x = "of_int n / 10 ^ 9 :: rat"
  let ?y = "round_mag ?x"
  have x0: "0 < ?x" using assms by simp
  have nb: "(of_int n :: rat) < 2 ^ 50" "(1 :: rat) \<le> of_int n"
  proof -
    have "(of_int n :: rat) < of_int (2 ^ 50)" using assms(2) by (simp only: of_int_less_iff)
    then show "(of_int n :: rat) < 2 ^ 50" by simp
    have "(of_int 1 :: rat) \<le> of_int n" using assms(1) by (simp only: of_int_le_iff)
    then show "(1 :: rat) \<le> of_int n" by simp
  qed
  have tiny: "(2 :: rat) powi (- 1022) \<le> 1 / 10 ^ 9"
  proof -
    have "(2 :: rat) powi (- 1022) \<le> 2 powi (- 30)" by (rule power_int_increasing) simp_all
    also have "\<dots> \<le> 1 / 10 ^ 9" by (simp add: power_int_def power_divide)
    finally show ?thesis .
  qed
  also have "\<dots> \<le> ?x" using nb(2) by (intro divide_right_mono) auto
  finally have "2 powi (- 1022) \<le> ?x" .
  then have err: "\<bar>?y - ?x\<bar> \<le> ?x / 2 ^ 53" by (rule round_mag_rel_error [OF x0])
  note y0 = near_twice [OF x0 err]
  have ylt: "?y < 2 ^ 1024"
  proof -
    have "2 * ?x < 2 ^ 51" using nb by simp
    also have "(2 :: rat) ^ 51 \<le> 2 ^ 1024" by (rule power_increasing) simp_all
    finally show ?thesis using y0 by linarith
  qed
  let ?z = "?y * 10 ^ 9"
  have z0: "0 < ?z" using y0 by simp
  have ze: "\<bar>?z - of_int n\<bar> \<le> of_int n / 2 ^ 53"
  proof -
    have "?z - of_int n = (?y - ?x) * 10 ^ 9" by (simp add: left_diff_distrib)
    then have "\<bar>?z - of_int n\<bar> = \<bar>(?y - ?x) * 10 ^ 9\<bar>" by (rule arg_cong)
    also have "\<dots> = \<bar>?y - ?x\<bar> * 10 ^ 9" by (simp only: abs_mult power_abs abs_numeral)
    also have "\<dots> \<le> ?x / 2 ^ 53 * 10 ^ 9" using err by (intro mult_right_mono) auto
    finally show ?thesis by simp
  qed
  have small: "of_int n / 2 ^ 53 < (1/8 :: rat)" using nb(1) by simp
  then have zb: "?z \<le> 2 * of_int n" "of_int n \<le> 2 * ?z" using ze nb(2) by linarith+
  have "2 powi (- 1022) \<le> (1/2 :: rat)"
  proof -
    have "(2 :: rat) powi (- 1022) \<le> 2 powi (- 1)" by (rule power_int_increasing) simp_all
    then show ?thesis by simp
  qed
  then have "2 powi (- 1022) \<le> ?z" using zb nb(2) by linarith
  then have err2: "\<bar>round_mag ?z - ?z\<bar> \<le> ?z / 2 ^ 53" by (rule round_mag_rel_error [OF z0])
  have "?z / 2 ^ 53 \<le> 2 * of_int n / 2 ^ 53" using zb(1) by (intro divide_right_mono) auto
  then have "\<bar>round_mag ?z - ?z\<bar> \<le> 2 * (of_int n / 2 ^ 53)" using err2 by simp
  then have near: "\<bar>round_mag ?z - of_int n\<bar> < 1/2" using ze small by linarith
  have zlt: "round_mag ?z < 2 ^ 1024"
  proof -
    have "(2 :: rat) ^ 51 \<le> 2 ^ 1024" by (rule power_increasing) simp_all
    moreover have "round_mag ?z < 2 ^ 51"
    proof -
      have "round_mag ?z < of_int n + 1" using abs_less_iff [THEN iffD1, OF near] by linarith
      also have "\<dots> < 2 ^ 50 + 1" using nb(1) by (intro add_strict_right_mono)
      also have "\<dots> < 2 ^ 51" by simp
      finally show ?thesis .
    qed
    ultimately show ?thesis by linarith
  qed
  have dx: "to_double ?x = Fin ?y" by (rule to_double_pos [OF x0 ylt])
  have dz: "to_double ?z = Fin (round_mag ?z)" by (rule to_double_pos [OF z0 zlt])
  have "nmul (Fin ?y) (nint 1000000000) = Fin (round_mag ?z)" using dz by (simp add: nint_def)
  then have "nround (nmul (Fin ?y) (nint 1000000000)) = nint n" using floor_near [OF near] by simp
  then show "\<exists>y>0. to_double ?x = Fin y" "nround (nmul (to_double ?x) (nint 1000000000)) = nint n"
    using y0(1) unfolding dx by auto
qed

lemma toPriceE9_nine_decimals:
  fixes n :: int
  assumes "0 < n" "n < 2 ^ 50"
  shows "toPriceE9 (to_double (of_int n / 10 ^ 9)) = Inr n"
proof -
  obtain y where y: "0 < y" "to_double (of_int n / 10 ^ 9) = Fin y" using nine_decimals(1) [OF assms] by blast
  then have "\<not> nle (Fin y) (nint 0)" "is_finite (Fin y)" by (simp_all add: nle_def neq_def nint_def is_finite_def)
  then show ?thesis using nine_decimals(2) [OF assms] assms(1) unfolding toPriceE9_def y(2) by simp
qed

text \<open>C30: A positive price with nine decimals below 2^50 billionths, read as the nearest double,
  converts to exactly those billionths.
\<close>

theorem price_fixed_point_exact:
  fixes n :: int
  assumes "0 < n" "n < 2 ^ 50"
  shows "toPriceE9 (to_double (of_int n / 10 ^ 9)) = Inr n"
  by (rule toPriceE9_nine_decimals [OF assms])

theorem price_fixed_point_exact_witness:
  "toPriceE9 (to_double (of_int 172345678901 / 10 ^ 9)) = Inr 172345678901"
  by (rule price_fixed_point_exact) simp_all

section \<open>Retries\<close>

lemma getJson_attempts:
  assumes "getJson f url n e calls = (r, calls')" "0 < n"
  shows "calls < calls' \<and> calls' \<le> calls + n \<and> attempt f url (calls' - 1) = r
    \<and> (\<forall>k. calls \<le> k \<and> k < calls' - 1 \<longrightarrow> isl (attempt f url k)) \<and> (calls' < calls + n \<longrightarrow> \<not> isl r)"
  using assms
proof (induction n arbitrary: e calls)
  case (Suc n)
  show ?case
  proof (cases "attempt f url calls")
    case (Inr j)
    then have "r = Inr j" "calls' = Suc calls" using Suc.prems by auto
    then show ?thesis using Inr by (auto simp: not_le)
  next
    case (Inl e')
    then have rec: "getJson f url n e' (Suc calls) = (r, calls')" using Suc.prems by simp
    show ?thesis
    proof (cases "n = 0")
      case True
      then show ?thesis using rec Inl by auto
    next
      case False
      have ih: "Suc calls < calls' \<and> calls' \<le> Suc calls + n \<and> attempt f url (calls' - 1) = r
        \<and> (\<forall>k. Suc calls \<le> k \<and> k < calls' - 1 \<longrightarrow> isl (attempt f url k)) \<and> (calls' < Suc calls + n \<longrightarrow> \<not> isl r)"
        by (rule Suc.IH [OF rec]) (use False in simp)
      have "isl (attempt f url k)" if "calls \<le> k" "k < calls' - 1" for k
        using that ih Inl by (cases "k = calls") auto
      moreover have "calls' \<le> calls + Suc n" "calls' < calls + Suc n \<longrightarrow> \<not> isl r"
        using ih unfolding add_Suc add_Suc_right by blast+
      ultimately show ?thesis
        using Suc_lessD [OF conjunct1 [OF ih]] conjunct1 [OF conjunct2 [OF conjunct2 [OF ih]]] by (intro conjI allI impI) simp_all
    qed
  qed
qed simp



text \<open>
  A request answered with status 400 is repeated until the attempts run out, although the
  code marks it as not worth another try.
\<close>

theorem client_error_is_retried:
  "getJson (\<lambda>n url. Response False 400 (Inr J_null)) url ATTEMPTS e calls
     = (Inl (Error [Lit ''Jupiter returned '', PInt 400, Lit '' for '', PStr url]), calls + 3)"
  by (simp add: ATTEMPTS_def numeral_eq_Suc attempt_def)

section \<open>Quotes are positive\<close>

lemma quantum_nonneg: "0 \<le> quantum x"
  using quantum_pos [of x] by (rule less_imp_le)

lemma round_mag_nonneg: "0 \<le> x \<Longrightarrow> 0 \<le> round_mag x"
proof -
  assume "0 \<le> x"
  then have "of_int 0 \<le> x / quantum x" using quantum_pos [of x] by (simp add: divide_nonneg_pos)
  then have "0 \<le> round_half_even (x / quantum x)" by (rule round_half_even_ge)
  then show ?thesis using quantum_nonneg by (simp add: round_mag_def)
qed

lemma to_double_nonneg:
  assumes "0 \<le> x" "to_double x = Fin r" shows "0 \<le> r"
proof (cases "x = 0")
  case False
  then have "0 < x" using assms(1) by simp
  then have "r = round_mag x" using assms(2) by (auto simp: to_double_def abs_of_pos sgn_pos split: if_splits)
  then show ?thesis using round_mag_nonneg assms(1) by simp
qed (use assms in \<open>simp add: to_double_def\<close>)

lemma toPriceE9_pos:
  assumes "toPriceE9 x = Inr p" shows "0 < p"
proof -
  from assms obtain s where x: "is_finite x" "\<not> nle x (nint 0)"
    and s: "bigint_of (nround (nmul x (nint 1000000000))) = Inr s" and p: "p = (if s = 0 then 1 else s)"
    by (auto simp: toPriceE9_def rbind_Inr_iff split: if_splits)
  from x obtain a where a: "x = Fin a" "0 < a"
    by (cases x) (auto simp: is_finite_def nle_def neq_def nint_def not_less)
  obtain z where z: "to_double (a * 1000000000) = Fin z" "s = \<lfloor>z + 1/2\<rfloor>"
    using s a(1) by (cases "to_double (a * 1000000000)") (auto simp: nint_def bigint_of_Inr_iff)
  have "0 \<le> z" by (rule to_double_nonneg [OF _ z(1)]) (use a in simp)
  then have "0 \<le> s" using z(2) by simp
  then show ?thesis using p by simp
qed

text \<open>What every row of a table promises about its key, and how updating tables keeps it.\<close>

definition rows_ok :: "('k \<Rightarrow> 'v \<Rightarrow> bool) \<Rightarrow> ('k \<times> 'v) list \<Rightarrow> bool" where
  "rows_ok P rows \<longleftrightarrow> (\<forall>(k, v)\<in>set rows. P k v)"

definition quote_ok :: "jsstring \<Rightarrow> price_quote \<Rightarrow> bool" where
  "quote_ok k q \<longleftrightarrow> pq_mint q = k \<and> 0 < pq_priceE9 q \<and> toPriceE9 (pq_usdPrice q) = Inr (pq_priceE9 q)"

lemma set_update: "set (AList.update k v xs) \<subseteq> insert (k, v) (set xs)"
  by (induction xs) auto

lemma rows_ok_Nil [simp]: "rows_ok P []"
  by (simp add: rows_ok_def)

lemma rows_ok_update: "rows_ok P rows \<Longrightarrow> P k v \<Longrightarrow> rows_ok P (AList.update k v rows)"
  using set_update [of k v rows] unfolding rows_ok_def by fastforce

lemma rows_ok_set_all: "rows_ok P new \<Longrightarrow> rows_ok P out \<Longrightarrow> rows_ok P (set_all out new)"
  unfolding set_all_def
proof (induction new arbitrary: out)
  case (Cons kv new)
  obtain k v where kv: "kv = (k, v)" by (cases kv)
  have "P k v" "rows_ok P new" using Cons.prems(1) by (simp_all add: rows_ok_def kv)
  then show ?case using Cons.IH rows_ok_update [OF Cons.prems(2)] by (simp add: kv)
qed simp

lemma rows_ok_lookup: "rows_ok P rows \<Longrightarrow> map_of rows k = Some v \<Longrightarrow> P k v"
  unfolding rows_ok_def by (blast dest: map_of_SomeD)

lemma rfold_keeps:
  "rfold f s xs = Inr t \<Longrightarrow> P s \<Longrightarrow> (\<And>s x t. P s \<Longrightarrow> f s x = Inr t \<Longrightarrow> P t) \<Longrightarrow> P t"
proof (induction xs arbitrary: s)
  case (Cons x xs)
  then show ?case by (auto simp: rbind_Inr_iff)
qed simp

lemma parsePriceEntry_ok:
  "parsePriceEntry out e = Inr out' \<Longrightarrow> rows_ok quote_ok out \<Longrightarrow> rows_ok quote_ok out'"
  by (cases e)
    (auto simp: parsePriceEntry_def rbind_Inr_iff Let_def quote_ok_def toPriceE9_pos intro!: rows_ok_update split: if_splits)

lemma parsePriceResponse_ok: "parsePriceResponse j = Inr out \<Longrightarrow> rows_ok quote_ok out"
  unfolding parsePriceResponse_def
  by (erule rfold_keeps [where P = "rows_ok quote_ok"]) (simp_all add: parsePriceEntry_ok)

lemma fetchBatches_ok:
  "fetchBatches f bs out calls = (Inr qs, calls') \<Longrightarrow> rows_ok quote_ok out \<Longrightarrow> rows_ok quote_ok qs"
proof (induction bs arbitrary: out calls)
  case (Cons b bs)
  from Cons.prems obtain new c where "fetchBatches f bs (set_all out new) c = (Inr qs, calls')" "rows_ok quote_ok new"
    by (auto split: prod.splits sum.splits dest: parsePriceResponse_ok)
  then show ?case using Cons.IH Cons.prems(2) rows_ok_set_all by blast
qed simp

lemma fetchPrices_ok: "fetchPrices f mints calls = (Inr qs, calls') \<Longrightarrow> rows_ok quote_ok qs"
  unfolding fetchPrices_def by (erule fetchBatches_ok) simp

text \<open>C25: When fetchPricesE9 answers, the prices stand in the order of the mints asked for, each
  positive and converted from the quote of that very mint.
\<close>

theorem prices_in_table_order:
  assumes "fetchPricesE9 fetchImpl mints calls = (Inr ps, calls')"
  shows "\<exists>qs. fetchPrices fetchImpl mints calls = (Inr qs, calls') \<and> length ps = length mints
    \<and> (\<forall>i<length mints. 0 < ps ! i \<and> (\<exists>q. map_of qs (mints ! i) = Some q \<and> pq_mint q = mints ! i
          \<and> ps ! i = pq_priceE9 q \<and> toPriceE9 (pq_usdPrice q) = Inr (ps ! i)))"
proof -
  from assms obtain qs where qs: "fetchPrices fetchImpl mints calls = (Inr qs, calls')" "pricesInOrder qs mints = Inr ps"
    by (auto simp: fetchPricesE9_def split: prod.splits sum.splits)
  have ok: "rows_ok quote_ok qs" by (rule fetchPrices_ok [OF qs(1)])
  have "0 < ps ! i \<and> (\<exists>q. map_of qs (mints ! i) = Some q \<and> pq_mint q = mints ! i
          \<and> ps ! i = pq_priceE9 q \<and> toPriceE9 (pq_usdPrice q) = Inr (ps ! i))" if i: "i < length mints" for i
  proof -
    obtain q where q: "map_of qs (mints ! i) = Some q" "ps ! i = pq_priceE9 q"
      using rmapM_nth [OF qs(2) [unfolded pricesInOrder_def], of i] i
      by (cases "map_of qs (mints ! i)") simp_all
    show ?thesis using rows_ok_lookup [OF ok q(1)] q by (simp add: quote_ok_def)
  qed
  then show ?thesis using qs rmapM_length [OF qs(2) [unfolded pricesInOrder_def]] by blast
qed

theorem prices_in_table_order_witness:
  "\<exists>ps. fst (fetchPricesE9 (\<lambda>n url. Response True 200 (Inr (J_obj [(js ''B'', J_obj [(js ''usdPrice'', J_num (nint 2))]),
        (js ''A'', J_obj [(js ''usdPrice'', J_num (nint 5))])]))) [js ''A'', js ''B''] 0) = Inr ps
     \<and> ps = [5000000000, 2000000000]
     \<and> (\<forall>i<2. 0 < ps ! i)"
proof -
  let ?f = "\<lambda>n url. Response True 200 (Inr (J_obj [(js ''B'', J_obj [(js ''usdPrice'', J_num (nint 2))]),
        (js ''A'', J_obj [(js ''usdPrice'', J_num (nint 5))])]))"
  have ab: "js ''A'' \<noteq> js ''B''" "js ''A'' = [65]" "js ''B'' = [66]" by (simp_all add: js_def)
  have n: "map_of [(js ''usdPrice'', v)] (js ''liquidity'') = None" "map_of [(js ''usdPrice'', v)] (js ''decimals'') = None"
    "map_of [(js ''usdPrice'', v)] (js ''priceChange24h'') = None" "map_of [(js ''usdPrice'', v)] (js ''blockId'') = None"
    for v :: json by (simp_all add: js_def)
  have t: "toPriceE9 (nint 2) = Inr 2000000000" "toPriceE9 (nint 5) = Inr 5000000000"
    by (simp_all add: toPriceE9_def nmul_nint safe_int_def)
  have f: "fetchPricesE9 ?f [js ''A'', js ''B''] 0 = (Inr [5000000000, 2000000000], 1)"
    by (simp add: fetchPricesE9_def fetchPrices_def dedup_def ab(1) PRICE_BATCH_def ATTEMPTS_def numeral_3_eq_3
        attempt_def parsePriceResponse_def parsePriceEntry_def property_def to_number_opt_def number_or_zero_def t n
        Let_def set_all_def pricesInOrder_def ab(1) [symmetric])
  from prices_in_table_order [OF f] f show ?thesis by (auto simp: numeral_2_eq_2 less_Suc_eq)
qed

end
