(* ===== verification/CliContext.thy ===== *)
theory CliContext
  imports SdkClient SdkPrices SdkErrors
begin

text \<open>
  \<open>apps/cli/src/context.ts\<close> and the argument handling of \<open>apps/cli/src/index.ts\<close>: what a command
  needs to talk to a cluster, and how flags become a command. Files, the JSON parser, base 58 and
  the cluster are parameters; sending is the answer of the cluster to the n-th transaction.
\<close>

section \<open>Context and effects\<close>

type_synonym transaction = "transaction_instruction list"

record cli_context =
  cx_web3 :: web3
  cx_spl :: spl_token
  cx_connection :: connection
  cx_programId :: pubkey
  cx_parse_key :: key_parser
  cx_toBase58 :: "pubkey \<Rightarrow> jsstring"
  cx_fetch :: fetcher
  cx_asOf :: jsnum
  cx_now :: jsnum
  cx_getMint_decimals :: "pubkey \<Rightarrow> jsnum result"
  cx_rentExemptMint :: "int result"
  cx_createMintAccount :: "pubkey \<Rightarrow> pubkey \<Rightarrow> int \<Rightarrow> transaction_instruction"
  cx_initializeMint2 :: "pubkey \<Rightarrow> int \<Rightarrow> pubkey \<Rightarrow> pubkey option \<Rightarrow> transaction_instruction"
  cx_generatedKey :: pubkey
  cx_send :: "nat \<Rightarrow> transaction \<Rightarrow> pubkey list \<Rightarrow> thrown + jsstring"

text \<open>What a command has done: transactions with their signers, requests, and lines printed.\<close>

record outbox =
  ob_sent :: "(transaction \<times> pubkey list) list"
  ob_fetches :: nat
  ob_console :: "chunk list list"

type_synonym 'a cli = "outbox \<Rightarrow> 'a result \<times> outbox"

definition returnC :: "'a \<Rightarrow> 'a cli" where "returnC x ob = (Inr x, ob)"
definition liftC :: "'a result \<Rightarrow> 'a cli" where "liftC r ob = (r, ob)"
definition throwC :: "js_error \<Rightarrow> 'a cli" where "throwC e ob = (Inl e, ob)"

definition printC :: "chunk list \<Rightarrow> unit cli" where
  "printC line ob = (Inr (), ob\<lparr>ob_console := ob_console ob @ [line]\<rparr>)"

definition bindC :: "'a cli \<Rightarrow> ('a \<Rightarrow> 'b cli) \<Rightarrow> 'b cli" where
  "bindC m f ob = (case m ob of (Inl e, ob') \<Rightarrow> (Inl e, ob') | (Inr x, ob') \<Rightarrow> f x ob')"

fun forC :: "('a \<Rightarrow> unit cli) \<Rightarrow> 'a list \<Rightarrow> unit cli" where
  "forC f [] = returnC ()"
| "forC f (x # xs) = bindC (f x) (\<lambda>u. forC f xs)"

fun mapC :: "('a \<Rightarrow> 'b cli) \<Rightarrow> 'a list \<Rightarrow> 'b list cli" where
  "mapC f [] = returnC []"
| "mapC f (x # xs) = bindC (f x) (\<lambda>y. bindC (mapC f xs) (\<lambda>ys. returnC (y # ys)))"

definition send :: "cli_context \<Rightarrow> transaction \<Rightarrow> pubkey list \<Rightarrow> jsstring cli" where
  "send ctx tx signers ob =
     (let ob' = ob\<lparr>ob_sent := ob_sent ob @ [(tx, signers)]\<rparr> in
      case cx_send ctx (length (ob_sent ob)) tx signers of
        Inr signature \<Rightarrow> (Inr signature, ob')
      | Inl e \<Rightarrow> (Inl (Error [PStr (explainError e)]), ob'))"

definition fetchC :: "cli_context \<Rightarrow> jsstring list \<Rightarrow> quotes cli" where
  "fetchC ctx mints ob =
     (case fetchPrices (cx_fetch ctx) mints (ob_fetches ob) of (r, calls) \<Rightarrow> (r, ob\<lparr>ob_fetches := calls\<rparr>))"

definition snapshotC :: "cli_context \<Rightarrow> pubkey \<Rightarrow> index_snapshot cli" where
  "snapshotC ctx indexMint =
     liftC (snapshot (cx_web3 ctx) (cx_spl ctx) (cx_connection ctx) (cx_programId ctx) indexMint (cx_asOf ctx))"

lemma bindC_simps [simp, result_simps]:
  "bindC (returnC x) f = f x" "bindC (throwC e) f ob = (Inl e, ob)"
  "bindC (liftC (Inr x)) f = f x" "bindC (liftC (Inl e)) f ob = (Inl e, ob)"
  by (simp_all add: bindC_def returnC_def liftC_def throwC_def fun_eq_iff)

lemma bindC_Inr: "bindC m f ob = (Inr y, ob') \<longleftrightarrow> (\<exists>x ob1. m ob = (Inr x, ob1) \<and> f x ob1 = (Inr y, ob'))"
  by (auto simp: bindC_def split: prod.splits sum.splits)

section \<open>Keys and addresses\<close>

definition truthy :: "jsstring option \<Rightarrow> jsstring option" where
  "truthy v = (case v of Some s \<Rightarrow> if s = [] then None else Some s | None \<Rightarrow> None)"

definition orElse :: "'a option \<Rightarrow> 'a option \<Rightarrow> 'a option" where
  "orElse a b = (case a of Some x \<Rightarrow> Some x | None \<Rightarrow> b)"

text \<open>\<open>readFile\<close> is None where reading fails; \<open>parseJson\<close> and \<open>fromSecretKey\<close> belong to the platform.\<close>

definition loadKeypair ::
  "(jsstring \<Rightarrow> jsstring option) \<Rightarrow> (jsstring \<Rightarrow> json result) \<Rightarrow> (json list \<Rightarrow> pubkey result)
   \<Rightarrow> jsstring \<Rightarrow> jsstring option \<Rightarrow> jsstring option \<Rightarrow> pubkey result" where
  "loadKeypair readFile parseJson fromSecretKey default_path env path =
     (let file = (case orElse path env of Some f \<Rightarrow> f | None \<Rightarrow> default_path) in
      case readFile file of
        None \<Rightarrow> Inl (Error [Lit ''No keypair at '', PStr file,
                  Lit ''. Pass --keypair, set FLOCK_KEYPAIR, or run `solana-keygen new`.''])
      | Some raw \<Rightarrow>
          rbind (parseJson raw) (\<lambda>bytes.
            case bytes of
              J_arr vs \<Rightarrow> fromSecretKey vs
            | _ \<Rightarrow> Inl (Error [PStr file, Lit '' is not a Solana keypair file''])))"

definition DEFAULT_RPC :: jsstring where "DEFAULT_RPC = js ''https://api.mainnet-beta.solana.com''"

text \<open>
  The program id recorded for a cluster. \<open>readDeployment\<close> is the content of
  \<open>deployments/<cluster>.json\<close>; anything that goes wrong, and anything but a text, counts as no record.
\<close>

definition deployedProgramId ::
  "(jsstring \<Rightarrow> jsstring option) \<Rightarrow> (jsstring \<Rightarrow> json result) \<Rightarrow> jsstring \<Rightarrow> jsstring option" where
  "deployedProgramId readDeployment parseJson cluster =
     (case readDeployment cluster of
        None \<Rightarrow> None
      | Some raw \<Rightarrow>
          (case rbind (parseJson raw) (property ''programId'') of
             Inr (Some (J_str s)) \<Rightarrow> Some s
           | _ \<Rightarrow> None))"

text \<open>Cluster, RPC url and program id: flag, then environment, then the deployments file.\<close>

record resolved =
  rs_cluster :: jsstring
  rs_url :: jsstring
  rs_programId :: pubkey

definition makeContext ::
  "key_parser \<Rightarrow> (jsstring \<Rightarrow> jsstring option) \<Rightarrow> (string \<Rightarrow> jsstring option)
   \<Rightarrow> jsstring option \<Rightarrow> jsstring option \<Rightarrow> jsstring option \<Rightarrow> resolved result" where
  "makeContext parse_key deployed env url programId_flag cluster_flag =
     (let cluster = (case orElse cluster_flag (env ''FLOCK_CLUSTER'') of Some c \<Rightarrow> c | None \<Rightarrow> js ''mainnet'');
          rpc = (case orElse url (env ''SOLANA_RPC_URL'') of Some u \<Rightarrow> u | None \<Rightarrow> DEFAULT_RPC);
          ref = orElse (orElse programId_flag (env ''FLOCK_PROGRAM_ID'')) (deployed cluster) in
      rbind (programId parse_key (env ''FLOCK_PROGRAM_ID'') (map_option IdString ref)) (\<lambda>program.
      Inr \<lparr>rs_cluster = cluster, rs_url = rpc, rs_programId = program\<rparr>))"

definition requirePubkey :: "key_parser \<Rightarrow> jsstring option \<Rightarrow> string \<Rightarrow> pubkey result" where
  "requirePubkey parse_key value label =
     (case truthy value of None \<Rightarrow> Inl (Error [Lit ''Missing '', Lit label]) | Some s \<Rightarrow> parse_key s)"

section \<open>Amounts\<close>

definition formatAmount :: "int \<Rightarrow> jsnum \<Rightarrow> nat \<Rightarrow> jsstring result" where
  "formatAmount amount decimals places =
     rbind (pow10 decimals) (\<lambda>scale.
     let whole = amount sdiv scale;
         fraction = take places (padStart (nat (to_integer decimals)) (unit_of 48) (bigint_text (amount smod scale)))
     in Inr (if 0 < places then bigint_text whole @ js ''.'' @ fraction else bigint_text whole))"

definition formatUsdE9 :: "int \<Rightarrow> chunk" where
  "formatUsdE9 value = PUsd (ndiv (number_of value) (nint 1000000000))"

text \<open>\<open>BigInt(Math.round(whole * 10 ** decimals))\<close>; a power of ten is the double nearest to it.\<close>

definition baseUnits :: "jsnum \<Rightarrow> jsnum \<Rightarrow> int result" where
  "baseUnits whole decimals =
     (case decimals of
        Fin d \<Rightarrow> bigint_of (nround (nmul whole (to_double (10 powi \<lfloor>d\<rfloor>))))
      | _ \<Rightarrow> Inl RangeError)"

section \<open>Arguments\<close>

definition parse_num :: "jsstring option \<Rightarrow> jsnum \<Rightarrow> jsnum result" where
  "parse_num value fallback =
     (case value of
        None \<Rightarrow> Inr fallback
      | Some s \<Rightarrow> if is_finite (Number s) then Inr (Number s)
                  else Inl (Error [Lit ''\"'', PStr s, Lit ''\" is not a number'']))"

record create_options =
  co_name :: jsstring
  co_symbol :: jsstring
  co_components :: "jsstring option"
  co_weights :: "jsstring option"
  co_navPerToken :: "jsnum option"
  co_streamingFeeBps :: jsnum
  co_issueFeeBps :: jsnum
  co_redeemFeeBps :: jsnum
  co_maxPremiumBps :: jsnum
  co_rebalanceDelay :: jsnum
  co_governor :: "jsstring option"
  co_manager :: "jsstring option"
  co_feeRecipient :: "jsstring option"

record propose_options =
  po_weights :: jsstring
  po_duration :: jsnum
  po_startPremiumBps :: jsnum
  po_endPremiumBps :: jsnum
  po_maxNavLossBps :: jsnum
  po_dryRun :: bool

datatype command =
    Cmd_usage
  | Cmd_create pubkey create_options
  | Cmd_inspect pubkey bool
  | Cmd_issue pubkey pubkey jsnum jsnum
  | Cmd_redeem pubkey pubkey jsnum jsnum
  | Cmd_accrue pubkey pubkey
  | Cmd_propose pubkey pubkey propose_options
  | Cmd_bid pubkey pubkey jsnum jsnum jsnum bool
  | Cmd_end pubkey pubkey

text \<open>
  The body of \<open>main\<close> once the context is made: \<open>values\<close> and \<open>flags\<close> are what \<open>parseArgs\<close>
  returned, \<open>signer\<close> what \<open>loadKeypair\<close> answers when a command asks for it.
\<close>

definition mintArg :: "key_parser \<Rightarrow> jsstring \<Rightarrow> jsstring list \<Rightarrow> pubkey result" where
  "mintArg parse_key cmd rest =
     (case truthy (nth_or None (map Some rest) 0) of
        None \<Rightarrow> Inl (Error [PStr cmd, Lit '' needs an index mint''])
      | Some s \<Rightarrow> parse_key s)"

definition createOptions :: "(string \<Rightarrow> jsstring option) \<Rightarrow> create_options result" where
  "createOptions values =
     rbind (case truthy (values ''nav-per-token'') of None \<Rightarrow> Inr None
            | Some s \<Rightarrow> rmap Some (parse_num (Some s) (nint 0))) (\<lambda>nav.
     rbind (parse_num (values ''streaming-fee-bps'') (nint 95)) (\<lambda>streaming.
     rbind (parse_num (values ''issue-fee-bps'') (nint 0)) (\<lambda>issueFee.
     rbind (parse_num (values ''redeem-fee-bps'') (nint 0)) (\<lambda>redeemFee.
     rbind (parse_num (values ''max-premium-bps'') (nint 300)) (\<lambda>maxPremium.
     rbind (parse_num (values ''rebalance-delay'') (nint 86400)) (\<lambda>delay.
     Inr \<lparr>co_name = (case values ''name'' of Some s \<Rightarrow> s | None \<Rightarrow> []),
          co_symbol = (case values ''symbol'' of Some s \<Rightarrow> s | None \<Rightarrow> []),
          co_components = truthy (values ''components''), co_weights = truthy (values ''weights''),
          co_navPerToken = nav, co_streamingFeeBps = streaming, co_issueFeeBps = issueFee,
          co_redeemFeeBps = redeemFee, co_maxPremiumBps = maxPremium, co_rebalanceDelay = delay,
          co_governor = truthy (values ''governor''), co_manager = truthy (values ''manager''),
          co_feeRecipient = truthy (values ''fee-recipient'')\<rparr>))))))"

definition parseCommand ::
  "key_parser \<Rightarrow> pubkey result \<Rightarrow> jsstring list \<Rightarrow> (string \<Rightarrow> jsstring option) \<Rightarrow> (string \<Rightarrow> bool option)
   \<Rightarrow> command result" where
  "parseCommand parse_key signer positionals values flags =
     (case positionals of
        [] \<Rightarrow> Inr Cmd_usage
      | cmd # rest \<Rightarrow>
        if cmd = [] \<or> flags ''help'' = Some True then Inr Cmd_usage
        else if cmd = js ''create'' then
          (if truthy (values ''name'') = None \<or> truthy (values ''symbol'') = None
           then Inl (Error [Lit ''create needs --name and --symbol''])
           else rbind signer (\<lambda>s. rmap (Cmd_create s) (createOptions values)))
        else if cmd = js ''inspect'' then
          rmap (\<lambda>m. Cmd_inspect m (flags ''json'' = Some True)) (mintArg parse_key cmd rest)
        else if cmd = js ''issue'' \<or> cmd = js ''redeem'' then
          rbind signer (\<lambda>s. rbind (mintArg parse_key cmd rest) (\<lambda>m.
          rbind (parse_num (nth_or None (map Some rest) 1) (nint 0)) (\<lambda>amount.
          rbind (parse_num (values ''slippage-bps'') (nint 50)) (\<lambda>slippage.
          Inr (if cmd = js ''issue'' then Cmd_issue s m amount slippage else Cmd_redeem s m amount slippage)))))
        else if cmd = js ''accrue'' then rbind signer (\<lambda>s. rmap (Cmd_accrue s) (mintArg parse_key cmd rest))
        else if cmd = js ''propose'' then
          (case truthy (values ''weights'') of
             None \<Rightarrow> Inl (Error [Lit ''propose needs --weights MINT=BPS,...''])
           | Some w \<Rightarrow>
             rbind signer (\<lambda>s. rbind (mintArg parse_key cmd rest) (\<lambda>m.
             rbind (parse_num (values ''duration'') (nint 7200)) (\<lambda>duration.
             rbind (parse_num (values ''start-premium-bps'') (nint (- 50))) (\<lambda>startPremium.
             rbind (parse_num (values ''end-premium-bps'') (nint 150)) (\<lambda>endPremium.
             rbind (parse_num (values ''max-nav-loss-bps'') (nint 100)) (\<lambda>maxLoss.
             Inr (Cmd_propose s m \<lparr>po_weights = w, po_duration = duration, po_startPremiumBps = startPremium,
                    po_endPremiumBps = endPremium, po_maxNavLossBps = maxLoss,
                    po_dryRun = (flags ''dry-run'' = Some True)\<rparr>))))))))
        else if cmd = js ''bid'' then
          rbind signer (\<lambda>s. rbind (mintArg parse_key cmd rest) (\<lambda>m.
          rbind (parse_num (values ''sell'') (nint (- 1))) (\<lambda>sell.
          rbind (parse_num (values ''buy'') (nint (- 1))) (\<lambda>buy.
          rbind (parse_num (values ''amount'') (nint 0)) (\<lambda>amount.
          Inr (Cmd_bid s m sell buy amount (flags ''dry-run'' = Some True)))))))
        else if cmd = js ''end'' then rbind signer (\<lambda>s. rmap (Cmd_end s) (mintArg parse_key cmd rest))
        else Inl (Error [Lit ''Unknown command \"'', PStr cmd, Lit ''\"'']))"

end
