(* ===== verification/CliCommands.thy ===== *)
theory CliCommands
  imports CliContext
begin

text \<open>
  \<open>apps/cli/src/commands.ts\<close>: the commands that write, each as the sequence of transactions it
  sends with their signers and the lines it prints. The reads, the errors and the order of
  everything that can throw are kept.
\<close>

section \<open>Specifications given as text\<close>

record weight_spec =
  ws_mint :: pubkey
  ws_bps :: jsnum

definition specParts :: "jsstring \<Rightarrow> jsstring list" where
  "specParts spec = filter (\<lambda>e. e \<noteq> []) (map trim (split_on (unit_of 44) spec))"

definition parseWeight :: "key_parser \<Rightarrow> jsstring \<Rightarrow> weight_spec result" where
  "parseWeight parse_key entry =
     (let pieces = split_on (unit_of 61) entry; mint = nth_or [] pieces 0; bps = nth_or [] pieces 1 in
      if mint = [] \<or> bps = [] then Inl (Error [Lit ''Bad weight \"'', PStr entry, Lit ''\", expected MINT=BPS''])
      else rmap (\<lambda>k. \<lparr>ws_mint = k, ws_bps = Number bps\<rparr>) (parse_key (trim mint)))"

definition parseWeights :: "key_parser \<Rightarrow> jsstring \<Rightarrow> weight_spec list result" where
  "parseWeights parse_key spec =
     rbind (rmapM (parseWeight parse_key) (specParts spec)) (\<lambda>ws.
     let total = foldl (\<lambda>t w. nadd t (ws_bps w)) (nint 0) ws in
     if \<not> neq total (nint 10000)
     then Inl (Error [Lit ''Weights add up to '', PNum total, Lit '' bps, not 10000. An index must be fully allocated.''])
     else Inr ws)"

definition parseComponent :: "key_parser \<Rightarrow> jsstring \<Rightarrow> (pubkey \<times> jsnum) result" where
  "parseComponent parse_key entry =
     (let pieces = split_on (unit_of 58) entry; mint = nth_or [] pieces 0; whole = nth_or [] pieces 1 in
      if mint = [] \<or> whole = [] then Inl (Error [Lit ''Bad component \"'', PStr entry, Lit ''\", expected MINT:WHOLE_UNITS''])
      else rmap (\<lambda>k. (k, Number whole)) (parse_key (trim mint)))"

definition parseComponents :: "key_parser \<Rightarrow> jsstring \<Rightarrow> (pubkey \<times> jsnum) list result" where
  "parseComponents parse_key spec = rmapM (parseComponent parse_key) (specParts spec)"

section \<open>Creating an index\<close>

definition quoteOf :: "quotes \<Rightarrow> jsstring \<Rightarrow> price_quote result" where
  "quoteOf quotes mint =
     (case map_of quotes mint of None \<Rightarrow> Inl (Error [Lit ''No price for '', PStr mint]) | Some q \<Rightarrow> Inr q)"

definition keyOr :: "key_parser \<Rightarrow> jsstring option \<Rightarrow> pubkey \<Rightarrow> pubkey result" where
  "keyOr parse_key value fallback = (case truthy value of None \<Rightarrow> Inr fallback | Some s \<Rightarrow> parse_key s)"

text \<open>The component table, from a weighting and a starting NAV or from explicit amounts.\<close>

definition tableFromWeights :: "cli_context \<Rightarrow> jsstring \<Rightarrow> jsnum option \<Rightarrow> (pubkey \<times> int) list cli" where
  "tableFromWeights ctx spec navOption =
     (case navOption of
        None \<Rightarrow> throwC (Error [Lit ''--weights needs --nav-per-token: a weighting alone does not size a token.''])
      | Some nav \<Rightarrow>
        if neq nav (nint 0) \<or> nav = NaN
        then throwC (Error [Lit ''--weights needs --nav-per-token: a weighting alone does not size a token.''])
        else bindC (liftC (parseWeights (cx_parse_key ctx) spec)) (\<lambda>weights.
          let mints = map (\<lambda>w. cx_toBase58 ctx (ws_mint w)) weights in
          bindC (fetchC ctx mints) (\<lambda>prices.
          bindC (liftC (rmapM (quoteOf prices) mints)) (\<lambda>quotes.
          bindC (liftC (bigint_of (nround (nmul nav (nint 1000000000))))) (\<lambda>navE9.
          bindC (liftC (unitsForWeights \<lparr>ua_weightsBps = map ws_bps weights, ua_pricesE9 = map pq_priceE9 quotes,
                          ua_decimals = map pq_decimals quotes, ua_navE9 = navE9, ua_supply = UNIT_SCALE\<rparr>)) (\<lambda>units.
          returnC (map_idx (\<lambda>i w. (ws_mint w, nth_or 0 units i)) weights)))))))"

definition tableFromComponents :: "cli_context \<Rightarrow> jsstring \<Rightarrow> (pubkey \<times> int) list cli" where
  "tableFromComponents ctx spec =
     bindC (liftC (parseComponents (cx_parse_key ctx) spec)) (\<lambda>parsed.
     mapC (\<lambda>(mint, whole).
       bindC (liftC (cx_getMint_decimals ctx mint)) (\<lambda>decimals.
       bindC (liftC (baseUnits whole decimals)) (\<lambda>units. returnC (mint, units)))) parsed)"

definition createTable :: "cli_context \<Rightarrow> create_options \<Rightarrow> (pubkey \<times> int) list cli" where
  "createTable ctx opts =
     bindC
       (case truthy (co_weights opts) of
          Some w \<Rightarrow> tableFromWeights ctx w (co_navPerToken opts)
        | None \<Rightarrow>
            (case truthy (co_components opts) of
               Some c \<Rightarrow> tableFromComponents ctx c
             | None \<Rightarrow> throwC (Error [Lit ''Pass --components MINT:WHOLE,... or --weights MINT=BPS,... --nav-per-token N''])))
       (\<lambda>table.
          if list_ex (\<lambda>(m, units). units \<le> 0) table
          then throwC (Error [Lit ''Every component needs a positive unit amount''])
          else returnC table)"

definition initArgs ::
  "cli_context \<Rightarrow> pubkey \<Rightarrow> create_options \<Rightarrow> pubkey \<Rightarrow> pubkey \<Rightarrow> pubkey \<Rightarrow> init_index_args" where
  "initArgs ctx payer opts governor manager feeRecipient =
     \<lparr>ii_programId = cx_programId ctx, ii_payer = payer, ii_indexMint = cx_generatedKey ctx, ii_governor = governor,
      ii_manager = manager, ii_feeRecipient = feeRecipient, ii_name = co_name opts, ii_symbol = co_symbol opts,
      ii_streamingFeeBps = co_streamingFeeBps opts, ii_issueFeeBps = co_issueFeeBps opts,
      ii_redeemFeeBps = co_redeemFeeBps opts, ii_maxPremiumBps = co_maxPremiumBps opts,
      ii_rebalanceDelay = co_rebalanceDelay opts\<rparr>"

definition sendOne :: "cli_context \<Rightarrow> transaction_instruction result \<Rightarrow> pubkey list \<Rightarrow> unit cli" where
  "sendOne ctx i signers =
     bindC (liftC i) (\<lambda>ti. bindC (send ctx [ti] signers) (\<lambda>signature. returnC ()))"

definition printKey :: "cli_context \<Rightarrow> string \<Rightarrow> pubkey \<Rightarrow> unit cli" where
  "printKey ctx label k = printC [Lit label, PStr (cx_toBase58 ctx k)]"

definition sendComponent :: "cli_context \<Rightarrow> pubkey \<Rightarrow> pubkey \<Rightarrow> pubkey \<times> int \<Rightarrow> unit cli" where
  "sendComponent ctx payer manager = (\<lambda>(mint, units).
     bindC (sendOne ctx (addComponent (cx_web3 ctx) (cx_programId ctx) manager payer (cx_generatedKey ctx) mint units) [payer])
       (\<lambda>u. printC [Lit ''component   '', PStr (cx_toBase58 ctx mint), Lit ''  '', PInt units, Lit '' units'']))"

definition create :: "cli_context \<Rightarrow> pubkey \<Rightarrow> create_options \<Rightarrow> unit cli" where
  "create ctx payer opts =
     bindC (liftC (keyOr (cx_parse_key ctx) (co_governor opts) payer)) (\<lambda>governor.
     bindC (liftC (keyOr (cx_parse_key ctx) (co_manager opts) payer)) (\<lambda>manager.
     bindC (liftC (keyOr (cx_parse_key ctx) (co_feeRecipient opts) payer)) (\<lambda>feeRecipient.
     bindC (createTable ctx opts) (\<lambda>table.
     let indexMint = cx_generatedKey ctx; index = index_of (cx_web3 ctx) (cx_programId ctx) indexMint in
     bindC (liftC (cx_rentExemptMint ctx)) (\<lambda>lamports.
     bindC (send ctx [cx_createMintAccount ctx payer indexMint lamports,
                      cx_initializeMint2 ctx indexMint 9 index None] [payer, indexMint]) (\<lambda>s1.
     bindC (printKey ctx ''index mint  '' indexMint) (\<lambda>p1.
     bindC (sendOne ctx (initIndex (cx_web3 ctx) (initArgs ctx payer opts governor manager feeRecipient)) [payer]) (\<lambda>s2.
     bindC (printKey ctx ''index       '' index) (\<lambda>p2.
     bindC (forC (sendComponent ctx payer manager) table) (\<lambda>s3.
     bindC (sendOne ctx (sealIndex (cx_web3 ctx) (cx_programId ctx) manager indexMint) [payer]) (\<lambda>s4.
     bindC (liftC (associatedTokenAddress (cx_spl ctx) indexMint feeRecipient True)) (\<lambda>feeAccount.
     bindC (sendOne ctx (Inr (createAssociatedTokenAccountIdempotent (cx_spl ctx) payer feeAccount feeRecipient indexMint)) [payer]) (\<lambda>s5.
     printC [Lit ''sealed. '', PStr (co_symbol opts), Lit '' is live with '', PInt (int (length table)), Lit '' components.''])))))))))))))"

section \<open>Issuing and redeeming\<close>

definition createOwnAccount :: "cli_context \<Rightarrow> pubkey \<Rightarrow> pubkey \<Rightarrow> transaction_instruction result" where
  "createOwnAccount ctx owner mint =
     rmap (\<lambda>ata. createAssociatedTokenAccountIdempotent (cx_spl ctx) owner ata owner mint)
       (associatedTokenAddress (cx_spl ctx) mint owner False)"

text \<open>\<open>${verb} ${formatAmount(amount, decimals)} of ${mint}\<close>\<close>

definition printAmountOf :: "cli_context \<Rightarrow> string \<Rightarrow> int \<Rightarrow> component_account \<Rightarrow> unit cli" where
  "printAmountOf ctx verb amount c =
     bindC (liftC (formatAmount amount (ca_decimals c) 6)) (\<lambda>t.
     printC [Lit verb, PStr t, Lit '' of '', PStr (cx_toBase58 ctx (ca_mint c))])"

definition printAmounts :: "cli_context \<Rightarrow> string \<Rightarrow> int list \<Rightarrow> component_account list \<Rightarrow> unit cli" where
  "printAmounts ctx verb amounts cs = forC (\<lambda>(i, c). printAmountOf ctx verb (nth_or 0 amounts i) c) (enumerate 0 cs)"

text \<open>\<open>console.log(await send(...))\<close>\<close>

definition sendAndPrint :: "cli_context \<Rightarrow> transaction \<Rightarrow> pubkey \<Rightarrow> jsstring cli" where
  "sendAndPrint ctx tx payer =
     bindC (send ctx tx [payer]) (\<lambda>signature. bindC (printC [PStr signature]) (\<lambda>u. returnC signature))"

definition issueCommand :: "cli_context \<Rightarrow> pubkey \<Rightarrow> pubkey \<Rightarrow> jsnum \<Rightarrow> jsnum \<Rightarrow> jsstring cli" where
  "issueCommand ctx payer indexMint wholeTokens slippageBps =
     bindC (snapshotC ctx indexMint) (\<lambda>snap.
     bindC (liftC (bigint_of (nround (nmul wholeTokens (nint 1000000000))))) (\<lambda>amount.
     bindC (liftC (quoteIssue snap amount)) (\<lambda>(required, feeTokens).
     bindC (printAmounts ctx ''pay '' required (xa_components (sn_account snap))) (\<lambda>p1.
     bindC (if 0 < feeTokens then bindC (liftC (formatAmount feeTokens (nint 9) 6)) (\<lambda>t.
              printC [Lit ''issue fee '', PStr t, Lit '' '', PStr (xa_symbol (sn_account snap))]) else returnC ()) (\<lambda>p2.
     bindC (liftC (createOwnAccount ctx payer indexMint)) (\<lambda>createIx.
     bindC (liftC (issueInstruction (cx_web3 ctx) (cx_spl ctx) (cx_programId ctx) snap payer amount (Some slippageBps))) (\<lambda>issueIx.
     sendAndPrint ctx [createIx, issueIx] payer)))))))"

definition redeemCommand :: "cli_context \<Rightarrow> pubkey \<Rightarrow> pubkey \<Rightarrow> jsnum \<Rightarrow> jsnum \<Rightarrow> jsstring cli" where
  "redeemCommand ctx payer indexMint wholeTokens slippageBps =
     bindC (snapshotC ctx indexMint) (\<lambda>snap.
     bindC (liftC (bigint_of (nround (nmul wholeTokens (nint 1000000000))))) (\<lambda>amount.
     bindC (liftC (quoteRedeem snap amount)) (\<lambda>(payout, feeTokens).
     bindC (liftC (rmapM (\<lambda>c. createOwnAccount ctx payer (ca_mint c)) (xa_components (sn_account snap)))) (\<lambda>createIxs.
     bindC (liftC (associatedTokenAddress (cx_spl ctx) indexMint (xa_feeRecipient (sn_account snap)) True)) (\<lambda>feeAccount.
     bindC (liftC (redeemInstruction (cx_web3 ctx) (cx_spl ctx) (cx_programId ctx) snap payer amount (Some slippageBps) feeAccount)) (\<lambda>redeemIx.
     bindC (printAmounts ctx ''receive '' payout (xa_components (sn_account snap))) (\<lambda>p1.
     sendAndPrint ctx (createIxs @ [redeemIx]) payer)))))))"

definition accrueCommand :: "cli_context \<Rightarrow> pubkey \<Rightarrow> pubkey \<Rightarrow> jsstring cli" where
  "accrueCommand ctx payer indexMint =
     bindC (snapshotC ctx indexMint) (\<lambda>snap.
     bindC (liftC (formatAmount (sn_pendingFee snap) (nint 9) 6)) (\<lambda>t.
     bindC (printC [Lit ''minting '', PStr t, Lit '' '', PStr (xa_symbol (sn_account snap)), Lit '' in fees'']) (\<lambda>p1.
     bindC (liftC (associatedTokenAddress (cx_spl ctx) indexMint (xa_feeRecipient (sn_account snap)) True)) (\<lambda>feeAccount.
     bindC (liftC (accrueFees (cx_web3 ctx) (cx_programId ctx) indexMint feeAccount (map ca_mint (xa_components (sn_account snap))))) (\<lambda>i.
     sendAndPrint ctx [i] payer)))))"

definition endCommand :: "cli_context \<Rightarrow> pubkey \<Rightarrow> pubkey \<Rightarrow> jsstring cli" where
  "endCommand ctx payer indexMint =
     bindC (snapshotC ctx indexMint) (\<lambda>snap.
     bindC (liftC (endRebalance (cx_web3 ctx) (cx_programId ctx) payer indexMint (map ca_mint (xa_components (sn_account snap))))) (\<lambda>i.
     sendAndPrint ctx [i] payer))"

section \<open>Proposing\<close>

text \<open>\<open>new Map(pairs)\<close>: a repeated key keeps its first position and its last value.\<close>

definition byMint :: "cli_context \<Rightarrow> weight_spec list \<Rightarrow> (jsstring \<times> jsnum) list" where
  "byMint ctx ws = foldl (\<lambda>m w. AList.update (cx_toBase58 ctx (ws_mint w)) (ws_bps w) m) [] ws"

definition missingComponent :: "(jsstring \<times> jsnum) list \<Rightarrow> jsstring list \<Rightarrow> jsstring option" where
  "missingComponent m order = List.find (\<lambda>mint. map_of m mint = None) order"

text \<open>The weight of each component in table order, once the weighting names exactly the components.\<close>

definition weightsInOrder :: "cli_context \<Rightarrow> weight_spec list \<Rightarrow> jsstring list \<Rightarrow> jsnum list result" where
  "weightsInOrder ctx ws order =
     (let m = byMint ctx ws in
      case missingComponent m order of
        Some mint \<Rightarrow> Inl (Error [Lit ''Weighting is missing component '', PStr mint])
      | None \<Rightarrow>
          if length m \<noteq> length order
          then Inl (Error [Lit ''Weighting names a mint this index does not hold; components are fixed at seal''])
          else Inr (map (\<lambda>mint. the (map_of m mint)) order))"

text \<open>The plan as printed: the NAV, then the direction and the units of every component.\<close>

definition printMove :: "cli_context \<Rightarrow> int \<Rightarrow> int \<Rightarrow> component_account \<Rightarrow> unit cli" where
  "printMove ctx from_units to_units c =
     bindC (liftC (formatAmount from_units (ca_decimals c) 6)) (\<lambda>a.
     bindC (liftC (formatAmount to_units (ca_decimals c) 6)) (\<lambda>b.
     printC [Lit (if to_units > from_units then ''buy '' else if to_units < from_units then ''sell'' else ''hold''), Lit '' '',
       PStr (cx_toBase58 ctx (ca_mint c)), Lit ''  '', PStr a, Lit '' -> '', PStr b, Lit '' per token'']))"

definition printPlan :: "cli_context \<Rightarrow> index_snapshot \<Rightarrow> int \<Rightarrow> int list \<Rightarrow> unit cli" where
  "printPlan ctx snap navE9 targetUnits =
     bindC (liftC (formatAmount (sn_supply snap) (nint 9) 6)) (\<lambda>t.
     bindC (printC [Lit ''NAV '', formatUsdE9 navE9, Lit '', supply '', PStr t]) (\<lambda>p1.
     forC (\<lambda>(i, c). printMove ctx (nth_or 0 (sn_units snap) i) (nth_or 0 targetUnits i) c)
       (enumerate 0 (xa_components (sn_account snap)))))"

definition proposeCommand :: "cli_context \<Rightarrow> pubkey \<Rightarrow> pubkey \<Rightarrow> propose_options \<Rightarrow> jsstring option cli" where
  "proposeCommand ctx payer indexMint opts =
     bindC (snapshotC ctx indexMint) (\<lambda>snap.
     let components = xa_components (sn_account snap); order = map (\<lambda>c. cx_toBase58 ctx (ca_mint c)) components in
     bindC (liftC (parseWeights (cx_parse_key ctx) (po_weights opts))) (\<lambda>ws.
     bindC (liftC (weightsInOrder ctx ws order)) (\<lambda>ordered.
     bindC (fetchC ctx order) (\<lambda>quotes.
     bindC (liftC (rmapM (\<lambda>mint. rmap pq_priceE9 (quoteOf quotes mint)) order)) (\<lambda>pricesE9.
     bindC (liftC (weights snap pricesE9)) (\<lambda>nav.
     bindC (liftC (unitsForWeights \<lparr>ua_weightsBps = ordered, ua_pricesE9 = pricesE9,
                     ua_decimals = map ca_decimals components, ua_navE9 = fst nav, ua_supply = sn_supply snap\<rparr>)) (\<lambda>targetUnits.
     bindC (printPlan ctx snap (fst nav) targetUnits) (\<lambda>p1.
     if po_dryRun opts then bindC (printC [Lit ''dry run: nothing was submitted'']) (\<lambda>p2. returnC None)
     else bindC (liftC (proposeRebalance (cx_web3 ctx)
                  \<lparr>pr_programId = cx_programId ctx, pr_manager = payer, pr_indexMint = indexMint,
                   pr_componentMints = map ca_mint components, pr_targetUnits = targetUnits,
                   pr_refPricesE9 = pricesE9, pr_duration = po_duration opts,
                   pr_startPremiumBps = po_startPremiumBps opts, pr_endPremiumBps = po_endPremiumBps opts,
                   pr_maxNavLossBps = po_maxNavLossBps opts\<rparr>)) (\<lambda>i.
          bindC (sendAndPrint ctx [i] payer) (\<lambda>signature.
          bindC (printC [Lit ''auction opens in '', PNum (xa_rebalanceDelay (sn_account snap)), Lit ''s and runs for '',
                   PNum (po_duration opts), Lit ''s'']) (\<lambda>p3. returnC (Some signature))))))))))))"

section \<open>Bidding\<close>

text \<open>\<open>components[i]\<close> is undefined unless \<open>i\<close> is a whole number inside the array.\<close>

definition componentAt :: "component_account list \<Rightarrow> jsnum \<Rightarrow> component_account option" where
  "componentAt cs i =
     (case bigint_of i of
        Inr n \<Rightarrow> if 0 \<le> n \<and> nat n < length cs then Some (cs ! nat n) else None
      | Inl e \<Rightarrow> None)"

definition wholeValue :: "int \<Rightarrow> jsnum \<Rightarrow> jsnum \<Rightarrow> jsnum" where
  "wholeValue amount decimals usdPrice =
     nmul (ndiv (number_of amount) (case decimals of Fin d \<Rightarrow> to_double (10 powi \<lfloor>d\<rfloor>) | _ \<Rightarrow> NaN)) usdPrice"

text \<open>The same trade at market prices, printed when both legs have one.\<close>

definition printEdge ::
  "price_quote option \<Rightarrow> price_quote option \<Rightarrow> int \<Rightarrow> int \<Rightarrow> component_account \<Rightarrow> component_account \<Rightarrow> unit cli" where
  "printEdge sellMarket buyMarket sellAmount buyAmount sell buy =
     (case (sellMarket, buyMarket) of
        (Some sm, Some bm) \<Rightarrow>
          (let outUsd = wholeValue sellAmount (ca_decimals sell) (pq_usdPrice sm);
               inUsd = wholeValue buyAmount (ca_decimals buy) (pq_usdPrice bm)
           in printC [Lit ''market value out '', PStr (toFixed 2 outUsd), Lit '' USD, in '', PStr (toFixed 2 inUsd), Lit '' USD, edge '',
                PStr (toFixed 2 (nsub outUsd inUsd)), Lit '' USD ('',
                PStr (toFixed 0 (nmul (ndiv (nsub outUsd inUsd) inUsd) (nint 10000))), Lit '' bps)''])
      | _ \<Rightarrow> returnC ())"

definition bidCommand ::
  "cli_context \<Rightarrow> pubkey \<Rightarrow> pubkey \<Rightarrow> jsnum \<Rightarrow> jsnum \<Rightarrow> jsnum \<Rightarrow> bool \<Rightarrow> jsstring option cli" where
  "bidCommand ctx payer indexMint sellComponent buyComponent sellWhole dryRun =
     bindC (snapshotC ctx indexMint) (\<lambda>snap.
     let cs = xa_components (sn_account snap); reb = xa_rebalance (sn_account snap) in
     case (componentAt cs sellComponent, componentAt cs buyComponent) of
       (Some sell, Some buy) \<Rightarrow>
         if \<not> ra_active reb then throwC (Error [Lit ''No auction is running''])
         else
         bindC (liftC (premiumAt (ra_startPremiumBps reb) (ra_endPremiumBps reb) (ra_startTs reb) (ra_endTs reb) (cx_now ctx))) (\<lambda>premiumBps.
         bindC (liftC (baseUnits sellWhole (ca_decimals sell))) (\<lambda>sellAmount.
         bindC (liftC (bidCost \<lparr>ba_sellAmount = sellAmount, ba_sellDecimals = ca_decimals sell,
                   ba_sellPriceE9 = ca_refPriceE9 sell, ba_buyDecimals = ca_decimals buy,
                   ba_buyPriceE9 = ca_refPriceE9 buy, ba_premiumBps = premiumBps\<rparr>)) (\<lambda>quote.
         bindC (printC [Lit ''premium '', PNum premiumBps, Lit '' bps'']) (\<lambda>p1.
         bindC (printAmountOf ctx ''take '' sellAmount sell) (\<lambda>p2.
         bindC (printAmountOf ctx ''pay  '' (bq_buyAmount quote) buy) (\<lambda>p3.
         bindC (fetchC ctx [cx_toBase58 ctx (ca_mint sell), cx_toBase58 ctx (ca_mint buy)]) (\<lambda>prices.
         bindC (printEdge (map_of prices (cx_toBase58 ctx (ca_mint sell))) (map_of prices (cx_toBase58 ctx (ca_mint buy)))
                  sellAmount (bq_buyAmount quote) sell buy) (\<lambda>p4.
         if dryRun then bindC (printC [Lit ''dry run: nothing was submitted'']) (\<lambda>p5. returnC None)
         else
         bindC (liftC (createOwnAccount ctx payer (ca_mint sell))) (\<lambda>createIx.
         bindC (liftC (associatedTokenAddress (cx_spl ctx) (ca_mint sell) payer False)) (\<lambda>receive.
         bindC (liftC (associatedTokenAddress (cx_spl ctx) (ca_mint buy) payer False)) (\<lambda>pay.
         bindC (liftC (bid (cx_web3 ctx)
                  \<lparr>bi_programId = cx_programId ctx, bi_bidder = payer, bi_indexMint = indexMint,
                   bi_componentMints = map ca_mint cs, bi_bidderReceiveAccount = receive, bi_bidderPayAccount = pay,
                   bi_sellComponent = sellComponent, bi_buyComponent = buyComponent, bi_sellAmount = sellAmount,
                   bi_maxBuyAmount = bq_buyAmount quote\<rparr>)) (\<lambda>i.
         bindC (sendAndPrint ctx [createIx, i] payer) (\<lambda>signature. returnC (Some signature))))))))))))))
     | _ \<Rightarrow> throwC (Error [Lit ''Component index out of range'']))"

end
