(* ===== verification/SdkTokens.thy ===== *)
theory SdkTokens
  imports SdkPrices
begin

text \<open>
  The second endpoint of \<open>packages/sdk/src/prices.ts\<close>: the screening data of \<open>tokens/v2\<close>, entry by
  entry and batch by batch. The payload is a JSON array; an entry without a mint or without a
  positive price is skipped, everything else gets a default.
\<close>

section \<open>Token statistics\<close>

record token_stats =
  ts_mint :: jsstring
  ts_symbol :: jsstring
  ts_name :: jsstring
  ts_decimals :: jsnum
  ts_usdPrice :: jsnum
  ts_priceE9 :: int
  ts_marketCapUsd :: jsnum
  ts_fdvUsd :: jsnum
  ts_circulatingSupply :: jsnum
  ts_liquidityUsd :: jsnum
  ts_holderCount :: jsnum
  ts_organicScore :: jsnum
  ts_organicScoreLabel :: jsstring
  ts_isVerified :: bool
  ts_tags :: "jsstring list"
  ts_tokenProgram :: jsstring
  ts_firstPoolCreatedAt :: "jsstring option"
  ts_mintAuthorityDisabled :: bool
  ts_freezeAuthorityDisabled :: bool
  ts_topHoldersPercentage :: "jsnum option"
  ts_devMints :: "jsnum option"
  ts_volume24hUsd :: jsnum
  ts_organicVolume24hUsd :: jsnum
  ts_priceChange24h :: jsnum

type_synonym stats_table = "(jsstring \<times> token_stats) list"

text \<open>\<open>raw.name ?? {}\<close>, \<open>v.name === true\<close>, and a number kept only when it is one.\<close>

definition object_or_empty :: "string \<Rightarrow> json \<Rightarrow> json result" where
  "object_or_empty name raw =
     rmap (\<lambda>p. case nullish p of None \<Rightarrow> J_obj [] | Some j \<Rightarrow> j) (property name raw)"

definition is_true :: "string \<Rightarrow> json \<Rightarrow> bool result" where
  "is_true name v = rmap (\<lambda>p. p = Some (J_bool True)) (property name v)"

definition number_only :: "string \<Rightarrow> json \<Rightarrow> jsnum option result" where
  "number_only name v = rmap (\<lambda>p. case p of Some (J_num x) \<Rightarrow> Some x | _ \<Rightarrow> None) (property name v)"

text \<open>\<open>raw.firstPool?.createdAt ? String(raw.firstPool.createdAt) : null\<close>\<close>

definition createdAt :: "json \<Rightarrow> jsstring option result" where
  "createdAt raw =
     rbind (property ''firstPool'' raw) (\<lambda>pool.
       case nullish pool of
         None \<Rightarrow> Inr None
       | Some p \<Rightarrow>
           rmap (\<lambda>c. case c of None \<Rightarrow> None | Some j \<Rightarrow> if to_bool j then Some (to_text j) else None)
             (property ''createdAt'' p))"

definition tagsOf :: "json \<Rightarrow> jsstring list result" where
  "tagsOf raw =
     rmap (\<lambda>p. case p of Some (J_arr vs) \<Rightarrow> map to_text vs | _ \<Rightarrow> []) (property ''tags'' raw)"

definition number_sum :: "string \<Rightarrow> string \<Rightarrow> json \<Rightarrow> jsnum result" where
  "number_sum a b v = rbind (number_or_zero a v) (\<lambda>x. rmap (nadd x) (number_or_zero b v))"

text \<open>The object literal, once the mint and the price of an entry are known to be usable.\<close>

definition statsOf :: "json \<Rightarrow> jsstring \<Rightarrow> jsnum \<Rightarrow> token_stats result" where
  "statsOf raw mint usdPrice =
     rbind (object_or_empty ''stats24h'' raw) (\<lambda>stats24h.
     rbind (object_or_empty ''audit'' raw) (\<lambda>audit.
     rbind (text_or [] ''symbol'' raw) (\<lambda>symbol.
     rbind (text_or [] ''name'' raw) (\<lambda>nm.
     rbind (number_or_zero ''decimals'' raw) (\<lambda>decimals.
     rbind (toPriceE9 usdPrice) (\<lambda>priceE9.
     rbind (number_or_zero ''mcap'' raw) (\<lambda>mcap.
     rbind (number_or_zero ''fdv'' raw) (\<lambda>fdv.
     rbind (number_or_zero ''circSupply'' raw) (\<lambda>circSupply.
     rbind (number_or_zero ''liquidity'' raw) (\<lambda>liquidity.
     rbind (number_or_zero ''holderCount'' raw) (\<lambda>holders.
     rbind (number_or_zero ''organicScore'' raw) (\<lambda>score.
     rbind (text_or ''unknown'' ''organicScoreLabel'' raw) (\<lambda>label.
     rbind (property ''isVerified'' raw) (\<lambda>verified.
     rbind (tagsOf raw) (\<lambda>tags.
     rbind (text_or [] ''tokenProgram'' raw) (\<lambda>tokenProgram.
     rbind (createdAt raw) (\<lambda>created.
     rbind (is_true ''mintAuthorityDisabled'' audit) (\<lambda>mintDisabled.
     rbind (is_true ''freezeAuthorityDisabled'' audit) (\<lambda>freezeDisabled.
     rbind (number_only ''topHoldersPercentage'' audit) (\<lambda>topHolders.
     rbind (number_only ''devMints'' audit) (\<lambda>devMints.
     rbind (number_sum ''buyVolume'' ''sellVolume'' stats24h) (\<lambda>volume.
     rbind (number_sum ''buyOrganicVolume'' ''sellOrganicVolume'' stats24h) (\<lambda>organic.
     rbind (number_or_zero ''priceChange'' stats24h) (\<lambda>change.
     Inr \<lparr>ts_mint = mint, ts_symbol = symbol, ts_name = nm, ts_decimals = decimals, ts_usdPrice = usdPrice,
          ts_priceE9 = priceE9, ts_marketCapUsd = mcap, ts_fdvUsd = fdv, ts_circulatingSupply = circSupply,
          ts_liquidityUsd = liquidity, ts_holderCount = holders, ts_organicScore = score,
          ts_organicScoreLabel = label, ts_isVerified = (case verified of None \<Rightarrow> False | Some j \<Rightarrow> to_bool j),
          ts_tags = tags, ts_tokenProgram = tokenProgram, ts_firstPoolCreatedAt = created,
          ts_mintAuthorityDisabled = mintDisabled, ts_freezeAuthorityDisabled = freezeDisabled,
          ts_topHoldersPercentage = topHolders, ts_devMints = devMints, ts_volume24hUsd = volume,
          ts_organicVolume24hUsd = organic, ts_priceChange24h = change\<rparr>))))))))))))))))))))))))"

definition parseTokenEntry :: "stats_table \<Rightarrow> json \<Rightarrow> stats_table result" where
  "parseTokenEntry out raw =
     rbind (text_or [] ''id'' raw) (\<lambda>mint.
     rbind (number_or_zero ''usdPrice'' raw) (\<lambda>usdPrice.
     if mint = [] \<or> \<not> is_finite usdPrice \<or> nle usdPrice (nint 0) then Inr out
     else rmap (\<lambda>s. AList.update mint s out) (statsOf raw mint usdPrice)))"

definition parseTokenResponse :: "json \<Rightarrow> stats_table result" where
  "parseTokenResponse payload =
     (case payload of J_arr raws \<Rightarrow> rfold parseTokenEntry [] raws | _ \<Rightarrow> Inr [])"

section \<open>Fetching\<close>

definition TOKENS_ENDPOINT :: jsstring where
  "TOKENS_ENDPOINT = js ''https://lite-api.jup.ag/tokens/v2/search''"

definition TOKEN_BATCH :: nat where "TOKEN_BATCH = 100"

fun fetchTokenBatches :: "fetcher \<Rightarrow> jsstring list list \<Rightarrow> stats_table \<Rightarrow> nat \<Rightarrow> stats_table result \<times> nat" where
  "fetchTokenBatches fetchImpl [] out calls = (Inr out, calls)"
| "fetchTokenBatches fetchImpl (batch # batches) out calls =
     (case getJson fetchImpl (TOKENS_ENDPOINT @ js ''?query='' @ join (js '','') batch) ATTEMPTS
             (Error [Lit ''undefined'']) calls of
        (Inl e, calls') \<Rightarrow> (Inl e, calls')
      | (Inr payload, calls') \<Rightarrow>
          (case parseTokenResponse payload of
             Inl e \<Rightarrow> (Inl e, calls')
           | Inr new \<Rightarrow> fetchTokenBatches fetchImpl batches (set_all out new) calls'))"

definition fetchTokenStats :: "fetcher \<Rightarrow> jsstring list \<Rightarrow> nat \<Rightarrow> stats_table result \<times> nat" where
  "fetchTokenStats fetchImpl mints calls = fetchTokenBatches fetchImpl (chunk TOKEN_BATCH (dedup mints)) [] calls"

section \<open>Rows and requests\<close>

definition stats_ok :: "jsstring \<Rightarrow> token_stats \<Rightarrow> bool" where
  "stats_ok k s \<longleftrightarrow> k \<noteq> [] \<and> ts_mint s = k \<and> 0 < ts_priceE9 s \<and> toPriceE9 (ts_usdPrice s) = Inr (ts_priceE9 s)"

lemma statsOf_ok:
  assumes "statsOf raw mint usdPrice = Inr s" "mint \<noteq> []" shows "stats_ok mint s"
  using assms by (auto simp: statsOf_def rbind_Inr_iff stats_ok_def toPriceE9_pos)

lemma parseTokenEntry_ok:
  "parseTokenEntry out raw = Inr out' \<Longrightarrow> rows_ok stats_ok out \<Longrightarrow> rows_ok stats_ok out'"
  by (auto simp: parseTokenEntry_def rbind_Inr_iff rmap_Inr_iff intro!: rows_ok_update statsOf_ok split: if_splits)

lemma parseTokenResponse_ok: "parseTokenResponse j = Inr out \<Longrightarrow> rows_ok stats_ok out"
  unfolding parseTokenResponse_def
  by (cases j) (simp_all, erule rfold_keeps [where P = "rows_ok stats_ok"], simp_all add: parseTokenEntry_ok)

lemma fetchTokenBatches_ok:
  assumes "fetchTokenBatches f bs out calls = (Inr table, calls')" "rows_ok stats_ok out"
  shows "rows_ok stats_ok table \<and> calls + length bs \<le> calls' \<and> calls' \<le> calls + 3 * length bs"
  using assms
proof (induction bs arbitrary: out calls)
  case (Cons b bs)
  let ?url = "TOKENS_ENDPOINT @ js ''?query='' @ join (js '','') b" and ?e = "Error [Lit ''undefined'']"
  from Cons.prems obtain payload new c where
    g: "getJson f ?url ATTEMPTS ?e calls = (Inr payload, c)" and new: "parseTokenResponse payload = Inr new"
    and rest: "fetchTokenBatches f bs (set_all out new) c = (Inr table, calls')"
    by (auto split: prod.splits sum.splits)
  have "calls < c \<and> c \<le> calls + 3"
    using getJson_attempts [OF g] by (simp add: ATTEMPTS_def)
  moreover have "rows_ok stats_ok table \<and> c + length bs \<le> calls' \<and> calls' \<le> c + 3 * length bs"
    using Cons.IH [OF rest] rows_ok_set_all [OF parseTokenResponse_ok [OF new] Cons.prems(2)] .
  ultimately show ?case by simp
qed simp

lemma concat_chunk: "0 < n \<Longrightarrow> concat (chunk n xs) = xs"
  by (induction n xs rule: chunk.induct) (simp_all add: append_take_drop_id)

lemma length_chunk:
  assumes "0 < n" shows "length (chunk n xs) = (length xs + n - 1) div n"
  using assms
proof (induction n xs rule: chunk.induct)
  case (2 n x xs)
  have "length (chunk n (x # xs)) = Suc (((length xs - (n - 1)) + n - 1) div n)" using 2 by simp
  also have "\<dots> = (length (x # xs) + n - 1) div n"
  proof (cases "n - 1 \<le> length xs")
    case True
    then have "length xs - (n - 1) + n - 1 = length xs" "length (x # xs) + n - 1 = length xs + n" using 2(2) by simp_all
    then show ?thesis using 2(2) by simp
  next
    case False
    then have "(length xs - (n - 1) + n - 1) div n = 0" "length (x # xs) + n - 1 = n + length xs" "length xs div n = 0"
      using 2(2) by simp_all
    then show ?thesis using 2(2) by simp
  qed
  finally show ?case .
qed simp

lemma chunk_sizes: "b \<in> set (chunk n xs) \<Longrightarrow> 0 < length b \<and> length b \<le> n"
  by (induction n xs rule: chunk.induct) (auto split: if_splits)



end
