(* ===== verification/CliInspect.thy ===== *)
theory CliInspect
  imports CliCommands SdkTokens
begin

text \<open>
  \<open>inspect\<close> of \<open>apps/cli/src/commands.ts\<close>: an index with its weights, its NAV and its auction, as
  one JSON document or as lines of text. The two readings of the clock the source makes, for the
  auction and for the countdown, are one.
\<close>

definition fetchStatsC :: "cli_context \<Rightarrow> jsstring list \<Rightarrow> stats_table cli" where
  "fetchStatsC ctx mints ob =
     (case fetchTokenStats (cx_fetch ctx) mints (ob_fetches ob) of (r, calls) \<Rightarrow> (r, ob\<lparr>ob_fetches := calls\<rparr>))"

text \<open>\<open>stats.get(mint)?.priceE9 ?? 0n\<close> for every component.\<close>

definition pricesOf :: "cli_context \<Rightarrow> stats_table \<Rightarrow> component_account list \<Rightarrow> int list" where
  "pricesOf ctx stats cs =
     map (\<lambda>c. case map_of stats (cx_toBase58 ctx (ca_mint c)) of None \<Rightarrow> 0 | Some s \<Rightarrow> ts_priceE9 s) cs"

record inspection =
  is_indexMint :: pubkey
  is_snapshot :: index_snapshot
  is_stats :: stats_table
  is_navE9 :: int
  is_weights :: "jsnum list"
  is_navPerToken :: int
  is_auction :: auction_view

definition gather :: "cli_context \<Rightarrow> pubkey \<Rightarrow> inspection cli" where
  "gather ctx indexMint =
     bindC (snapshotC ctx indexMint) (\<lambda>snap.
     let cs = xa_components (sn_account snap) in
     bindC (fetchStatsC ctx (map (\<lambda>c. cx_toBase58 ctx (ca_mint c)) cs)) (\<lambda>stats.
     let pricesE9 = pricesOf ctx stats cs in
     bindC (liftC (weights snap pricesE9)) (\<lambda>(navE9, ws).
     bindC (liftC (navPerToken snap pricesE9)) (\<lambda>perToken.
     bindC (liftC (auction snap (cx_now ctx))) (\<lambda>auc.
     returnC \<lparr>is_indexMint = indexMint, is_snapshot = snap, is_stats = stats, is_navE9 = navE9,
              is_weights = ws, is_navPerToken = perToken, is_auction = auc\<rparr>)))))"

section \<open>The JSON document\<close>

definition J_big :: "int \<Rightarrow> json" where "J_big n = J_str (bigint_text n)"

definition member :: "string \<Rightarrow> json \<Rightarrow> jsstring \<times> json" where "member name v = (js name, v)"

definition usdNumber :: "int \<Rightarrow> json" where
  "usdNumber e9 = J_num (ndiv (number_of e9) (nint 1000000000))"

definition componentDocument :: "cli_context \<Rightarrow> inspection \<Rightarrow> nat \<Rightarrow> component_account \<Rightarrow> json" where
  "componentDocument ctx v i c =
     (let mint = cx_toBase58 ctx (ca_mint c); entry = map_of (is_stats v) mint in
      J_obj [member ''mint'' (J_str mint),
             member ''symbol'' (case entry of None \<Rightarrow> J_null | Some s \<Rightarrow> J_str (ts_symbol s)),
             member ''decimals'' (J_num (ca_decimals c)),
             member ''units'' (J_big (nth_or 0 (sn_units (is_snapshot v)) i)),
             member ''targetUnits'' (J_big (ca_targetUnits c)),
             member ''balance'' (J_big (nth_or 0 (sn_balances (is_snapshot v)) i)),
             member ''weightBps'' (J_num (nth_or (nint 0) (is_weights v) i)),
             member ''priceUsd'' (case entry of None \<Rightarrow> J_null | Some s \<Rightarrow> J_num (ts_usdPrice s))])"

definition auctionDocument :: "auction_view \<Rightarrow> json" where
  "auctionDocument a =
     J_obj [member ''active'' (J_bool (av_active a)), member ''opensAt'' (J_num (av_opensAt a)),
            member ''closesAt'' (J_num (av_closesAt a)),
            member ''premiumBps'' (case av_premiumBps a of None \<Rightarrow> J_null | Some p \<Rightarrow> J_num p)]"

definition document :: "cli_context \<Rightarrow> inspection \<Rightarrow> json" where
  "document ctx v =
     (let snap = is_snapshot v; account = sn_account snap in
      J_obj [member ''indexMint'' (J_str (cx_toBase58 ctx (is_indexMint v))),
             member ''index'' (J_str (cx_toBase58 ctx (sn_address snap))),
             member ''name'' (J_str (xa_name account)),
             member ''symbol'' (J_str (xa_symbol account)),
             member ''state'' (J_str (js (stateText (xa_state account)))),
             member ''supply'' (J_big (sn_supply snap)),
             member ''navUsd'' (usdNumber (is_navE9 v)),
             member ''navPerTokenUsd'' (usdNumber (is_navPerToken v)),
             member ''pendingFee'' (J_big (sn_pendingFee snap)),
             member ''streamingFeeBps'' (J_num (xa_streamingFeeBps account)),
             member ''components'' (J_arr (map_idx (componentDocument ctx v) (xa_components account))),
             member ''auction'' (auctionDocument (is_auction v))])"

section \<open>The text\<close>

definition printHeader :: "cli_context \<Rightarrow> inspection \<Rightarrow> unit cli" where
  "printHeader ctx v =
     (let snap = is_snapshot v; account = sn_account snap in
      bindC (printC [PStr (xa_name account), Lit '' ('', PStr (xa_symbol account), Lit '')  '', Lit (stateText (xa_state account))]) (\<lambda>p1.
      bindC (printKey ctx ''index mint   '' (is_indexMint v)) (\<lambda>p2.
      bindC (liftC (formatAmount (sn_supply snap) (nint 9) 6)) (\<lambda>supplyText.
      bindC (printC [Lit ''supply       '', PStr supplyText, Lit '' tokens'']) (\<lambda>p3.
      bindC (printC [Lit ''NAV          '', formatUsdE9 (is_navE9 v), Lit ''   ('', formatUsdE9 (is_navPerToken v), Lit '' per token)'']) (\<lambda>p4.
      bindC (liftC (formatAmount (sn_pendingFee snap) (nint 9) 6)) (\<lambda>pending.
      bindC (printC [Lit ''fees         '', PNum (xa_streamingFeeBps account), Lit '' bps streaming, '',
               PNum (xa_issueFeeBps account), Lit ''/'', PNum (xa_redeemFeeBps account), Lit '' bps issue/redeem, '',
               PStr pending, Lit '' accrued and unminted'']) (\<lambda>p5.
      bindC (printC []) (\<lambda>p6.
      printC [Lit ''  weight   symbol   units per token        balance''])))))))))"

definition printComponent :: "cli_context \<Rightarrow> inspection \<Rightarrow> nat \<times> component_account \<Rightarrow> unit cli" where
  "printComponent ctx v = (\<lambda>(i, c).
     let snap = is_snapshot v; space = unit_of 32;
         symbol = (case map_of (is_stats v) (cx_toBase58 ctx (ca_mint c)) of None \<Rightarrow> js ''?'' | Some s \<Rightarrow> ts_symbol s);
         weight = toFixed 2 (ndiv (nth_or (nint 0) (is_weights v) i) (nint 100)) @ js ''%'' in
     bindC (liftC (formatAmount (nth_or 0 (sn_units snap) i) (ca_decimals c) 6)) (\<lambda>units.
     bindC (liftC (formatAmount (nth_or 0 (sn_balances snap) i) (ca_decimals c) 6)) (\<lambda>balance.
     printC [PStr (padStart 8 space weight), Lit ''   '', PStr (padEnd 8 space symbol), Lit '' '',
             PStr (padStart 20 space units), Lit '' '', PStr (padStart 14 space balance)])))"

text \<open>The component of a leg; beyond the table it is undefined and reading it throws.\<close>

definition printLeg :: "cli_context \<Rightarrow> component_account list \<Rightarrow> nat \<times> auction_leg \<Rightarrow> unit cli" where
  "printLeg ctx cs = (\<lambda>(i, leg).
     let amountOf = (\<lambda>verb n. if i < length cs then printAmountOf ctx verb n (cs ! i) else throwC TypeError) in
     bindC (if 0 < al_sellable leg then amountOf ''  selling up to '' (al_sellable leg) else returnC ()) (\<lambda>p1.
     if 0 < al_buyable leg then amountOf ''  buying up to '' (al_buyable leg) else returnC ()))"

definition printAuction :: "cli_context \<Rightarrow> inspection \<Rightarrow> unit cli" where
  "printAuction ctx v =
     (let a = is_auction v; now = cx_now ctx in
      if \<not> av_active a then returnC ()
      else
      bindC (printC []) (\<lambda>p1.
      bindC (printC
        (case av_premiumBps a of
           None \<Rightarrow> [Lit ''auction opens in '', PNum (nsub (av_opensAt a) now), Lit ''s, closes '',
                    PNum (nsub (av_closesAt a) now), Lit ''s later'']
         | Some p \<Rightarrow> [Lit ''auction open, premium '', PNum p, Lit '' bps, '',
                    PNum (nsub (av_closesAt a) now), Lit ''s left''])) (\<lambda>p2.
      forC (printLeg ctx (xa_components (sn_account (is_snapshot v)))) (enumerate 0 (av_legs a)))))"

definition inspectCommand :: "cli_context \<Rightarrow> pubkey \<Rightarrow> bool \<Rightarrow> unit cli" where
  "inspectCommand ctx indexMint json_output =
     bindC (gather ctx indexMint) (\<lambda>v.
     if json_output then printC [PStr (stringify 0 (document ctx v))]
     else
     bindC (printHeader ctx v) (\<lambda>p1.
     bindC (forC (printComponent ctx v) (enumerate 0 (xa_components (sn_account (is_snapshot v))))) (\<lambda>p2.
     printAuction ctx v)))"

section \<open>What the document says\<close>

text \<open>A member holds the decimal text of an integer, which \<open>BigInt\<close> reads back.\<close>

definition amount_in :: "string \<Rightarrow> json \<Rightarrow> int \<Rightarrow> bool" where
  "amount_in name doc n \<longleftrightarrow> (\<exists>s. property name doc = Inr (Some (J_str s)) \<and> BigInt s = Inr n)"

definition component_exact :: "cli_context \<Rightarrow> index_snapshot \<Rightarrow> nat \<Rightarrow> component_account \<Rightarrow> json \<Rightarrow> bool" where
  "component_exact ctx snap i c doc \<longleftrightarrow>
     property ''mint'' doc = Inr (Some (J_str (cx_toBase58 ctx (ca_mint c))))
     \<and> amount_in ''units'' doc (nth_or 0 (sn_units snap) i)
     \<and> amount_in ''targetUnits'' doc (ca_targetUnits c)
     \<and> amount_in ''balance'' doc (nth_or 0 (sn_balances snap) i)"

lemma member_names [simp]:
  "js a = js b \<longleftrightarrow> map (of_char :: char \<Rightarrow> 16 word) a = map of_char b"
  by (simp add: js_def)

lemma componentDocument_exact: "component_exact ctx (is_snapshot v) i c (componentDocument ctx v i c)"
  by (simp add: component_exact_def componentDocument_def amount_in_def property_def member_def J_big_def BigInt_text Let_def)

lemma document_amounts:
  "amount_in ''supply'' (document ctx v) (sn_supply (is_snapshot v))"
  "amount_in ''pendingFee'' (document ctx v) (sn_pendingFee (is_snapshot v))"
  "property ''components'' (document ctx v)
     = Inr (Some (J_arr (map_idx (componentDocument ctx v) (xa_components (sn_account (is_snapshot v))))))"
  by (simp_all add: document_def amount_in_def property_def member_def J_big_def BigInt_text Let_def)

lemma fetchStatsC_Inr: "fetchStatsC ctx mints ob = (Inr stats, ob') \<Longrightarrow> \<exists>calls. ob' = ob\<lparr>ob_fetches := calls\<rparr>"
  by (auto simp: fetchStatsC_def split: prod.splits)

lemma gather_quiet:
  assumes "gather ctx indexMint ob = (Inr v, ob')"
  shows "ob_sent ob' = ob_sent ob" "ob_console ob' = ob_console ob"
    "snapshot (cx_web3 ctx) (cx_spl ctx) (cx_connection ctx) (cx_programId ctx) indexMint (cx_asOf ctx) = Inr (is_snapshot v)"
  using assms
  by (auto simp: gather_def bindC_Inr snapshotC_def liftC_def returnC_def Let_def dest!: fetchStatsC_Inr)

end
