(* ===== verification/CliProps.thy ===== *)
theory CliProps
  imports CliCommands "HOL-Library.Multiset"
begin

text \<open>
  What the command line guarantees and where it does not: amounts are printed exactly, a
  weighting over distinct mints reaches the program as given and one with a repeated mint does
  not, and creating an index for a separate manager can never succeed.
\<close>

section \<open>Printed amounts\<close>

lemma parse_digits_foldl: "foldl (\<lambda>n u. n * b + digit_value u) a ds = a * b ^ length ds + parse_digits b ds"
proof (induction ds arbitrary: a)
  case (Cons d ds)
  have "foldl (\<lambda>n u. n * b + digit_value u) (digit_value d) ds = digit_value d * b ^ length ds + parse_digits b ds"
    by (rule Cons.IH)
  then show ?case using Cons.IH [of "a * b + digit_value d"] by (simp add: parse_digits_def algebra_simps)
qed (simp add: parse_digits_def)

lemma parse_digits_append: "parse_digits b (xs @ ys) = parse_digits b xs * b ^ length ys + parse_digits b ys"
  using parse_digits_foldl [of b "parse_digits b xs" ys] by (simp add: parse_digits_def)

lemma parse_digits_zeros: "parse_digits 10 (replicate k (unit_of 48)) = 0"
proof (induction k)
  case (Suc k)
  have "digit_value (unit_of 48) = 0" using digit_unit [of 0] by simp
  then show ?case using Suc parse_digits_append [of 10 "[unit_of 48]" "replicate k (unit_of 48)"]
    by (simp add: parse_digits_def)
qed (simp add: parse_digits_def)

lemma decimal_length: "0 \<le> n \<Longrightarrow> n < 10 ^ d \<Longrightarrow> 0 < d \<Longrightarrow> length (decimal fuel n) \<le> d"
proof (induction fuel arbitrary: n d)
  case (Suc fuel)
  show ?case
  proof (cases "n < 10")
    case False
    then obtain e where e: "d = Suc e" "0 < e" using Suc.prems by (cases d; cases "d - 1") auto
    then have "n div 10 < 10 ^ e" "0 \<le> n div 10" using Suc.prems False by (auto simp: pos_imp_zdiv_nonneg_iff)
    then show ?thesis using Suc.IH [of "n div 10" e] e False by simp
  qed (use Suc.prems in simp)
qed simp

lemma bigint_text_length: "0 \<le> n \<Longrightarrow> n < 10 ^ d \<Longrightarrow> 0 < d \<Longrightarrow> length (bigint_text n) \<le> d"
  by (simp add: bigint_text_def decimal_length del: decimal.simps)

text \<open>C32: When all decimals are shown, the digits formatAmount prints around the point are exactly
  the amount in base units.
\<close>

theorem format_amount_exact:
  assumes "0 \<le> amount" "0 < d" "d \<le> places"
  shows "\<exists>whole fraction. formatAmount amount (nint (int d)) places = Inr (whole @ js ''.'' @ fraction)
    \<and> length fraction = d \<and> list_all is_dec whole \<and> list_all is_dec fraction
    \<and> parse_digits 10 (whole @ fraction) = amount"
proof -
  let ?s = "10 ^ d :: int"
  let ?w = "bigint_text (amount div ?s)"
  let ?r = "bigint_text (amount mod ?s)"
  let ?f = "replicate (d - length ?r) (unit_of 48) @ ?r"
  have r: "0 \<le> amount mod ?s" "amount mod ?s < ?s" by simp_all
  have w: "0 \<le> amount div ?s" using assms by (simp add: pos_imp_zdiv_nonneg_iff)
  have smod: "amount smod ?s = amount mod ?s"
    using assms by (simp add: signed_modulo_int_def sgn_if)
  have len: "length ?f = d" using bigint_text_length [OF r assms(2)] by simp
  have "formatAmount amount (nint (int d)) places = Inr (?w @ js ''.'' @ ?f)"
    using assms len by (simp add: formatAmount_def pow10_nint padStart_def smod Let_def)
  moreover have "list_all is_dec ?f"
    using digit_unit [of 0] bigint_text_parse(2) [OF r(1)] by (auto simp: list_all_iff)
  moreover have "parse_digits 10 (?w @ ?f) = amount"
    using div_mult_mod_eq [of amount ?s]
    by (simp only: parse_digits_append [of _ ?w] len parse_digits_append [of _ "replicate (d - length ?r) (unit_of 48)"]
        parse_digits_zeros bigint_text_parse(1) [OF r(1)] bigint_text_parse(1) [OF w] mult_zero_left add_0)
  ultimately show ?thesis using len bigint_text_parse(2) [OF w] by blast
qed

theorem format_amount_exact_witness:
  "\<exists>whole fraction. formatAmount 1500042 (nint (int 6)) 6 = Inr (whole @ js ''.'' @ fraction)
    \<and> length fraction = 6 \<and> list_all is_dec whole \<and> list_all is_dec fraction
    \<and> parse_digits 10 (whole @ fraction) = 1500042"
  by (rule format_amount_exact) simp_all

section \<open>Weightings\<close>

lemma map_of_byMint:
  "map_of (foldl (\<lambda>m w. AList.update (k w) (v w) m) m0 ws) = foldl (\<lambda>f w. f(k w \<mapsto> v w)) (map_of m0) ws"
  by (induction ws arbitrary: m0) (simp_all add: update_conv')

lemma dom_foldl_upd: "dom (foldl (\<lambda>f w. f(k w \<mapsto> v w)) f0 ws) = dom f0 \<union> k ` set ws"
  by (induction ws arbitrary: f0) auto

lemma foldl_upd_other: "x \<notin> k ` set ws \<Longrightarrow> foldl (\<lambda>f w. f(k w \<mapsto> v w)) f0 ws x = f0 x"
  by (induction ws arbitrary: f0) auto

lemma foldl_upd_distinct:
  "distinct (map k ws) \<Longrightarrow> w \<in> set ws \<Longrightarrow> foldl (\<lambda>f w. f(k w \<mapsto> v w)) f0 ws (k w) = Some (v w)"
proof (induction ws arbitrary: f0)
  case (Cons u us)
  then show ?case using foldl_upd_other [of "k u" k us v "f0(k u \<mapsto> v u)"] by (cases "w = u") (auto simp del: fun_upd_apply simp: fun_upd_same)
qed simp

lemma distinct_byMint: "distinct (map fst m0) \<Longrightarrow> distinct (map fst (foldl (\<lambda>m w. AList.update (k w) (v w) m) m0 ws))"
  by (induction ws arbitrary: m0) (simp_all add: distinct_update)

definition spec_key :: "cli_context \<Rightarrow> weight_spec \<Rightarrow> jsstring" where
  "spec_key ctx w = cx_toBase58 ctx (ws_mint w)"

lemma weightsInOrder_distinct:
  assumes "weightsInOrder ctx ws order = Inr out" "distinct (map (spec_key ctx) ws)" "distinct order"
  shows "length out = length order \<and> mset out = mset (map ws_bps ws)
    \<and> (\<forall>i<length order. \<exists>w\<in>set ws. spec_key ctx w = order ! i \<and> out ! i = ws_bps w)"
proof -
  let ?m = "byMint ctx ws"
  have conv: "map_of ?m = foldl (\<lambda>f w. f(spec_key ctx w \<mapsto> ws_bps w)) Map.empty ws"
    unfolding byMint_def spec_key_def using map_of_byMint [of _ _ "[]"] by simp
  have get: "map_of ?m (spec_key ctx w) = Some (ws_bps w)" if "w \<in> set ws" for w
    unfolding conv using that assms(2) by (rule foldl_upd_distinct [rotated])
  have dist: "distinct (map fst ?m)" unfolding byMint_def by (rule distinct_byMint) simp
  have dom: "fst ` set ?m = spec_key ctx ` set ws"
    using dom_foldl_upd [of "spec_key ctx" ws_bps Map.empty ws] by (simp add: dom_map_of_conv_image_fst flip: conv)
  from assms(1) have none: "missingComponent ?m order = None" and len: "length ?m = length order"
    and out: "out = map (\<lambda>mint. the (map_of ?m mint)) order"
    by (auto simp: weightsInOrder_def Let_def split: option.splits if_splits)
  have sub: "set order \<subseteq> fst ` set ?m"
    using none by (auto simp: missingComponent_def find_None_iff map_of_eq_None_iff)
  have "card (fst ` set ?m) = length ?m" using dist distinct_card [of "map fst ?m"] by simp
  moreover have "card (set order) = length order" using assms(3) by (rule distinct_card)
  ultimately have eq: "set order = spec_key ctx ` set ws"
    using sub len dom by (metis List.finite_set card_subset_eq finite_imageI)
  have "mset order = mset (map (spec_key ctx) ws)"
    using assms(2,3) eq by (intro set_eq_iff_mset_eq_distinct [THEN iffD1]) auto
  then have "image_mset (\<lambda>mint. the (map_of ?m mint)) (mset order)
      = image_mset (\<lambda>mint. the (map_of ?m mint)) (mset (map (spec_key ctx) ws))" by simp
  then have "mset out = mset (map (\<lambda>w. the (map_of ?m (spec_key ctx w))) ws)" by (simp add: out o_def multiset.map_comp)
  also have "map (\<lambda>w. the (map_of ?m (spec_key ctx w))) ws = map ws_bps ws" using get by simp
  finally have "mset out = mset (map ws_bps ws)" .
  moreover have "\<exists>w\<in>set ws. spec_key ctx w = order ! i \<and> out ! i = ws_bps w" if "i < length order" for i
  proof -
    have "order ! i \<in> spec_key ctx ` set ws" using eq that nth_mem by blast
    then obtain w where w: "w \<in> set ws" "spec_key ctx w = order ! i" by auto
    then show ?thesis using get [OF w(1)] that by (intro bexI [OF _ w(1)]) (simp add: out)
  qed
  ultimately show ?thesis by (simp add: out)
qed

lemma foldl_nadd:
  assumes "\<forall>i\<in>set is. 0 \<le> i" "0 \<le> a" "a + sum_list is < 2 ^ 53"
  shows "foldl nadd (nint a) (map nint is) = nint (a + sum_list is)"
  using assms
proof (induction "is" arbitrary: a)
  case (Cons i "is")
  have s: "0 \<le> sum_list is" using Cons.prems(1) by (intro sum_list_nonneg) auto
  then have "safe_int (a + i)" using Cons.prems by (auto simp: safe_int_def)
  then show ?case using Cons by (simp add: nadd_nint algebra_simps)
qed simp

lemma foldl_map_weights: "foldl (\<lambda>t w. nadd t (ws_bps w)) t ws = foldl nadd t (map ws_bps ws)"
  by (induction ws arbitrary: t) auto

text \<open>C24: A weighting without repeated mints reaches the components unchanged: each component gets
  the weight given for its mint, every weight is used once, and they sum to 10000.
\<close>

theorem distinct_weights_reach_components:
  assumes "parseWeights parse_key spec = Inr ws" "weightsInOrder ctx ws order = Inr out"
    and "distinct (map (spec_key ctx) ws)" "distinct order"
    and "map ws_bps ws = map nint bps" "\<forall>b\<in>set bps. 0 \<le> b" "sum_list bps < 2 ^ 53"
  shows "length out = length order \<and> (\<forall>i<length order. \<exists>w\<in>set ws. spec_key ctx w = order ! i \<and> out ! i = ws_bps w)
    \<and> mset out = mset (map nint bps) \<and> sum_list bps = 10000"
proof -
  have "foldl (\<lambda>t w. nadd t (ws_bps w)) (nint 0) ws = nint (sum_list bps)"
    using foldl_nadd [of bps 0] assms(6,7) by (simp add: foldl_map_weights assms(5))
  moreover have "neq (foldl (\<lambda>t w. nadd t (ws_bps w)) (nint 0) ws) (nint 10000)"
    using assms(1) by (auto simp: parseWeights_def rbind_Inr_iff Let_def split: if_splits)
  ultimately have "sum_list bps = 10000" by simp
  then show ?thesis using weightsInOrder_distinct [OF assms(2,3,4)] assms(5) by simp
qed

text \<open>A concrete context: addresses are their seeds, the cluster accepts what is fully signed.\<close>

definition lacks_signature :: "transaction \<Rightarrow> pubkey list \<Rightarrow> bool" where
  "lacks_signature tx signers \<longleftrightarrow>
     list_ex (\<lambda>i. list_ex (\<lambda>m. am_isSigner m \<and> am_pubkey m \<notin> set signers) (ti_keys i)) tx"

definition test_parse_key :: key_parser where
  "test_parse_key s = Inr (PublicKey (map (\<lambda>u. word_of_int (uint u)) s))"

definition test_base58 :: "pubkey \<Rightarrow> jsstring" where
  "test_base58 k = map (\<lambda>b. word_of_int (uint b)) (key_bytes k)"

definition sample_web3 :: web3 where
  "sample_web3 = \<lparr>find_pda = \<lambda>seeds p. (PublicKey (concat seeds), 255), SystemProgram_id = PublicKey [0], TOKEN_PROGRAM_ID = PublicKey [1]\<rparr>"

definition sample_spl :: spl_token where
  "sample_spl = \<lparr>unpackMint_supply = \<lambda>k a. Inr (le_val (ai_data a)), unpackAccount_amount = \<lambda>k a. Inr (le_val (ai_data a)),
     associatedTokenAddress = \<lambda>m w off. Inr (PublicKey (key_bytes m @ key_bytes w)),
     createAssociatedTokenAccountIdempotent = \<lambda>p a w m. \<lparr>ti_programId = PublicKey [2], ti_keys = [signerRw p, rw a, ro w, ro m], ti_data = [1]\<rparr>\<rparr>"

definition sample_ctx :: cli_context where
  "sample_ctx = \<lparr>cx_web3 = sample_web3, cx_spl = sample_spl,
     cx_connection = \<lparr>getAccountInfo = \<lambda>k. Inr None, getMultipleAccountsInfo = \<lambda>ks. Inr (map (\<lambda>k. None) ks)\<rparr>,
     cx_programId = PublicKey [3], cx_parse_key = test_parse_key, cx_toBase58 = test_base58,
     cx_fetch = \<lambda>n url. Rejected TypeError, cx_asOf = nint 0, cx_now = nint 0, cx_getMint_decimals = \<lambda>k. Inr (nint 6),
     cx_rentExemptMint = Inr 1461600,
     cx_createMintAccount = \<lambda>p m l. \<lparr>ti_programId = PublicKey [0], ti_keys = [signerRw p, signerRw m], ti_data = [0]\<rparr>,
     cx_initializeMint2 = \<lambda>m d a f. \<lparr>ti_programId = PublicKey [1], ti_keys = [rw m], ti_data = [20]\<rparr>,
     cx_generatedKey = PublicKey [4],
     cx_send = \<lambda>n tx signers. if lacks_signature tx signers then Inl (ErrorObject (js ''Signature verification failed'')) else Inr []\<rparr>"

lemmas number_eval =
  Number_def trim_def is_space_def unit_in_def radix_literal_def signed_def number_literal_def digits_or_def
  decimal_literal_def is_dec_def exponent_part_def parse_digits_def digit_value_def specParts_def parseWeight_def

lemma split_6000: "specParts (js ''A=6000,B=4000'') = [js ''A=6000'', js ''B=4000'']"
  "specParts (js ''A=5000,A=5000'') = [js ''A=5000'', js ''A=5000'']"
  by (simp_all add: specParts_def js_def trim_def is_space_def unit_in_def unit_of_def)

lemma Number_weights: "Number (js ''6000'') = nint 6000" "Number (js ''4000'') = nint 4000" "Number (js ''5000'') = nint 5000"
  using to_double_safe [of 6000] to_double_safe [of 4000] to_double_safe [of 5000]
  by (simp_all add: number_eval js_def safe_int_def Let_def)

lemma parse_entries:
  "parseWeight test_parse_key (js ''A=6000'') = Inr \<lparr>ws_mint = PublicKey [65], ws_bps = nint 6000\<rparr>"
  "parseWeight test_parse_key (js ''B=4000'') = Inr \<lparr>ws_mint = PublicKey [66], ws_bps = nint 4000\<rparr>"
  "parseWeight test_parse_key (js ''A=5000'') = Inr \<lparr>ws_mint = PublicKey [65], ws_bps = nint 5000\<rparr>"
  using Number_weights
  by (simp_all add: parseWeight_def js_def test_parse_key_def trim_def is_space_def unit_in_def unit_of_def Let_def)

lemma parse_6000:
  "parseWeights test_parse_key (js ''A=6000,B=4000'') =
     Inr [\<lparr>ws_mint = PublicKey [65], ws_bps = nint 6000\<rparr>, \<lparr>ws_mint = PublicKey [66], ws_bps = nint 4000\<rparr>]"
  "parseWeights test_parse_key (js ''A=5000,A=5000'') =
     Inr [\<lparr>ws_mint = PublicKey [65], ws_bps = nint 5000\<rparr>, \<lparr>ws_mint = PublicKey [65], ws_bps = nint 5000\<rparr>]"
  by (simp_all add: parseWeights_def split_6000 parse_entries nadd_nint safe_int_def Let_def)

theorem distinct_weights_reach_components_witness:
  "\<exists>out. weightsInOrder sample_ctx [\<lparr>ws_mint = PublicKey [65], ws_bps = nint 6000\<rparr>, \<lparr>ws_mint = PublicKey [66], ws_bps = nint 4000\<rparr>]
        [[66], [65]] = Inr out \<and> mset out = mset (map nint [6000, 4000]) \<and> sum_list [6000, 4000] = (10000 :: int)"
proof -
  let ?ws = "[\<lparr>ws_mint = PublicKey [65], ws_bps = nint 6000\<rparr>, \<lparr>ws_mint = PublicKey [66], ws_bps = nint 4000\<rparr>]"
  have o: "weightsInOrder sample_ctx ?ws [[66], [65]] = Inr [nint 4000, nint 6000]"
    by (simp add: weightsInOrder_def byMint_def missingComponent_def sample_ctx_def test_base58_def Let_def)
  have "distinct (map (spec_key sample_ctx) ?ws)" by (simp add: spec_key_def sample_ctx_def test_base58_def)
  from distinct_weights_reach_components [OF parse_6000(1) o this, of "[6000, 4000]"] o show ?thesis by simp
qed


section \<open>A separate manager\<close>

lemma bindC_fails: "(\<And>ob. isl (fst (m ob))) \<Longrightarrow> isl (fst (bindC m f ob))"
proof -
  assume m: "\<And>ob. isl (fst (m ob))"
  obtain r ob' where "m ob = (r, ob')" by (cases "m ob")
  then show ?thesis using m [of ob] by (cases r) (auto simp: bindC_def)
qed

lemma bindC_fails_later: "(\<And>x ob. isl (fst (f x ob))) \<Longrightarrow> isl (fst (bindC m f ob))"
proof -
  assume f: "\<And>x ob. isl (fst (f x ob))"
  obtain r ob' where "m ob = (r, ob')" by (cases "m ob")
  then show ?thesis using f by (cases r) (auto simp: bindC_def)
qed

lemma sendOne_fails:
  assumes "\<And>n tx s. lacks_signature tx s \<Longrightarrow> isl (cx_send ctx n tx s)"
    and "\<And>ti. i = Inr ti \<Longrightarrow> lacks_signature [ti] signers"
  shows "isl (fst (sendOne ctx i signers ob))"
proof (cases i)
  case (Inr ti)
  then have "isl (cx_send ctx (length (ob_sent ob)) [ti] signers)" using assms by blast
  then obtain e where "cx_send ctx (length (ob_sent ob)) [ti] signers = Inl e" by (auto simp: isl_def)
  then show ?thesis using Inr by (simp add: sendOne_def bindC_def liftC_def send_def Let_def)
qed (simp add: sendOne_def bindC_def liftC_def)

lemma sealIndex_needs_manager: "sealIndex w3 p manager m = Inr ti \<Longrightarrow> signerRo manager \<in> set (ti_keys ti)"
  by (auto simp: sealIndex_def instruction_def rmap_Inr_iff)

text \<open>C34: Creating an index for a manager other than the payer always fails, because the manager's
  signature is never attached.
\<close>

theorem create_for_other_manager_fails:
  assumes "\<And>n tx s. lacks_signature tx s \<Longrightarrow> isl (cx_send ctx n tx s)"
    and "keyOr (cx_parse_key ctx) (co_manager opts) payer = Inr manager" "manager \<noteq> payer"
  shows "\<exists>e. fst (create ctx payer opts ob) = Inl e"
proof -
  have seal: "isl (fst (sendOne ctx (sealIndex (cx_web3 ctx) (cx_programId ctx) manager (cx_generatedKey ctx)) [payer] ob))" for ob
  proof (rule sendOne_fails [OF assms(1)])
    fix ti
    assume "sealIndex (cx_web3 ctx) (cx_programId ctx) manager (cx_generatedKey ctx) = Inr ti"
    then have "signerRo manager \<in> set (ti_keys ti)" by (rule sealIndex_needs_manager)
    then show "lacks_signature [ti] [payer]"
      using assms(3) by (auto simp: lacks_signature_def list_ex_iff signerRo_def intro!: bexI [of _ "signerRo manager"])
  qed
  have "isl (fst (create ctx payer opts ob))"
    unfolding create_def assms(2) Let_def bindC_simps
    by (intro bindC_fails_later bindC_fails seal)
  then show ?thesis by (auto simp: isl_def)
qed

definition sample_create :: create_options where
  "sample_create = \<lparr>co_name = js ''Flock'', co_symbol = js ''FLK'', co_components = Some (js ''A:1''), co_weights = None,
     co_navPerToken = None, co_streamingFeeBps = nint 95, co_issueFeeBps = nint 0, co_redeemFeeBps = nint 0,
     co_maxPremiumBps = nint 300, co_rebalanceDelay = nint 86400, co_governor = None, co_manager = Some (js ''M''),
     co_feeRecipient = None\<rparr>"

theorem create_for_other_manager_fails_witness:
  "\<exists>e. fst (create sample_ctx (PublicKey [9]) sample_create \<lparr>ob_sent = [], ob_fetches = 0, ob_console = []\<rparr>) = Inl e"
proof (rule create_for_other_manager_fails [where manager = "PublicKey [77]"])
  show "lacks_signature tx s \<Longrightarrow> isl (cx_send sample_ctx n tx s)" for n tx s by (simp add: sample_ctx_def)
  show "keyOr (cx_parse_key sample_ctx) (co_manager sample_create) (PublicKey [9]) = Inr (PublicKey [77])"
    by (simp add: keyOr_def truthy_def sample_create_def sample_ctx_def test_parse_key_def js_def)
qed simp

end
