(* ===== verification/InspectProps.thy ===== *)
theory InspectProps
  imports CliInspect CliProps LayoutParity
begin

text \<open>
  What \<open>inspect\<close> promises and where it misleads: the JSON document holds every amount exactly and
  nothing is sent; an auction that is over is still announced as one that will open.
\<close>

section \<open>A context that answers\<close>

lemma fetchTokenBatches_empty:
  "fst (fetchTokenBatches (\<lambda>n url. Response True 200 (Inr (J_arr []))) bs out calls) = Inr out"
  by (induction bs arbitrary: calls) (simp_all add: ATTEMPTS_def numeral_3_eq_3 attempt_def parseTokenResponse_def set_all_def)

lemma fetchStatsC_empty:
  assumes "cx_fetch ctx = (\<lambda>n url. Response True 200 (Inr (J_arr [])))"
  shows "\<exists>calls. fetchStatsC ctx mints ob = (Inr [], ob\<lparr>ob_fetches := calls\<rparr>)"
proof -
  let ?f = "\<lambda>n url. Response True 200 (Inr (J_arr []))"
  obtain r calls where r: "fetchTokenStats ?f mints (ob_fetches ob) = (r, calls)" by fastforce
  have "r = Inr []" using fetchTokenBatches_empty [of "chunk TOKEN_BATCH (dedup mints)" "[]" "ob_fetches ob"] r
    by (simp add: fetchTokenStats_def)
  then show ?thesis using r assms by (intro exI [of _ calls]) (simp add: fetchStatsC_def)
qed

definition live_account :: account_info where
  "live_account = \<lparr>ai_owner = PublicKey [3], ai_data = index_bytes sample_index\<rparr>"

definition show_ctx :: cli_context where
  "show_ctx = sample_ctx
     \<lparr>cx_connection := \<lparr>getAccountInfo = \<lambda>k. Inr (Some live_account), getMultipleAccountsInfo = \<lambda>ks. Inr (map (\<lambda>k. Some live_account) ks)\<rparr>,
      cx_spl := sample_spl\<lparr>unpackMint_supply := \<lambda>k a. Inr 0, unpackAccount_amount := \<lambda>k a. Inr 7\<rparr>,
      cx_fetch := \<lambda>n url. Response True 200 (Inr (J_arr []))\<rparr>"

lemma sample_decodes: "decodeIndex (index_bytes sample_index) = Inr (index_view sample_index)"
  by (rule decode_index_of_layout [OF sample_index_typed])
     (simp_all add: sample_index_def ChainData.MAX_COMPONENTS_def STATE_LIVE_def)

lemma sample_view:
  "xa_components (index_view sample_index) = [component_view sample_component, component_view sample_component]"
  "xa_maxPremiumBps (index_view sample_index) = nint 500"
  "ra_active (xa_rebalance (index_view sample_index)) = False"
proof -
  have c: "unat (x_component_count sample_index) = 2" "uint (x_max_premium_bps sample_index) = 500" by (simp_all add: sample_index_def)
  have "take 2 (x_components sample_index) = [sample_component, sample_component]" by (simp add: sample_index_def numeral_eq_Suc)
  then show "xa_components (index_view sample_index) = [component_view sample_component, component_view sample_component]"
    by (simp add: index_view_def c)
  show "xa_maxPremiumBps (index_view sample_index) = nint 500" by (simp add: index_view_def c)
  show "ra_active (xa_rebalance (index_view sample_index)) = False"
    by (simp add: index_view_def sample_index_def rebalance_view_def)
qed

lemma show_snapshot:
  "\<exists>snap. snapshot (cx_web3 show_ctx) (cx_spl show_ctx) (cx_connection show_ctx) (cx_programId show_ctx) m (cx_asOf show_ctx) = Inr snap
     \<and> sn_account snap = index_view sample_index \<and> sn_supply snap = 0 \<and> sn_balances snap = [7, 7]"
  by (simp add: snapshot_def show_ctx_def sample_ctx_def sample_spl_def live_account_def sample_decodes sample_view
      vaultBalance_def nth_or_def rmapM_idx_def streamingFeeTokens_def Let_def)

text \<open>C36: inspect --json sends nothing and prints one document in which the supply, the pending fee
  and every component's units, target and balance are decimal texts that BigInt reads back as
  the integers of the snapshot, in table order.
\<close>

theorem inspect_json_exact:
  assumes "inspectCommand ctx indexMint True ob = (Inr u, ob')"
  shows "\<exists>snap doc cs. snapshot (cx_web3 ctx) (cx_spl ctx) (cx_connection ctx) (cx_programId ctx) indexMint (cx_asOf ctx) = Inr snap
    \<and> ob_sent ob' = ob_sent ob \<and> ob_console ob' = ob_console ob @ [[PStr (stringify 0 doc)]]
    \<and> amount_in ''supply'' doc (sn_supply snap) \<and> amount_in ''pendingFee'' doc (sn_pendingFee snap)
    \<and> property ''components'' doc = Inr (Some (J_arr cs)) \<and> length cs = length (xa_components (sn_account snap))
    \<and> (\<forall>i<length cs. component_exact ctx snap i (xa_components (sn_account snap) ! i) (cs ! i))"
proof -
  from assms obtain v ob1 where g: "gather ctx indexMint ob = (Inr v, ob1)"
    and p: "printC [PStr (stringify 0 (document ctx v))] ob1 = (Inr u, ob')"
    by (auto simp: inspectCommand_def bindC_Inr)
  have ob': "ob' = ob1\<lparr>ob_console := ob_console ob1 @ [[PStr (stringify 0 (document ctx v))]]\<rparr>"
    using p by (simp add: printC_def)
  let ?snap = "is_snapshot v" and ?cs = "map_idx (componentDocument ctx v) (xa_components (sn_account (is_snapshot v)))"
  have "\<forall>i<length ?cs. component_exact ctx ?snap i (xa_components (sn_account ?snap) ! i) (?cs ! i)"
    by (simp add: length_map_idx nth_map_idx componentDocument_exact)
  then show ?thesis
    using gather_quiet [OF g] ob' document_amounts [of ctx v]
    by (intro exI [of _ ?snap] exI [of _ "document ctx v"] exI [of _ ?cs]) (simp add: length_map_idx)
qed


theorem inspect_json_exact_witness:
  "\<exists>ob' snap doc. inspectCommand show_ctx (PublicKey [5]) True \<lparr>ob_sent = [], ob_fetches = 0, ob_console = []\<rparr> = (Inr (), ob')
     \<and> ob_sent ob' = [] \<and> ob_console ob' = [[PStr (stringify 0 doc)]] \<and> amount_in ''supply'' doc 0"
proof -
  let ?ob = "\<lparr>ob_sent = [], ob_fetches = 0, ob_console = []\<rparr> :: outbox"
  obtain snap where snap: "snapshot (cx_web3 show_ctx) (cx_spl show_ctx) (cx_connection show_ctx) (cx_programId show_ctx) (PublicKey [5]) (cx_asOf show_ctx) = Inr snap"
    "sn_account snap = index_view sample_index" "sn_supply snap = 0" "sn_balances snap = [7, 7]" using show_snapshot by blast
  have cs: "xa_components (sn_account snap) = [component_view sample_component, component_view sample_component]"
    using snap(2) sample_view by simp
  have f: "cx_fetch show_ctx = (\<lambda>n url. Response True 200 (Inr (J_arr [])))" by (simp add: show_ctx_def)
  obtain calls where st: "fetchStatsC show_ctx (map (\<lambda>c. cx_toBase58 show_ctx (ca_mint c)) (xa_components (sn_account snap))) ?ob
      = (Inr [], ?ob\<lparr>ob_fetches := calls\<rparr>)" using fetchStatsC_empty [OF f] by blast
  have v: "valueE9 7 (ca_decimals (component_view sample_component)) 0 = Inr 0"
    by (simp add: valueE9_def component_view_def sample_component_def pow10_def mulDivFloor_def safe_int_def sdiv_nonneg)
  have ws: "weightsBps [7, 7] [ca_decimals (component_view sample_component), ca_decimals (component_view sample_component)] [0, 0]
      = Inr (0, [nint 0, nint 0])"
    by (simp add: weightsBps_def rmapM_idx_def nth_or_def v)
  obtain auc where auc: "auction snap (cx_now show_ctx) = Inr auc"
    using snap cs sample_view by (auto simp: auction_def rmapM_idx_def auctionLeg_def Let_def)
  obtain v ob1 where "gather show_ctx (PublicKey [5]) ?ob = (Inr v, ob1)"
    using snap st ws auc cs
    by (simp add: gather_def bindC_def snapshotC_def liftC_def returnC_def pricesOf_def weights_def navPerToken_def Let_def)
  then obtain ob' where i: "inspectCommand show_ctx (PublicKey [5]) True ?ob = (Inr (), ob')"
    by (simp add: inspectCommand_def bindC_def printC_def)
  from inspect_json_exact [OF i] obtain doc where
    "ob_sent ob' = []" "ob_console ob' = [[PStr (stringify 0 doc)]]" "amount_in ''supply'' doc 0"
    using snap by auto
  then show ?thesis using i by blast
qed

section \<open>An auction that is over\<close>

definition appends :: "'a cli \<Rightarrow> bool" where
  "appends m \<longleftrightarrow> (\<forall>ob. \<exists>more. ob_console (snd (m ob)) = ob_console ob @ more)"

lemma appends_basic [intro]:
  "appends (returnC x)" "appends (throwC e)" "appends (liftC r)" "appends (printC line)"
  by (simp_all add: appends_def returnC_def throwC_def liftC_def printC_def)

lemma appends_bind [intro]:
  assumes "appends m" "\<And>x. appends (f x)" shows "appends (bindC m f)"
  unfolding appends_def
proof
  fix ob
  obtain r ob1 where m: "m ob = (r, ob1)" by fastforce
  obtain a where a: "ob_console ob1 = ob_console ob @ a" using assms(1) m unfolding appends_def by (metis snd_conv)
  show "\<exists>more. ob_console (snd (bindC m f ob)) = ob_console ob @ more"
  proof (cases r)
    case (Inr x)
    obtain b where "ob_console (snd (f x ob1)) = ob_console ob1 @ b" using assms(2) unfolding appends_def by blast
    then show ?thesis using m a Inr by (simp add: bindC_def)
  qed (use m a in \<open>simp add: bindC_def\<close>)
qed

lemma appends_for [intro]: "(\<And>x. appends (f x)) \<Longrightarrow> appends (forC f xs)"
  by (induction xs) auto

lemma appends_leg: "appends (printLeg ctx cs x)"
  by (cases x) (auto simp: printLeg_def printAmountOf_def Let_def)

text \<open>
  Once the window has passed the view has no premium, and \<open>inspect\<close> announces the opening of the
  auction a negative number of seconds from now.
\<close>

theorem expired_auction_reads_as_opening:
  fixes ob :: outbox
  assumes view: "auction snap now = Inr (is_auction v)" and over: "\<not> nle now (ra_endTs (xa_rebalance (sn_account snap)))"
    and act: "ra_active (xa_rebalance (sn_account snap))" and now: "cx_now ctx = now" "now = nint t"
    and start: "ra_startTs (xa_rebalance (sn_account snap)) = nint o1" "o1 < t" "safe_int (o1 - t)"
  shows "\<exists>a b more. ob_console (snd (printAuction ctx v ob))
     = ob_console ob @ [[], [Lit ''auction opens in '', PNum (nint a), Lit ''s, closes '', b, Lit ''s later'']] @ more \<and> a < 0"
proof -
  have av: "av_active (is_auction v)" "av_premiumBps (is_auction v) = None" "av_opensAt (is_auction v) = nint o1"
  proof -
    obtain legs where "is_auction v = \<lparr>av_active = True, av_opensAt = nint o1,
        av_closesAt = ra_endTs (xa_rebalance (sn_account snap)), av_premiumBps = None, av_legs = legs\<rparr>"
      using view over act start(1) by (auto simp: auction_def Let_def rbind_Inr_iff elim!: that [OF sym])
    then show "av_active (is_auction v)" "av_premiumBps (is_auction v) = None" "av_opensAt (is_auction v) = nint o1"
      by simp_all
  qed
  let ?line = "[Lit ''auction opens in '', PNum (nint (o1 - t)), Lit ''s, closes '',
     PNum (nsub (av_closesAt (is_auction v)) now), Lit ''s later'']"
  let ?legs = "forC (printLeg ctx (xa_components (sn_account (is_snapshot v)))) (enumerate 0 (av_legs (is_auction v)))"
  have "appends ?legs" by (intro appends_for appends_leg)
  then obtain more where "ob_console (snd (?legs (ob\<lparr>ob_console := ob_console ob @ [[], ?line]\<rparr>)))
      = ob_console (ob\<lparr>ob_console := ob_console ob @ [[], ?line]\<rparr>) @ more" unfolding appends_def by blast
  then show ?thesis using av now start
    by (intro exI [of _ "o1 - t"] exI [of _ "PNum (nsub (av_closesAt (is_auction v)) now)"] exI [of _ more])
       (simp add: printAuction_def bindC_def printC_def nsub_nint Let_def)
qed

end
