(* ===== verification/NodeArgs.thy ===== *)
theory NodeArgs
  imports JsParse
begin

text \<open>
  \<open>parseArgs\<close> of \<open>node:util\<close> in its default strict mode, as the command line tool, the keeper and
  the deployment script use it: options of type string or boolean with names of at least two
  letters, no short forms, no defaults and no repetition. Arguments become tokens, tokens are
  checked one by one, and the last value given for an option is the one that counts.
\<close>

datatype option_type = T_string | T_boolean

type_synonym option_table = "(jsstring \<times> option_type) list"

text \<open>An option token holds its name, the name as written, its value and whether that was given inline.\<close>

datatype arg_token =
    Opt jsstring jsstring "jsstring option" bool
  | Positional jsstring

datatype args_error =
    Unknown_option jsstring
  | Argument_missing jsstring
  | Takes_no_argument jsstring
  | Argument_ambiguous jsstring
  | Unexpected_positional jsstring

text \<open>Values latest first; the value None stands for true.\<close>

record parsed_args =
  pa_values :: "(jsstring \<times> jsstring option) list"
  pa_positionals :: "jsstring list"

definition dash :: "16 word" where "dash = unit_of 45"
definition equals_sign :: "16 word" where "equals_sign = unit_of 61"

section \<open>Tokens\<close>

text \<open>
  The shapes of an argument. \<open>-f\<close> and \<open>-xyz\<close> can only name short options, of which there are none,
  so they become options the table does not know; a group falls apart into its letters.
\<close>

definition takes_value :: "option_table \<Rightarrow> jsstring \<Rightarrow> bool" where
  "takes_value table name \<longleftrightarrow> map_of table name = Some T_string"

definition after_dashes :: "jsstring \<Rightarrow> jsstring option" where
  "after_dashes arg = (case after [dash, dash] arg of Some [] \<Rightarrow> None | r \<Rightarrow> r)"

text \<open>\<open>--name=value\<close>: an equals sign after the first letter of the name makes it inline; the name ends at the first one.\<close>

definition inline_value :: "jsstring \<Rightarrow> (jsstring \<times> jsstring) option" where
  "inline_value rest =
     (if equals_sign \<in> set (drop 1 rest)
      then Some (takeWhile (\<lambda>u. u \<noteq> equals_sign) rest, drop 1 (dropWhile (\<lambda>u. u \<noteq> equals_sign) rest))
      else None)"

fun tokens :: "option_table \<Rightarrow> jsstring list \<Rightarrow> arg_token list" where
  "tokens table [] = []"
| "tokens table (arg # args) =
     (if arg = [dash, dash] then map Positional args
      else case after_dashes arg of
        Some rest \<Rightarrow>
          (case inline_value rest of
             Some (name, value) \<Rightarrow> Opt name ([dash, dash] @ name) (Some value) True # tokens table args
           | None \<Rightarrow>
               (case args of
                  value # others \<Rightarrow>
                    if takes_value table rest then Opt rest arg (Some value) False # tokens table others
                    else Opt rest arg None False # tokens table args
                | [] \<Rightarrow> [Opt rest arg None False]))
      | None \<Rightarrow>
          (case after [dash] arg of
             Some letters \<Rightarrow> map (\<lambda>u. Opt [u] [dash, u] None False) letters @
               (if letters = [] then [Positional arg] else []) @ tokens table args
           | None \<Rightarrow> Positional arg # tokens table args))"

section \<open>Checking\<close>

definition option_like :: "jsstring \<Rightarrow> bool" where
  "option_like value \<longleftrightarrow> 1 < length value \<and> hd value = dash"

definition check_token :: "option_table \<Rightarrow> bool \<Rightarrow> parsed_args \<Rightarrow> arg_token \<Rightarrow> args_error + parsed_args" where
  "check_token table positionals_allowed acc token =
     (case token of
        Positional value \<Rightarrow>
          if positionals_allowed then Inr (acc\<lparr>pa_positionals := pa_positionals acc @ [value]\<rparr>)
          else Inl (Unexpected_positional value)
      | Opt name raw value inline \<Rightarrow>
          (case map_of table name of
             None \<Rightarrow> Inl (Unknown_option raw)
           | Some T_string \<Rightarrow>
               (case value of
                  None \<Rightarrow> Inl (Argument_missing name)
                | Some v \<Rightarrow>
                    if \<not> inline \<and> option_like v then Inl (Argument_ambiguous raw)
                    else Inr (acc\<lparr>pa_values := (name, Some v) # pa_values acc\<rparr>))
           | Some T_boolean \<Rightarrow>
               (case value of
                  Some v \<Rightarrow> Inl (Takes_no_argument name)
                | None \<Rightarrow> Inr (acc\<lparr>pa_values := (name, None) # pa_values acc\<rparr>))))"

definition no_args :: parsed_args where "no_args = \<lparr>pa_values = [], pa_positionals = []\<rparr>"

definition parseArgs :: "option_table \<Rightarrow> bool \<Rightarrow> jsstring list \<Rightarrow> args_error + parsed_args" where
  "parseArgs table positionals_allowed args =
     rfold (check_token table positionals_allowed) no_args (tokens table args)"

text \<open>\<open>values.name\<close> of a string option, and \<open>values.name\<close> of a boolean one.\<close>

definition string_value :: "parsed_args \<Rightarrow> string \<Rightarrow> jsstring option" where
  "string_value pa name = (case map_of (pa_values pa) (js name) of Some v \<Rightarrow> v | None \<Rightarrow> None)"

definition flag_value :: "parsed_args \<Rightarrow> string \<Rightarrow> bool option" where
  "flag_value pa name = (case map_of (pa_values pa) (js name) of Some None \<Rightarrow> Some True | _ \<Rightarrow> None)"

section \<open>Writing a command line\<close>

text \<open>What a caller can give, how it is written, and what the parser makes of it.\<close>

datatype given = G_value jsstring jsstring | G_inline jsstring jsstring | G_flag jsstring | G_positional jsstring

fun written :: "given \<Rightarrow> jsstring list" where
  "written (G_value name v) = [[dash, dash] @ name, v]"
| "written (G_inline name v) = [[dash, dash] @ name @ [equals_sign] @ v]"
| "written (G_flag name) = [[dash, dash] @ name]"
| "written (G_positional v) = [v]"

fun assigned :: "given \<Rightarrow> (jsstring \<times> jsstring option) list" where
  "assigned (G_value name v) = [(name, Some v)]"
| "assigned (G_inline name v) = [(name, Some v)]"
| "assigned (G_flag name) = [(name, None)]"
| "assigned (G_positional v) = []"

fun positional :: "given \<Rightarrow> jsstring list" where
  "positional (G_positional v) = [v]"
| "positional g = []"

definition name_ok :: "jsstring \<Rightarrow> bool" where
  "name_ok name \<longleftrightarrow> name \<noteq> [] \<and> equals_sign \<notin> set name"

fun given_ok :: "option_table \<Rightarrow> given \<Rightarrow> bool" where
  "given_ok table (G_value name v) \<longleftrightarrow> name_ok name \<and> map_of table name = Some T_string \<and> \<not> option_like v"
| "given_ok table (G_inline name v) \<longleftrightarrow> name_ok name \<and> map_of table name = Some T_string"
| "given_ok table (G_flag name) \<longleftrightarrow> name_ok name \<and> map_of table name = Some T_boolean"
| "given_ok table (G_positional v) \<longleftrightarrow> \<not> option_like v"

fun token_of :: "given \<Rightarrow> arg_token" where
  "token_of (G_value name v) = Opt name ([dash, dash] @ name) (Some v) False"
| "token_of (G_inline name v) = Opt name ([dash, dash] @ name) (Some v) True"
| "token_of (G_flag name) = Opt name ([dash, dash] @ name) None False"
| "token_of (G_positional v) = Positional v"

lemma takeWhile_name: "equals_sign \<notin> set name \<Longrightarrow> takeWhile (\<lambda>u. u \<noteq> equals_sign) (name @ equals_sign # v) = name"
  by (induction name) auto

lemma dropWhile_name: "equals_sign \<notin> set name \<Longrightarrow> dropWhile (\<lambda>u. u \<noteq> equals_sign) (name @ equals_sign # v) = equals_sign # v"
  by (induction name) auto

lemma tokens_written:
  assumes "given_ok table g" shows "tokens table (written g @ args) = token_of g # tokens table args"
proof (cases g)
  case (G_value name v)
  have n: "name \<noteq> []" "equals_sign \<notin> set (drop 1 name)" using assms G_value by (auto simp: name_ok_def dest: in_set_dropD)
  then show ?thesis using assms G_value
    by (cases name) (auto simp: after_dashes_def inline_value_def takes_value_def)
next
  case (G_inline name v)
  then have n: "name \<noteq> []" "equals_sign \<notin> set name" using assms by (auto simp: name_ok_def)
  have "after_dashes ([dash, dash] @ name @ [equals_sign] @ v) = Some (name @ equals_sign # v)"
    using n by (cases name) (auto simp: after_dashes_def)
  moreover have "inline_value (name @ equals_sign # v) = Some (name, v)"
    using n by (cases name) (auto simp: inline_value_def takeWhile_name dropWhile_name)
  ultimately show ?thesis using G_inline n by auto
next
  case (G_flag name)
  have n: "name \<noteq> []" "equals_sign \<notin> set (drop 1 name)" using assms G_flag by (auto simp: name_ok_def dest: in_set_dropD)
  have t: "\<not> takes_value table name" using assms G_flag by (simp add: takes_value_def)
  show ?thesis using n t G_flag
    by (cases name; cases args) (auto simp: after_dashes_def inline_value_def)
next
  case (G_positional v)
  then have v: "\<not> option_like v" using assms by simp
  show ?thesis
  proof (cases v)
    case (Cons u us)
    then show ?thesis using v G_positional by (cases us) (auto simp: option_like_def after_dashes_def)
  qed (simp add: G_positional after_dashes_def)
qed

lemma check_given:
  assumes "given_ok table g"
  shows "check_token table True acc (token_of g)
     = Inr \<lparr>pa_values = rev (assigned g) @ pa_values acc, pa_positionals = pa_positionals acc @ positional g\<rparr>"
  using assms by (cases g) (simp_all add: check_token_def)

lemma parse_written_acc:
  assumes "list_all (given_ok table) gs"
  shows "rfold (check_token table True) acc (tokens table (concat (map written gs) @ args))
     = rfold (check_token table True) \<lparr>pa_values = rev (concat (map assigned gs)) @ pa_values acc,
            pa_positionals = pa_positionals acc @ concat (map positional gs)\<rparr> (tokens table args)"
  using assms
proof (induction gs arbitrary: acc)
  case (Cons g gs)
  then have "given_ok table g" by simp
  note t = tokens_written [OF this, of "concat (map written gs) @ args"] and c = check_given [OF this, of acc]
  show ?case using Cons.IH [of "\<lparr>pa_values = rev (assigned g) @ pa_values acc, pa_positionals = pa_positionals acc @ positional g\<rparr>"] Cons.prems
    by (simp add: t c)
next
  case Nil
  show ?case by (cases acc) simp
qed

lemma parse_written:
  assumes "list_all (given_ok table) gs"
  shows "parseArgs table True (concat (map written gs))
     = Inr \<lparr>pa_values = rev (concat (map assigned gs)), pa_positionals = concat (map positional gs)\<rparr>"
  using parse_written_acc [OF assms, of no_args "[]"] by (simp add: parseArgs_def no_args_def)

text \<open>A value that looks like an option is refused when it stands on its own.\<close>

lemma parse_dash_value:
  assumes "list_all (given_ok table) gs" "name_ok name" "map_of table name = Some T_string" "option_like v"
  shows "parseArgs table True (concat (map written gs) @ ([dash, dash] @ name) # v # rest)
     = Inl (Argument_ambiguous ([dash, dash] @ name))"
proof -
  have n: "name \<noteq> []" "equals_sign \<notin> set (drop 1 name)" using assms(2) by (auto simp: name_ok_def dest: in_set_dropD)
  then have "tokens table (([dash, dash] @ name) # v # rest) = Opt name ([dash, dash] @ name) (Some v) False # tokens table rest"
    using assms(3) by (cases name) (auto simp: after_dashes_def inline_value_def takes_value_def)
  then show ?thesis using assms(3,4)
    by (simp add: parseArgs_def parse_written_acc [OF assms(1)] check_token_def del: append.simps)
qed

text \<open>A flag that is set was written on the command line, in full.\<close>

lemma tokens_flag:
  "Opt name raw None i \<in> set (tokens table args) \<Longrightarrow> 1 < length name \<Longrightarrow> [dash, dash] @ name \<in> set args"
proof (induction table args rule: tokens.induct)
  case (2 table arg args)
  show ?case
  proof (cases "arg = [dash, dash]")
    case False
    show ?thesis
    proof (cases "after_dashes arg")
      case None
      then show ?thesis using 2 False by (auto split: option.splits if_splits)
    next
      case (Some rest)
      have arg: "arg = [dash, dash] @ rest" if "after_dashes arg = Some rest"
        using that by (cases arg; cases "tl arg") (auto simp: after_dashes_def split: if_splits list.splits)
      show ?thesis
      proof (cases "inline_value rest")
        case N: None
        show ?thesis using 2 False Some N arg by (cases args) (auto split: if_splits)
      next
        case (Some nv)
        then show ?thesis using 2 False \<open>after_dashes arg = Some rest\<close> by (cases nv) auto
      qed
    qed
  qed (use 2 in auto)
qed simp

lemma check_values:
  assumes "rfold (check_token table b) acc ts = Inr pa" "(name, None) \<in> set (pa_values pa)"
  shows "(name, None) \<in> set (pa_values acc) \<or> (\<exists>raw i. Opt name raw None i \<in> set ts)"
  using assms
proof (induction ts arbitrary: acc)
  case (Cons t ts)
  then obtain acc' where a: "check_token table b acc t = Inr acc'" "rfold (check_token table b) acc' ts = Inr pa"
    by (auto simp: rbind_Inr_iff)
  have "(name, None) \<in> set (pa_values acc') \<Longrightarrow> (name, None) \<in> set (pa_values acc) \<or> (\<exists>raw i. t = Opt name raw None i)"
    using a(1) by (auto simp: check_token_def split: arg_token.splits option.splits option_type.splits if_splits)
  then show ?case using Cons.IH [OF a(2) Cons.prems(2)] by auto
qed simp

lemma flag_was_written:
  assumes "parseArgs table b args = Inr pa" "flag_value pa name = Some True" "1 < length (js name)"
  shows "[dash, dash] @ js name \<in> set args"
proof -
  have "(js name, None) \<in> set (pa_values pa)"
    using assms(2) by (auto simp: flag_value_def dest: map_of_SomeD split: option.splits)
  then obtain raw i where "Opt (js name) raw None i \<in> set (tokens table args)"
    using check_values [OF assms(1) [unfolded parseArgs_def], of "js name"] by (simp add: no_args_def) blast
  then show ?thesis using tokens_flag assms(3) by blast
qed

end
