(* ===== verification/CliMain.thy ===== *)
theory CliMain
  imports CliInspect NodeArgs
begin

text \<open>
  \<open>main\<close> of \<open>apps/cli/src/index.ts\<close>, from the command line to the exit code. The network behind a
  url, the environment, the files and the signer are parameters; the error printed at the end is
  kept as the error it is the message of.
\<close>

section \<open>Usage and options\<close>

definition usage_lines :: "string list" where
  "usage_lines =
    [''flock - operate a Flock index on Solana'',
     '''',
     ''  flock create   --name \"Flock DeFi Index\" --symbol FDI '' @ [CHR 92],
     ''                 --weights MINT=3500,MINT=2500,... --nav-per-token 100'',
     ''  flock create   --name ... --symbol ... --components MINT:12.5,MINT:0.8'',
     ''  flock inspect  <indexMint> [--json]'',
     ''  flock issue    <indexMint> <wholeTokens> [--slippage-bps 50]'',
     ''  flock redeem   <indexMint> <wholeTokens> [--slippage-bps 50]'',
     ''  flock accrue   <indexMint>'',
     ''  flock propose  <indexMint> --weights MINT=3500,... [--duration 7200]'',
     ''                 [--start-premium-bps -50] [--end-premium-bps 150] [--max-nav-loss-bps 100] [--dry-run]'',
     ''  flock bid      <indexMint> --sell <i> --buy <j> --amount <wholeUnits> [--dry-run]'',
     ''  flock end      <indexMint>'',
     '''',
     ''Common flags'',
     ''  --url <rpc>            RPC endpoint (or SOLANA_RPC_URL)'',
     ''  --program-id <pubkey>  index program (or FLOCK_PROGRAM_ID, or deployments/<cluster>.json)'',
     ''  --cluster <name>       which deployments file to read (default mainnet)'',
     ''  --keypair <path>       signer (or FLOCK_KEYPAIR, default ~/.config/solana/id.json)'',
     '''',
     ''Fees are in basis points. Auction premiums are bidder discounts: negative means the bidder pays'',
     ''the fund above reference value, positive means the fund pays for the fill. An auction opens'',
     ''negative and decays.'',
     '''']"

definition USAGE :: jsstring where "USAGE = join [unit_of 10] (map js usage_lines)"

definition options :: option_table where
  "options = map (\<lambda>(name, t). (js name, t))
    [(''url'', T_string), (''program-id'', T_string), (''cluster'', T_string),
     (''keypair'', T_string), (''name'', T_string), (''symbol'', T_string),
     (''components'', T_string), (''weights'', T_string), (''nav-per-token'', T_string),
     (''streaming-fee-bps'', T_string), (''issue-fee-bps'', T_string),
     (''redeem-fee-bps'', T_string), (''max-premium-bps'', T_string),
     (''rebalance-delay'', T_string), (''governor'', T_string), (''manager'', T_string),
     (''fee-recipient'', T_string), (''slippage-bps'', T_string), (''duration'', T_string),
     (''start-premium-bps'', T_string), (''end-premium-bps'', T_string),
     (''max-nav-loss-bps'', T_string), (''sell'', T_string), (''buy'', T_string),
     (''amount'', T_string), (''json'', T_boolean), (''dry-run'', T_boolean), (''help'', T_boolean)]"

section \<open>Running a command\<close>

definition ignoreC :: "'a cli \<Rightarrow> unit cli" where "ignoreC m = bindC m (\<lambda>x. returnC ())"

fun runCommand :: "cli_context \<Rightarrow> command \<Rightarrow> unit cli" where
  "runCommand ctx Cmd_usage = printC [PStr USAGE]"
| "runCommand ctx (Cmd_create payer opts) = create ctx payer opts"
| "runCommand ctx (Cmd_inspect indexMint json_output) = inspectCommand ctx indexMint json_output"
| "runCommand ctx (Cmd_issue payer indexMint whole slippage) = ignoreC (issueCommand ctx payer indexMint whole slippage)"
| "runCommand ctx (Cmd_redeem payer indexMint whole slippage) = ignoreC (redeemCommand ctx payer indexMint whole slippage)"
| "runCommand ctx (Cmd_accrue payer indexMint) = ignoreC (accrueCommand ctx payer indexMint)"
| "runCommand ctx (Cmd_propose payer indexMint opts) = ignoreC (proposeCommand ctx payer indexMint opts)"
| "runCommand ctx (Cmd_bid payer indexMint sell buy whole dry) = ignoreC (bidCommand ctx payer indexMint sell buy whole dry)"
| "runCommand ctx (Cmd_end payer indexMint) = ignoreC (endCommand ctx payer indexMint)"

definition command_names :: "string list" where
  "command_names = [''create'', ''inspect'', ''issue'', ''redeem'', ''accrue'', ''propose'', ''bid'', ''end'']"

text \<open>What the process has around it.\<close>

record platform =
  pf_connect :: "jsstring \<Rightarrow> cli_context"
  pf_parse_key :: key_parser
  pf_env :: "string \<Rightarrow> jsstring option"
  pf_deployment :: "jsstring \<Rightarrow> jsstring option"
  pf_parseJson :: "jsstring \<Rightarrow> json result"
  pf_readFile :: "jsstring \<Rightarrow> jsstring option"
  pf_fromSecretKey :: "json list \<Rightarrow> pubkey result"
  pf_default_keypair :: jsstring

definition contextOf :: "platform \<Rightarrow> parsed_args \<Rightarrow> cli_context result" where
  "contextOf pf pa =
     rmap (\<lambda>rs. (pf_connect pf (rs_url rs))\<lparr>cx_programId := rs_programId rs\<rparr>)
       (makeContext (pf_parse_key pf) (deployedProgramId (pf_deployment pf) (pf_parseJson pf)) (pf_env pf)
          (truthy (string_value pa ''url'')) (truthy (string_value pa ''program-id'')) (truthy (string_value pa ''cluster'')))"

definition signerOf :: "platform \<Rightarrow> parsed_args \<Rightarrow> pubkey result" where
  "signerOf pf pa =
     loadKeypair (pf_readFile pf) (pf_parseJson pf) (pf_fromSecretKey pf) (pf_default_keypair pf)
       (pf_env pf ''FLOCK_KEYPAIR'') (string_value pa ''keypair'')"

text \<open>The body of \<open>main\<close> after the arguments are parsed; an unknown command prints the usage before it fails.\<close>

definition dispatch :: "platform \<Rightarrow> parsed_args \<Rightarrow> unit cli" where
  "dispatch pf pa =
     (let parsed = parseCommand (pf_parse_key pf) (signerOf pf pa) (pa_positionals pa) (string_value pa) (flag_value pa) in
      if parsed = Inr Cmd_usage then printC [PStr USAGE]
      else bindC (liftC (contextOf pf pa)) (\<lambda>ctx.
           bindC (if hd (pa_positionals pa) \<in> set (map js command_names) then returnC () else printC [PStr USAGE]) (\<lambda>p1.
           bindC (liftC parsed) (runCommand ctx))))"

datatype main_error = Bad_arguments args_error | Thrown js_error

text \<open>The outbox, the error whose message goes to standard error, and the exit code.\<close>

record outcome =
  oc_outbox :: outbox
  oc_stderr :: "main_error option"
  oc_exitCode :: int

definition main :: "platform \<Rightarrow> jsstring list \<Rightarrow> outbox \<Rightarrow> outcome" where
  "main pf argv ob =
     (case parseArgs options True argv of
        Inl e \<Rightarrow> \<lparr>oc_outbox = ob, oc_stderr = Some (Bad_arguments e), oc_exitCode = 1\<rparr>
      | Inr pa \<Rightarrow>
          (case dispatch pf pa ob of
             (Inl e, ob') \<Rightarrow> \<lparr>oc_outbox = ob', oc_stderr = Some (Thrown e), oc_exitCode = 1\<rparr>
           | (Inr u, ob') \<Rightarrow> \<lparr>oc_outbox = ob', oc_stderr = None, oc_exitCode = 0\<rparr>))"

section \<open>What the command line means\<close>

lemma options_ok: "(name, t) \<in> set options \<Longrightarrow> name_ok name"
  by (auto simp: options_def name_ok_def js_def equals_sign_def unit_of_def)



text \<open>C38: The premium written as in the usage text, --start-premium-bps -50, is refused with exit
  code 1 before anything is read or sent; only the form with an equals sign is accepted.
\<close>

theorem documented_premium_is_refused:
  assumes "\<not> option_like mint" "\<not> option_like spec"
  shows "main pf [js ''propose'', mint, js ''--weights'', spec, js ''--start-premium-bps'', js ''-50''] ob
       = \<lparr>oc_outbox = ob, oc_stderr = Some (Bad_arguments (Argument_ambiguous (js ''--start-premium-bps''))), oc_exitCode = 1\<rparr>
    \<and> (\<exists>pa. parseArgs options True [js ''propose'', mint, js ''--weights'', spec, js ''--start-premium-bps=-50''] = Inr pa
          \<and> string_value pa ''start-premium-bps'' = Some (js ''-50''))"
proof -
  let ?pre = "[G_positional (js ''propose''), G_positional mint, G_value (js ''weights'') spec]"
  let ?inline = "G_inline (js ''start-premium-bps'') (js ''-50'')"
  have ok: "list_all (given_ok options) ?pre" "list_all (given_ok options) (?pre @ [?inline])"
    using assms by (simp_all add: options_def name_ok_def option_like_def js_def equals_sign_def dash_def unit_of_def)
  have dashed: "[dash, dash] @ js ''start-premium-bps'' = js ''--start-premium-bps''"
    "[dash, dash] @ js ''weights'' = js ''--weights''"
    "[dash, dash] @ js ''start-premium-bps'' @ [equals_sign] @ js ''-50'' = js ''--start-premium-bps=-50''"
    by (simp_all add: js_def dash_def equals_sign_def unit_of_def)
  have opt: "name_ok (js ''start-premium-bps'')" "map_of options (js ''start-premium-bps'') = Some T_string" "option_like (js ''-50'')"
    by (simp_all add: options_def name_ok_def option_like_def js_def equals_sign_def dash_def unit_of_def)
  have "parseArgs options True [js ''propose'', mint, js ''--weights'', spec, js ''--start-premium-bps'', js ''-50'']
      = Inl (Argument_ambiguous (js ''--start-premium-bps''))"
    using parse_dash_value [OF ok(1) opt, of "[]"] by (simp only: written.simps list.map concat.simps append.simps dashed [simplified append.simps])
  moreover have "parseArgs options True [js ''propose'', mint, js ''--weights'', spec, js ''--start-premium-bps=-50'']
      = Inr \<lparr>pa_values = [(js ''start-premium-bps'', Some (js ''-50'')), (js ''weights'', Some spec)],
             pa_positionals = [js ''propose'', mint]\<rparr>"
    using parse_written [OF ok(2)] dashed by simp
  ultimately show ?thesis by (simp add: main_def string_value_def)
qed

theorem documented_premium_is_refused_witness:
  "\<forall>pf ob. oc_exitCode (main pf [js ''propose'', js ''M'', js ''--weights'', js ''A=10000'', js ''--start-premium-bps'', js ''-50''] ob) = 1"
proof (intro allI)
  fix pf ob
  show "oc_exitCode (main pf [js ''propose'', js ''M'', js ''--weights'', js ''A=10000'', js ''--start-premium-bps'', js ''-50''] ob) = 1"
    using documented_premium_is_refused [of "js ''M''" "js ''A=10000''" pf ob] by (simp add: option_like_def js_def dash_def unit_of_def)
qed

end
