(* ===== verification/KeeperPlanner.thy ===== *)
theory KeeperPlanner
  imports SdkClient
begin

text \<open>
  \<open>apps/keeper/src/planner.ts\<close>: the keeper's decisions as one function of a snapshot, market
  prices, inventory and policy. The two nested loops are folds over the component indices with
  the actions and notes as state; each \<open>continue\<close> returns that state.
\<close>

record keeper_policy =
  kp_minAccrualTokens :: int
  kp_minEdgeBps :: jsnum
  kp_maxLegShareBps :: jsnum

definition DEFAULT_POLICY :: keeper_policy where
  "DEFAULT_POLICY = \<lparr>kp_minAccrualTokens = 1000000, kp_minEdgeBps = nint 25, kp_maxLegShareBps = nint 10000\<rparr>"

record bid_action =
  b_sellComponent :: nat
  b_buyComponent :: nat
  b_sellAmount :: int
  b_maxBuyAmount :: int
  b_premiumBps :: jsnum
  b_edgeBps :: jsnum
  b_edgeUsd :: jsnum

datatype action = A_accrue int | A_end | A_bid bid_action

type_synonym plan_note = "chunk list"

record plan_input =
  pi_snapshot :: index_snapshot
  pi_marketPricesE9 :: "int list"
  pi_now :: jsnum
  pi_policy :: keeper_policy
  pi_inventory :: "int list"

record plan_result =
  pl_actions :: "action list"
  pl_notes :: "plan_note list"

definition add_action :: "action \<Rightarrow> plan_result \<Rightarrow> plan_result" where
  "add_action a s = s\<lparr>pl_actions := pl_actions s @ [a]\<rparr>"

definition add_note   :: "plan_note \<Rightarrow> plan_result \<Rightarrow> plan_result" where
  "add_note n s = s\<lparr>pl_notes := pl_notes s @ [n]\<rparr>"

definition usd :: "int \<Rightarrow> jsnum" where
  "usd value = ndiv (number_of value) (nint 1000000000)"

text \<open>\<open>(targetUnits * supply) / UNIT_SCALE\<close>, the holding a component is heading for.\<close>

definition targetAmount :: "index_snapshot \<Rightarrow> component_account \<Rightarrow> int" where
  "targetAmount snap c = (ca_targetUnits c * sn_supply snap) sdiv UNIT_SCALE"

definition legCost :: "component_account \<Rightarrow> component_account \<Rightarrow> jsnum \<Rightarrow> int \<Rightarrow> bid_quote result" where
  "legCost sell buy premiumBps sellAmount =
     bidCost \<lparr>ba_sellAmount = sellAmount, ba_sellDecimals = ca_decimals sell, ba_sellPriceE9 = ca_refPriceE9 sell,
              ba_buyDecimals = ca_decimals buy, ba_buyPriceE9 = ca_refPriceE9 buy, ba_premiumBps = premiumBps\<rparr>"

text \<open>
  Sizing one bid: the policy's share of the excess, scaled down to the budget when it costs
  more, or a reason to skip the pair.
\<close>

datatype sizing = Skip | SkipNote plan_note | Sized int bid_quote

definition sizeBid ::
  "keeper_policy \<Rightarrow> component_account \<Rightarrow> component_account \<Rightarrow> jsnum \<Rightarrow> nat \<Rightarrow> int \<Rightarrow> int \<Rightarrow> int \<Rightarrow> sizing result" where
  "sizeBid policy sell buy premiumBps buyIndex sellable buyable held =
     rbind (bigint_of (kp_maxLegShareBps policy)) (\<lambda>share.
     let sellAmount = (sellable * share) sdiv BPS in
     if sellAmount = 0 then Inr Skip
     else rbind (legCost sell buy premiumBps sellAmount) (\<lambda>quote.
       let budget = (if held < buyable then held else buyable) in
       if budget = 0 then Inr (SkipNote [Lit ''no inventory to pay for leg '', PInt (int buyIndex)])
       else if bq_buyAmount quote > budget then
         (let sellAmount' = (sellAmount * budget) sdiv bq_buyAmount quote in
          if sellAmount' = 0 then Inr Skip
          else rbind (legCost sell buy premiumBps sellAmount') (\<lambda>quote'.
            if bq_buyAmount quote' > budget then Inr Skip else Inr (Sized sellAmount' quote')))
       else Inr (Sized sellAmount quote)))"

text \<open>What follows once the size is fixed: the edge at market prices decides.\<close>

definition judgeBid ::
  "plan_input \<Rightarrow> jsnum \<Rightarrow> nat \<Rightarrow> component_account \<Rightarrow> nat \<Rightarrow> component_account \<Rightarrow> int \<Rightarrow> bid_quote
   \<Rightarrow> plan_result \<Rightarrow> plan_result result" where
  "judgeBid input premiumBps sellIndex sell buyIndex buy sellAmount quote s =
     (let sellMarket = nth_or 0 (pi_marketPricesE9 input) sellIndex;
          buyMarket = nth_or 0 (pi_marketPricesE9 input) buyIndex in
      if sellMarket = 0 \<or> buyMarket = 0
      then Inr (add_note [Lit ''no market price for the '', PInt (int sellIndex), Lit ''/'', PInt (int buyIndex), Lit '' pair''] s)
      else rbind (pow10 (ca_decimals sell)) (\<lambda>sellScale.
           rbind (pow10 (ca_decimals buy)) (\<lambda>buyScale.
           let outValue = (sellAmount * sellMarket) sdiv sellScale;
               inValue = (bq_buyAmount quote * buyMarket) sdiv buyScale in
           if inValue = 0 then Inr s
           else let edgeBps = number_of (((outValue - inValue) * BPS) sdiv inValue) in
             if nless edgeBps (kp_minEdgeBps (pi_policy input))
             then Inr (add_note [Lit ''pair '', PInt (int sellIndex), Lit ''->'', PInt (int buyIndex), Lit '' pays '',
                        PNum edgeBps, Lit '' bps at a '', PNum premiumBps, Lit '' bps premium, under the '',
                        PNum (kp_minEdgeBps (pi_policy input)), Lit '' bps floor''] s)
             else Inr (add_action (A_bid \<lparr>b_sellComponent = sellIndex, b_buyComponent = buyIndex,
                        b_sellAmount = sellAmount, b_maxBuyAmount = bq_buyAmount quote, b_premiumBps = premiumBps,
                        b_edgeBps = edgeBps, b_edgeUsd = usd (outValue - inValue)\<rparr>) s))))"

text \<open>The body of the inner loop.\<close>

definition considerPair ::
  "plan_input \<Rightarrow> jsnum \<Rightarrow> nat \<Rightarrow> component_account \<Rightarrow> int \<Rightarrow> plan_result \<Rightarrow> nat \<times> component_account
   \<Rightarrow> plan_result result" where
  "considerPair input premiumBps sellIndex sell sellable s pair =
     (let buyIndex = fst pair; buy = snd pair; snap = pi_snapshot input in
      if buyIndex = sellIndex then Inr s
      else
        let buyBalance = nth_or 0 (sn_balances snap) buyIndex;
            buyTarget = targetAmount snap buy in
        rbind (bigint_of (xa_maxPremiumBps (sn_account snap))) (\<lambda>maxPremium.
        let buyCap = buyTarget + (buyTarget * maxPremium) sdiv BPS in
        if buyBalance \<ge> buyCap then Inr s
        else let buyable = buyCap - buyBalance in
          rbind (sizeBid (pi_policy input) sell buy premiumBps buyIndex sellable buyable
                   (nth_or 0 (pi_inventory input) buyIndex)) (\<lambda>sizing.
            case sizing of
              Skip \<Rightarrow> Inr s
            | SkipNote n \<Rightarrow> Inr (add_note n s)
            | Sized sellAmount quote \<Rightarrow>
                judgeBid input premiumBps sellIndex sell buyIndex buy sellAmount quote s)))"

text \<open>The body of the outer loop.\<close>

definition considerSell ::
  "plan_input \<Rightarrow> jsnum \<Rightarrow> plan_result \<Rightarrow> nat \<times> component_account \<Rightarrow> plan_result result" where
  "considerSell input premiumBps s pair =
     (let sellIndex = fst pair; sell = snd pair; snap = pi_snapshot input;
          sellBalance = nth_or 0 (sn_balances snap) sellIndex;
          sellTarget = targetAmount snap sell in
      if sellBalance \<le> sellTarget then Inr s
      else rfold (considerPair input premiumBps sellIndex sell (sellBalance - sellTarget)) s
             (enumerate 0 (xa_components (sn_account snap))))"

text \<open>The fee decision that opens every plan.\<close>

definition planFee :: "plan_input \<Rightarrow> plan_result" where
  "planFee input =
     (let fee = sn_pendingFee (pi_snapshot input); floor = kp_minAccrualTokens (pi_policy input);
          s = \<lparr>pl_actions = [], pl_notes = []\<rparr> in
      if fee \<ge> floor then add_action (A_accrue fee) s
      else if fee > 0 then add_note [Lit ''fee of '', PInt fee, Lit '' is below the '', PInt floor, Lit '' floor''] s
      else s)"

definition plan :: "plan_input \<Rightarrow> plan_result result" where
  "plan input =
     (let account = sn_account (pi_snapshot input); reb = xa_rebalance account; now = pi_now input;
          s = planFee input in
      if ra_active reb \<and> nless (ra_endTs reb) now then Inr (add_action A_end s)
      else if \<not> ra_active reb then Inr s
      else if nless now (ra_startTs reb)
      then Inr (add_note [Lit ''auction opens in '', PNum (nsub (ra_startTs reb) now), Lit ''s''] s)
      else rbind (premiumAt (ra_startPremiumBps reb) (ra_endPremiumBps reb) (ra_startTs reb) (ra_endTs reb) now)
        (\<lambda>premiumBps. rfold (considerSell input premiumBps) s (enumerate 0 (xa_components account))))"

section \<open>What every planned action satisfies\<close>

text \<open>Folds keep whatever each step keeps.\<close>

lemma rfold_invariant:
  assumes "rfold f s xs = Inr t" "P s"
    and "\<And>s x t. x \<in> set xs \<Longrightarrow> P s \<Longrightarrow> f s x = Inr t \<Longrightarrow> P t"
  shows "P t"
  using assms
proof (induction xs arbitrary: s)
  case (Cons x xs)
  then obtain u where u: "f s x = Inr u" "rfold f u xs = Inr t" by (auto simp: rbind_Inr_iff)
  then have "P u" using Cons.prems by auto
  then show ?case using Cons.IH u Cons.prems(3) by (metis list.set_intros(2))
qed simp

lemma legCost_value:
  assumes "legCost sell buy p a = Inr q" "0 \<le> a" "0 \<le> ca_refPriceE9 sell"
  shows "0 \<le> bq_valueOutE9 q"
  using assms
  by (auto simp: legCost_def bidCost_def rbind_Inr_iff valueE9_def mulDivFloor_def pos_imp_zdiv_nonneg_iff
      dest: pow10_pos split: if_splits)

text \<open>A bid that may appear in a plan.\<close>

definition bid_ok :: "plan_input \<Rightarrow> jsnum \<Rightarrow> bid_action \<Rightarrow> bool" where
  "bid_ok input premiumBps b =
     (let snap = pi_snapshot input; cs = xa_components (sn_account snap);
          s = b_sellComponent b; t = b_buyComponent b in
      s < length cs \<and> t < length cs \<and> s \<noteq> t \<and> b_premiumBps b = premiumBps
      \<and> 0 < b_sellAmount b
      \<and> rmap bq_buyAmount (legCost (cs ! s) (cs ! t) premiumBps (b_sellAmount b)) = Inr (b_maxBuyAmount b)
      \<and> b_sellAmount b \<le> nth_or 0 (sn_balances snap) s - targetAmount snap (cs ! s)
      \<and> b_maxBuyAmount b \<le> nth_or 0 (pi_inventory input) t
      \<and> (\<exists>m. bigint_of (xa_maxPremiumBps (sn_account snap)) = Inr m
           \<and> nth_or 0 (sn_balances snap) t + b_maxBuyAmount b
             \<le> targetAmount snap (cs ! t) + (targetAmount snap (cs ! t) * m) sdiv BPS)
      \<and> \<not> nless (b_edgeBps b) (kp_minEdgeBps (pi_policy input)))"

definition plan_ok :: "plan_input \<Rightarrow> jsnum \<Rightarrow> plan_result \<Rightarrow> bool" where
  "plan_ok input premiumBps s \<longleftrightarrow> (\<forall>b. A_bid b \<in> set (pl_actions s) \<longrightarrow> bid_ok input premiumBps b)"

lemma plan_ok_simps [simp]:
  "plan_ok input p (add_note n s) = plan_ok input p s"
  "plan_ok input p (add_action (A_accrue fee) s) = plan_ok input p s"
  "plan_ok input p (add_action (A_bid b) s) \<longleftrightarrow> bid_ok input p b \<and> plan_ok input p s"
  by (auto simp: plan_ok_def add_note_def add_action_def)

lemma scaled_down:
  fixes a b c :: int
  assumes "0 \<le> a" "0 \<le> b" "b \<le> c" "0 < c"
  shows "0 \<le> (a * b) sdiv c" "(a * b) sdiv c \<le> a"
proof -
  have "a * b div c \<le> a * c div c" using assms by (intro zdiv_mono1 mult_left_mono) auto
  then show "0 \<le> (a * b) sdiv c" "(a * b) sdiv c \<le> a"
    using assms by (simp_all add: pos_imp_zdiv_nonneg_iff)
qed

lemma sizeBid_bounds:
  assumes "sizeBid policy sell buy p i sellable buyable held = Inr (Sized a q)"
    and "kp_maxLegShareBps policy = nint share" "0 \<le> share" "share \<le> BPS"
    and "0 < sellable" "0 < buyable" "0 \<le> held"
  shows "a \<noteq> 0 \<and> 0 \<le> a \<and> a \<le> sellable \<and> legCost sell buy p a = Inr q \<and> bq_buyAmount q \<le> held
    \<and> bq_buyAmount q \<le> buyable"
proof -
  define b where "b = (if held < buyable then held else buyable)"
  have b: "0 \<le> b" "b \<le> held" "b \<le> buyable" using assms by (auto simp: b_def)
  let ?a = "(sellable * share) sdiv BPS"
  have a: "0 \<le> ?a" "?a \<le> sellable" using scaled_down [of sellable share BPS] assms by auto
  from assms(1,2) obtain q0 where q0: "?a \<noteq> 0" "legCost sell buy p ?a = Inr q0" "b \<noteq> 0"
    and r: "(if bq_buyAmount q0 > b then
         (let a' = (?a * b) sdiv bq_buyAmount q0 in
          if a' = 0 then Inr Skip
          else rbind (legCost sell buy p a') (\<lambda>q'. if bq_buyAmount q' > b then Inr Skip else Inr (Sized a' q')))
       else Inr (Sized ?a q0)) = (Inr (Sized a q) :: sizing result)"
    unfolding b_def by (auto simp: sizeBid_def Let_def rbind_Inr_iff split: if_splits)
  show ?thesis
  proof (cases "bq_buyAmount q0 > b")
    case True
    then have "0 \<le> (?a * b) sdiv bq_buyAmount q0" "(?a * b) sdiv bq_buyAmount q0 \<le> ?a"
      using scaled_down [of ?a b "bq_buyAmount q0"] a b by auto
    then show ?thesis using True r a b by (auto simp: Let_def rbind_Inr_iff split: if_splits)
  next
    case False
    then show ?thesis using r q0 a b by auto
  qed
qed

definition sane_policy :: "plan_input \<Rightarrow> int \<Rightarrow> bool" where
  "sane_policy input share \<longleftrightarrow>
     kp_maxLegShareBps (pi_policy input) = nint share \<and> 0 \<le> share \<and> share \<le> BPS
     \<and> (\<forall>h\<in>set (pi_inventory input). 0 \<le> h)"

lemma nless_PosInf: "\<not> nless PosInf x"
  by (cases x) simp_all

lemma judgeBid_ok:
  assumes "judgeBid input p i sell j buy a q s = Inr t" "plan_ok input p s"
    and "bid_ok input p \<lparr>b_sellComponent = i, b_buyComponent = j, b_sellAmount = a, b_maxBuyAmount = bq_buyAmount q,
           b_premiumBps = p, b_edgeBps = PosInf, b_edgeUsd = NaN\<rparr>"
  shows "plan_ok input p t"
  using assms
  by (auto simp: judgeBid_def Let_def rbind_Inr_iff bid_ok_def split: if_splits)

lemma considerPair_ok:
  assumes step: "considerPair input p i sell sellable s (j, buy) = Inr t" "plan_ok input p s"
    and pol: "sane_policy input share"
    and i: "i < length (xa_components (sn_account (pi_snapshot input)))" "sell = xa_components (sn_account (pi_snapshot input)) ! i"
    and sellable: "sellable = nth_or 0 (sn_balances (pi_snapshot input)) i - targetAmount (pi_snapshot input) sell" "0 < sellable"
    and j: "j < length (xa_components (sn_account (pi_snapshot input)))" "buy = xa_components (sn_account (pi_snapshot input)) ! j"
  shows "plan_ok input p t"
proof (cases "j = i")
  case True
  then show ?thesis using step by (simp add: considerPair_def)
next
  case False
  let ?snap = "pi_snapshot input"
  let ?held = "nth_or 0 (pi_inventory input) j"
  from step(1) False obtain m where m: "bigint_of (xa_maxPremiumBps (sn_account ?snap)) = Inr m"
    by (auto simp: considerPair_def Let_def rbind_Inr_iff)
  let ?cap = "targetAmount ?snap buy + (targetAmount ?snap buy * m) sdiv BPS"
  let ?bal = "nth_or 0 (sn_balances ?snap) j"
  have held: "0 \<le> ?held" using pol by (auto simp: sane_policy_def nth_or_def)
  show ?thesis
  proof (cases "?bal \<ge> ?cap")
    case True
    then show ?thesis using step False m by (simp add: considerPair_def Let_def)
  next
    case room: False
    then obtain z where z: "sizeBid (pi_policy input) sell buy p j sellable (?cap - ?bal) ?held = Inr z"
      using step(1) False m by (auto simp: considerPair_def Let_def rbind_Inr_iff)
    show ?thesis
    proof (cases z)
      case (Sized a q)
      have b: "a \<noteq> 0 \<and> 0 \<le> a \<and> a \<le> sellable \<and> legCost sell buy p a = Inr q \<and> bq_buyAmount q \<le> ?held
          \<and> bq_buyAmount q \<le> ?cap - ?bal"
        by (rule sizeBid_bounds [where share = share, OF z [unfolded Sized]]) (use pol sellable room held in \<open>auto simp: sane_policy_def\<close>)
      have "judgeBid input p i sell j buy a q s = Inr t"
        using step(1) False m room z Sized by (simp add: considerPair_def Let_def)
      then show ?thesis
        by (rule judgeBid_ok [OF _ step(2)]) (use b i j m sellable False in \<open>auto simp: bid_ok_def Let_def nless_PosInf\<close>)
    qed (use step False m room z in \<open>auto simp: considerPair_def Let_def\<close>)
  qed
qed

lemma considerSell_ok:
  assumes "considerSell input p s (i, sell) = Inr t" "plan_ok input p s" "sane_policy input share"
    and i: "i < length (xa_components (sn_account (pi_snapshot input)))" "sell = xa_components (sn_account (pi_snapshot input)) ! i"
  shows "plan_ok input p t"
proof (cases "nth_or 0 (sn_balances (pi_snapshot input)) i \<le> targetAmount (pi_snapshot input) sell")
  case True
  then show ?thesis using assms by (simp add: considerSell_def Let_def)
next
  case False
  then have "rfold (considerPair input p i sell (nth_or 0 (sn_balances (pi_snapshot input)) i - targetAmount (pi_snapshot input) sell)) s
      (enumerate 0 (xa_components (sn_account (pi_snapshot input)))) = Inr t"
    using assms(1) by (simp add: considerSell_def Let_def)
  then show ?thesis
  proof (rule rfold_invariant [where P = "plan_ok input p"])
    fix u x v
    assume x: "x \<in> set (enumerate 0 (xa_components (sn_account (pi_snapshot input))))" and u: "plan_ok input p u"
      and step: "considerPair input p i sell (nth_or 0 (sn_balances (pi_snapshot input)) i - targetAmount (pi_snapshot input) sell) u x = Inr v"
    obtain j buy where "x = (j, buy)" by (cases x)
    then show "plan_ok input p v"
      using considerPair_ok [OF step [unfolded \<open>x = (j, buy)\<close>] u assms(3) i refl] x False
      by (auto simp: in_set_enumerate_eq)
  qed (rule assms(2))
qed

lemma planFee_bids: "A_bid b \<notin> set (pl_actions (planFee input))"
  by (auto simp: planFee_def add_action_def add_note_def Let_def)


section \<open>A worked plan\<close>

definition sample_account :: index_account where
  "sample_account =
     \<lparr>xa_indexMint = PublicKey [], xa_governor = PublicKey [], xa_manager = PublicKey [], xa_feeRecipient = PublicKey [],
      xa_lastFeeAccrual = nint 0, xa_createdAt = nint 0, xa_rebalanceDelay = nint 300, xa_streamingFeeBps = nint 0,
      xa_issueFeeBps = nint 0, xa_redeemFeeBps = nint 0, xa_maxPremiumBps = nint 500, xa_version = nint 1,
      xa_bump = nint 255, xa_state = S_live, xa_decimals = nint 9, xa_name = [], xa_symbol = [],
      xa_components =
        [\<lparr>ca_mint = PublicKey [1], ca_units = 1000, ca_targetUnits = 500, ca_refPriceE9 = 1000000000,
          ca_decimals = nint 0, ca_vaultBump = nint 255\<rparr>,
         \<lparr>ca_mint = PublicKey [2], ca_units = 1000, ca_targetUnits = 1500, ca_refPriceE9 = 1000000000,
          ca_decimals = nint 0, ca_vaultBump = nint 255\<rparr>],
      xa_rebalance = \<lparr>ra_active = True, ra_proposer = PublicKey [], ra_proposedAt = nint 0, ra_startTs = nint 1000,
        ra_endTs = nint 2000, ra_navFloorE6 = 0, ra_startPremiumBps = nint 0, ra_endPremiumBps = nint 200,
        ra_maxNavLossBps = nint 100\<rparr>\<rparr>"

definition sample_plan_input :: plan_input where
  "sample_plan_input =
     \<lparr>pi_snapshot = \<lparr>sn_indexMint = PublicKey [], sn_address = PublicKey [], sn_account = sample_account,
        sn_supply = 1000000000, sn_balances = [1000, 1000], sn_units = [1000, 1000], sn_pendingFee = 0, sn_asOf = nint 1500\<rparr>,
      pi_marketPricesE9 = [1100000000, 1000000000], pi_now = nint 1500, pi_policy = DEFAULT_POLICY,
      pi_inventory = [0, 300]\<rparr>"

lemma sample_premium: "premiumAt (nint 0) (nint 200) (nint 1000) (nint 2000) (nint 1500) = Inr (nint 100)"
  by (simp add: premiumAt_int auction_range_def premium_int_def)

lemma sample_plan:
  "\<exists>r e u. plan sample_plan_input = Inr r
     \<and> pl_actions r = [A_bid \<lparr>b_sellComponent = 0, b_buyComponent = 1, b_sellAmount = 303, b_maxBuyAmount = 300,
            b_premiumBps = nint 100, b_edgeBps = e, b_edgeUsd = u\<rparr>]"
  by (simp add: plan_def sample_plan_input_def sample_account_def DEFAULT_POLICY_def planFee_def sample_premium
      considerSell_def considerPair_def sizeBid_def judgeBid_def legCost_def bidCost_def targetAmount_def
      add_action_def add_note_def math_simps Let_def UNIT_SCALE_def BPS_def ceil_div_def safe_int_def)


section \<open>Several bids from one snapshot\<close>

text \<open>
  Each bid of a plan is sized against the snapshot alone, so two bids on the same leg add up to
  more than the fund holds above target.
\<close>

definition crowded_plan_input :: plan_input where
  "crowded_plan_input =
     sample_plan_input\<lparr>pi_snapshot := (pi_snapshot sample_plan_input)
        \<lparr>sn_account := sample_account\<lparr>xa_components :=
            xa_components sample_account @
            [\<lparr>ca_mint = PublicKey [3], ca_units = 1000, ca_targetUnits = 1500, ca_refPriceE9 = 1000000000,
              ca_decimals = nint 0, ca_vaultBump = nint 255\<rparr>]\<rparr>,
         sn_balances := [1000, 1000, 1000]\<rparr>,
       pi_marketPricesE9 := [1100000000, 1000000000, 1000000000], pi_inventory := [0, 1000, 1000]\<rparr>"

definition sold_from :: "nat \<Rightarrow> action list \<Rightarrow> int" where
  "sold_from i acts =
     sum_list (map (\<lambda>a. case a of A_bid b \<Rightarrow> if b_sellComponent b = i then b_sellAmount b else 0 | _ \<Rightarrow> 0) acts)"


end
