(* ===== verification/KeeperLoop.thy ===== *)
theory KeeperLoop
  imports KeeperPlanner SdkPrices SdkErrors
begin

text \<open>
  \<open>apps/keeper/src/index.ts\<close>: one pass of the keeper over its indexes, from the snapshot to the
  transactions it sends and the lines it logs. Sending is a parameter, the answer of the cluster
  to the n-th transaction; so are base 58 text, the clock (read once for the snapshot and once
  for the plan) and the price endpoint.
\<close>

section \<open>Environment and effects\<close>

type_synonym transaction = "transaction_instruction list"

record keeper_env =
  ke_web3 :: web3
  ke_spl :: spl_token
  ke_connection :: connection
  ke_programId :: pubkey
  ke_fetch :: fetcher
  ke_toBase58 :: "pubkey \<Rightarrow> jsstring"
  ke_asOf :: jsnum
  ke_now :: jsnum
  ke_send :: "nat \<Rightarrow> transaction \<Rightarrow> thrown + jsstring"

datatype failure = Explained jsstring | Raised js_error

datatype log_line =
    L_index jsstring index_state int bool nat
  | L_skip plan_note
  | L_unreadable "pubkey option"
  | L_plan action
  | L_done action jsstring
  | L_failed action failure
  | L_pass_failed pubkey js_error

text \<open>What a pass has done so far: the lines logged, the transactions sent, the requests made.\<close>

record effects =
  fx_log :: "log_line list"
  fx_sent :: "transaction list"
  fx_fetches :: nat

definition log_line :: "log_line \<Rightarrow> effects \<Rightarrow> effects" where
  "log_line l fx = fx\<lparr>fx_log := fx_log fx @ [l]\<rparr>"

section \<open>Inventory\<close>

definition getAccountAmount :: "bytes \<Rightarrow> int result" where
  "getAccountAmount data =
     (if length data < 72 then Inl (Error [Lit ''not a token account'']) else readBigUInt64LE data 64)"

text \<open>One account of the batch: its amount, or zero with a line in the log.\<close>

definition accountInventory :: "pubkey list \<Rightarrow> int list \<times> effects \<Rightarrow> nat \<times> account_info option \<Rightarrow> int list \<times> effects" where
  "accountInventory mints = (\<lambda>(amounts, fx) (i, info).
     case info of
       None \<Rightarrow> (amounts @ [0], fx)
     | Some a \<Rightarrow>
         (case getAccountAmount (ai_data a) of
            Inr n \<Rightarrow> (amounts @ [n], fx)
          | Inl e \<Rightarrow> (amounts @ [0], log_line (L_unreadable (nth_or None (map Some mints) i)) fx)))"

definition inventoryOf :: "keeper_env \<Rightarrow> pubkey \<Rightarrow> pubkey list \<Rightarrow> effects \<Rightarrow> (int list \<times> effects) result" where
  "inventoryOf env owner mints fx =
     rbind (rmapM (\<lambda>mint. associatedTokenAddress (ke_spl env) mint owner False) mints) (\<lambda>accounts.
     rbind (getMultipleAccountsInfo (ke_connection env) accounts) (\<lambda>infos.
     Inr (foldl (accountInventory mints) ([], fx) (enumerate 0 infos))))"

section \<open>Submitting an action\<close>

definition component_at :: "index_snapshot \<Rightarrow> nat \<Rightarrow> component_account result" where
  "component_at snap i =
     (let cs = xa_components (sn_account snap) in if i < length cs then Inr (cs ! i) else Inl TypeError)"

definition actionTransaction ::
  "keeper_env \<Rightarrow> pubkey \<Rightarrow> pubkey \<Rightarrow> index_snapshot \<Rightarrow> action \<Rightarrow> transaction result" where
  "actionTransaction env indexMint signer snap action =
     (let spl = ke_spl env; w3 = ke_web3 env; program = ke_programId env;
          componentMints = map ca_mint (xa_components (sn_account snap)) in
      case action of
        A_accrue fee \<Rightarrow>
          rbind (associatedTokenAddress spl indexMint (xa_feeRecipient (sn_account snap)) True) (\<lambda>feeAccount.
          rmap (\<lambda>i. [i]) (accrueFees w3 program indexMint feeAccount componentMints))
      | A_end \<Rightarrow> rmap (\<lambda>i. [i]) (endRebalance w3 program signer indexMint componentMints)
      | A_bid b \<Rightarrow>
          rbind (component_at snap (b_sellComponent b)) (\<lambda>sell.
          rbind (component_at snap (b_buyComponent b)) (\<lambda>buy.
          rbind (associatedTokenAddress spl (ca_mint sell) signer False) (\<lambda>receive.
          rbind (associatedTokenAddress spl (ca_mint buy) signer False) (\<lambda>pay.
          rmap (\<lambda>i. [createAssociatedTokenAccountIdempotent spl signer receive signer (ca_mint sell), i])
            (bid w3 \<lparr>bi_programId = program, bi_bidder = signer, bi_indexMint = indexMint,
               bi_componentMints = componentMints, bi_bidderReceiveAccount = receive, bi_bidderPayAccount = pay,
               bi_sellComponent = nint (int (b_sellComponent b)), bi_buyComponent = nint (int (b_buyComponent b)),
               bi_sellAmount = b_sellAmount b, bi_maxBuyAmount = b_maxBuyAmount b\<rparr>))))))"

text \<open>\<open>submit\<close> inside its \<open>try\<close>: a failure is logged and the pass goes on.\<close>

definition submit :: "keeper_env \<Rightarrow> pubkey \<Rightarrow> pubkey \<Rightarrow> index_snapshot \<Rightarrow> action \<Rightarrow> effects \<Rightarrow> effects" where
  "submit env indexMint signer snap action fx =
     (case actionTransaction env indexMint signer snap action of
        Inl e \<Rightarrow> log_line (L_failed action (Raised e)) fx
      | Inr tx \<Rightarrow>
          (let fx' = fx\<lparr>fx_sent := fx_sent fx @ [tx]\<rparr> in
           case ke_send env (length (fx_sent fx)) tx of
             Inr signature \<Rightarrow> log_line (L_done action signature) fx'
           | Inl e \<Rightarrow> log_line (L_failed action (Explained (explainError e))) fx'))"

definition actOn ::
  "keeper_env \<Rightarrow> pubkey \<Rightarrow> pubkey option \<Rightarrow> bool \<Rightarrow> index_snapshot \<Rightarrow> effects \<Rightarrow> action \<Rightarrow> effects" where
  "actOn env indexMint signer execute snap fx action =
     (let fx' = log_line (L_plan action) fx in
      case signer of
        None \<Rightarrow> fx'
      | Some s \<Rightarrow> if \<not> execute then fx' else submit env indexMint s snap action fx')"

section \<open>One pass\<close>

definition marketPrices :: "keeper_env \<Rightarrow> quotes \<Rightarrow> pubkey list \<Rightarrow> int list" where
  "marketPrices env quotes mints =
     map (\<lambda>m. case map_of quotes (ke_toBase58 env m) of None \<Rightarrow> 0 | Some q \<Rightarrow> pq_priceE9 q) mints"

text \<open>An exception leaves the effects it happened after.\<close>

definition runOnce ::
  "keeper_env \<Rightarrow> keeper_policy \<Rightarrow> pubkey option \<Rightarrow> bool \<Rightarrow> effects \<Rightarrow> pubkey \<Rightarrow> unit result \<times> effects" where
  "runOnce env policy signer execute fx indexMint =
     (case snapshot (ke_web3 env) (ke_spl env) (ke_connection env) (ke_programId env) indexMint (ke_asOf env) of
        Inl e \<Rightarrow> (Inl e, fx)
      | Inr snap \<Rightarrow>
        (let mints = map ca_mint (xa_components (sn_account snap)) in
         case fetchPrices (ke_fetch env) (map (ke_toBase58 env) mints) (fx_fetches fx) of
           (Inl e, calls) \<Rightarrow> (Inl e, fx\<lparr>fx_fetches := calls\<rparr>)
         | (Inr quotes, calls) \<Rightarrow>
           (let fx1 = fx\<lparr>fx_fetches := calls\<rparr> in
            case (case signer of None \<Rightarrow> Inr (map (\<lambda>m. 0) mints, fx1) | Some s \<Rightarrow> inventoryOf env s mints fx1) of
              Inl e \<Rightarrow> (Inl e, fx1)
            | Inr (inventory, fx2) \<Rightarrow>
              (case plan \<lparr>pi_snapshot = snap, pi_marketPricesE9 = marketPrices env quotes mints,
                          pi_now = ke_now env, pi_policy = policy, pi_inventory = inventory\<rparr> of
                 Inl e \<Rightarrow> (Inl e, fx2)
               | Inr p \<Rightarrow>
                 (let fx3 = log_line (L_index (xa_symbol (sn_account snap)) (xa_state (sn_account snap)) (sn_supply snap)
                              (ra_active (xa_rebalance (sn_account snap))) (length (pl_actions p))) fx2;
                      fx4 = foldl (\<lambda>f n. log_line (L_skip n) f) fx3 (pl_notes p)
                  in (Inr (), foldl (actOn env indexMint signer execute snap) fx4 (pl_actions p)))))))"

definition watch ::
  "keeper_env \<Rightarrow> keeper_policy \<Rightarrow> pubkey option \<Rightarrow> bool \<Rightarrow> pubkey list \<Rightarrow> effects \<Rightarrow> effects" where
  "watch env policy signer execute indexes fx =
     foldl (\<lambda>f indexMint.
        case runOnce env policy signer execute f indexMint of
          (Inr u, f') \<Rightarrow> f'
        | (Inl e, f') \<Rightarrow> log_line (L_pass_failed indexMint e) f') fx indexes"

section \<open>Start-up\<close>

text \<open>
  Any failure to read, parse or accept the key file means no signer. \<open>fromJson\<close> is
  \<open>Keypair.fromSecretKey(Uint8Array.from(...))\<close> of the platform.
\<close>

definition loadSigner ::
  "(jsstring \<Rightarrow> jsstring option) \<Rightarrow> (jsstring \<Rightarrow> json result) \<Rightarrow> (json \<Rightarrow> pubkey result)
   \<Rightarrow> jsstring \<Rightarrow> jsstring option \<Rightarrow> jsstring option \<Rightarrow> pubkey option" where
  "loadSigner readFile parseJson fromJson default_path env path =
     (let file = (case path of Some f \<Rightarrow> f | None \<Rightarrow> (case env of Some f \<Rightarrow> f | None \<Rightarrow> default_path)) in
      case readFile file of
        None \<Rightarrow> None
      | Some raw \<Rightarrow> (case rbind (parseJson raw) fromJson of Inl e \<Rightarrow> None | Inr k \<Rightarrow> Some k))"

record keeper_options =
  ko_indexes :: "jsstring option"
  ko_execute :: "bool option"
  ko_min_edge_bps :: "jsstring option"
  ko_min_accrual :: "jsstring option"
  ko_max_leg_share_bps :: "jsstring option"
  ko_program_id :: "jsstring option"

definition policyOf :: "keeper_options \<Rightarrow> keeper_policy result" where
  "policyOf opts =
     rbind (case ko_min_accrual opts of None \<Rightarrow> Inr (kp_minAccrualTokens DEFAULT_POLICY) | Some s \<Rightarrow> BigInt s)
       (\<lambda>minAccrual.
     Inr \<lparr>kp_minAccrualTokens = minAccrual,
          kp_minEdgeBps = (case ko_min_edge_bps opts of None \<Rightarrow> kp_minEdgeBps DEFAULT_POLICY | Some s \<Rightarrow> Number s),
          kp_maxLegShareBps = (case ko_max_leg_share_bps opts of None \<Rightarrow> kp_maxLegShareBps DEFAULT_POLICY | Some s \<Rightarrow> Number s)\<rparr>)"

definition indexesOf :: "key_parser \<Rightarrow> jsstring option \<Rightarrow> keeper_options \<Rightarrow> pubkey list result" where
  "indexesOf parse_key env_indexes opts =
     (case (case ko_indexes opts of Some r \<Rightarrow> Some r | None \<Rightarrow> env_indexes) of
        None \<Rightarrow> Inl (Error [Lit ''No indexes to watch. Pass --indexes or set FLOCK_INDEXES.''])
      | Some raw \<Rightarrow>
          if raw = [] then Inl (Error [Lit ''No indexes to watch. Pass --indexes or set FLOCK_INDEXES.''])
          else rmapM (\<lambda>entry. parse_key (trim entry)) (split_on (unit_of 44) raw))"

record keeper_setup =
  ks_indexes :: "pubkey list"
  ks_program :: pubkey
  ks_execute :: bool
  ks_policy :: keeper_policy

text \<open>\<open>signer\<close> is what \<open>loadSigner\<close> made of the keypair file, \<open>env_indexes\<close> and \<open>env_program\<close> the environment.\<close>

definition startUp ::
  "key_parser \<Rightarrow> jsstring option \<Rightarrow> jsstring option \<Rightarrow> pubkey option \<Rightarrow> keeper_options \<Rightarrow> keeper_setup result" where
  "startUp parse_key env_indexes env_program signer opts =
     rbind (indexesOf parse_key env_indexes opts) (\<lambda>indexes.
     rbind (programId parse_key env_program (map_option IdString (ko_program_id opts))) (\<lambda>program.
     let execute = (ko_execute opts = Some True) in
     if execute \<and> signer = None then Inl (Error [Lit ''--execute needs a keypair, and none could be loaded''])
     else rbind (policyOf opts) (\<lambda>policy.
       Inr \<lparr>ks_indexes = indexes, ks_program = program, ks_execute = execute, ks_policy = policy\<rparr>)))"

text \<open>Rounds of the endless loop, each with what the cluster and the clock said then; with \<open>--once\<close> the source stops after the first.\<close>

definition rounds :: "keeper_setup \<Rightarrow> pubkey option \<Rightarrow> keeper_env list \<Rightarrow> effects \<Rightarrow> effects" where
  "rounds cfg signer envs fx =
     foldl (\<lambda>f env. watch env (ks_policy cfg) signer (ks_execute cfg) (ks_indexes cfg) f) fx envs"

section \<open>What a pass sends\<close>

lemma log_line_simps [simp]:
  "fx_sent (log_line l fx) = fx_sent fx" "fx_fetches (log_line l fx) = fx_fetches fx"
  by (simp_all add: log_line_def)

lemma accountInventory_sent: "fx_sent (snd (accountInventory mints st x)) = fx_sent (snd st)"
  by (auto simp: accountInventory_def split: prod.splits option.splits sum.splits)

lemma foldl_sent: "(\<And>s x. g (f s x) = g s) \<Longrightarrow> g (foldl f s xs) = g s"
  by (induction xs arbitrary: s) auto

lemma inventoryOf_sent:
  assumes "inventoryOf env signer mints fx = Inr (held, fx')" shows "fx_sent fx' = fx_sent fx"
proof -
  from assms obtain infos where "foldl (accountInventory mints) ([], fx) infos = (held, fx')"
    by (auto simp: inventoryOf_def rbind_Inr_iff)
  moreover have "fx_sent (snd (foldl (accountInventory mints) ([], fx) infos)) = fx_sent fx"
    by (subst foldl_sent [where g = "\<lambda>s. fx_sent (snd s)"]) (simp_all add: accountInventory_sent)
  ultimately show ?thesis by simp
qed

text \<open>The transaction an action leads to, when it can be built.\<close>

definition built :: "keeper_env \<Rightarrow> pubkey \<Rightarrow> pubkey \<Rightarrow> index_snapshot \<Rightarrow> action \<Rightarrow> transaction list" where
  "built env indexMint signer snap action =
     (case actionTransaction env indexMint signer snap action of Inl e \<Rightarrow> [] | Inr tx \<Rightarrow> [tx])"

lemma submit_sent: "fx_sent (submit env indexMint signer snap action fx) = fx_sent fx @ built env indexMint signer snap action"
  by (auto simp: submit_def built_def Let_def split: sum.splits)

lemma actions_sent:
  "fx_sent (foldl (actOn env indexMint (Some signer) True snap) fx acts)
     = fx_sent fx @ concat (map (built env indexMint signer snap) acts)"
  by (induction acts arbitrary: fx) (simp_all add: actOn_def submit_sent Let_def)

lemma actions_quiet: "signer = None \<or> \<not> execute \<Longrightarrow> fx_sent (foldl (actOn env indexMint signer execute snap) fx acts) = fx_sent fx"
  by (rule foldl_sent) (auto simp: actOn_def Let_def split: option.splits)

lemma notes_sent: "fx_sent (foldl (\<lambda>f n. log_line (L_skip n) f) fx ns) = fx_sent fx"
  by (rule foldl_sent) simp

text \<open>A pass that completed planned from a snapshot and acted on that plan.\<close>

lemma runOnce_Inr:
  assumes "runOnce env policy signer execute fx indexMint = (Inr u, fx')"
  obtains snap qs calls held p fxn where
    "snapshot (ke_web3 env) (ke_spl env) (ke_connection env) (ke_programId env) indexMint (ke_asOf env) = Inr snap"
    "plan \<lparr>pi_snapshot = snap, pi_marketPricesE9 = marketPrices env qs (map ca_mint (xa_components (sn_account snap))),
           pi_now = ke_now env, pi_policy = policy, pi_inventory = held\<rparr> = Inr p"
    "fx_sent fxn = fx_sent fx" "fx' = foldl (actOn env indexMint signer execute snap) fxn (pl_actions p)"
proof -
  from assms obtain snap where snap: "snapshot (ke_web3 env) (ke_spl env) (ke_connection env) (ke_programId env) indexMint (ke_asOf env) = Inr snap"
    by (auto simp: runOnce_def split: sum.splits)
  let ?mints = "map ca_mint (xa_components (sn_account snap))"
  from assms snap obtain qs calls where f: "fetchPrices (ke_fetch env) (map (ke_toBase58 env) ?mints) (fx_fetches fx) = (Inr qs, calls)"
    by (auto simp: runOnce_def Let_def split: sum.splits prod.splits)
  let ?fx1 = "fx\<lparr>fx_fetches := calls\<rparr>"
  from assms snap f obtain held fx2 where i: "(case signer of None \<Rightarrow> Inr (map (\<lambda>m. 0) ?mints, ?fx1) | Some s \<Rightarrow> inventoryOf env s ?mints ?fx1) = Inr (held, fx2)"
    by (auto simp: runOnce_def Let_def split: sum.splits prod.splits)
  have s2: "fx_sent fx2 = fx_sent fx"
  proof (cases signer)
    case None
    then show ?thesis using i by auto
  next
    case (Some s)
    then show ?thesis using i inventoryOf_sent [of env s ?mints ?fx1 held fx2] by simp
  qed
  let ?pi = "\<lparr>pi_snapshot = snap, pi_marketPricesE9 = marketPrices env qs ?mints,
           pi_now = ke_now env, pi_policy = policy, pi_inventory = held\<rparr>"
  from assms snap f i obtain p where p: "plan ?pi = Inr p"
    by (auto simp: runOnce_def Let_def split: sum.splits prod.splits)
  show thesis
    by (rule that [OF snap p, where fxn = "foldl (\<lambda>f n. log_line (L_skip n) f)
          (log_line (L_index (xa_symbol (sn_account snap)) (xa_state (sn_account snap)) (sn_supply snap)
             (ra_active (xa_rebalance (sn_account snap))) (length (pl_actions p))) fx2) (pl_notes p)"])
       (use assms snap f i p in \<open>auto simp: runOnce_def Let_def notes_sent s2\<close>)
qed

lemma runOnce_sent_grows:
  assumes "signer = None \<or> \<not> execute"
  shows "fx_sent (snd (runOnce env policy signer execute fx indexMint)) = fx_sent fx"
proof -
  obtain r fx' where r: "runOnce env policy signer execute fx indexMint = (r, fx')" by fastforce
  show ?thesis
  proof (cases r)
    case (Inr u)
    show ?thesis
    proof (rule runOnce_Inr [OF r [unfolded Inr]])
      fix snap qs calls held p fxn
      assume "fx_sent fxn = fx_sent fx" "fx' = foldl (actOn env indexMint signer execute snap) fxn (pl_actions p)"
      then show ?thesis using r actions_quiet [OF assms] by simp
    qed
  next
    case (Inl e)
    then show ?thesis using r
      by (auto simp: runOnce_def Let_def split: sum.splits prod.splits option.splits dest: inventoryOf_sent)
  qed
qed

text \<open>
  Without a signer or without --execute the keeper sends no transaction, whatever happens
  in its passes.
\<close>

theorem keeper_reports_only:
  assumes "signer = None \<or> \<not> ks_execute cfg"
  shows "fx_sent (rounds cfg signer envs fx) = fx_sent fx"
proof -
  have "fx_sent (watch env (ks_policy cfg) signer (ks_execute cfg) ixs f) = fx_sent f" for env ixs f
    unfolding watch_def
  proof (rule foldl_sent)
    fix g ix
    show "fx_sent (case runOnce env (ks_policy cfg) signer (ks_execute cfg) g ix of
        (Inr u, f') \<Rightarrow> f' | (Inl e, f') \<Rightarrow> log_line (L_pass_failed ix e) f') = fx_sent g"
      using runOnce_sent_grows [OF assms, of env "ks_policy cfg" g ix]
      by (auto split: prod.splits sum.splits)
  qed
  then show ?thesis unfolding rounds_def by (rule foldl_sent)
qed

theorem keeper_reports_only_witness:
  "\<forall>envs. fx_sent (rounds \<lparr>ks_indexes = [PublicKey [1], PublicKey [2]], ks_program = PublicKey [3], ks_execute = False,
       ks_policy = DEFAULT_POLICY\<rparr> (Some (PublicKey [4])) envs \<lparr>fx_log = [], fx_sent = [], fx_fetches = 0\<rparr>) = []"
  using keeper_reports_only [where cfg = "\<lparr>ks_indexes = [PublicKey [1], PublicKey [2]], ks_program = PublicKey [3], ks_execute = False,
       ks_policy = DEFAULT_POLICY\<rparr>" and signer = "Some (PublicKey [4])" and fx = "\<lparr>fx_log = [], fx_sent = [], fx_fetches = 0\<rparr>"]
  by simp

section \<open>A mistyped edge floor\<close>

definition no_options :: keeper_options where
  "no_options = \<lparr>ko_indexes = None, ko_execute = None, ko_min_edge_bps = None, ko_min_accrual = None,
     ko_max_leg_share_bps = None, ko_program_id = None\<rparr>"

lemma nless_NaN: "\<not> nless x NaN"
  by (cases x) simp_all

text \<open>
  A --min-edge-bps that is not a number is accepted and lets the keeper plan a bid whose
  market edge is negative.
\<close>

theorem mistyped_edge_floor_bids_at_a_loss:
  "\<exists>policy r e u. policyOf (no_options\<lparr>ko_min_edge_bps := Some (js ''25bps'')\<rparr>) = Inr policy
     \<and> plan (sample_plan_input\<lparr>pi_policy := policy, pi_marketPricesE9 := [500000000, 1000000000]\<rparr>) = Inr r
     \<and> pl_actions r = [A_bid \<lparr>b_sellComponent = 0, b_buyComponent = 1, b_sellAmount = 303, b_maxBuyAmount = 300,
            b_premiumBps = nint 100, b_edgeBps = nint e, b_edgeUsd = u\<rparr>] \<and> e < 0"
proof -
  have n: "Number (js ''25bps'') = NaN"
    by (simp add: Number_def js_def trim_def is_space_def unit_in_def radix_literal_def signed_def number_literal_def
        decimal_literal_def is_dec_def exponent_part_def Let_def)
  have pol: "policyOf (no_options\<lparr>ko_min_edge_bps := Some (js ''25bps'')\<rparr>)
     = Inr (DEFAULT_POLICY\<lparr>kp_minEdgeBps := NaN\<rparr>)"
    by (simp add: policyOf_def no_options_def DEFAULT_POLICY_def n)
  show ?thesis unfolding pol
    by (simp add: plan_def sample_plan_input_def sample_account_def DEFAULT_POLICY_def planFee_def sample_premium
      considerSell_def considerPair_def sizeBid_def judgeBid_def legCost_def bidCost_def targetAmount_def
      add_action_def add_note_def math_simps Let_def UNIT_SCALE_def BPS_def ceil_div_def safe_int_def nless_NaN)
qed

end
