(* ===== verification/KeeperMain.thy ===== *)
theory KeeperMain
  imports KeeperLoop NodeArgs
begin

text \<open>
  \<open>main\<close> and \<open>log\<close> of \<open>apps/keeper/src/index.ts\<close>: the command line, the start-up line, the passes
  and the text of every line of the log. The clock is the ISO time a line is written at; the
  messages of the language's own errors belong to the platform.
\<close>

section \<open>The log\<close>

text \<open>\<open>${typeof v === "bigint" ? v.toString() : v}\<close> of the values the keeper logs.\<close>

datatype log_value = V_big int | V_num jsnum | V_bool bool | V_str jsstring | V_undefined

fun value_text :: "log_value \<Rightarrow> jsstring" where
  "value_text (V_big n) = bigint_text n"
| "value_text (V_num x) = number_text x"
| "value_text (V_bool b) = js (if b then ''true'' else ''false'')"
| "value_text (V_str s) = s"
| "value_text V_undefined = js ''undefined''"

definition log_text :: "jsstring \<Rightarrow> jsstring \<Rightarrow> (string \<times> log_value) list \<Rightarrow> jsstring" where
  "log_text time event pairs =
     trimEnd (time @ js '' '' @ event @ js '' '' @
       join (js '' '') (map (\<lambda>(k, v). js k @ js ''='' @ value_text v) pairs))"

fun kind_text :: "action \<Rightarrow> string" where
  "kind_text (A_accrue fee) = ''accrue''"
| "kind_text A_end = ''end''"
| "kind_text (A_bid b) = ''bid''"

fun describe :: "action \<Rightarrow> (string \<times> log_value) list" where
  "describe (A_accrue fee) = [(''pendingFee'', V_big fee)]"
| "describe A_end = [(''reason'', V_str (js ''expired''))]"
| "describe (A_bid b) =
     [(''sell'', V_num (nint (int (b_sellComponent b)))), (''buy'', V_num (nint (int (b_buyComponent b)))),
      (''sellAmount'', V_big (b_sellAmount b)), (''pay'', V_big (b_maxBuyAmount b)),
      (''premiumBps'', V_num (b_premiumBps b)), (''edgeBps'', V_num (b_edgeBps b)),
      (''edgeUsd'', V_str (toFixed 2 (b_edgeUsd b)))]"

record keeper_texts =
  kt_toBase58 :: "pubkey \<Rightarrow> jsstring"
  kt_usd :: "jsnum \<Rightarrow> jsstring"
  kt_native :: "js_error \<Rightarrow> jsstring"

definition error_message :: "keeper_texts \<Rightarrow> js_error \<Rightarrow> jsstring" where
  "error_message kt e =
     (case e of Error chunks \<Rightarrow> message_text (kt_toBase58 kt) (kt_usd kt) chunks | _ \<Rightarrow> kt_native kt e)"

text \<open>\<open>explainError(error)\<close> in a handler: of what the cluster threw, or of an error of the program's own.\<close>

definition failure_text :: "keeper_texts \<Rightarrow> failure \<Rightarrow> jsstring" where
  "failure_text kt f =
     (case f of Explained s \<Rightarrow> s | Raised e \<Rightarrow> explainError (ErrorObject (error_message kt e)))"

fun event_of :: "keeper_texts \<Rightarrow> log_line \<Rightarrow> jsstring \<times> (string \<times> log_value) list" where
  "event_of kt (L_index symbol st supply_now active n) =
     (js ''index'', [(''symbol'', V_str symbol), (''state'', V_str (js (stateText st))), (''supply'', V_big supply_now),
        (''auction'', V_bool active), (''actions'', V_num (nint (int n)))])"
| "event_of kt (L_skip why) = (js ''skip'', [(''why'', V_str (message_text (kt_toBase58 kt) (kt_usd kt) why))])"
| "event_of kt (L_unreadable mint) =
     (js ''inventory.unreadable'', [(''mint'', case mint of None \<Rightarrow> V_undefined | Some k \<Rightarrow> V_str (kt_toBase58 kt k))])"
| "event_of kt (L_plan a) = (js (''plan.'' @ kind_text a), describe a)"
| "event_of kt (L_done a signature) = (js (''done.'' @ kind_text a), [(''signature'', V_str signature)])"
| "event_of kt (L_failed a f) = (js (''failed.'' @ kind_text a), [(''error'', V_str (failure_text kt f))])"
| "event_of kt (L_pass_failed indexMint e) =
     (js ''pass.failed'', [(''index'', V_str (kt_toBase58 kt indexMint)),
        (''error'', V_str (explainError (ErrorObject (error_message kt e))))])"

definition line_text :: "keeper_texts \<Rightarrow> jsstring \<Rightarrow> log_line \<Rightarrow> jsstring" where
  "line_text kt time l = (case event_of kt l of (event, pairs) \<Rightarrow> log_text time event pairs)"

section \<open>The command line\<close>

definition keeper_usage_lines :: "string list" where
  "keeper_usage_lines =
    [''flock-keeper - operate Flock indexes'',
     '''',
     ''  flock-keeper --indexes <mint>,<mint> [--once] [--execute]'',
     '''',
     ''  --indexes <mints>       comma separated index mints (or FLOCK_INDEXES)'',
     ''  --interval <seconds>    poll interval, default 60'',
     ''  --once                  run one pass and exit'',
     ''  --execute               actually send transactions; without it, the keeper only reports'',
     ''  --min-edge-bps <n>      do not bid under this market edge, default 25'',
     ''  --min-accrual <tokens>  do not accrue less than this many index base units, default 1000000'',
     ''  --max-leg-share-bps <n> most of a leg to take in one bid, default 10000 (all of it)'',
     ''  --url <rpc>             RPC endpoint (or SOLANA_RPC_URL)'',
     ''  --program-id <pubkey>   index program (or FLOCK_PROGRAM_ID)'',
     ''  --keypair <path>        signer (or FLOCK_KEYPAIR)'',
     '''']"

definition KEEPER_USAGE :: jsstring where "KEEPER_USAGE = join [unit_of 10] (map js keeper_usage_lines)"

definition keeper_table :: option_table where
  "keeper_table = map (\<lambda>(name, t). (js name, t))
    [(''indexes'', T_string), (''interval'', T_string), (''once'', T_boolean),
     (''execute'', T_boolean), (''min-edge-bps'', T_string), (''min-accrual'', T_string),
     (''max-leg-share-bps'', T_string), (''url'', T_string), (''program-id'', T_string),
     (''keypair'', T_string), (''help'', T_boolean)]"

definition keeperOptions :: "parsed_args \<Rightarrow> keeper_options" where
  "keeperOptions pa =
     \<lparr>ko_indexes = string_value pa ''indexes'', ko_execute = flag_value pa ''execute'',
      ko_min_edge_bps = string_value pa ''min-edge-bps'', ko_min_accrual = string_value pa ''min-accrual'',
      ko_max_leg_share_bps = string_value pa ''max-leg-share-bps'', ko_program_id = string_value pa ''program-id''\<rparr>"

text \<open>\<open>Number(values.interval ?? 60) * 1_000\<close>, the pause between rounds in milliseconds.\<close>

definition intervalOf :: "parsed_args \<Rightarrow> jsnum" where
  "intervalOf pa =
     nmul (case string_value pa ''interval'' of None \<Rightarrow> nint 60 | Some s \<Rightarrow> Number s) (nint 1000)"

definition rpcOf :: "(string \<Rightarrow> jsstring option) \<Rightarrow> parsed_args \<Rightarrow> jsstring" where
  "rpcOf env pa =
     (case string_value pa ''url'' of
        Some u \<Rightarrow> u
      | None \<Rightarrow> (case env ''SOLANA_RPC_URL'' of Some u \<Rightarrow> u | None \<Rightarrow> js ''https://api.mainnet-beta.solana.com''))"

text \<open>The line \<open>keeper.start\<close>.\<close>

definition startFields :: "keeper_texts \<Rightarrow> keeper_setup \<Rightarrow> pubkey option \<Rightarrow> (string \<times> log_value) list" where
  "startFields kt cfg signer =
     [(''indexes'', V_num (nint (int (length (ks_indexes cfg))))), (''execute'', V_bool (ks_execute cfg)),
      (''signer'', V_str (case signer of None \<Rightarrow> js ''none'' | Some k \<Rightarrow> kt_toBase58 kt k)),
      (''program'', V_str (kt_toBase58 kt (ks_program cfg)))]"

section \<open>Running\<close>

text \<open>
  What surrounds the process. \<open>kw_rounds\<close> lists what the cluster behind a url and the clock
  say in each round of the endless loop, as far as it has run.
\<close>

record keeper_world =
  kw_parse_key :: key_parser
  kw_env :: "string \<Rightarrow> jsstring option"
  kw_readFile :: "jsstring \<Rightarrow> jsstring option"
  kw_parseJson :: "jsstring \<Rightarrow> json result"
  kw_fromJson :: "json \<Rightarrow> pubkey result"
  kw_default_keypair :: jsstring
  kw_texts :: keeper_texts
  kw_rounds :: "jsstring \<Rightarrow> keeper_env list"

datatype keeper_error = Keeper_arguments args_error | Keeper_thrown js_error

record keeper_outcome =
  kr_stdout :: "jsstring list"
  kr_effects :: effects
  kr_pause :: "jsnum option"
  kr_stderr :: "keeper_error option"
  kr_exitCode :: int

definition no_effects :: effects where "no_effects = \<lparr>fx_log = [], fx_sent = [], fx_fetches = 0\<rparr>"

definition stopped :: "jsstring list \<Rightarrow> keeper_error option \<Rightarrow> keeper_outcome" where
  "stopped out e =
     \<lparr>kr_stdout = out, kr_effects = no_effects, kr_pause = None, kr_stderr = e, kr_exitCode = (if e = None then 0 else 1)\<rparr>"

definition keeperMain :: "keeper_world \<Rightarrow> jsstring \<Rightarrow> jsstring list \<Rightarrow> keeper_outcome" where
  "keeperMain kw time argv =
     (case parseArgs keeper_table False argv of
        Inl e \<Rightarrow> stopped [] (Some (Keeper_arguments e))
      | Inr pa \<Rightarrow>
        if flag_value pa ''help'' = Some True then stopped [KEEPER_USAGE] None
        else
        (let signer = loadSigner (kw_readFile kw) (kw_parseJson kw) (kw_fromJson kw) (kw_default_keypair kw)
               (kw_env kw ''FLOCK_KEYPAIR'') (string_value pa ''keypair'') in
         case startUp (kw_parse_key kw) (kw_env kw ''FLOCK_INDEXES'') (kw_env kw ''FLOCK_PROGRAM_ID'') signer (keeperOptions pa) of
           Inl e \<Rightarrow> stopped [] (Some (Keeper_thrown e))
         | Inr cfg \<Rightarrow>
           (let seen = map (\<lambda>env. env\<lparr>ke_programId := ks_program cfg\<rparr>) (kw_rounds kw (rpcOf (kw_env kw) pa));
                envs = (if flag_value pa ''once'' = Some True then take 1 seen else seen) in
            \<lparr>kr_stdout = [log_text time (js ''keeper.start'') (startFields (kw_texts kw) cfg signer)],
             kr_effects = rounds cfg signer envs no_effects,
             kr_pause = (if flag_value pa ''once'' = Some True then None else Some (intervalOf pa)),
             kr_stderr = None, kr_exitCode = 0\<rparr>)))"

section \<open>A keeper that was not told to execute\<close>

lemma startUp_execute:
  "startUp parse_key ei ep signer opts = Inr cfg \<Longrightarrow> ko_execute opts \<noteq> Some True \<Longrightarrow> \<not> ks_execute cfg"
  by (auto simp: startUp_def rbind_Inr_iff Let_def split: if_splits)

text \<open>C39: Without the argument --execute on its command line the keeper sends no transaction,
  whatever its other arguments, its environment, its key file and the cluster say.
\<close>

theorem keeper_sends_only_when_told:
  assumes "js ''--execute'' \<notin> set argv"
  shows "fx_sent (kr_effects (keeperMain kw time argv)) = []"
proof -
  have none: "fx_sent (kr_effects (stopped out e)) = []" for out e by (simp add: stopped_def no_effects_def)
  show ?thesis
  proof (cases "parseArgs keeper_table False argv")
    case (Inl e)
    then show ?thesis by (simp add: keeperMain_def none)
  next
    case (Inr pa)
    have w: "[dash, dash] @ js ''execute'' = js ''--execute''" "1 < length (js ''execute'')"
      by (simp_all add: js_def dash_def unit_of_def)
    have "flag_value pa ''execute'' \<noteq> Some True" using flag_was_written [OF Inr _ w(2), unfolded w(1)] assms by blast
    then have quiet: "ko_execute (keeperOptions pa) \<noteq> Some True" by (simp add: keeperOptions_def)
    have "fx_sent (rounds cfg signer envs no_effects) = []"
      if "startUp parse_key ei ep signer (keeperOptions pa) = Inr cfg" for parse_key ei ep signer cfg envs
      using keeper_reports_only [of signer cfg envs no_effects] startUp_execute [OF that quiet] by (simp add: no_effects_def)
    then show ?thesis using Inr none by (auto simp: keeperMain_def Let_def split: sum.splits)
  qed
qed

theorem keeper_sends_only_when_told_witness:
  "\<forall>kw time. fx_sent (kr_effects (keeperMain kw time [js ''--indexes'', js ''A,B'', js ''--once''])) = []"
proof (intro allI)
  fix kw time
  have "js ''--execute'' \<notin> set [js ''--indexes'', js ''A,B'', js ''--once'']" by (simp add: js_def)
  then show "fx_sent (kr_effects (keeperMain kw time [js ''--indexes'', js ''A,B'', js ''--once''])) = []"
    by (rule keeper_sends_only_when_told)
qed

end
