(* ===== verification/DeployScript.thy ===== *)
theory DeployScript
  imports CliContext NodeArgs
begin

text \<open>
  \<open>scripts/deploy.mjs\<close>: build, check, deploy, record. The script is a sequence of events (programs
  run, files touched and written, lines printed) that ends normally, by \<open>process.exit\<close> or by an
  uncaught error. Programs, files, the hash and the clock are parameters; files are as the build
  left them, and touching, creating and writing them succeeds.
\<close>

section \<open>Events\<close>

datatype event =
    E_touch jsstring
  | E_exec jsstring "jsstring list"
  | E_print jsstring
  | E_complain jsstring
  | E_mkdir jsstring
  | E_write jsstring jsstring

datatype stop = Exit int | Uncaught js_error | Rejected args_error

type_synonym 'a script = "event list \<Rightarrow> (stop + 'a) \<times> event list"

definition returnS :: "'a \<Rightarrow> 'a script" where "returnS x evs = (Inr x, evs)"
definition stopS :: "stop \<Rightarrow> 'a script" where "stopS s evs = (Inl s, evs)"
definition emit :: "event \<Rightarrow> unit script" where "emit ev evs = (Inr (), evs @ [ev])"
definition tryS :: "'a result \<Rightarrow> 'a script" where
  "tryS r evs = ((case r of Inl e \<Rightarrow> Inl (Uncaught e) | Inr x \<Rightarrow> Inr x), evs)"

definition bindS :: "'a script \<Rightarrow> ('a \<Rightarrow> 'b script) \<Rightarrow> 'b script" where
  "bindS m f evs = (case m evs of (Inl s, evs') \<Rightarrow> (Inl s, evs') | (Inr x, evs') \<Rightarrow> f x evs')"

lemma bindS_Inr: "bindS m f evs = (Inr y, evs') \<longleftrightarrow> (\<exists>x evs1. m evs = (Inr x, evs1) \<and> f x evs1 = (Inr y, evs'))"
  by (auto simp: bindS_def split: prod.splits sum.splits)

lemma script_simps [simp]:
  "bindS (returnS x) f = f x" "bindS (emit ev) f evs = f () (evs @ [ev])" "bindS (stopS s) f evs = (Inl s, evs)"
  "bindS (tryS (Inr x)) f = f x" "bindS (tryS (Inl e)) f evs = (Inl (Uncaught e), evs)"
  by (simp_all add: bindS_def returnS_def emit_def stopS_def tryS_def fun_eq_iff)

section \<open>The script\<close>

text \<open>\<open>dw_path p\<close> is the path \<open>p\<close> below the root of the repository; \<open>dw_exec\<close> the standard output of a program.\<close>

record deploy_world =
  dw_path :: "jsstring \<Rightarrow> jsstring"
  dw_read :: "jsstring \<Rightarrow> bytes option"
  dw_exec :: "jsstring \<Rightarrow> jsstring list \<Rightarrow> jsstring result"
  dw_sha256 :: "bytes \<Rightarrow> jsstring"
  dw_now :: jsstring

definition deploy_options :: option_table where
  "deploy_options = map (\<lambda>(name, t). (js name, t))
    [(''cluster'', T_string), (''url'', T_string), (''keypair'', T_string), (''arch'', T_string),
     (''skip-build'', T_boolean), (''dry-run'', T_boolean)]"

definition binary_path :: "deploy_world \<Rightarrow> jsstring" where
  "binary_path dw = dw_path dw (js ''program/target/deploy/flock_index.so'')"

definition keypair_path :: "deploy_world \<Rightarrow> jsstring" where
  "keypair_path dw = dw_path dw (js ''program/target/deploy/flock_index-keypair.json'')"

definition or_text :: "jsstring option \<Rightarrow> jsstring \<Rightarrow> jsstring" where
  "or_text v d = (case v of Some s \<Rightarrow> s | None \<Rightarrow> d)"

definition clusterOf :: "parsed_args \<Rightarrow> jsstring" where
  "clusterOf pa = or_text (string_value pa ''cluster'') (js ''devnet'')"

definition urlOf :: "parsed_args \<Rightarrow> jsstring" where
  "urlOf pa = or_text (string_value pa ''url'')
     (if clusterOf pa = js ''mainnet'' then js ''https://api.mainnet-beta.solana.com''
      else js ''https://api.'' @ clusterOf pa @ js ''.solana.com'')"

definition archOf :: "parsed_args \<Rightarrow> jsstring" where
  "archOf pa = or_text (string_value pa ''arch'') (js ''v3'')"

definition execS :: "deploy_world \<Rightarrow> string \<Rightarrow> jsstring list \<Rightarrow> jsstring script" where
  "execS dw program args = bindS (emit (E_exec (js program) args)) (\<lambda>u. tryS (dw_exec dw (js program) args))"

definition buildProgram :: "deploy_world \<Rightarrow> jsstring \<Rightarrow> unit script" where
  "buildProgram dw arch =
     bindS (emit (E_touch (dw_path dw (js ''program/src/lib.rs'')))) (\<lambda>u1.
     bindS (emit (E_print (js ''building for sbpf '' @ arch))) (\<lambda>u2.
     bindS (execS dw ''cargo'' [js ''build-sbf'', js ''--arch'', arch]) (\<lambda>out. returnS ())))"

definition requireFile :: "deploy_world \<Rightarrow> jsstring \<Rightarrow> jsstring \<Rightarrow> bytes script" where
  "requireFile dw path complaint =
     (case dw_read dw path of
        None \<Rightarrow> bindS (emit (E_complain (path @ complaint))) (\<lambda>u. stopS (Exit 1))
      | Some bs \<Rightarrow> returnS bs)"

definition deploymentRecord :: "deploy_world \<Rightarrow> parsed_args \<Rightarrow> jsstring \<Rightarrow> bytes \<Rightarrow> json" where
  "deploymentRecord dw pa program bs =
     J_obj [(js ''cluster'', J_str (clusterOf pa)), (js ''url'', J_str (urlOf pa)), (js ''programId'', J_str program),
            (js ''sbpfArch'', J_str (archOf pa)), (js ''binarySha256'', J_str (dw_sha256 dw bs)),
            (js ''binaryBytes'', J_num (nint (int (length bs)))), (js ''deployedAt'', J_str (dw_now dw))]"

definition deployArgs :: "deploy_world \<Rightarrow> parsed_args \<Rightarrow> jsstring list" where
  "deployArgs dw pa =
     [js ''program'', js ''deploy'', binary_path dw, js ''--program-id'', keypair_path dw, js ''--url'', urlOf pa]
     @ (case truthy (string_value pa ''keypair'') of None \<Rightarrow> [] | Some k \<Rightarrow> [js ''--keypair'', k])"

definition recordPath :: "deploy_world \<Rightarrow> jsstring \<Rightarrow> jsstring" where
  "recordPath dw cluster = dw_path dw (js ''deployments/'' @ cluster @ js ''.json'')"

definition publish :: "deploy_world \<Rightarrow> parsed_args \<Rightarrow> jsstring \<Rightarrow> bytes \<Rightarrow> unit script" where
  "publish dw pa program bs =
     bindS (execS dw ''solana'' (deployArgs dw pa)) (\<lambda>out.
     bindS (emit (E_mkdir (dw_path dw (js ''deployments'')))) (\<lambda>u1.
     bindS (emit (E_write (recordPath dw (clusterOf pa)) (stringify 0 (deploymentRecord dw pa program bs) @ [unit_of 10]))) (\<lambda>u2.
     emit (E_print (js ''wrote '' @ recordPath dw (clusterOf pa))))))"

definition announce :: "deploy_world \<Rightarrow> parsed_args \<Rightarrow> jsstring \<Rightarrow> bytes \<Rightarrow> unit script" where
  "announce dw pa program bs =
     bindS (emit (E_print (js ''program   '' @ program))) (\<lambda>u1.
     bindS (emit (E_print (js ''binary    '' @ binary_path dw @ js '' ('' @ bigint_text (int (length bs)) @ js '' bytes, sha256 ''
              @ dw_sha256 dw bs @ js '', sbpf '' @ archOf pa @ js '')''))) (\<lambda>u2.
     emit (E_print (js ''cluster   '' @ clusterOf pa @ js '' via '' @ urlOf pa))))"

definition deploy :: "deploy_world \<Rightarrow> parsed_args \<Rightarrow> unit script" where
  "deploy dw pa =
     bindS (if flag_value pa ''skip-build'' = Some True then returnS () else buildProgram dw (archOf pa)) (\<lambda>u1.
     bindS (requireFile dw (binary_path dw)
              (js '' is missing. Build it first:'' @ [unit_of 10] @ js ''  cd program && cargo build-sbf --arch '' @ archOf pa)) (\<lambda>bs.
     bindS (requireFile dw (keypair_path dw) (js '' is missing. cargo build-sbf writes it; do not commit it.'')) (\<lambda>kp.
     bindS (execS dw ''solana-keygen'' [js ''pubkey'', keypair_path dw]) (\<lambda>out.
     let program = trim out in
     bindS (announce dw pa program bs) (\<lambda>u2.
     if flag_value pa ''dry-run'' = Some True
     then bindS (emit (E_print (js ''dry run: nothing was deployed''))) (\<lambda>u3. stopS (Exit 0))
     else publish dw pa program bs)))))"

definition deployScript :: "deploy_world \<Rightarrow> jsstring list \<Rightarrow> (stop + unit) \<times> event list" where
  "deployScript dw argv =
     (case parseArgs deploy_options False argv of
        Inl e \<Rightarrow> (Inl (Rejected e), [])
      | Inr pa \<Rightarrow> deploy dw pa [])"

section \<open>Dry runs and records\<close>

definition changes_nothing :: "event \<Rightarrow> bool" where
  "changes_nothing ev = (case ev of E_exec p args \<Rightarrow> p \<noteq> js ''solana'' | E_mkdir p \<Rightarrow> False | E_write p c \<Rightarrow> False | _ \<Rightarrow> True)"

definition quiet :: "'a script \<Rightarrow> bool" where
  "quiet m \<longleftrightarrow> (\<forall>evs. \<exists>more. snd (m evs) = evs @ more \<and> list_all changes_nothing more)"

lemma quiet_basic [intro]:
  "quiet (returnS x)" "quiet (stopS st)" "quiet (tryS r)" "changes_nothing ev \<Longrightarrow> quiet (emit ev)"
  by (auto simp: quiet_def returnS_def stopS_def tryS_def emit_def)

lemma quiet_bind [intro]:
  assumes "quiet m" "\<And>x. quiet (f x)" shows "quiet (bindS m f)"
  unfolding quiet_def
proof
  fix evs
  obtain r evs1 where m: "m evs = (r, evs1)" by fastforce
  obtain a where a: "evs1 = evs @ a" "list_all changes_nothing a" using assms(1) m unfolding quiet_def by (metis snd_conv)
  show "\<exists>more. snd (bindS m f evs) = evs @ more \<and> list_all changes_nothing more"
  proof (cases r)
    case (Inr x)
    obtain b where "snd (f x evs1) = evs1 @ b" "list_all changes_nothing b" using assms(2) unfolding quiet_def by blast
    then show ?thesis using m a Inr by (simp add: bindS_def)
  qed (use m a in \<open>simp add: bindS_def\<close>)
qed

lemma quiet_exec: "js program \<noteq> js ''solana'' \<Longrightarrow> quiet (execS dw program args)"
  unfolding execS_def by (intro quiet_bind quiet_basic) (simp add: changes_nothing_def)

lemma program_names: "js ''cargo'' \<noteq> js ''solana''" "js ''solana-keygen'' \<noteq> js ''solana''"
  by (simp_all add: js_def)

lemma quiet_steps [intro]:
  "quiet (buildProgram dw arch)" "quiet (requireFile dw path complaint)" "quiet (announce dw pa program bs)"
  by (auto simp: buildProgram_def requireFile_def announce_def changes_nothing_def program_names
      intro!: quiet_bind quiet_exec split: option.splits)

lemma quietD: "quiet m \<Longrightarrow> m evs = (r, evs') \<Longrightarrow> \<exists>more. evs' = evs @ more \<and> list_all changes_nothing more"
  unfolding quiet_def by (metis snd_conv)

lemma dry_run_quiet:
  assumes "flag_value pa ''dry-run'' = Some True" shows "quiet (deploy dw pa)"
  unfolding deploy_def using assms
  by (auto simp: Let_def changes_nothing_def program_names intro!: quiet_bind quiet_exec)

lemma publish_result:
  assumes "publish dw pa program bs evs = (Inr u, evs')"
  shows "evs' = evs @ [E_exec (js ''solana'') (deployArgs dw pa), E_mkdir (dw_path dw (js ''deployments'')),
       E_write (recordPath dw (clusterOf pa)) (stringify 0 (deploymentRecord dw pa program bs) @ [unit_of 10]),
       E_print (js ''wrote '' @ recordPath dw (clusterOf pa))]"
    "\<exists>out. dw_exec dw (js ''solana'') (deployArgs dw pa) = Inr out"
  using assms
  by (auto simp: publish_def execS_def bindS_def emit_def tryS_def split: sum.splits)

text \<open>The part before the programs change anything, and what it has found out.\<close>

lemma deploy_finished:
  assumes "deploy dw pa [] = (Inr u, evs')"
  obtains bs out evs where "dw_read dw (binary_path dw) = Some bs"
    "dw_exec dw (js ''solana-keygen'') [js ''pubkey'', keypair_path dw] = Inr out"
    "list_all changes_nothing evs" "publish dw pa (trim out) bs evs = (Inr u, evs')" "flag_value pa ''dry-run'' \<noteq> Some True"
proof -
  obtain x1 e1 where b: "(if flag_value pa ''skip-build'' = Some True then returnS () else buildProgram dw (archOf pa)) [] = (Inr x1, e1)"
    and r1: "bindS (requireFile dw (binary_path dw)
              (js '' is missing. Build it first:'' @ [unit_of 10] @ js ''  cd program && cargo build-sbf --arch '' @ archOf pa)) (\<lambda>bs.
     bindS (requireFile dw (keypair_path dw) (js '' is missing. cargo build-sbf writes it; do not commit it.'')) (\<lambda>kp.
     bindS (execS dw ''solana-keygen'' [js ''pubkey'', keypair_path dw]) (\<lambda>out.
     let program = trim out in
     bindS (announce dw pa program bs) (\<lambda>u2.
     if flag_value pa ''dry-run'' = Some True
     then bindS (emit (E_print (js ''dry run: nothing was deployed''))) (\<lambda>u3. stopS (Exit 0))
     else publish dw pa program bs)))) e1 = (Inr u, evs')"
    using assms unfolding deploy_def bindS_Inr by blast
  obtain bs e2 kp e3 out e4 x5 e5 where s: "requireFile dw (binary_path dw)
              (js '' is missing. Build it first:'' @ [unit_of 10] @ js ''  cd program && cargo build-sbf --arch '' @ archOf pa) e1 = (Inr bs, e2)"
    "requireFile dw (keypair_path dw) (js '' is missing. cargo build-sbf writes it; do not commit it.'') e2 = (Inr kp, e3)"
    "execS dw ''solana-keygen'' [js ''pubkey'', keypair_path dw] e3 = (Inr out, e4)"
    "announce dw pa (trim out) bs e4 = (Inr x5, e5)"
    and last: "(if flag_value pa ''dry-run'' = Some True
       then bindS (emit (E_print (js ''dry run: nothing was deployed''))) (\<lambda>u3. stopS (Exit 0))
       else publish dw pa (trim out) bs) e5 = (Inr u, evs')"
    using r1 unfolding bindS_Inr Let_def by blast
  have q1: "quiet (if flag_value pa ''skip-build'' = Some True then returnS () else buildProgram dw (archOf pa))"
    "quiet (execS dw ''solana-keygen'' [js ''pubkey'', keypair_path dw])"
    by (auto intro!: quiet_exec simp: program_names)
  obtain m1 where m1: "e1 = [] @ m1" "list_all changes_nothing m1" using quietD [OF q1(1) b] by blast
  obtain m2 where m2: "e2 = e1 @ m2" "list_all changes_nothing m2" using quietD [OF quiet_steps(2) s(1)] by blast
  obtain m3 where m3: "e3 = e2 @ m3" "list_all changes_nothing m3" using quietD [OF quiet_steps(2) s(2)] by blast
  obtain m4 where m4: "e4 = e3 @ m4" "list_all changes_nothing m4" using quietD [OF q1(2) s(3)] by blast
  obtain m5 where m5: "e5 = e4 @ m5" "list_all changes_nothing m5" using quietD [OF quiet_steps(3) s(4)] by blast
  have dry: "flag_value pa ''dry-run'' \<noteq> Some True" using last by (auto simp: stopS_def)
  have "dw_read dw (binary_path dw) = Some bs" using s(1)
    by (auto simp: requireFile_def returnS_def emit_def bindS_def stopS_def split: option.splits)
  moreover have "dw_exec dw (js ''solana-keygen'') [js ''pubkey'', keypair_path dw] = Inr out" using s(3)
    by (auto simp: execS_def emit_def bindS_def tryS_def split: sum.splits)
  moreover have "list_all changes_nothing e5" using m1 m2 m3 m4 m5 by simp
  moreover have "publish dw pa (trim out) bs e5 = (Inr u, evs')" using last dry by simp
  ultimately show thesis using dry by (rule that)
qed

lemma record_program_id:
  "property ''programId'' (deploymentRecord dw pa program bs) = Inr (Some (J_str program))"
  by (simp add: deploymentRecord_def property_def js_def)


definition sample_deploy :: deploy_world where
  "sample_deploy = \<lparr>dw_path = (\<lambda>p. p), dw_read = (\<lambda>p. Some [1, 2, 3]), dw_exec = (\<lambda>p args. Inr (js ''Prog1'' @ [unit_of 10])),
     dw_sha256 = (\<lambda>bs. js ''0f''), dw_now = js ''2025-01-01T00:00:00.000Z''\<rparr>"

lemma sample_trim: "trim (js ''Prog1'' @ [unit_of 10]) = js ''Prog1''"
  by (simp add: trim_def js_def is_space_def unit_in_def unit_of_def)


end
