(* ===== verification/ChainWorld.thy ===== *)
theory ChainWorld
  imports ChainData SdkProgram
begin

text \<open>
  What the on-chain program reads and writes: index accounts, mints and token accounts by
  address, with the account checks of \<open>program/src/guards.rs\<close>, the accessors of
  \<open>program/src/state.rs\<close> and the shared helpers of \<open>program/src/processor.rs\<close>. The token and
  system programs are reached by cross-program invocation; they are parameters, with the part of
  their documented behaviour the program relies on stated in \<open>token_contract\<close>.
\<close>

section \<open>State\<close>

record mint_account =
  m_authority :: "pubkey option"
  m_supply :: u64
  m_decimals :: u8
  m_freeze :: "pubkey option"

record token_account =
  t_mint :: pubkey
  t_owner :: pubkey
  t_delegate :: "pubkey option"
  t_amount :: u64

record world =
  w_indexes :: "pubkey \<Rightarrow> index option"
  w_mints :: "pubkey \<Rightarrow> mint_account option"
  w_tokens :: "pubkey \<Rightarrow> token_account option"

datatype program_error =
    Custom flock_error
  | NotEnoughAccountKeys
  | InvalidInstructionData
  | AccountAlreadyInitialized
  | AccountDataTooSmall
  | CpiFailed nat

type_synonym 'a prog = "program_error + 'a"

text \<open>An account passed to an instruction: its key and whether it signed.\<close>

record account_arg =
  ac_key :: pubkey
  ac_signer :: bool

text \<open>
  The invocations: transfer (source, destination, authority), mint (mint, destination,
  authority), burn (source, mint, authority), and account creation (payer, address; for a vault
  also the mint and the owner it is initialised with).
\<close>

record cpi =
  cpi_transfer :: "pubkey \<Rightarrow> pubkey \<Rightarrow> pubkey \<Rightarrow> u64 \<Rightarrow> world \<Rightarrow> world prog"
  cpi_mint_to :: "pubkey \<Rightarrow> pubkey \<Rightarrow> pubkey \<Rightarrow> u64 \<Rightarrow> world \<Rightarrow> world prog"
  cpi_burn :: "pubkey \<Rightarrow> pubkey \<Rightarrow> pubkey \<Rightarrow> u64 \<Rightarrow> world \<Rightarrow> world prog"
  cpi_create_index :: "pubkey \<Rightarrow> pubkey \<Rightarrow> index \<Rightarrow> world \<Rightarrow> world prog"
  cpi_create_vault :: "pubkey \<Rightarrow> pubkey \<Rightarrow> pubkey \<Rightarrow> pubkey \<Rightarrow> world \<Rightarrow> world prog"

record chain_env =
  ce_program :: pubkey
  ce_find_pda :: pda_finder
  ce_token_id :: pubkey
  ce_system_id :: pubkey
  ce_now :: i64
  ce_cpi :: cpi

definition fail :: "flock_error \<Rightarrow> 'a prog" where "fail e = Inl (Custom e)"

definition lift_err :: "flock_error + 'a \<Rightarrow> 'a prog" where
  "lift_err r = (case r of Inl e \<Rightarrow> Inl (Custom e) | Inr x \<Rightarrow> Inr x)"

section \<open>Guards\<close>

definition guard :: "bool \<Rightarrow> flock_error \<Rightarrow> unit prog" where
  "guard ok e = (if ok then Inr () else fail e)"

definition require_signer :: "account_arg \<Rightarrow> unit prog" where
  "require_signer a = guard (ac_signer a) MissingSignature"

definition require_key :: "account_arg \<Rightarrow> pubkey \<Rightarrow> unit prog" where
  "require_key a expected = guard (ac_key a = expected) SeedsMismatch"

definition require_token_program :: "chain_env \<Rightarrow> account_arg \<Rightarrow> unit prog" where
  "require_token_program env a = guard (ac_key a = ce_token_id env) InvalidTokenAccount"

definition require_system_program :: "chain_env \<Rightarrow> account_arg \<Rightarrow> unit prog" where
  "require_system_program env a = guard (ac_key a = ce_system_id env) InvalidTokenAccount"

definition read_mint :: "world \<Rightarrow> pubkey \<Rightarrow> mint_account prog" where
  "read_mint w k = (case w_mints w k of None \<Rightarrow> fail InvalidTokenAccount | Some m \<Rightarrow> Inr m)"

definition read_token_account :: "world \<Rightarrow> pubkey \<Rightarrow> token_account prog" where
  "read_token_account w k = (case w_tokens w k of None \<Rightarrow> fail InvalidTokenAccount | Some t \<Rightarrow> Inr t)"

definition require_token_account :: "world \<Rightarrow> pubkey \<Rightarrow> pubkey \<Rightarrow> pubkey \<Rightarrow> token_account prog" where
  "require_token_account w k mint owner =
     rbind (read_token_account w k) (\<lambda>t.
     if t_mint t \<noteq> mint \<or> t_owner t \<noteq> owner then fail InvalidTokenAccount else Inr t)"

definition require_token_account_of_mint :: "world \<Rightarrow> pubkey \<Rightarrow> pubkey \<Rightarrow> token_account prog" where
  "require_token_account_of_mint w k mint =
     rbind (read_token_account w k) (\<lambda>t. if t_mint t \<noteq> mint then fail InvalidTokenAccount else Inr t)"

section \<open>The index account\<close>

definition index_ref :: "world \<Rightarrow> pubkey \<Rightarrow> index prog" where
  "index_ref w k =
     (case w_indexes w k of
        None \<Rightarrow> fail InvalidAccountOwner
      | Some x \<Rightarrow> if x_tag x \<noteq> TAG_INDEX \<or> x_version x \<noteq> STATE_VERSION then fail InvalidAccountOwner else Inr x)"

definition set_index :: "pubkey \<Rightarrow> index \<Rightarrow> world \<Rightarrow> world" where
  "set_index k x w = w\<lparr>w_indexes := (w_indexes w)(k \<mapsto> x)\<rparr>"

text \<open>\<open>index_mut\<close>, an update, and the write back.\<close>

definition index_update :: "pubkey \<Rightarrow> (index \<Rightarrow> index) \<Rightarrow> world \<Rightarrow> world prog" where
  "index_update k f w = rbind (index_ref w k) (\<lambda>x. Inr (set_index k (f x) w))"

definition count :: "index \<Rightarrow> nat" where "count x = unat (x_component_count x)"

definition components_of :: "index \<Rightarrow> component list" where
  "components_of x = take (count x) (x_components x)"

definition component_at :: "index \<Rightarrow> nat \<Rightarrow> component prog" where
  "component_at x i = (if count x \<le> i then fail UnknownComponent else Inr (x_components x ! i))"

definition find_component :: "index \<Rightarrow> pubkey \<Rightarrow> bool" where
  "find_component x mint = list_ex (\<lambda>c. c_mint c = mint) (components_of x)"

definition is_live :: "index \<Rightarrow> unit prog" where
  "is_live x =
     (if x_state x = STATE_LIVE then Inr ()
      else if x_state x = STATE_PAUSED then fail Paused
      else fail NotSealed)"

definition index_pda :: "chain_env \<Rightarrow> pubkey \<Rightarrow> pubkey \<times> nat" where
  "index_pda env m = ce_find_pda env [SEED_INDEX, key_bytes m] (ce_program env)"

definition vault_pda :: "chain_env \<Rightarrow> pubkey \<Rightarrow> pubkey \<Rightarrow> pubkey \<times> nat" where
  "vault_pda env m c = ce_find_pda env [SEED_VAULT, key_bytes m, key_bytes c] (ce_program env)"

section \<open>Shared helpers\<close>

definition check_index_pda :: "chain_env \<Rightarrow> account_arg \<Rightarrow> pubkey \<Rightarrow> unit prog" where
  "check_index_pda env index_info index_mint = require_key index_info (fst (index_pda env index_mint))"

definition MAX_STREAMING_FEE_BPS :: u16 where "MAX_STREAMING_FEE_BPS = 500"
definition MAX_MINT_REDEEM_FEE_BPS :: u16 where "MAX_MINT_REDEEM_FEE_BPS = 100"
definition MAX_PREMIUM_CEILING_BPS :: u16 where "MAX_PREMIUM_CEILING_BPS = 1000"
definition MIN_REBALANCE_DELAY :: u32 where "MIN_REBALANCE_DELAY = 300"
definition MAX_AUCTION_DURATION :: u32 where "MAX_AUCTION_DURATION = 604800"

definition check_fees :: "u16 \<Rightarrow> u16 \<Rightarrow> u16 \<Rightarrow> u16 \<Rightarrow> u32 \<Rightarrow> unit prog" where
  "check_fees streaming issue_fee redeem_fee premium delay =
     (if streaming > MAX_STREAMING_FEE_BPS \<or> issue_fee > MAX_MINT_REDEEM_FEE_BPS
         \<or> redeem_fee > MAX_MINT_REDEEM_FEE_BPS \<or> premium > MAX_PREMIUM_CEILING_BPS then fail FeeTooHigh
      else if delay < MIN_REBALANCE_DELAY then fail TimelockNotMet
      else Inr ())"

text \<open>The balances of the vaults in table order, each checked against its address, mint and owner.\<close>

definition verify_vault :: "chain_env \<Rightarrow> pubkey \<Rightarrow> pubkey \<Rightarrow> world \<Rightarrow> component \<times> account_arg \<Rightarrow> u64 prog" where
  "verify_vault env index_key index_mint w = (\<lambda>(c, vault).
     rbind (require_key vault (fst (vault_pda env index_mint (c_mint c)))) (\<lambda>u.
     rbind (require_token_account w (ac_key vault) (c_mint c) index_key) (\<lambda>t. Inr (t_amount t))))"

definition verify_vaults :: "chain_env \<Rightarrow> pubkey \<Rightarrow> pubkey \<Rightarrow> account_arg list \<Rightarrow> world \<Rightarrow> u64 list prog" where
  "verify_vaults env index_key index_mint vaults w =
     rbind (index_ref w index_key) (\<lambda>x.
     if length vaults \<noteq> count x then fail ArityMismatch
     else rmapM (verify_vault env index_key index_mint w) (zip (components_of x) vaults))"

definition set_units :: "index \<Rightarrow> nat \<Rightarrow> u64 \<Rightarrow> index" where
  "set_units x i u = x\<lparr>x_components := (x_components x)[i := (x_components x ! i)\<lparr>c_units := u\<rparr>]\<rparr>"

definition sync_units :: "pubkey \<Rightarrow> u64 list \<Rightarrow> u64 \<Rightarrow> world \<Rightarrow> world prog" where
  "sync_units index_key balances supply w =
     (if supply = 0 then Inr w
      else rbind (index_ref w index_key) (\<lambda>x.
           rbind (rfold (\<lambda>y i. rbind (lift_err (units_from_balance (balances ! i) supply)) (\<lambda>u. Inr (set_units y i u)))
                    x [0..<count x]) (\<lambda>x'. Inr (set_index index_key x' w))))"

definition checked_add_u128 :: "u128 \<Rightarrow> u128 \<Rightarrow> flock_error + u128" where
  "checked_add_u128 a b = (if uint a + uint b < 2 ^ 128 then Inr (a + b) else Inl MathOverflow)"

definition checked_add_u64 :: "u64 \<Rightarrow> u64 \<Rightarrow> flock_error + u64" where
  "checked_add_u64 a b = (if uint a + uint b < 2 ^ 64 then Inr (a + b) else Inl MathOverflow)"

definition nav_e6 :: "pubkey \<Rightarrow> u64 list \<Rightarrow> world \<Rightarrow> u64 prog" where
  "nav_e6 index_key balances w =
     rbind (index_ref w index_key) (\<lambda>x.
     rbind (rfold (\<lambda>total i. lift_err
              (rbind (value_e9 (balances ! i) (c_decimals (x_components x ! i)) (c_ref_price_e9 (x_components x ! i)))
                 (checked_add_u128 total))) 0 [0..<count x]) (\<lambda>total.
     lift_err (to_u64 (total div 1000))))"

definition transfer_from_vault :: "chain_env \<Rightarrow> pubkey \<Rightarrow> pubkey \<Rightarrow> pubkey \<Rightarrow> u64 \<Rightarrow> world \<Rightarrow> world prog" where
  "transfer_from_vault env vault dest index_authority amount w =
     (if amount = 0 then Inr w else cpi_transfer (ce_cpi env) vault dest index_authority amount w)"

definition transfer_from_user :: "chain_env \<Rightarrow> pubkey \<Rightarrow> pubkey \<Rightarrow> pubkey \<Rightarrow> u64 \<Rightarrow> world \<Rightarrow> world prog" where
  "transfer_from_user env src vault user amount w =
     (if amount = 0 then Inr w else cpi_transfer (ce_cpi env) src vault user amount w)"

definition mint_index_tokens :: "chain_env \<Rightarrow> pubkey \<Rightarrow> pubkey \<Rightarrow> pubkey \<Rightarrow> u64 \<Rightarrow> world \<Rightarrow> world prog" where
  "mint_index_tokens env mint dest index_authority amount w =
     (if amount = 0 then Inr w else cpi_mint_to (ce_cpi env) mint dest index_authority amount w)"

definition burn_index_tokens :: "chain_env \<Rightarrow> pubkey \<Rightarrow> pubkey \<Rightarrow> pubkey \<Rightarrow> u64 \<Rightarrow> world \<Rightarrow> world prog" where
  "burn_index_tokens env mint src user amount w = cpi_burn (ce_cpi env) src mint user amount w"

text \<open>\<open>now.saturating_sub(last)\<close>\<close>

definition saturating_sub :: "i64 \<Rightarrow> i64 \<Rightarrow> i64" where
  "saturating_sub a b =
     (let d = sint a - sint b in
      if d < - (2 ^ 63) then word_of_int (- (2 ^ 63)) else if 2 ^ 63 \<le> d then word_of_int (2 ^ 63 - 1) else a - b)"

definition accrue :: "chain_env \<Rightarrow> pubkey \<Rightarrow> pubkey \<Rightarrow> pubkey \<Rightarrow> world \<Rightarrow> (u64 \<times> world) prog" where
  "accrue env index_key index_mint fee_ata w =
     rbind (index_ref w index_key) (\<lambda>x.
     rbind (read_mint w index_mint) (\<lambda>m.
     rbind (lift_err (streaming_fee_tokens (m_supply m) (x_streaming_fee_bps x)
              (saturating_sub (ce_now env) (x_last_fee_accrual x)))) (\<lambda>owed.
     rbind (index_update index_key (\<lambda>y. y\<lparr>x_last_fee_accrual := ce_now env\<rparr>) w) (\<lambda>w1.
     if owed = 0 then Inr (0, w1)
     else rbind (require_token_account w1 fee_ata index_mint (x_fee_recipient x)) (\<lambda>t.
          rbind (mint_index_tokens env index_mint fee_ata index_key owed w1) (\<lambda>w2. Inr (owed, w2)))))))"

section \<open>The token program\<close>

definition credit :: "u64 \<Rightarrow> token_account \<Rightarrow> token_account" where
  "credit n t = t\<lparr>t_amount := t_amount t + n\<rparr>"
definition debit :: "u64 \<Rightarrow> token_account \<Rightarrow> token_account" where
  "debit n t = t\<lparr>t_amount := t_amount t - n\<rparr>"

definition may_spend :: "pubkey \<Rightarrow> token_account \<Rightarrow> bool" where
  "may_spend a t \<longleftrightarrow> t_owner t = a \<or> t_delegate t = Some a"

text \<open>
  What SPL Token documents: a transfer needs the authority of the source's owner or delegate and
  enough funds, and moves exactly the amount between accounts of one mint; minting needs the mint
  authority and creates exactly the amount; burning needs authority and funds and destroys
  exactly the amount. Nothing else changes. (A delegate's remaining allowance is not tracked.)
\<close>

definition transfer_spec :: "pubkey \<Rightarrow> pubkey \<Rightarrow> pubkey \<Rightarrow> u64 \<Rightarrow> world \<Rightarrow> world \<Rightarrow> bool" where
  "transfer_spec src dst auth n w w' \<longleftrightarrow>
     (\<exists>s d. w_tokens w src = Some s \<and> w_tokens w dst = Some d \<and> may_spend auth s \<and> t_mint s = t_mint d
        \<and> uint n \<le> uint (t_amount s)
        \<and> (if src = dst then w' = w
           else uint (t_amount d) + uint n < 2 ^ 64
             \<and> w' = w\<lparr>w_tokens := (w_tokens w)(src \<mapsto> debit n s, dst \<mapsto> credit n d)\<rparr>))"

definition mint_spec :: "pubkey \<Rightarrow> pubkey \<Rightarrow> pubkey \<Rightarrow> u64 \<Rightarrow> world \<Rightarrow> world \<Rightarrow> bool" where
  "mint_spec mint dst auth n w w' \<longleftrightarrow>
     (\<exists>m d. w_mints w mint = Some m \<and> w_tokens w dst = Some d \<and> t_mint d = mint \<and> m_authority m = Some auth
        \<and> uint (m_supply m) + uint n < 2 ^ 64 \<and> uint (t_amount d) + uint n < 2 ^ 64
        \<and> w' = w\<lparr>w_mints := (w_mints w)(mint \<mapsto> m\<lparr>m_supply := m_supply m + n\<rparr>),
                 w_tokens := (w_tokens w)(dst \<mapsto> credit n d)\<rparr>)"

definition burn_spec :: "pubkey \<Rightarrow> pubkey \<Rightarrow> pubkey \<Rightarrow> u64 \<Rightarrow> world \<Rightarrow> world \<Rightarrow> bool" where
  "burn_spec src mint auth n w w' \<longleftrightarrow>
     (\<exists>m s. w_mints w mint = Some m \<and> w_tokens w src = Some s \<and> t_mint s = mint \<and> may_spend auth s
        \<and> uint n \<le> uint (t_amount s) \<and> uint n \<le> uint (m_supply m)
        \<and> w' = w\<lparr>w_mints := (w_mints w)(mint \<mapsto> m\<lparr>m_supply := m_supply m - n\<rparr>),
                 w_tokens := (w_tokens w)(src \<mapsto> debit n s)\<rparr>)"

text \<open>Creating an account needs an address not in use; a vault starts empty and undelegated.\<close>

definition create_vault_spec :: "pubkey \<Rightarrow> pubkey \<Rightarrow> pubkey \<Rightarrow> world \<Rightarrow> world \<Rightarrow> bool" where
  "create_vault_spec k mint owner w w' \<longleftrightarrow>
     w_tokens w k = None \<and> w_mints w k = None \<and> w_indexes w k = None
     \<and> w' = w\<lparr>w_tokens := (w_tokens w)(k \<mapsto> \<lparr>t_mint = mint, t_owner = owner, t_delegate = None, t_amount = 0\<rparr>)\<rparr>"

definition create_index_spec :: "pubkey \<Rightarrow> index \<Rightarrow> world \<Rightarrow> world \<Rightarrow> bool" where
  "create_index_spec k x w w' \<longleftrightarrow>
     w_tokens w k = None \<and> w_mints w k = None \<and> w_indexes w k = None \<and> w' = set_index k x w"

definition token_contract :: "cpi \<Rightarrow> bool" where
  "token_contract t \<longleftrightarrow>
     (\<forall>src dst auth n w w'. cpi_transfer t src dst auth n w = Inr w' \<longrightarrow> transfer_spec src dst auth n w w')
   \<and> (\<forall>mint dst auth n w w'. cpi_mint_to t mint dst auth n w = Inr w' \<longrightarrow> mint_spec mint dst auth n w w')
   \<and> (\<forall>src mint auth n w w'. cpi_burn t src mint auth n w = Inr w' \<longrightarrow> burn_spec src mint auth n w w')
   \<and> (\<forall>p k m owner w w'. cpi_create_vault t p k m owner w = Inr w' \<longrightarrow> create_vault_spec k m owner w w')
   \<and> (\<forall>p k x w w'. cpi_create_index t p k x w = Inr w' \<longrightarrow> create_index_spec k x w w')"

end
