(* ===== verification/ChainProcessor.thy ===== *)
theory ChainProcessor
  imports ChainWorld
begin

text \<open>
  \<open>program/src/processor.rs\<close>: the twelve handlers and their dispatch, check by check in the
  order of the source. A handler maps the world to an error or to the world after it; an error
  leaves no trace, as the runtime rolls a failed transaction back.
\<close>

section \<open>Creation\<close>

definition zero_key :: pubkey where "zero_key = PublicKey (replicate 32 0)"

definition zero_component :: component where
  "zero_component = \<lparr>c_mint = zero_key, c_units = 0, c_target_units = 0, c_ref_price_e9 = 0, c_decimals = 0, c_vault_bump = 0\<rparr>"

definition default_rebalance :: rebalance where
  "default_rebalance = \<lparr>r_proposer = zero_key, r_proposed_at = 0, r_start_ts = 0, r_end_ts = 0, r_nav_floor_e6 = 0,
     r_start_premium_bps = 0, r_end_premium_bps = 0, r_max_nav_loss_bps = 0, r_active = 0\<rparr>"

text \<open>A freshly created account is all zeroes.\<close>

definition zero_index :: index where
  "zero_index = \<lparr>x_index_mint = zero_key, x_governor = zero_key, x_manager = zero_key, x_fee_recipient = zero_key,
     x_last_fee_accrual = 0, x_created_at = 0, x_rebalance_delay = 0, x_streaming_fee_bps = 0, x_issue_fee_bps = 0,
     x_redeem_fee_bps = 0, x_max_premium_bps = 0, x_tag = 0, x_version = 0, x_bump = 0, x_state = 0, x_decimals = 0,
     x_component_count = 0, x_name = replicate 32 0, x_symbol = replicate 12 0,
     x_components = replicate ChainData.MAX_COMPONENTS zero_component, x_rebalance = default_rebalance\<rparr>"

record init_params =
  ip_name :: bytes
  ip_symbol :: bytes
  ip_streaming_fee_bps :: u16
  ip_issue_fee_bps :: u16
  ip_redeem_fee_bps :: u16
  ip_max_premium_bps :: u16
  ip_rebalance_delay :: u32

definition write_init ::
  "chain_env \<Rightarrow> nat \<Rightarrow> pubkey \<Rightarrow> pubkey \<Rightarrow> pubkey \<Rightarrow> pubkey \<Rightarrow> init_params \<Rightarrow> index \<Rightarrow> index" where
  "write_init env bump mint governor manager fee_recipient p x =
     x\<lparr>x_tag := TAG_INDEX, x_version := STATE_VERSION, x_bump := of_nat bump, x_state := STATE_BOOTSTRAPPING,
       x_decimals := INDEX_DECIMALS, x_index_mint := mint, x_governor := governor, x_manager := manager,
       x_fee_recipient := fee_recipient, x_streaming_fee_bps := ip_streaming_fee_bps p,
       x_issue_fee_bps := ip_issue_fee_bps p, x_redeem_fee_bps := ip_redeem_fee_bps p,
       x_max_premium_bps := ip_max_premium_bps p, x_rebalance_delay := ip_rebalance_delay p,
       x_last_fee_accrual := ce_now env, x_created_at := ce_now env, x_name := ip_name p, x_symbol := ip_symbol p\<rparr>"

definition init_index :: "chain_env \<Rightarrow> account_arg list \<Rightarrow> init_params \<Rightarrow> world \<Rightarrow> world prog" where
  "init_index env accounts p w =
     (case accounts of
        payer # index_info # index_mint_info # governor # manager # fee_recipient # system_program # rest \<Rightarrow>
          rbind (require_signer payer) (\<lambda>u1.
          rbind (require_system_program env system_program) (\<lambda>u2.
          rbind (check_fees (ip_streaming_fee_bps p) (ip_issue_fee_bps p) (ip_redeem_fee_bps p)
                   (ip_max_premium_bps p) (ip_rebalance_delay p)) (\<lambda>u3.
          let index_key = fst (index_pda env (ac_key index_mint_info));
              bump = snd (index_pda env (ac_key index_mint_info)) in
          rbind (require_key index_info index_key) (\<lambda>u4.
          if w_indexes w (ac_key index_info) \<noteq> None then Inl AccountAlreadyInitialized
          else rbind (read_mint w (ac_key index_mint_info)) (\<lambda>m.
          if m_decimals m \<noteq> INDEX_DECIMALS \<or> m_supply m \<noteq> 0 \<or> m_freeze m \<noteq> None \<or> m_authority m \<noteq> Some index_key
          then fail InvalidIndexMint
          else rbind (cpi_create_index (ce_cpi env) (ac_key payer) index_key zero_index w) (\<lambda>w1.
          case w_indexes w1 (ac_key index_info) of
            None \<Rightarrow> Inl AccountDataTooSmall
          | Some x \<Rightarrow>
              Inr (set_index (ac_key index_info)
                (write_init env bump (ac_key index_mint_info) (ac_key governor) (ac_key manager) (ac_key fee_recipient) p x) w1)))))))
      | _ \<Rightarrow> Inl NotEnoughAccountKeys)"

definition add_component :: "chain_env \<Rightarrow> account_arg list \<Rightarrow> u64 \<Rightarrow> world \<Rightarrow> world prog" where
  "add_component env accounts units w =
     (case accounts of
        manager # payer # index_info # index_mint_info # component_mint_info # vault_info # system_program # token_program # rest \<Rightarrow>
          rbind (require_signer manager) (\<lambda>u1.
          rbind (require_signer payer) (\<lambda>u2.
          rbind (require_system_program env system_program) (\<lambda>u3.
          rbind (require_token_program env token_program) (\<lambda>u4.
          rbind (check_index_pda env index_info (ac_key index_mint_info)) (\<lambda>u5.
          if units = 0 then fail ZeroAmount
          else rbind (index_ref w (ac_key index_info)) (\<lambda>x.
          if x_manager x \<noteq> ac_key manager then fail NotManager
          else if x_state x \<noteq> STATE_BOOTSTRAPPING then fail AlreadySealed
          else if ChainData.MAX_COMPONENTS \<le> count x then fail TooManyComponents
          else if find_component x (ac_key component_mint_info) then fail DuplicateComponent
          else rbind (read_mint w (ac_key component_mint_info)) (\<lambda>m.
          let vault_key = fst (vault_pda env (ac_key index_mint_info) (ac_key component_mint_info));
              vault_bump = snd (vault_pda env (ac_key index_mint_info) (ac_key component_mint_info)) in
          rbind (require_key vault_info vault_key) (\<lambda>u6.
          rbind (cpi_create_vault (ce_cpi env) (ac_key payer) vault_key (ac_key component_mint_info) (ac_key index_info) w) (\<lambda>w1.
          index_update (ac_key index_info) (\<lambda>y.
            y\<lparr>x_components := (x_components y)[count y :=
                \<lparr>c_mint = ac_key component_mint_info, c_units = units, c_target_units = units, c_ref_price_e9 = 0,
                 c_decimals = m_decimals m, c_vault_bump = of_nat vault_bump\<rparr>],
              x_component_count := x_component_count y + 1\<rparr>) w1)))))))))
      | _ \<Rightarrow> Inl NotEnoughAccountKeys)"

definition seal_index :: "chain_env \<Rightarrow> account_arg list \<Rightarrow> world \<Rightarrow> world prog" where
  "seal_index env accounts w =
     (case accounts of
        manager # index_info # index_mint_info # rest \<Rightarrow>
          rbind (require_signer manager) (\<lambda>u1.
          rbind (check_index_pda env index_info (ac_key index_mint_info)) (\<lambda>u2.
          rbind (index_ref w (ac_key index_info)) (\<lambda>x.
          if x_manager x \<noteq> ac_key manager then fail NotManager
          else if x_state x \<noteq> STATE_BOOTSTRAPPING then fail AlreadySealed
          else if x_component_count x = 0 then fail UnknownComponent
          else Inr (set_index (ac_key index_info)
                 (x\<lparr>x_state := STATE_LIVE, x_last_fee_accrual := ce_now env\<rparr>) w))))
      | _ \<Rightarrow> Inl NotEnoughAccountKeys)"

section \<open>Issuance and redemption\<close>

text \<open>The vaults and the user accounts alternate in the tail of the account list.\<close>

definition vault_args :: "nat \<Rightarrow> account_arg list \<Rightarrow> account_arg list" where
  "vault_args n rest = map (\<lambda>i. rest ! (i * 2)) [0..<n]"

definition issue_leg ::
  "chain_env \<Rightarrow> pubkey \<Rightarrow> pubkey \<Rightarrow> account_arg list \<Rightarrow> u64 \<Rightarrow> u64 list \<Rightarrow> world \<Rightarrow> nat \<Rightarrow> world prog" where
  "issue_leg env index_key user rest gross max_in w i =
     rbind (index_ref w index_key) (\<lambda>x.
     rbind (component_at x i) (\<lambda>c.
     rbind (lift_err (units_in (c_units c) gross)) (\<lambda>required.
     if required > max_in ! i then fail SlippageExceeded
     else rbind (require_token_account_of_mint w (ac_key (rest ! (i * 2 + 1))) (c_mint c)) (\<lambda>t.
          transfer_from_user env (ac_key (rest ! (i * 2 + 1))) (ac_key (rest ! (i * 2))) user required w))))"

text \<open>Reading the vaults and the supply and refreshing the cached units, at the start and the end.\<close>

definition refresh :: "chain_env \<Rightarrow> pubkey \<Rightarrow> pubkey \<Rightarrow> account_arg list \<Rightarrow> world \<Rightarrow> world prog" where
  "refresh env index_key index_mint vaults w =
     rbind (verify_vaults env index_key index_mint vaults w) (\<lambda>balances.
     rbind (read_mint w index_mint) (\<lambda>m.
     sync_units index_key balances (m_supply m) w))"

definition mint_fee :: "chain_env \<Rightarrow> pubkey \<Rightarrow> pubkey \<Rightarrow> pubkey \<Rightarrow> u64 \<Rightarrow> world \<Rightarrow> world prog" where
  "mint_fee env index_key index_mint fee_ata fee_tokens w =
     (if fee_tokens > 0 then
        rbind (index_ref w index_key) (\<lambda>x.
        rbind (require_token_account w fee_ata index_mint (x_fee_recipient x)) (\<lambda>t.
        mint_index_tokens env index_mint fee_ata index_key fee_tokens w))
      else Inr w)"

definition issue_tokens :: "chain_env \<Rightarrow> account_arg list \<Rightarrow> u64 \<Rightarrow> u64 list \<Rightarrow> world \<Rightarrow> world prog" where
  "issue_tokens env accounts amount max_in w =
     (case accounts of
        user # index_info # index_mint_info # user_index_ata # fee_ata # token_program # rest \<Rightarrow>
          (let index_key = ac_key index_info; index_mint = ac_key index_mint_info in
          rbind (require_signer user) (\<lambda>u1.
          rbind (require_token_program env token_program) (\<lambda>u2.
          rbind (check_index_pda env index_info index_mint) (\<lambda>u3.
          if amount = 0 then fail ZeroAmount
          else rbind (index_ref w index_key) (\<lambda>x.
          rbind (is_live x) (\<lambda>u4.
          let n = count x in
          if length max_in \<noteq> n \<or> length rest \<noteq> n * 2 then fail ArityMismatch
          else rbind (require_token_account_of_mint w (ac_key user_index_ata) index_mint) (\<lambda>t1.
          rbind (accrue env index_key index_mint (ac_key fee_ata) w) (\<lambda>(minted, w1).
          let vaults = vault_args n rest in
          rbind (refresh env index_key index_mint vaults w1) (\<lambda>w2.
          rbind (lift_err (rbind (mul_div_ceil (ucast amount) (ucast (x_issue_fee_bps x)) bps_whole) to_u64)) (\<lambda>fee_tokens.
          rbind (lift_err (checked_add_u64 amount fee_tokens)) (\<lambda>gross.
          rbind (rfold (issue_leg env index_key (ac_key user) rest gross max_in) w2 [0..<n]) (\<lambda>w3.
          rbind (mint_index_tokens env index_mint (ac_key user_index_ata) index_key amount w3) (\<lambda>w4.
          rbind (mint_fee env index_key index_mint (ac_key fee_ata) fee_tokens w4) (\<lambda>w5.
          refresh env index_key index_mint vaults w5))))))))))))))
      | _ \<Rightarrow> Inl NotEnoughAccountKeys)"

definition redeem_leg ::
  "chain_env \<Rightarrow> pubkey \<Rightarrow> account_arg list \<Rightarrow> u64 \<Rightarrow> u64 list \<Rightarrow> world \<Rightarrow> nat \<Rightarrow> world prog" where
  "redeem_leg env index_key rest net min_out w i =
     rbind (index_ref w index_key) (\<lambda>x.
     rbind (component_at x i) (\<lambda>c.
     rbind (lift_err (units_out (c_units c) net)) (\<lambda>payout.
     if payout < min_out ! i then fail SlippageExceeded
     else rbind (require_token_account_of_mint w (ac_key (rest ! (i * 2 + 1))) (c_mint c)) (\<lambda>t.
          transfer_from_vault env (ac_key (rest ! (i * 2))) (ac_key (rest ! (i * 2 + 1))) index_key payout w))))"

definition redeem_tokens :: "chain_env \<Rightarrow> account_arg list \<Rightarrow> u64 \<Rightarrow> u64 list \<Rightarrow> world \<Rightarrow> world prog" where
  "redeem_tokens env accounts amount min_out w =
     (case accounts of
        user # index_info # index_mint_info # user_index_ata # fee_ata # token_program # rest \<Rightarrow>
          (let index_key = ac_key index_info; index_mint = ac_key index_mint_info in
          rbind (require_signer user) (\<lambda>u1.
          rbind (require_token_program env token_program) (\<lambda>u2.
          rbind (check_index_pda env index_info index_mint) (\<lambda>u3.
          if amount = 0 then fail ZeroAmount
          else rbind (index_ref w index_key) (\<lambda>x.
          if x_state x = STATE_BOOTSTRAPPING then fail NotSealed
          else let n = count x in
          if length min_out \<noteq> n \<or> length rest \<noteq> n * 2 then fail ArityMismatch
          else rbind (require_token_account_of_mint w (ac_key user_index_ata) index_mint) (\<lambda>t1.
          rbind (accrue env index_key index_mint (ac_key fee_ata) w) (\<lambda>(minted, w1).
          let vaults = vault_args n rest in
          rbind (verify_vaults env index_key index_mint vaults w1) (\<lambda>balances.
          rbind (read_mint w1 index_mint) (\<lambda>m.
          if m_supply m < amount then fail SupplyTooSmall
          else rbind (sync_units index_key balances (m_supply m) w1) (\<lambda>w2.
          rbind (lift_err (rbind (mul_div_ceil (ucast amount) (ucast (x_redeem_fee_bps x)) bps_whole) to_u64)) (\<lambda>fee_tokens.
          if amount < fee_tokens then fail MathOverflow
          else let net = amount - fee_tokens in
          rbind (burn_index_tokens env index_mint (ac_key user_index_ata) (ac_key user) amount w2) (\<lambda>w3.
          rbind (mint_fee env index_key index_mint (ac_key fee_ata) fee_tokens w3) (\<lambda>w4.
          rbind (rfold (redeem_leg env index_key rest net min_out) w4 [0..<n]) (\<lambda>w5.
          refresh env index_key index_mint vaults w5))))))))))))))
      | _ \<Rightarrow> Inl NotEnoughAccountKeys)"

definition accrue_fees_ix :: "chain_env \<Rightarrow> account_arg list \<Rightarrow> world \<Rightarrow> world prog" where
  "accrue_fees_ix env accounts w =
     (case accounts of
        index_info # index_mint_info # fee_ata # token_program # vaults \<Rightarrow>
          (let index_key = ac_key index_info; index_mint = ac_key index_mint_info in
          rbind (require_token_program env token_program) (\<lambda>u1.
          rbind (check_index_pda env index_info index_mint) (\<lambda>u2.
          rbind (index_ref w index_key) (\<lambda>x.
          if x_state x = STATE_BOOTSTRAPPING then fail NotSealed
          else rbind (accrue env index_key index_mint (ac_key fee_ata) w) (\<lambda>(minted, w1).
          refresh env index_key index_mint vaults w1)))))
      | _ \<Rightarrow> Inl NotEnoughAccountKeys)"

section \<open>Rebalancing\<close>

record auction_params =
  ap_duration :: u32
  ap_start_premium_bps :: i16
  ap_end_premium_bps :: i16
  ap_max_nav_loss_bps :: u16

definition checked_add_i64 :: "i64 \<Rightarrow> int \<Rightarrow> flock_error + i64" where
  "checked_add_i64 a n =
     (if - (2 ^ 63) \<le> sint a + n \<and> sint a + n < 2 ^ 63 then Inr (word_of_int (sint a + n)) else Inl MathOverflow)"

definition set_targets :: "u64 list \<Rightarrow> u64 list \<Rightarrow> index \<Rightarrow> index" where
  "set_targets target_units ref_prices x =
     foldl (\<lambda>y i. y\<lparr>x_components := (x_components y)[i := (x_components y ! i)
              \<lparr>c_ref_price_e9 := ref_prices ! i, c_target_units := target_units ! i\<rparr>]\<rparr>) x [0..<count x]"

definition propose_rebalance ::
  "chain_env \<Rightarrow> account_arg list \<Rightarrow> u64 list \<Rightarrow> u64 list \<Rightarrow> auction_params \<Rightarrow> world \<Rightarrow> world prog" where
  "propose_rebalance env accounts target_units ref_prices p w =
     (case accounts of
        manager # index_info # index_mint_info # vaults \<Rightarrow>
          (let index_key = ac_key index_info; index_mint = ac_key index_mint_info in
          rbind (require_signer manager) (\<lambda>u1.
          rbind (check_index_pda env index_info index_mint) (\<lambda>u2.
          rbind (index_ref w index_key) (\<lambda>x.
          if x_manager x \<noteq> ac_key manager then fail NotManager
          else rbind (is_live x) (\<lambda>u3.
          if r_active (x_rebalance x) \<noteq> 0 then fail RebalanceActive
          else if length target_units \<noteq> count x \<or> length ref_prices \<noteq> count x then fail ArityMismatch
          else if ap_duration p = 0 \<or> ap_duration p > MAX_AUCTION_DURATION then fail InvalidPremium
          else if sint (ap_start_premium_bps p) > sint (ap_end_premium_bps p)
            \<or> sint (ap_end_premium_bps p) > sint (x_max_premium_bps x)
            \<or> sint (ap_start_premium_bps p) < sint (- x_max_premium_bps x)
            \<or> ap_max_nav_loss_bps p > x_max_premium_bps x then fail InvalidPremium
          else if list_ex (\<lambda>price. price = 0) ref_prices then fail InvalidPrice
          else rbind (verify_vaults env index_key index_mint vaults w) (\<lambda>balances.
          rbind (index_update index_key (set_targets target_units ref_prices) w) (\<lambda>w1.
          rbind (nav_e6 index_key balances w1) (\<lambda>nav.
          rbind (lift_err (checked_add_i64 (ce_now env) (uint (x_rebalance_delay x)))) (\<lambda>start_ts.
          rbind (lift_err (checked_add_i64 start_ts (uint (ap_duration p)))) (\<lambda>end_ts.
          rbind (lift_err (rbind (mul_div_floor (ucast nav) (bps_whole - ucast (ap_max_nav_loss_bps p)) bps_whole) to_u64)) (\<lambda>nav_floor.
          index_update index_key (\<lambda>y. y\<lparr>x_rebalance :=
            \<lparr>r_proposer = ac_key manager, r_proposed_at = ce_now env, r_start_ts = start_ts, r_end_ts = end_ts,
             r_nav_floor_e6 = nav_floor, r_start_premium_bps = ap_start_premium_bps p,
             r_end_premium_bps = ap_end_premium_bps p, r_max_nav_loss_bps = ap_max_nav_loss_bps p, r_active = 1\<rparr>\<rparr>) w1)))))))))))
      | _ \<Rightarrow> Inl NotEnoughAccountKeys)"

text \<open>\<open>to_u64(mul_div_floor(a, b, d)?)?\<close> of two \<open>u64\<close>s.\<close>

definition scaled :: "u64 \<Rightarrow> u128 \<Rightarrow> u128 \<Rightarrow> u64 prog" where
  "scaled a b d = lift_err (rbind (mul_div_floor (ucast a) b d) to_u64)"

definition place_bid :: "chain_env \<Rightarrow> account_arg list \<Rightarrow> u8 \<Rightarrow> u8 \<Rightarrow> u64 \<Rightarrow> u64 \<Rightarrow> world \<Rightarrow> world prog" where
  "place_bid env accounts sell_component buy_component sell_amount max_buy_amount w =
     (case accounts of
        bidder # index_info # index_mint_info # bidder_receive # bidder_pay # token_program # vaults \<Rightarrow>
          (let index_key = ac_key index_info; index_mint = ac_key index_mint_info;
               s = unat sell_component; b = unat buy_component in
          rbind (require_signer bidder) (\<lambda>u1.
          rbind (require_token_program env token_program) (\<lambda>u2.
          rbind (check_index_pda env index_info index_mint) (\<lambda>u3.
          if sell_component = buy_component then fail SameComponent
          else if sell_amount = 0 then fail ZeroAmount
          else rbind (index_ref w index_key) (\<lambda>x.
          rbind (is_live x) (\<lambda>u4.
          if r_active (x_rebalance x) = 0 then fail NoRebalance
          else rbind (lift_err (premium_at (r_start_premium_bps (x_rebalance x)) (r_end_premium_bps (x_rebalance x))
                       (r_start_ts (x_rebalance x)) (r_end_ts (x_rebalance x)) (ce_now env))) (\<lambda>premium.
          if sint premium > uint (x_max_premium_bps x) then fail InvalidPremium
          else rbind (component_at x s) (\<lambda>sell.
          rbind (component_at x b) (\<lambda>buy.
          rbind (verify_vaults env index_key index_mint vaults w) (\<lambda>balances.
          rbind (read_mint w index_mint) (\<lambda>m.
          if m_supply m = 0 then fail SupplyTooSmall
          else rbind (require_token_account_of_mint w (ac_key bidder_receive) (c_mint sell)) (\<lambda>t1.
          rbind (require_token_account_of_mint w (ac_key bidder_pay) (c_mint buy)) (\<lambda>t2.
          rbind (scaled (c_target_units sell) (ucast (m_supply m)) unit_scale) (\<lambda>sell_target.
          rbind (scaled (c_target_units buy) (ucast (m_supply m)) unit_scale) (\<lambda>buy_target.
          rbind (scaled buy_target (ucast (x_max_premium_bps x)) bps_whole) (\<lambda>slack.
          rbind (lift_err (checked_add_u64 buy_target slack)) (\<lambda>buy_cap.
          if balances ! s \<le> sell_target then fail SellLegAtTarget
          else if sell_amount > balances ! s - sell_target then fail SellAmountExceedsExcess
          else if balances ! b \<ge> buy_cap then fail BuyLegAtCap
          else rbind (lift_err (value_e9 sell_amount (c_decimals sell) (c_ref_price_e9 sell))) (\<lambda>value_out.
          if 10000 - sint premium < 0 then fail MathOverflow
          else rbind (lift_err (mul_div_ceil value_out (word_of_int (10000 - sint premium)) bps_whole)) (\<lambda>value_in.
          rbind (lift_err (amount_from_value_ceil value_in (c_decimals buy) (c_ref_price_e9 buy))) (\<lambda>buy_amount.
          if buy_amount > max_buy_amount then fail SlippageExceeded
          else if buy_amount > buy_cap - balances ! b then fail BuyAmountExceedsCap
          else rbind (transfer_from_user env (ac_key bidder_pay) (ac_key (vaults ! b)) (ac_key bidder) buy_amount w) (\<lambda>w1.
          rbind (transfer_from_vault env (ac_key (vaults ! s)) (ac_key bidder_receive) index_key sell_amount w1) (\<lambda>w2.
          rbind (verify_vaults env index_key index_mint vaults w2) (\<lambda>balances2.
          rbind (nav_e6 index_key balances2 w2) (\<lambda>nav.
          rbind (index_ref w2 index_key) (\<lambda>x2.
          if nav < r_nav_floor_e6 (x_rebalance x2) then fail NavFloorBreached
          else sync_units index_key balances2 (m_supply m) w2)))))))))))))))))))))))))
      | _ \<Rightarrow> Inl NotEnoughAccountKeys)"

definition targets_from_units :: "index \<Rightarrow> index" where
  "targets_from_units x =
     foldl (\<lambda>y i. y\<lparr>x_components := (x_components y)[i := (x_components y ! i)
              \<lparr>c_target_units := c_units (x_components y ! i)\<rparr>]\<rparr>) x [0..<count x]"

definition close_rebalance :: "index \<Rightarrow> index" where
  "close_rebalance x =
     x\<lparr>x_rebalance := default_rebalance\<lparr>r_proposer := r_proposer (x_rebalance x),
          r_proposed_at := r_proposed_at (x_rebalance x)\<rparr>\<rparr>"

definition end_rebalance :: "chain_env \<Rightarrow> account_arg list \<Rightarrow> world \<Rightarrow> world prog" where
  "end_rebalance env accounts w =
     (case accounts of
        caller # index_info # index_mint_info # vaults \<Rightarrow>
          (let index_key = ac_key index_info; index_mint = ac_key index_mint_info in
          rbind (require_signer caller) (\<lambda>u1.
          rbind (check_index_pda env index_info index_mint) (\<lambda>u2.
          rbind (index_ref w index_key) (\<lambda>x.
          if r_active (x_rebalance x) = 0 then fail NoRebalance
          else if sint (ce_now env) \<le> sint (r_end_ts (x_rebalance x)) \<and> x_manager x \<noteq> ac_key caller then fail NotManager
          else rbind (refresh env index_key index_mint vaults w) (\<lambda>w1.
          index_update index_key (\<lambda>y. close_rebalance (targets_from_units y)) w1)))))
      | _ \<Rightarrow> Inl NotEnoughAccountKeys)"

section \<open>Administration\<close>

definition set_params ::
  "chain_env \<Rightarrow> account_arg list \<Rightarrow> u16 \<Rightarrow> u16 \<Rightarrow> u16 \<Rightarrow> u16 \<Rightarrow> u32 \<Rightarrow> world \<Rightarrow> world prog" where
  "set_params env accounts sf isf rf mp delay w =
     (case accounts of
        governor # index_info # index_mint_info # rest \<Rightarrow>
          rbind (require_signer governor) (\<lambda>u1.
          rbind (check_index_pda env index_info (ac_key index_mint_info)) (\<lambda>u2.
          rbind (check_fees sf isf rf mp delay) (\<lambda>u3.
          rbind (index_ref w (ac_key index_info)) (\<lambda>x.
          if x_governor x \<noteq> ac_key governor then fail NotGovernor
          else Inr (set_index (ac_key index_info)
            ((if x_state x \<noteq> STATE_BOOTSTRAPPING then x\<lparr>x_last_fee_accrual := ce_now env\<rparr> else x)
               \<lparr>x_streaming_fee_bps := sf, x_issue_fee_bps := isf, x_redeem_fee_bps := rf, x_max_premium_bps := mp,
                x_rebalance_delay := delay\<rparr>) w)))))
      | _ \<Rightarrow> Inl NotEnoughAccountKeys)"

definition set_authority :: "chain_env \<Rightarrow> account_arg list \<Rightarrow> u8 \<Rightarrow> pubkey \<Rightarrow> world \<Rightarrow> world prog" where
  "set_authority env accounts r new_authority w =
     (case accounts of
        governor # index_info # index_mint_info # rest \<Rightarrow>
          rbind (require_signer governor) (\<lambda>u1.
          rbind (check_index_pda env index_info (ac_key index_mint_info)) (\<lambda>u2.
          rbind (index_ref w (ac_key index_info)) (\<lambda>x.
          if x_governor x \<noteq> ac_key governor then fail NotGovernor
          else if r = 0 then Inr (set_index (ac_key index_info) (x\<lparr>x_governor := new_authority\<rparr>) w)
          else if r = 1 then Inr (set_index (ac_key index_info) (x\<lparr>x_manager := new_authority\<rparr>) w)
          else if r = 2 then Inr (set_index (ac_key index_info) (x\<lparr>x_fee_recipient := new_authority\<rparr>) w)
          else Inl InvalidInstructionData)))
      | _ \<Rightarrow> Inl NotEnoughAccountKeys)"

definition set_paused :: "chain_env \<Rightarrow> account_arg list \<Rightarrow> bool \<Rightarrow> world \<Rightarrow> world prog" where
  "set_paused env accounts paused w =
     (case accounts of
        caller # index_info # index_mint_info # rest \<Rightarrow>
          rbind (require_signer caller) (\<lambda>u1.
          rbind (check_index_pda env index_info (ac_key index_mint_info)) (\<lambda>u2.
          rbind (index_ref w (ac_key index_info)) (\<lambda>x.
          if paused \<and> x_governor x \<noteq> ac_key caller \<and> x_manager x \<noteq> ac_key caller then fail NotManager
          else if \<not> paused \<and> x_governor x \<noteq> ac_key caller then fail NotGovernor
          else if x_state x = STATE_BOOTSTRAPPING then fail NotSealed
          else Inr (set_index (ac_key index_info) (x\<lparr>x_state := if paused then STATE_PAUSED else STATE_LIVE\<rparr>) w))))
      | _ \<Rightarrow> Inl NotEnoughAccountKeys)"

section \<open>Dispatch\<close>

fun process :: "chain_env \<Rightarrow> account_arg list \<Rightarrow> flock_instruction \<Rightarrow> world \<Rightarrow> world prog" where
  "process env accounts (InitIndex name symbol sf isf rf mp delay) w =
     init_index env accounts \<lparr>ip_name = name, ip_symbol = symbol, ip_streaming_fee_bps = sf, ip_issue_fee_bps = isf,
       ip_redeem_fee_bps = rf, ip_max_premium_bps = mp, ip_rebalance_delay = delay\<rparr> w"
| "process env accounts (AddComponent units) w = add_component env accounts units w"
| "process env accounts SealIndex w = seal_index env accounts w"
| "process env accounts (Issue amount max_in) w = issue_tokens env accounts amount max_in w"
| "process env accounts (Redeem amount min_out) w = redeem_tokens env accounts amount min_out w"
| "process env accounts AccrueFees w = accrue_fees_ix env accounts w"
| "process env accounts (ProposeRebalance targets prices duration sp ep loss) w =
     propose_rebalance env accounts targets prices \<lparr>ap_duration = duration, ap_start_premium_bps = sp,
       ap_end_premium_bps = ep, ap_max_nav_loss_bps = loss\<rparr> w"
| "process env accounts (Bid s b sell_amount max_buy_amount) w = place_bid env accounts s b sell_amount max_buy_amount w"
| "process env accounts EndRebalance w = end_rebalance env accounts w"
| "process env accounts (SetParams sf isf rf mp delay) w = set_params env accounts sf isf rf mp delay w"
| "process env accounts (SetAuthority r new_authority) w = set_authority env accounts r new_authority w"
| "process env accounts (SetPaused paused) w = set_paused env accounts paused w"

end
