(* ===== verification/ChainInvariant.thy ===== *)
theory ChainInvariant
  imports ChainProcessor MathParity
begin

text \<open>
  The invariant the processor's header states: in every reachable world each vault of each index
  holds at least what its cached units promise the whole supply. The program is interleaved with
  whatever other programs may do to accounts it does not control.
\<close>

section \<open>The invariant\<close>

definition vault_key :: "chain_env \<Rightarrow> index \<Rightarrow> component \<Rightarrow> pubkey" where
  "vault_key env x c = fst (vault_pda env (x_index_mint x) (c_mint c))"

text \<open>An index account, its mint and its vaults belong together.\<close>

definition index_struct :: "chain_env \<Rightarrow> world \<Rightarrow> pubkey \<Rightarrow> index \<Rightarrow> bool" where
  "index_struct env w k x \<longleftrightarrow>
     k = fst (index_pda env (x_index_mint x))
     \<and> count x \<le> ChainData.MAX_COMPONENTS \<and> length (x_components x) = ChainData.MAX_COMPONENTS
     \<and> distinct (map c_mint (components_of x))
     \<and> (\<exists>m. w_mints w (x_index_mint x) = Some m \<and> m_authority m = Some k \<and> m_freeze m = None
          \<and> (x_state x = STATE_BOOTSTRAPPING \<longrightarrow> m_supply m = 0))
     \<and> (\<forall>c\<in>set (components_of x). \<exists>t. w_tokens w (vault_key env x c) = Some t
          \<and> t_mint t = c_mint c \<and> t_owner t = k \<and> t_delegate t = None)"

lemma struct_vault:
  assumes "index_struct env w k x" "c \<in> set (components_of x)"
  obtains t where "w_tokens w (vault_key env x c) = Some t" "t_mint t = c_mint c" "t_owner t = k" "t_delegate t = None"
  using assms unfolding index_struct_def by blast

lemma struct_mint:
  assumes "index_struct env w k x"
  obtains m where "w_mints w (x_index_mint x) = Some m" "m_authority m = Some k" "m_freeze m = None"
    "x_state x = STATE_BOOTSTRAPPING \<longrightarrow> m_supply m = 0"
  using assms unfolding index_struct_def by blast

definition supply_of :: "world \<Rightarrow> pubkey \<Rightarrow> int" where
  "supply_of w m = (case w_mints w m of None \<Rightarrow> 0 | Some a \<Rightarrow> uint (m_supply a))"

definition balance_of :: "world \<Rightarrow> pubkey \<Rightarrow> int" where
  "balance_of w v = (case w_tokens w v of None \<Rightarrow> 0 | Some t \<Rightarrow> uint (t_amount t))"

definition units_ok :: "chain_env \<Rightarrow> world \<Rightarrow> index \<Rightarrow> bool" where
  "units_ok env w x \<longleftrightarrow>
     (\<forall>c\<in>set (components_of x). uint (c_units c) * supply_of w (x_index_mint x) \<le> balance_of w (vault_key env x c) * UNIT_SCALE)"

definition backed :: "chain_env \<Rightarrow> world \<Rightarrow> bool" where
  "backed env w \<longleftrightarrow> (\<forall>k x. w_indexes w k = Some x \<longrightarrow> index_struct env w k x \<and> units_ok env w x)"

text \<open>Derived addresses do not collide, and no derived index address signs a transaction.\<close>

definition pda_contract :: "chain_env \<Rightarrow> bool" where
  "pda_contract env \<longleftrightarrow>
     (\<forall>m m'. fst (index_pda env m) = fst (index_pda env m') \<longrightarrow> m = m')
     \<and> (\<forall>m c m' c'. fst (vault_pda env m c) = fst (vault_pda env m' c') \<longrightarrow> m = m' \<and> c = c')"

definition user_key :: "chain_env \<Rightarrow> pubkey \<Rightarrow> bool" where
  "user_key env a \<longleftrightarrow> (\<forall>m. a \<noteq> fst (index_pda env m))"

definition signers_ok :: "chain_env \<Rightarrow> account_arg list \<Rightarrow> bool" where
  "signers_ok env accounts \<longleftrightarrow> (\<forall>a\<in>set accounts. ac_signer a \<longrightarrow> user_key env (ac_key a))"

section \<open>What invocations keep\<close>

text \<open>
  An index account keeps its shape when its mint and its component table keep their keys; its
  units, targets, prices, clock and auction may change, and it never returns to bootstrapping.
\<close>

definition same_shape :: "index \<Rightarrow> index \<Rightarrow> bool" where
  "same_shape x x' \<longleftrightarrow>
     x_index_mint x' = x_index_mint x \<and> x_component_count x' = x_component_count x
     \<and> map c_mint (x_components x') = map c_mint (x_components x)
     \<and> (x_state x' = STATE_BOOTSTRAPPING \<longrightarrow> x_state x = STATE_BOOTSTRAPPING)"

lemma same_shape_refl [simp]: "same_shape x x"
  by (simp add: same_shape_def)

lemma same_shape_trans [trans]: "same_shape x y \<Longrightarrow> same_shape y z \<Longrightarrow> same_shape x z"
  by (simp add: same_shape_def)

text \<open>
  \<open>safe_holding env A t t'\<close>: what happens to a token account while the program works for the index
  at \<open>A\<close>. It keeps its mint, owner and delegate, and it does not shrink when it is an undelegated
  account of another index.
\<close>

definition safe_holding :: "chain_env \<Rightarrow> pubkey \<Rightarrow> token_account \<Rightarrow> token_account \<Rightarrow> bool" where
  "safe_holding env A t t' \<longleftrightarrow>
     t_mint t' = t_mint t \<and> t_owner t' = t_owner t \<and> t_delegate t' = t_delegate t
     \<and> (t_owner t \<noteq> A \<and> \<not> user_key env (t_owner t) \<and> t_delegate t = None \<longrightarrow> uint (t_amount t) \<le> uint (t_amount t'))"

lemma safe_holding_refl [simp]: "safe_holding env A t t"
  by (simp add: safe_holding_def)

lemma safe_holding_trans: "safe_holding env A t t1 \<Longrightarrow> safe_holding env A t1 t2 \<Longrightarrow> safe_holding env A t t2"
  by (auto simp: safe_holding_def)

definition cpi_step :: "chain_env \<Rightarrow> pubkey \<Rightarrow> pubkey \<Rightarrow> world \<Rightarrow> world \<Rightarrow> bool" where
  "cpi_step env A mA w w' \<longleftrightarrow>
     (\<forall>k. k \<noteq> A \<longrightarrow> w_indexes w' k = w_indexes w k)
     \<and> (\<forall>x. w_indexes w A = Some x \<longrightarrow> (\<exists>x'. w_indexes w' A = Some x' \<and> same_shape x x'))
     \<and> (\<forall>v t. w_tokens w v = Some t \<longrightarrow> (\<exists>t'. w_tokens w' v = Some t' \<and> safe_holding env A t t'))
     \<and> (\<forall>m a. w_mints w m = Some a \<longrightarrow>
          (\<exists>a'. w_mints w' m = Some a' \<and> m_authority a' = m_authority a \<and> m_freeze a' = m_freeze a))
     \<and> (\<forall>m. m \<noteq> mA \<longrightarrow> w_mints w' m = w_mints w m)"

lemma cpi_step_refl [simp]: "cpi_step env A mA w w"
  by (simp add: cpi_step_def)

lemma cpi_step_token:
  assumes "cpi_step env A mA w w'" "w_tokens w v = Some t"
  obtains t' where "w_tokens w' v = Some t'" "safe_holding env A t t'"
  using assms unfolding cpi_step_def by blast

lemma cpi_step_mint:
  assumes "cpi_step env A mA w w'" "w_mints w m = Some a"
  obtains a' where "w_mints w' m = Some a'" "m_authority a' = m_authority a" "m_freeze a' = m_freeze a"
  using assms unfolding cpi_step_def by blast

lemma cpi_step_index:
  assumes "cpi_step env A mA w w'" "w_indexes w A = Some x"
  obtains x' where "w_indexes w' A = Some x'" "same_shape x x'"
  using assms unfolding cpi_step_def by blast

lemma cpi_step_trans [trans]:
  assumes a: "cpi_step env A mA w w1" and b: "cpi_step env A mA w1 w2"
  shows "cpi_step env A mA w w2"
  unfolding cpi_step_def
proof (intro conjI allI impI)
  fix k assume "k \<noteq> A"
  then show "w_indexes w2 k = w_indexes w k" using a b by (simp add: cpi_step_def)
next
  fix x assume "w_indexes w A = Some x"
  with a obtain x1 where "w_indexes w1 A = Some x1" "same_shape x x1" by (rule cpi_step_index)
  with b show "\<exists>x'. w_indexes w2 A = Some x' \<and> same_shape x x'"
    by (metis cpi_step_index same_shape_trans)
next
  fix v t assume "w_tokens w v = Some t"
  with a obtain t1 where t1: "w_tokens w1 v = Some t1" "safe_holding env A t t1" by (rule cpi_step_token)
  from b t1(1) obtain t2 where "w_tokens w2 v = Some t2" "safe_holding env A t1 t2" by (rule cpi_step_token)
  with t1(2) show "\<exists>t'. w_tokens w2 v = Some t' \<and> safe_holding env A t t'" using safe_holding_trans by blast
next
  fix m c assume "w_mints w m = Some c"
  with a obtain c1 where c1: "w_mints w1 m = Some c1" "m_authority c1 = m_authority c" "m_freeze c1 = m_freeze c"
    by (rule cpi_step_mint)
  from b c1(1) obtain c2 where "w_mints w2 m = Some c2" "m_authority c2 = m_authority c1" "m_freeze c2 = m_freeze c1"
    by (rule cpi_step_mint)
  with c1 show "\<exists>a'. w_mints w2 m = Some a' \<and> m_authority a' = m_authority c \<and> m_freeze a' = m_freeze c" by simp
next
  fix m assume "m \<noteq> mA"
  then show "w_mints w2 m = w_mints w m" using a b by (simp add: cpi_step_def)
qed

lemma fail_not_Inr [simp]: "fail e \<noteq> Inr x" "Inr x \<noteq> fail e"
  by (simp_all add: fail_def)

lemma if_fail_Inr_iff [simp]: "(if c then fail e else r) = Inr x \<longleftrightarrow> \<not> c \<and> r = Inr x"
  by simp

lemma lift_err_Inr_iff [simp]: "lift_err r = Inr x \<longleftrightarrow> r = Inr x"
  by (cases r) (simp_all add: lift_err_def)

lemma guard_Inr_iff [simp]: "guard c e = Inr u \<longleftrightarrow> c"
  by (simp add: guard_def)

lemma uint_credit: "uint (t_amount d) + uint n < 2 ^ 64 \<Longrightarrow> uint (t_amount (credit n d)) = uint (t_amount d) + uint n"
  by (simp add: credit_def uint_word_ariths)

lemma uint_debit: "uint n \<le> uint (t_amount s) \<Longrightarrow> uint (t_amount (debit n s)) = uint (t_amount s) - uint n"
  by (simp add: debit_def uint_sub_lem)

lemma credit_debit_fields [simp]:
  "t_mint (credit n t) = t_mint t" "t_owner (credit n t) = t_owner t" "t_delegate (credit n t) = t_delegate t"
  "t_mint (debit n t) = t_mint t" "t_owner (debit n t) = t_owner t" "t_delegate (debit n t) = t_delegate t"
  by (simp_all add: credit_def debit_def)

lemma transfer_step:
  assumes "transfer_spec src dst auth n w w'" "auth = A \<or> user_key env auth"
  shows "cpi_step env A mA w w'"
proof -
  from assms(1) obtain s d where sd: "w_tokens w src = Some s" "w_tokens w dst = Some d" "may_spend auth s"
    "uint n \<le> uint (t_amount s)"
    and w': "if src = dst then w' = w else uint (t_amount d) + uint n < 2 ^ 64
             \<and> w' = w\<lparr>w_tokens := (w_tokens w)(src \<mapsto> debit n s, dst \<mapsto> credit n d)\<rparr>"
    by (auto simp: transfer_spec_def)
  show ?thesis
  proof (cases "src = dst")
    case False
    have "uint (t_amount d) \<le> uint (t_amount (credit n d))" using w' False uint_credit by auto
    moreover have "t_owner s = A \<or> user_key env (t_owner s) \<or> t_delegate s \<noteq> None"
      using sd(3) assms(2) by (auto simp: may_spend_def)
    ultimately show ?thesis using w' False sd by (auto simp: cpi_step_def safe_holding_def)
  qed (use w' in simp)
qed

lemma mint_step:
  assumes "mint_spec mA dst auth n w w'" shows "cpi_step env A mA w w'"
proof -
  from assms obtain m d where md: "w_mints w mA = Some m" "w_tokens w dst = Some d"
    "uint (t_amount d) + uint n < 2 ^ 64"
    and w': "w' = w\<lparr>w_mints := (w_mints w)(mA \<mapsto> m\<lparr>m_supply := m_supply m + n\<rparr>), w_tokens := (w_tokens w)(dst \<mapsto> credit n d)\<rparr>"
    by (auto simp: mint_spec_def)
  have "uint (t_amount d) \<le> uint (t_amount (credit n d))" using uint_credit [OF md(3)] by simp
  then show ?thesis using md unfolding w' by (auto simp: cpi_step_def safe_holding_def)
qed

lemma burn_step:
  assumes "burn_spec src mA auth n w w'" "user_key env auth" shows "cpi_step env A mA w w'"
proof -
  from assms(1) obtain m s where ms: "w_mints w mA = Some m" "w_tokens w src = Some s" "may_spend auth s"
    and w': "w' = w\<lparr>w_mints := (w_mints w)(mA \<mapsto> m\<lparr>m_supply := m_supply m - n\<rparr>), w_tokens := (w_tokens w)(src \<mapsto> debit n s)\<rparr>"
    by (auto simp: burn_spec_def)
  have "user_key env (t_owner s) \<or> t_delegate s \<noteq> None" using ms(3) assms(2) by (auto simp: may_spend_def)
  then show ?thesis using ms unfolding w' by (auto simp: cpi_step_def safe_holding_def)
qed

text \<open>The helpers of the processor, under the token contract.\<close>

lemma transfer_from_user_step:
  assumes "token_contract (ce_cpi env)" "transfer_from_user env src v user n w = Inr w'" "user_key env user"
  shows "cpi_step env A mA w w'"
  using assms transfer_step [of src v user n w w' A env mA]
  by (auto simp: transfer_from_user_def token_contract_def split: if_splits)

lemma transfer_from_vault_step:
  assumes "token_contract (ce_cpi env)" "transfer_from_vault env v dst A n w = Inr w'"
  shows "cpi_step env A mA w w'"
  using assms transfer_step [of v dst A n w w' A env mA]
  by (auto simp: transfer_from_vault_def token_contract_def split: if_splits)

lemma mint_index_tokens_step:
  assumes "token_contract (ce_cpi env)" "mint_index_tokens env mA dst A n w = Inr w'"
  shows "cpi_step env A mA w w'"
  using assms mint_step [of mA dst A n w w' env A]
  by (auto simp: mint_index_tokens_def token_contract_def split: if_splits)

lemma burn_index_tokens_step:
  assumes "token_contract (ce_cpi env)" "burn_index_tokens env mA src user n w = Inr w'" "user_key env user"
  shows "cpi_step env A mA w w'"
  using assms burn_step [of src mA user n w w' env A]
  by (auto simp: burn_index_tokens_def token_contract_def)

lemma mint_fee_step:
  assumes "token_contract (ce_cpi env)" "mint_fee env A mA fee n w = Inr w'"
  shows "cpi_step env A mA w w'"
  using assms mint_index_tokens_step by (auto simp: mint_fee_def rbind_Inr_iff split: if_splits)

lemma issue_leg_step:
  assumes "token_contract (ce_cpi env)" "issue_leg env A user rest gross max_in w i = Inr w'" "user_key env user"
  shows "cpi_step env A mA w w'"
  using assms transfer_from_user_step by (auto simp: issue_leg_def rbind_Inr_iff split: if_splits)

lemma redeem_leg_step:
  assumes "token_contract (ce_cpi env)" "redeem_leg env A rest net min_out w i = Inr w'"
  shows "cpi_step env A mA w w'"
  using assms transfer_from_vault_step by (auto simp: redeem_leg_def rbind_Inr_iff split: if_splits)

lemma rfold_step:
  assumes "rfold f w xs = Inr w'" "\<And>w x w'. f w x = Inr w' \<Longrightarrow> cpi_step env A mA w w'"
  shows "cpi_step env A mA w w'"
  using assms(1)
proof (induction xs arbitrary: w)
  case (Cons x xs)
  then obtain w1 where "f w x = Inr w1" "rfold f w1 xs = Inr w'" by (auto simp: rbind_Inr_iff)
  with Cons.IH show ?case using assms(2) cpi_step_trans by blast
qed simp


lemma index_ref_Inr: "index_ref w k = Inr x \<Longrightarrow> w_indexes w k = Some x"
  by (auto simp: index_ref_def split: option.splits if_splits)

lemma index_update_step:
  assumes "index_update A f w = Inr w'" "\<And>x. w_indexes w A = Some x \<Longrightarrow> same_shape x (f x)"
  shows "cpi_step env A mA w w'"
proof -
  from assms(1) obtain x where x: "w_indexes w A = Some x" and w': "w' = set_index A (f x) w"
    by (auto simp: index_update_def rbind_Inr_iff dest: index_ref_Inr)
  show ?thesis using x assms(2) [OF x] unfolding w' by (simp add: cpi_step_def set_index_def)
qed

lemma set_index_step:
  "w_indexes w A = Some x \<Longrightarrow> same_shape x y \<Longrightarrow> cpi_step env A mA w (set_index A y w)"
  by (simp add: cpi_step_def set_index_def)

lemma accrue_step:
  assumes "token_contract (ce_cpi env)" "accrue env A mA fee w = Inr (owed, w')"
  shows "cpi_step env A mA w w'"
proof -
  from assms(2) obtain w1 where w1: "index_update A (\<lambda>y. y\<lparr>x_last_fee_accrual := ce_now env\<rparr>) w = Inr w1"
    and rest: "w' = w1 \<or> mint_index_tokens env mA fee A owed w1 = Inr w'"
    by (auto simp: accrue_def rbind_Inr_iff split: if_splits)
  have "cpi_step env A mA w w1"
    by (rule index_update_step [OF w1]) (simp add: same_shape_def)
  then show ?thesis
    using rest mint_index_tokens_step [OF assms(1)] cpi_step_trans by blast
qed

section \<open>Refreshing the units\<close>

lemma rfold_append: "rfold f s (xs @ ys) = rbind (rfold f s xs) (\<lambda>s'. rfold f s' ys)"
  by (induction xs arbitrary: s) (simp_all add: rbind_assoc)

text \<open>The loop of \<open>sync_units\<close>: entries below the bound get their new units, nothing else changes.\<close>

lemma sync_loop:
  assumes "rfold (\<lambda>y i. rbind (lift_err (units_from_balance (balances ! i) supply)) (\<lambda>u. Inr (set_units y i u)))
             x [0..<n] = Inr x'" "n \<le> length (x_components x)"
  shows "x' = x\<lparr>x_components := x_components x'\<rparr>"
    "map c_mint (x_components x') = map c_mint (x_components x)"
    "i < n \<Longrightarrow> units_from_balance (balances ! i) supply = Inr (c_units (x_components x' ! i))"
proof -
  have "x' = x\<lparr>x_components := x_components x'\<rparr>
      \<and> map c_mint (x_components x') = map c_mint (x_components x)
      \<and> (\<forall>i<n. units_from_balance (balances ! i) supply = Inr (c_units (x_components x' ! i)))"
    using assms
  proof (induction n arbitrary: x')
    case (Suc n)
    then obtain y u where y: "rfold (\<lambda>y i. rbind (lift_err (units_from_balance (balances ! i) supply)) (\<lambda>u. Inr (set_units y i u)))
             x [0..<n] = Inr y" "units_from_balance (balances ! n) supply = Inr u" "x' = set_units y n u"
      by (auto simp: rfold_append rbind_Inr_iff)
    have ih: "y = x\<lparr>x_components := x_components y\<rparr>" "map c_mint (x_components y) = map c_mint (x_components x)"
      "\<forall>i<n. units_from_balance (balances ! i) supply = Inr (c_units (x_components y ! i))"
      using Suc.IH [OF y(1)] Suc.prems(2) by simp_all
    have len: "n < length (x_components y)" using ih(2) Suc.prems(2) by (metis Suc_le_lessD length_map)
    have "x' = x\<lparr>x_components := x_components x'\<rparr>" using ih(1) by (cases x; cases y) (simp add: y(3) set_units_def)
    moreover have "map c_mint (x_components x') = map c_mint (x_components x)"
      using len by (simp add: y(3) set_units_def map_update list_update_same_conv flip: ih(2))
    moreover have "\<forall>i<Suc n. units_from_balance (balances ! i) supply = Inr (c_units (x_components x' ! i))"
      using ih(3) y(2) len by (auto simp: y(3) set_units_def less_Suc_eq nth_list_update)
    ultimately show ?case by blast
  qed simp
  then show "x' = x\<lparr>x_components := x_components x'\<rparr>"
    "map c_mint (x_components x') = map c_mint (x_components x)"
    "i < n \<Longrightarrow> units_from_balance (balances ! i) supply = Inr (c_units (x_components x' ! i))" by auto
qed

text \<open>A unit computed from a balance is backed by it.\<close>

lemma units_from_balance_backed:
  assumes "units_from_balance b s = Inr u"
  shows "uint u * uint s \<le> uint b * UNIT_SCALE"
proof -
  have s: "s \<noteq> 0" using assms by (auto simp: units_from_balance_def)
  then have pos: "0 < uint s" by (simp add: uint_pos_iff)
  define q where "q = uint b * UNIT_SCALE div uint s"
  have "narrow q = Inr u" using assms units_from_balance_parity(2) [OF s] by (simp add: q_def)
  then have u: "u = word_of_int q" and "q < 2 ^ 64" by (auto simp: narrow_def split: if_splits)
  moreover have "0 \<le> q" using pos by (simp add: q_def UNIT_SCALE_def pos_imp_zdiv_nonneg_iff)
  ultimately have "uint u = q" by (simp add: uint_word_of_int)
  then show ?thesis using div_mult_bounds(1) [OF pos, of "uint b * UNIT_SCALE"] by (simp add: q_def)
qed

text \<open>What a successful pass over the vaults has checked.\<close>

lemma verify_vaults_balance:
  assumes "verify_vaults env A mA vaults w = Inr balances" "w_indexes w A = Some x"
  shows "length vaults = count x"
    "i < length (components_of x) \<Longrightarrow> i < count x \<Longrightarrow>
       uint (balances ! i) = balance_of w (fst (vault_pda env mA (c_mint (components_of x ! i))))"
proof -
  have v: "length vaults = count x" "rmapM (verify_vault env A mA w) (zip (components_of x) vaults) = Inr balances"
    using assms by (auto simp: verify_vaults_def rbind_Inr_iff dest!: index_ref_Inr split: if_splits)
  show "length vaults = count x" by (rule v(1))
  show "uint (balances ! i) = balance_of w (fst (vault_pda env mA (c_mint (components_of x ! i))))"
    if i: "i < length (components_of x)" "i < count x"
  proof -
    have "verify_vault env A mA w (components_of x ! i, vaults ! i) = Inr (balances ! i)"
      using rmapM_nth [OF v(2), of i] i v(1) by simp
    then show ?thesis
      by (auto simp: verify_vault_def rbind_Inr_iff require_key_def require_token_account_def read_token_account_def
          balance_of_def split: option.splits if_splits)
  qed
qed

lemma sync_units_result:
  assumes "sync_units A balances supply w = Inr w'" "w_indexes w A = Some x"
    "count x \<le> length (x_components x)"
  obtains x' where "w' = w \<or> w' = set_index A x' w" "w_indexes w' A = Some x'" "same_shape x x'"
    "\<And>i. supply \<noteq> 0 \<Longrightarrow> i < count x \<Longrightarrow> units_from_balance (balances ! i) supply = Inr (c_units (x_components x' ! i))"
proof (cases "supply = 0")
  case True
  then show ?thesis using assms that [of x] by (simp add: sync_units_def)
next
  case False
  then obtain x' where fold: "rfold (\<lambda>y i. rbind (lift_err (units_from_balance (balances ! i) supply)) (\<lambda>u. Inr (set_units y i u)))
             x [0..<count x] = Inr x'" and w': "w' = set_index A x' w"
    using assms(1,2) by (auto simp: sync_units_def rbind_Inr_iff dest!: index_ref_Inr)
  note loop = sync_loop [OF fold assms(3)]
  have "same_shape x x'" using loop(1,2) by (cases x; cases x') (simp add: same_shape_def)
  then show ?thesis using that [of x'] loop(3) by (simp add: w' set_index_def)
qed

lemma sync_units_step:
  assumes "sync_units A balances supply w = Inr w'" "w_indexes w A = Some x" "count x \<le> length (x_components x)"
  shows "cpi_step env A mA w w'" "w_mints w' = w_mints w" "w_tokens w' = w_tokens w"
  using assms
  by (auto elim!: sync_units_result simp: set_index_step set_index_def [of A _ w] split: if_splits)
    (simp_all add: set_index_def cpi_step_def)

text \<open>
  The point of a refresh: with the balances and the supply the world has, every component's units
  are backed afterwards.
\<close>

lemma sync_units_backs:
  assumes sync: "sync_units A balances supply w = Inr w'" and x: "w_indexes w A = Some x"
    and ver: "verify_vaults env A mA vaults w = Inr balances" and mint: "x_index_mint x = mA"
    and sup: "uint supply = supply_of w mA" and len: "count x \<le> length (x_components x)"
  shows "\<exists>x'. w_indexes w' A = Some x' \<and> units_ok env w' x'"
proof -
  from sync x len obtain x' where x': "w_indexes w' A = Some x'" "same_shape x x'"
    and u: "\<And>i. supply \<noteq> 0 \<Longrightarrow> i < count x \<Longrightarrow> units_from_balance (balances ! i) supply = Inr (c_units (x_components x' ! i))"
    by (rule sync_units_result) blast
  have same: "w_mints w' = w_mints w" "w_tokens w' = w_tokens w" using sync_units_step [OF sync x len] by simp_all
  have sh: "x_index_mint x' = mA" "count x' = count x" "length (x_components x') = length (x_components x)"
    using x'(2) mint by (simp_all add: same_shape_def count_def) (metis length_map)
  have "uint (c_units c) * supply_of w' mA \<le> balance_of w' (vault_key env x' c) * UNIT_SCALE"
    if "c \<in> set (components_of x')" for c
  proof (cases "supply = 0")
    case True
    then show ?thesis using sup same by (simp add: supply_of_def balance_of_def UNIT_SCALE_def split: option.splits)
  next
    case False
    from that obtain i where i: "i < count x" "c = x_components x' ! i"
      using sh len by (auto simp: components_of_def in_set_conv_nth)
    have "c_mint (x_components x' ! i) = c_mint (x_components x ! i)"
      using x'(2) i len by (metis le_trans less_le_trans nth_map same_shape_def sh(3))
    then have v: "vault_key env x' c = fst (vault_pda env mA (c_mint (components_of x ! i)))"
      using i by (simp add: vault_key_def sh(1) components_of_def)
    have "uint (balances ! i) = balance_of w (vault_key env x' c)"
      unfolding v using verify_vaults_balance(2) [OF ver x, of i] i len by (simp add: components_of_def)
    then show ?thesis
      using units_from_balance_backed [OF u [OF False i(1)]] sup same i(2)
      by (simp add: supply_of_def balance_of_def)
  qed
  then show ?thesis using x'(1) by (auto simp: units_ok_def sh(1))
qed

lemma refresh_split:
  assumes "refresh env A mA vaults w = Inr w'"
  obtains balances m where "verify_vaults env A mA vaults w = Inr balances" "w_mints w mA = Some m"
    "sync_units A balances (m_supply m) w = Inr w'"
  using assms by (auto simp: refresh_def rbind_Inr_iff read_mint_def split: option.splits)

section \<open>From one handler to the invariant\<close>

lemma same_shape_mints: "same_shape x x' \<Longrightarrow> map c_mint (components_of x') = map c_mint (components_of x)"
  by (simp add: same_shape_def components_of_def count_def flip: take_map)

lemma same_shape_table: "same_shape x x' \<Longrightarrow> map c_mint (x_components x') = map c_mint (x_components x)"
  by (simp add: same_shape_def)

lemma same_shape_facts:
  assumes "same_shape x x'"
  shows "x_index_mint x' = x_index_mint x" "count x' = count x" "length (x_components x') = length (x_components x)"
    "x_state x' = STATE_BOOTSTRAPPING \<Longrightarrow> x_state x = STATE_BOOTSTRAPPING"
  using assms by (simp_all add: same_shape_def count_def) (metis length_map)

text \<open>Another index keeps its structure and its backing.\<close>

lemma other_index_kept:
  assumes "backed env w" "cpi_step env (fst (index_pda env mA)) mA w w'" "pda_contract env"
    and k: "k \<noteq> fst (index_pda env mA)" "w_indexes w' k = Some x"
  shows "index_struct env w' k x \<and> units_ok env w' x"
proof -
  let ?A = "fst (index_pda env mA)"
  have "w_indexes w k = Some x" using assms(2) k by (simp add: cpi_step_def)
  then have st: "index_struct env w k x" and un: "units_ok env w x" using assms(1) by (auto simp: backed_def)
  have key: "k = fst (index_pda env (x_index_mint x))" using st by (simp add: index_struct_def)
  have mint: "w_mints w' (x_index_mint x) = w_mints w (x_index_mint x)"
    using assms(2) k(1) key by (auto simp: cpi_step_def)
  have vault: "\<exists>t t'. w_tokens w (vault_key env x c) = Some t \<and> w_tokens w' (vault_key env x c) = Some t'
      \<and> t_mint t' = c_mint c \<and> t_owner t' = k \<and> t_delegate t' = None \<and> uint (t_amount t) \<le> uint (t_amount t')"
    if c: "c \<in> set (components_of x)" for c
  proof -
    obtain t where t: "w_tokens w (vault_key env x c) = Some t" "t_mint t = c_mint c" "t_owner t = k" "t_delegate t = None"
      using struct_vault [OF st c] .
    obtain t' where t': "w_tokens w' (vault_key env x c) = Some t'" "safe_holding env ?A t t'"
      using cpi_step_token [OF assms(2) t(1)] .
    have "\<not> user_key env k" using key by (auto simp: user_key_def)
    then show ?thesis using t t' k(1) by (auto simp: safe_holding_def)
  qed
  have "\<exists>t'. w_tokens w' (vault_key env x c) = Some t' \<and> t_mint t' = c_mint c \<and> t_owner t' = k \<and> t_delegate t' = None"
    if "c \<in> set (components_of x)" for c using vault [OF that] by blast
  then have "index_struct env w' k x" using st unfolding index_struct_def mint by blast
  moreover have "units_ok env w' x"
    unfolding units_ok_def
  proof
    fix c assume c: "c \<in> set (components_of x)"
    have "balance_of w (vault_key env x c) \<le> balance_of w' (vault_key env x c)"
      using vault [OF c] by (auto simp: balance_of_def)
    then have "balance_of w (vault_key env x c) * UNIT_SCALE \<le> balance_of w' (vault_key env x c) * UNIT_SCALE"
      by (simp add: UNIT_SCALE_def)
    moreover have "supply_of w' (x_index_mint x) = supply_of w (x_index_mint x)" by (simp add: supply_of_def mint)
    ultimately show "uint (c_units c) * supply_of w' (x_index_mint x) \<le> balance_of w' (vault_key env x c) * UNIT_SCALE"
      using un c unfolding units_ok_def by (metis order_trans)
  qed
  ultimately show ?thesis by simp
qed

lemma own_mint:
  assumes "index_struct env w A x" "A = fst (index_pda env mA)" "pda_contract env"
  shows "x_index_mint x = mA"
proof -
  have "fst (index_pda env (x_index_mint x)) = fst (index_pda env mA)" using assms(1,2) by (simp add: index_struct_def)
  then show ?thesis using assms(3) unfolding pda_contract_def by blast
qed

text \<open>The index worked on keeps its structure.\<close>

lemma own_struct_kept:
  assumes "index_struct env w A x" "cpi_step env A (x_index_mint x) w w'" "same_shape x x'"
    and "x_state x' = STATE_BOOTSTRAPPING \<Longrightarrow> w_mints w' (x_index_mint x) = w_mints w (x_index_mint x)"
  shows "index_struct env w' A x'"
proof -
  note sh = same_shape_facts [OF assms(3)] same_shape_mints [OF assms(3)]
  obtain m where m: "w_mints w (x_index_mint x) = Some m" "m_authority m = Some A" "m_freeze m = None"
    "x_state x = STATE_BOOTSTRAPPING \<longrightarrow> m_supply m = 0"
    using struct_mint [OF assms(1)] .
  obtain m' where m': "w_mints w' (x_index_mint x) = Some m'" "m_authority m' = Some A" "m_freeze m' = None"
    using cpi_step_mint [OF assms(2) m(1)] m by metis
  have boot: "x_state x' = STATE_BOOTSTRAPPING \<longrightarrow> m_supply m' = 0"
    using assms(4) m m' sh(4) by auto
  have vault: "\<exists>t'. w_tokens w' (vault_key env x' c) = Some t' \<and> t_mint t' = c_mint c \<and> t_owner t' = A \<and> t_delegate t' = None"
    if c: "c \<in> set (components_of x')" for c
  proof -
    have "c_mint c \<in> set (map c_mint (components_of x))" using c unfolding sh(5) [symmetric] by simp
    then obtain d where d: "d \<in> set (components_of x)" "c_mint d = c_mint c" by auto
    obtain t where t: "w_tokens w (vault_key env x d) = Some t" "t_mint t = c_mint d" "t_owner t = A" "t_delegate t = None"
      using struct_vault [OF assms(1) d(1)] .
    obtain t' where "w_tokens w' (vault_key env x d) = Some t'" "safe_holding env A t t'"
      using cpi_step_token [OF assms(2) t(1)] .
    then show ?thesis using t d(2) by (auto simp: safe_holding_def vault_key_def sh(1))
  qed
  show ?thesis
    using assms(1) m' boot vault unfolding index_struct_def sh by simp
qed

lemma backed_step:
  assumes inv: "backed env w" and step: "cpi_step env A mA w w'" and A: "A = fst (index_pda env mA)" and pda: "pda_contract env"
    and x: "w_indexes w A = Some x" and x': "w_indexes w' A = Some x'" "units_ok env w' x'"
    and boot: "x_state x' = STATE_BOOTSTRAPPING \<Longrightarrow> w_mints w' = w_mints w"
  shows "backed env w'"
  unfolding backed_def
proof (intro allI impI)
  fix k y assume y: "w_indexes w' k = Some y"
  show "index_struct env w' k y \<and> units_ok env w' y"
  proof (cases "k = A")
    case True
    have st: "index_struct env w A x" using inv x by (simp add: backed_def)
    have "x_index_mint x = mA" by (rule own_mint [OF st A pda])
    moreover have "same_shape x x'" using cpi_step_index [OF step x] x'(1) by (metis option.inject)
    ultimately have "index_struct env w' A x'" using own_struct_kept [OF st] step boot by simp
    then show ?thesis using True y x' by simp
  next
    case False
    then show ?thesis using other_index_kept [OF inv step [unfolded A] pda] y A by simp
  qed
qed

text \<open>A handler that ends by refreshing the units re-establishes the backing.\<close>

lemma backed_sync:
  assumes inv: "backed env w" and pda: "pda_contract env" and A: "A = fst (index_pda env mA)"
    and x: "w_indexes w A = Some x" "x_state x \<noteq> STATE_BOOTSTRAPPING"
    and step: "cpi_step env A mA w w1" and ver: "verify_vaults env A mA vaults w1 = Inr balances"
    and sync: "sync_units A balances supply w1 = Inr w'" and sup: "uint supply = supply_of w1 mA"
  shows "backed env w'" "cpi_step env A mA w w'"
    "\<exists>x'. w_indexes w' A = Some x' \<and> units_ok env w' x'"
proof -
  obtain x1 where x1: "w_indexes w1 A = Some x1" "same_shape x x1" using cpi_step_index [OF step x(1)] .
  have st: "index_struct env w A x" using inv x by (simp add: backed_def)
  note sh = same_shape_facts [OF x1(2)]
  have m: "x_index_mint x1 = mA" using own_mint [OF st A pda] sh(1) by simp
  have len: "count x1 \<le> length (x_components x1)" using st sh by (simp add: index_struct_def)
  show step': "cpi_step env A mA w w'"
    using step sync_units_step(1) [OF sync x1(1) len] by (rule cpi_step_trans)
  show u: "\<exists>x'. w_indexes w' A = Some x' \<and> units_ok env w' x'"
    using sync_units_backs [OF sync x1(1) ver m sup len] .
  then obtain x' where x': "w_indexes w' A = Some x'" "units_ok env w' x'" by blast
  have "same_shape x x'" using cpi_step_index [OF step' x(1)] x'(1) by (metis option.inject)
  then show "backed env w'" using backed_step [OF inv step' A pda x(1) x'] same_shape_facts(4) x(2) by blast
qed

lemma backed_refresh:
  assumes inv: "backed env w" and pda: "pda_contract env" and A: "A = fst (index_pda env mA)"
    and x: "w_indexes w A = Some x" "x_state x \<noteq> STATE_BOOTSTRAPPING"
    and step: "cpi_step env A mA w w1" and re: "refresh env A mA vaults w1 = Inr w'"
  shows "backed env w'" "cpi_step env A mA w w'" "\<exists>x'. w_indexes w' A = Some x' \<and> units_ok env w' x'"
proof -
  obtain balances m where r: "verify_vaults env A mA vaults w1 = Inr balances" "w_mints w1 mA = Some m"
    "sync_units A balances (m_supply m) w1 = Inr w'"
    using re by (rule refresh_split)
  have "uint (m_supply m) = supply_of w1 mA" using r(2) by (simp add: supply_of_def)
  from backed_sync [OF inv pda A x step r(1,3) this]
  show "backed env w'" "cpi_step env A mA w w'" "\<exists>x'. w_indexes w' A = Some x' \<and> units_ok env w' x'" .
qed

lemma map_eq_conv_pair:
  "map (\<lambda>c. (f c, g c)) xs = map (\<lambda>c. (f c, g c)) ys \<longleftrightarrow> map f xs = map f ys \<and> map g xs = map g ys"
  by (induction xs ys rule: list_induct2') auto

text \<open>An administrative update leaves the table and the holdings alone.\<close>

lemma backed_update:
  assumes inv: "backed env w" and pda: "pda_contract env" and A: "A = fst (index_pda env mA)"
    and x: "w_indexes w A = Some x" and y: "same_shape x y" "map c_units (x_components y) = map c_units (x_components x)"
  shows "backed env (set_index A y w)"
proof (rule backed_step [OF inv set_index_step [OF x y(1), of env mA] A pda x])
  show "w_indexes (set_index A y w) A = Some y" "w_mints (set_index A y w) = w_mints w"
    by (simp_all add: set_index_def)
  have un: "units_ok env w x" using inv x by (simp add: backed_def)
  note sh = same_shape_facts [OF y(1)]
  have "\<exists>d\<in>set (components_of x). c_mint d = c_mint c \<and> c_units d = c_units c" if c: "c \<in> set (components_of y)" for c
  proof -
    let ?f = "\<lambda>c. (c_mint c, c_units c)"
    have "map ?f (x_components y) = map ?f (x_components x)"
      using same_shape_table [OF y(1)] y(2) by (simp add: map_eq_conv_pair)
    then have eq: "map ?f (components_of y) = map ?f (components_of x)"
      by (simp only: components_of_def sh(2) flip: take_map)
    have "?f c \<in> set (map ?f (components_of y))" using c by simp
    then have "?f c \<in> set (map ?f (components_of x))" unfolding eq .
    then show ?thesis by auto
  qed
  moreover have "supply_of (set_index A y w) = supply_of w" "balance_of (set_index A y w) = balance_of w"
    by (simp_all add: set_index_def supply_of_def balance_of_def fun_eq_iff)
  ultimately show "units_ok env (set_index A y w) y"
    using un unfolding units_ok_def vault_key_def sh(1) by metis
qed

end
