(* ===== verification/ChainSafety.thy ===== *)
theory ChainSafety
  imports ChainInvariant
begin

text \<open>
  Every handler of the processor keeps the invariant of \<open>ChainInvariant\<close>, and so does every world
  reachable by interleaving instructions with the transactions of other programs.
\<close>

section \<open>The handlers\<close>

lemma require_simps [simp]:
  "require_signer a = Inr u \<longleftrightarrow> ac_signer a"
  "require_key a k = Inr u \<longleftrightarrow> ac_key a = k"
  "require_token_program env a = Inr u \<longleftrightarrow> ac_key a = ce_token_id env"
  "require_system_program env a = Inr u \<longleftrightarrow> ac_key a = ce_system_id env"
  "check_index_pda env a m = Inr u \<longleftrightarrow> ac_key a = fst (index_pda env m)"
  by (simp_all add: require_signer_def require_key_def require_token_program_def require_system_program_def check_index_pda_def)

lemma is_live_Inr [simp]: "is_live x = Inr u \<longleftrightarrow> x_state x = STATE_LIVE"
  by (simp add: is_live_def)

lemma states_differ [simp]: "STATE_LIVE \<noteq> STATE_BOOTSTRAPPING" "STATE_PAUSED \<noteq> STATE_BOOTSTRAPPING"
  by (simp_all add: STATE_LIVE_def STATE_BOOTSTRAPPING_def STATE_PAUSED_def)

lemma refresh_step:
  assumes "refresh env A mA vaults w1 = Inr w2" "cpi_step env A mA w w1" "w_indexes w A = Some x"
    "count x \<le> length (x_components x)"
  shows "cpi_step env A mA w w2"
proof -
  obtain balances m where "verify_vaults env A mA vaults w1 = Inr balances" "w_mints w1 mA = Some m"
    and s: "sync_units A balances (m_supply m) w1 = Inr w2" by (rule refresh_split [OF assms(1)])
  obtain x1 where x1: "w_indexes w1 A = Some x1" "same_shape x x1" using cpi_step_index [OF assms(2,3)] .
  have "count x1 \<le> length (x_components x1)" using same_shape_facts(2,3) [OF x1(2)] assms(4) by simp
  from cpi_step_trans [OF assms(2) sync_units_step(1) [OF s x1(1) this]] show ?thesis .
qed

lemma backed_table:
  assumes "backed env w" "w_indexes w A = Some x" shows "count x \<le> length (x_components x)"
  using assms by (simp add: backed_def index_struct_def)

lemma issue_tokens_parts:
  assumes "issue_tokens env accounts amount max_in w = Inr w'"
  obtains user mA user_ata fee rest x owed w1 w2 w3 w4 w5 fees gross A where
    "hd accounts = user" "accounts \<noteq> []" "ac_signer user" "A = fst (index_pda env mA)"
    "w_indexes w A = Some x" "x_state x = STATE_LIVE"
    "accrue env A mA fee w = Inr (owed, w1)"
    "refresh env A mA (vault_args (count x) rest) w1 = Inr w2"
    "rfold (issue_leg env A (ac_key user) rest gross max_in) w2 [0..<count x] = Inr w3"
    "mint_index_tokens env mA user_ata A amount w3 = Inr w4"
    "mint_fee env A mA fee fees w4 = Inr w5"
    "refresh env A mA (vault_args (count x) rest) w5 = Inr w'"
  using assms
  by (simp add: issue_tokens_def rbind_Inr_iff Let_def split: list.splits if_splits)
    (auto dest!: index_ref_Inr)

lemma issue_tokens_backed:
  assumes tc: "token_contract (ce_cpi env)" and pda: "pda_contract env" and inv: "backed env w"
    and sig: "signers_ok env accounts" and ok: "issue_tokens env accounts amount max_in w = Inr w'"
  shows "backed env w'"
proof -
  obtain user mA user_ata fee rest x owed w1 w2 w3 w4 w5 fees gross A where h:
    "hd accounts = user" "accounts \<noteq> []" "ac_signer user" "A = fst (index_pda env mA)"
    "w_indexes w A = Some x" "x_state x = STATE_LIVE"
    "accrue env A mA fee w = Inr (owed, w1)"
    "refresh env A mA (vault_args (count x) rest) w1 = Inr w2"
    "rfold (issue_leg env A (ac_key user) rest gross max_in) w2 [0..<count x] = Inr w3"
    "mint_index_tokens env mA user_ata A amount w3 = Inr w4"
    "mint_fee env A mA fee fees w4 = Inr w5"
    "refresh env A mA (vault_args (count x) rest) w5 = Inr w'"
    by (rule issue_tokens_parts [OF ok])
  have user: "user_key env (ac_key user)" using sig h(1-3) by (auto simp: signers_ok_def)
  have "cpi_step env A mA w w1" by (rule accrue_step [OF tc h(7)])
  then have "cpi_step env A mA w w2" by (rule refresh_step [OF h(8) _ h(5) backed_table [OF inv h(5)]])
  also have "cpi_step env A mA w2 w3"
    by (rule rfold_step [OF h(9)]) (erule issue_leg_step [OF tc _ user])
  also have "cpi_step env A mA w3 w4" by (rule mint_index_tokens_step [OF tc h(10)])
  also have "cpi_step env A mA w4 w5" by (rule mint_fee_step [OF tc h(11)])
  finally show ?thesis
    using backed_refresh(1) [OF inv pda h(4,5) _ _ h(12)] h(6) by simp
qed

lemma redeem_tokens_parts:
  assumes "redeem_tokens env accounts amount min_out w = Inr w'"
  obtains user mA user_ata fee rest x owed w1 w2 w3 w4 w5 fees balances total A where
    "hd accounts = user" "accounts \<noteq> []" "ac_signer user" "A = fst (index_pda env mA)"
    "w_indexes w A = Some x" "x_state x \<noteq> STATE_BOOTSTRAPPING"
    "accrue env A mA fee w = Inr (owed, w1)"
    "sync_units A balances total w1 = Inr w2"
    "burn_index_tokens env mA user_ata (ac_key user) amount w2 = Inr w3"
    "mint_fee env A mA fee fees w3 = Inr w4"
    "rfold (redeem_leg env A rest (amount - fees) min_out) w4 [0..<count x] = Inr w5"
    "refresh env A mA (vault_args (count x) rest) w5 = Inr w'"
  using assms
  by (simp add: redeem_tokens_def rbind_Inr_iff Let_def split: list.splits if_splits)
    (auto dest!: index_ref_Inr)

lemma sync_step:
  assumes "sync_units A balances supply w1 = Inr w2" "cpi_step env A mA w w1" "w_indexes w A = Some x"
    "count x \<le> length (x_components x)"
  shows "cpi_step env A mA w w2"
proof -
  obtain x1 where x1: "w_indexes w1 A = Some x1" "same_shape x x1" using cpi_step_index [OF assms(2,3)] .
  have "count x1 \<le> length (x_components x1)" using same_shape_facts(2,3) [OF x1(2)] assms(4) by simp
  from cpi_step_trans [OF assms(2) sync_units_step(1) [OF assms(1) x1(1) this]] show ?thesis .
qed

lemma redeem_tokens_backed:
  assumes tc: "token_contract (ce_cpi env)" and pda: "pda_contract env" and inv: "backed env w"
    and sig: "signers_ok env accounts" and ok: "redeem_tokens env accounts amount min_out w = Inr w'"
  shows "backed env w'"
proof -
  obtain user mA user_ata fee rest x owed w1 w2 w3 w4 w5 fees balances total A where h:
    "hd accounts = user" "accounts \<noteq> []" "ac_signer user" "A = fst (index_pda env mA)"
    "w_indexes w A = Some x" "x_state x \<noteq> STATE_BOOTSTRAPPING"
    "accrue env A mA fee w = Inr (owed, w1)"
    "sync_units A balances total w1 = Inr w2"
    "burn_index_tokens env mA user_ata (ac_key user) amount w2 = Inr w3"
    "mint_fee env A mA fee fees w3 = Inr w4"
    "rfold (redeem_leg env A rest (amount - fees) min_out) w4 [0..<count x] = Inr w5"
    "refresh env A mA (vault_args (count x) rest) w5 = Inr w'"
    by (rule redeem_tokens_parts [OF ok])
  have user: "user_key env (ac_key user)" using sig h(1-3) by (auto simp: signers_ok_def)
  have "cpi_step env A mA w w1" by (rule accrue_step [OF tc h(7)])
  then have "cpi_step env A mA w w2" by (rule sync_step [OF h(8) _ h(5) backed_table [OF inv h(5)]])
  also have "cpi_step env A mA w2 w3" by (rule burn_index_tokens_step [OF tc h(9) user])
  also have "cpi_step env A mA w3 w4" by (rule mint_fee_step [OF tc h(10)])
  also have "cpi_step env A mA w4 w5"
    by (rule rfold_step [OF h(11)]) (erule redeem_leg_step [OF tc])
  finally show ?thesis
    using backed_refresh(1) [OF inv pda h(4,5,6) _ h(12)] by simp
qed

lemma accrue_fees_backed:
  assumes tc: "token_contract (ce_cpi env)" and pda: "pda_contract env" and inv: "backed env w"
    and ok: "accrue_fees_ix env accounts w = Inr w'"
  shows "backed env w'"
proof -
  obtain mA fee vaults x owed w1 A where h: "A = fst (index_pda env mA)" "w_indexes w A = Some x"
    "x_state x \<noteq> STATE_BOOTSTRAPPING" "accrue env A mA fee w = Inr (owed, w1)" "refresh env A mA vaults w1 = Inr w'"
    using ok by (simp add: accrue_fees_ix_def rbind_Inr_iff Let_def split: list.splits if_splits)
      (auto dest!: index_ref_Inr)
  show ?thesis by (rule backed_refresh(1) [OF inv pda h(1-3) accrue_step [OF tc h(4)] h(5)])
qed

lemma same_shape_fold:
  assumes "\<And>y i. same_shape y (f y i)" "\<And>y i. map c_units (x_components (f y i)) = map c_units (x_components y)"
  shows "same_shape x (foldl f x is) \<and> map c_units (x_components (foldl f x is)) = map c_units (x_components x)"
proof (induction "is" arbitrary: x)
  case (Cons i xs)
  from Cons [of "f x i"] show ?case using assms same_shape_trans by (metis foldl_Cons)
qed simp

lemma map_update_same: "f y = f (xs ! i) \<Longrightarrow> map f (xs[i := y]) = map f xs"
  by (cases "i < length xs") (simp_all add: map_update list_update_same_conv list_update_beyond)

lemma set_targets_shape: "same_shape x (set_targets ts ps x)"
  "map c_units (x_components (set_targets ts ps x)) = map c_units (x_components x)"
  unfolding set_targets_def
  by (rule same_shape_fold [THEN conjunct1] same_shape_fold [THEN conjunct2]; simp add: same_shape_def map_update_same)+

lemma targets_from_units_shape: "same_shape x (targets_from_units x)"
  "map c_units (x_components (targets_from_units x)) = map c_units (x_components x)"
  unfolding targets_from_units_def
  by (rule same_shape_fold [THEN conjunct1] same_shape_fold [THEN conjunct2]; simp add: same_shape_def map_update_same)+

lemma index_update_Inr:
  assumes "index_update A f w = Inr w'"
  obtains x where "w_indexes w A = Some x" "w' = set_index A (f x) w"
  using assms by (auto simp: index_update_def rbind_Inr_iff dest!: index_ref_Inr)

lemma propose_backed:
  assumes pda: "pda_contract env" and inv: "backed env w"
    and ok: "propose_rebalance env accounts ts ps p w = Inr w'"
  shows "backed env w'"
proof -
  obtain mA A w1 r where h: "A = fst (index_pda env mA)" "index_update A (set_targets ts ps) w = Inr w1"
    "index_update A (\<lambda>y. y\<lparr>x_rebalance := r\<rparr>) w1 = Inr w'"
    using ok by (simp add: propose_rebalance_def rbind_Inr_iff Let_def split: list.splits if_splits) auto
  obtain x where x: "w_indexes w A = Some x" "w1 = set_index A (set_targets ts ps x) w" by (rule index_update_Inr [OF h(2)])
  have inv1: "backed env w1" unfolding x(2) by (rule backed_update [OF inv pda h(1) x(1) set_targets_shape])
  obtain y where y: "w_indexes w1 A = Some y" "w' = set_index A (y\<lparr>x_rebalance := r\<rparr>) w1" by (rule index_update_Inr [OF h(3)])
  show ?thesis unfolding y(2) by (rule backed_update [OF inv1 pda h(1) y(1)]) (simp_all add: same_shape_def)
qed

lemma transfer_spec_mints: "transfer_spec src dst a n w w' \<Longrightarrow> w_mints w' = w_mints w"
  by (auto simp: transfer_spec_def split: if_splits)

lemmas contract_transfer = token_contract_def [THEN iffD1, THEN conjunct1, rule_format]
lemmas contract_create_vault =
  token_contract_def [THEN iffD1, THEN conjunct2, THEN conjunct2, THEN conjunct2, THEN conjunct1, rule_format]
lemmas contract_create_index =
  token_contract_def [THEN iffD1, THEN conjunct2, THEN conjunct2, THEN conjunct2, THEN conjunct2, rule_format]

lemma transfer_keeps_mints:
  "token_contract (ce_cpi env) \<Longrightarrow> transfer_from_user env src v u n w = Inr w' \<Longrightarrow> w_mints w' = w_mints w"
  "token_contract (ce_cpi env) \<Longrightarrow> transfer_from_vault env src v u n w = Inr w' \<Longrightarrow> w_mints w' = w_mints w"
  by (auto simp: transfer_from_user_def transfer_from_vault_def split: if_splits
      dest!: contract_transfer dest: transfer_spec_mints)

lemma read_mint_Inr: "read_mint w k = Inr m \<longleftrightarrow> w_mints w k = Some m"
  by (simp add: read_mint_def split: option.splits)

lemma rbind_InrE: "rbind m f = Inr y \<Longrightarrow> (\<And>x. m = Inr x \<Longrightarrow> f x = Inr y \<Longrightarrow> P) \<Longrightarrow> P"
  by (auto simp: rbind_Inr_iff)

lemma if_failE: "(if c then fail e else m) = Inr y \<Longrightarrow> (\<not> c \<Longrightarrow> m = Inr y \<Longrightarrow> P) \<Longrightarrow> P"
  by simp

lemma if_InlE: "(if c then Inl e else m) = Inr y \<Longrightarrow> (\<not> c \<Longrightarrow> m = Inr y \<Longrightarrow> P) \<Longrightarrow> P"
  by (cases c) auto

lemma option_InlE:
  "(case m of None \<Rightarrow> Inl e | Some x \<Rightarrow> f x) = Inr y \<Longrightarrow> (\<And>x. m = Some x \<Longrightarrow> f x = Inr y \<Longrightarrow> P) \<Longrightarrow> P"
  by (cases m) auto

text \<open>The elimination of a chain of checks, one rule per construct.\<close>

lemmas check_elims = rbind_InrE if_failE if_InlE option_InlE

lemma six_accounts:
  "(\<exists>a b c d e f r. xs = a # b # c # d # e # f # r) \<or>
   xs \<in> {[]} \<union> {[a] |a. True} \<union> {[a, b] |a b. True} \<union> {[a, b, c] |a b c. True} \<union> {[a, b, c, d] |a b c d. True}
     \<union> {[a, b, c, d, e] |a b c d e. True}"
  by (auto simp: neq_Nil_conv) (metis neq_Nil_conv)

lemma place_bid_parts:
  assumes "place_bid env accounts s b sell_amount max_buy w = Inr w'"
  obtains bidder mA A x m src dst dst' v v' n n' w1 w2 vaults balances where
    "hd accounts = bidder" "accounts \<noteq> []" "ac_signer bidder" "A = fst (index_pda env mA)"
    "w_indexes w A = Some x" "x_state x = STATE_LIVE" "w_mints w mA = Some m"
    "transfer_from_user env src v (ac_key bidder) n w = Inr w1"
    "transfer_from_vault env v' dst' A n' w1 = Inr w2"
    "verify_vaults env A mA vaults w2 = Inr balances"
    "sync_units A balances (m_supply m) w2 = Inr w'"
proof -
  obtain bidder ii mi br bp tp vaults where acc: "accounts = bidder # ii # mi # br # bp # tp # vaults"
    using six_accounts [of accounts] assms by (auto simp: place_bid_def)
  show ?thesis
    using assms unfolding acc place_bid_def list.case Let_def
    by (elim check_elims) (rule that; simp add: acc index_ref_Inr read_mint_Inr)
qed

lemma place_bid_backed:
  assumes tc: "token_contract (ce_cpi env)" and pda: "pda_contract env" and inv: "backed env w"
    and sig: "signers_ok env accounts" and ok: "place_bid env accounts s b sell_amount max_buy w = Inr w'"
  shows "backed env w'"
proof -
  obtain bidder mA A x m src dst dst' v v' n n' w1 w2 vaults balances where h:
    "hd accounts = bidder" "accounts \<noteq> []" "ac_signer bidder" "A = fst (index_pda env mA)"
    "w_indexes w A = Some x" "x_state x = STATE_LIVE" "w_mints w mA = Some m"
    "transfer_from_user env src v (ac_key bidder) n w = Inr w1"
    "transfer_from_vault env v' dst' A n' w1 = Inr w2"
    "verify_vaults env A mA vaults w2 = Inr balances"
    "sync_units A balances (m_supply m) w2 = Inr w'"
    by (rule place_bid_parts [OF ok])
  have "user_key env (ac_key bidder)" using sig h(1-3) by (auto simp: signers_ok_def)
  then have "cpi_step env A mA w w1" by (rule transfer_from_user_step [OF tc h(8)])
  also have "cpi_step env A mA w1 w2" by (rule transfer_from_vault_step [OF tc h(9)])
  finally have step: "cpi_step env A mA w w2" .
  have "w_mints w2 = w_mints w" using transfer_keeps_mints [OF tc] h(8,9) by simp
  then have "uint (m_supply m) = supply_of w2 mA" using h(7) by (simp add: supply_of_def)
  then show ?thesis using backed_sync(1) [OF inv pda h(4,5) _ step h(10,11)] h(6) by simp
qed

lemma end_rebalance_parts:
  assumes "end_rebalance env accounts w = Inr w'"
  obtains mA A x w1 vaults where "A = fst (index_pda env mA)" "w_indexes w A = Some x"
    "refresh env A mA vaults w = Inr w1"
    "index_update A (\<lambda>y. close_rebalance (targets_from_units y)) w1 = Inr w'"
  using assms
  by (simp add: end_rebalance_def rbind_Inr_iff Let_def split: list.splits if_splits) (auto dest!: index_ref_Inr)

text \<open>An auction only runs on a sealed index, so closing one never sees a bootstrapping index with supply.\<close>

lemma refresh_alone:
  assumes "backed env w" "pda_contract env" "A = fst (index_pda env mA)" "w_indexes w A = Some x"
    "refresh env A mA vaults w = Inr w'"
  shows "backed env w'"
proof -
  obtain balances m where r: "verify_vaults env A mA vaults w = Inr balances" "w_mints w mA = Some m"
    "sync_units A balances (m_supply m) w = Inr w'" by (rule refresh_split [OF assms(5)])
  have st: "index_struct env w A x" using assms(1,4) by (simp add: backed_def)
  have len: "count x \<le> length (x_components x)" by (rule backed_table [OF assms(1,4)])
  have mint: "x_index_mint x = mA" by (rule own_mint [OF st assms(3,2)])
  have "uint (m_supply m) = supply_of w mA" using r(2) by (simp add: supply_of_def)
  from sync_units_backs [OF r(3) assms(4) r(1) mint this len]
  obtain x' where x': "w_indexes w' A = Some x'" "units_ok env w' x'" by blast
  show ?thesis
    by (rule backed_step [OF assms(1) sync_units_step(1) [OF r(3) assms(4) len] assms(3,2,4) x'])
      (rule sync_units_step(2) [OF r(3) assms(4) len])
qed

lemma end_rebalance_backed:
  assumes pda: "pda_contract env" and inv: "backed env w" and ok: "end_rebalance env accounts w = Inr w'"
  shows "backed env w'"
proof -
  obtain mA A x w1 vaults where h: "A = fst (index_pda env mA)" "w_indexes w A = Some x"
    "refresh env A mA vaults w = Inr w1"
    "index_update A (\<lambda>y. close_rebalance (targets_from_units y)) w1 = Inr w'"
    by (rule end_rebalance_parts [OF ok])
  have inv1: "backed env w1" by (rule refresh_alone [OF inv pda h(1-3)])
  obtain y where y: "w_indexes w1 A = Some y" "w' = set_index A (close_rebalance (targets_from_units y)) w1"
    by (rule index_update_Inr [OF h(4)])
  have "same_shape y (close_rebalance (targets_from_units y))"
    using targets_from_units_shape(1) [of y] by (simp add: same_shape_def close_rebalance_def)
  then show ?thesis
    unfolding y(2) by (rule backed_update [OF inv1 pda h(1) y(1)]) (simp add: close_rebalance_def targets_from_units_shape(2))
qed

lemma seal_index_backed:
  assumes "pda_contract env" "backed env w" "seal_index env accounts w = Inr w'"
  shows "backed env w'"
proof -
  obtain mA x where x: "w_indexes w (fst (index_pda env mA)) = Some x"
    and w': "w' = set_index (fst (index_pda env mA)) (x\<lparr>x_state := STATE_LIVE, x_last_fee_accrual := ce_now env\<rparr>) w"
    using assms(3) by (auto simp: seal_index_def rbind_Inr_iff dest!: index_ref_Inr split: list.splits if_splits)
  show ?thesis unfolding w'
    by (rule backed_update [OF assms(2,1) refl x]) (simp_all add: same_shape_def)
qed

lemma set_params_backed:
  assumes "pda_contract env" "backed env w" "set_params env accounts sf isf rf mp delay w = Inr w'"
  shows "backed env w'"
proof -
  obtain mA x where x: "w_indexes w (fst (index_pda env mA)) = Some x"
    and w': "w' = set_index (fst (index_pda env mA))
      ((if x_state x \<noteq> STATE_BOOTSTRAPPING then x\<lparr>x_last_fee_accrual := ce_now env\<rparr> else x)
         \<lparr>x_streaming_fee_bps := sf, x_issue_fee_bps := isf, x_redeem_fee_bps := rf, x_max_premium_bps := mp,
          x_rebalance_delay := delay\<rparr>) w"
    using assms(3) by (auto simp: set_params_def rbind_Inr_iff dest!: index_ref_Inr split: list.splits)
  show ?thesis unfolding w' by (rule backed_update [OF assms(2,1) refl x]) (simp_all add: same_shape_def)
qed

lemma set_authority_backed:
  assumes "pda_contract env" "backed env w" "set_authority env accounts r a w = Inr w'"
  shows "backed env w'"
proof -
  obtain mA x where x: "w_indexes w (fst (index_pda env mA)) = Some x"
    and w': "w' \<in> {set_index (fst (index_pda env mA)) (x\<lparr>x_governor := a\<rparr>) w,
      set_index (fst (index_pda env mA)) (x\<lparr>x_manager := a\<rparr>) w,
      set_index (fst (index_pda env mA)) (x\<lparr>x_fee_recipient := a\<rparr>) w}"
    using assms(3) by (auto simp: set_authority_def rbind_Inr_iff dest!: index_ref_Inr split: list.splits if_splits)
  have "backed env (set_index (fst (index_pda env mA)) y w)"
    if "y \<in> {x\<lparr>x_governor := a\<rparr>, x\<lparr>x_manager := a\<rparr>, x\<lparr>x_fee_recipient := a\<rparr>}" for y
    by (rule backed_update [OF assms(2,1) refl x]) (use that in \<open>auto simp: same_shape_def\<close>)
  then show ?thesis using w' by auto
qed

lemma set_paused_backed:
  assumes "pda_contract env" "backed env w" "set_paused env accounts p w = Inr w'"
  shows "backed env w'"
proof -
  obtain mA x where x: "w_indexes w (fst (index_pda env mA)) = Some x"
    and w': "w' = set_index (fst (index_pda env mA)) (x\<lparr>x_state := if p then STATE_PAUSED else STATE_LIVE\<rparr>) w"
    using assms(3) by (auto simp: set_paused_def rbind_Inr_iff dest!: index_ref_Inr split: list.splits if_splits)
  show ?thesis unfolding w'
    by (rule backed_update [OF assms(2,1) refl x]) (simp_all add: same_shape_def)
qed

lemma holdings_cong:
  assumes "w_tokens w' = w_tokens w" "w_mints w' = w_mints w"
  shows "index_struct env w' k x = index_struct env w k x" "units_ok env w' x = units_ok env w x"
  by (simp_all add: index_struct_def units_ok_def supply_of_def balance_of_def assms)

section \<open>Creating an index and adding to it\<close>

lemma init_index_parts:
  assumes tc: "token_contract (ce_cpi env)" and ok: "init_index env accounts p w = Inr w'"
  obtains mA A m bump gov man rec x where "A = fst (index_pda env mA)" "w_indexes w A = None"
    "w_mints w mA = Some m" "m_supply m = 0" "m_freeze m = None" "m_authority m = Some A"
    "x = write_init env bump mA gov man rec p zero_index" "w' = set_index A x w"
proof -
  obtain payer ii mi gov man rec sys rest where acc: "accounts = payer # ii # mi # gov # man # rec # sys # rest"
    using ok by (auto simp: init_index_def split: list.splits)
  show ?thesis
    using ok unfolding acc init_index_def list.case Let_def
    by (elim check_elims) (drule contract_create_index [OF tc], rule that [of "ac_key ii" "ac_key mi"];
      auto simp: create_index_spec_def set_index_def read_mint_Inr)
qed

lemma init_index_backed:
  assumes tc: "token_contract (ce_cpi env)" and pda: "pda_contract env" and inv: "backed env w"
    and ok: "init_index env accounts p w = Inr w'"
  shows "backed env w'"
proof -
  obtain mA A m bump gov man rec x where h: "A = fst (index_pda env mA)" "w_indexes w A = None"
    "w_mints w mA = Some m" "m_supply m = 0" "m_freeze m = None" "m_authority m = Some A"
    "x = write_init env bump mA gov man rec p zero_index" "w' = set_index A x w"
    by (rule init_index_parts [OF tc ok])
  have x: "x_index_mint x = mA" "components_of x = []" "count x = 0" "length (x_components x) = ChainData.MAX_COMPONENTS"
    by (simp_all add: h(7) write_init_def zero_index_def components_of_def count_def)
  have "index_struct env w' A x" using h(1,3-6) by (simp add: index_struct_def x h(8) set_index_def)
  moreover have "units_ok env w' x" by (simp add: units_ok_def x)
  moreover have "index_struct env w' k y \<and> units_ok env w' y" if "w_indexes w k = Some y" for k y
  proof -
    have "w_tokens w' = w_tokens w" "w_mints w' = w_mints w" by (simp_all add: h(8) set_index_def)
    then show ?thesis using inv that holdings_cong [of w' w] by (simp add: backed_def)
  qed
  ultimately show ?thesis using h(2) by (auto simp: backed_def h(8) set_index_def)
qed

lemma add_component_parts:
  assumes tc: "token_contract (ce_cpi env)" and ok: "add_component env accounts units w = Inr w'"
  obtains mA A d x k where "A = fst (index_pda env mA)" "w_indexes w A = Some x"
    "x_state x = STATE_BOOTSTRAPPING" "count x < ChainData.MAX_COMPONENTS" "\<not> find_component x (c_mint d)"
    "k = fst (vault_pda env mA (c_mint d))" "w_tokens w k = None"
    "w' = set_index A
       (x\<lparr>x_components := (x_components x)[count x := d], x_component_count := x_component_count x + 1\<rparr>)
       (w\<lparr>w_tokens := (w_tokens w)(k \<mapsto> \<lparr>t_mint = c_mint d, t_owner = A, t_delegate = None, t_amount = 0\<rparr>)\<rparr>)"
proof -
  obtain man payer ii mi ci vi sys tp rest where acc: "accounts = man # payer # ii # mi # ci # vi # sys # tp # rest"
    using ok by (auto simp: add_component_def split: list.splits)
  let ?A = "fst (index_pda env (ac_key mi))"
  show ?thesis
    using ok unfolding acc add_component_def list.case Let_def
  proof (elim check_elims)
    fix u x m w1
    assume "check_index_pda env ii (ac_key mi) = Inr u" "index_ref w (ac_key ii) = Inr x"
      "\<not> x_state x \<noteq> STATE_BOOTSTRAPPING" "\<not> ChainData.MAX_COMPONENTS \<le> count x" "\<not> find_component x (ac_key ci)"
      "cpi_create_vault (ce_cpi env) (ac_key payer) (fst (vault_pda env (ac_key mi) (ac_key ci))) (ac_key ci) (ac_key ii) w = Inr w1"
      "index_update (ac_key ii) (\<lambda>y. y\<lparr>x_components := (x_components y)[count y :=
          \<lparr>c_mint = ac_key ci, c_units = units, c_target_units = units, c_ref_price_e9 = 0, c_decimals = m_decimals m,
           c_vault_bump = of_nat (snd (vault_pda env (ac_key mi) (ac_key ci)))\<rparr>],
          x_component_count := x_component_count y + 1\<rparr>) w1 = Inr w'"
    then show thesis
      by (intro that [of ?A "ac_key mi" x "\<lparr>c_mint = ac_key ci, c_units = units, c_target_units = units, c_ref_price_e9 = 0,
          c_decimals = m_decimals m, c_vault_bump = of_nat (snd (vault_pda env (ac_key mi) (ac_key ci)))\<rparr>"])
        (auto simp: index_update_def rbind_Inr_iff create_vault_spec_def
          dest!: index_ref_Inr contract_create_vault [OF tc])
  qed
qed

text \<open>A component joins an index without supply, so its promised units bind nothing yet.\<close>

lemma add_component_backed:
  assumes tc: "token_contract (ce_cpi env)" and pda: "pda_contract env" and inv: "backed env w"
    and ok: "add_component env accounts units w = Inr w'"
  shows "backed env w'"
proof -
  obtain mA A d x k where h: "A = fst (index_pda env mA)" "w_indexes w A = Some x"
    "x_state x = STATE_BOOTSTRAPPING" "count x < ChainData.MAX_COMPONENTS" "\<not> find_component x (c_mint d)"
    "k = fst (vault_pda env mA (c_mint d))" "w_tokens w k = None"
    "w' = set_index A
       (x\<lparr>x_components := (x_components x)[count x := d], x_component_count := x_component_count x + 1\<rparr>)
       (w\<lparr>w_tokens := (w_tokens w)(k \<mapsto> \<lparr>t_mint = c_mint d, t_owner = A, t_delegate = None, t_amount = 0\<rparr>)\<rparr>)"
    by (rule add_component_parts [OF tc ok])
  define y where "y = x\<lparr>x_components := (x_components x)[count x := d], x_component_count := x_component_count x + 1\<rparr>"
  define w1 where "w1 = w\<lparr>w_tokens := (w_tokens w)(k \<mapsto> \<lparr>t_mint = c_mint d, t_owner = A, t_delegate = None, t_amount = 0\<rparr>)\<rparr>"
  have w': "w' = set_index A y w1" by (simp add: h(8) y_def w1_def)
  have st: "index_struct env w A x" using inv h(2) by (simp add: backed_def)
  have len: "length (x_components x) = ChainData.MAX_COMPONENTS" "distinct (map c_mint (components_of x))"
    using st by (simp_all add: index_struct_def)
  have mint: "x_index_mint x = mA" by (rule own_mint [OF st h(1) pda])
  have step: "cpi_step env A mA w w1" using h(7) by (auto simp: cpi_step_def w1_def)
  have cnt: "count y = count x + 1"
    using h(4) by (simp add: count_def y_def ChainData.MAX_COMPONENTS_def unat_word_ariths)
  have comps: "components_of y = components_of x @ [d]"
    using h(4) len by (simp add: components_of_def cnt) (simp add: y_def take_Suc_conv_app_nth)
  obtain m where m: "w_mints w mA = Some m" "m_authority m = Some A" "m_freeze m = None" "m_supply m = 0"
    using struct_mint [OF st] h(3) mint by metis
  have same: "w_mints w' = w_mints w" "w_tokens w' = w_tokens w1" by (simp_all add: w' set_index_def w1_def)
  have vault: "\<exists>t. w_tokens w' (vault_key env y c) = Some t \<and> t_mint t = c_mint c \<and> t_owner t = A \<and> t_delegate t = None"
    if c: "c \<in> set (components_of y)" for c
  proof (cases "c \<in> set (components_of x)")
    case True
    obtain t where t: "w_tokens w (vault_key env x c) = Some t" "t_mint t = c_mint c" "t_owner t = A" "t_delegate t = None"
      using struct_vault [OF st True] .
    moreover have "vault_key env y c = vault_key env x c" by (simp add: vault_key_def y_def)
    ultimately show ?thesis using h(7) by (auto simp: same(2) w1_def)
  next
    case False
    then have "c = d" using c comps by simp
    then show ?thesis by (simp add: same(2) w1_def vault_key_def y_def mint h(6))
  qed
  have "index_struct env w' A y"
    unfolding index_struct_def
  proof (intro conjI)
    show "distinct (map c_mint (components_of y))"
      using len(2) h(5) by (auto simp: comps find_component_def list_ex_iff)
    show "\<exists>m. w_mints w' (x_index_mint y) = Some m \<and> m_authority m = Some A \<and> m_freeze m = None
        \<and> (x_state y = STATE_BOOTSTRAPPING \<longrightarrow> m_supply m = 0)"
      using m mint by (simp add: same y_def)
    show "\<forall>c\<in>set (components_of y). \<exists>t. w_tokens w' (vault_key env y c) = Some t \<and> t_mint t = c_mint c \<and> t_owner t = A \<and> t_delegate t = None"
      using vault by blast
  qed (use h(1,4) cnt len mint in \<open>simp_all add: y_def\<close>)
  moreover have "units_ok env w' y"
    using m mint by (simp add: units_ok_def supply_of_def same y_def balance_of_def UNIT_SCALE_def split: option.splits)
  moreover have "index_struct env w' j z \<and> units_ok env w' z" if "j \<noteq> A" "w_indexes w' j = Some z" for j z
  proof -
    have "w_indexes w1 j = Some z" using that by (simp add: w' set_index_def)
    then have "index_struct env w1 j z \<and> units_ok env w1 z"
      using other_index_kept [OF inv step [unfolded h(1)] pda] that(1) by (simp add: h(1))
    then show ?thesis using holdings_cong [of w' w1] by (simp add: w' set_index_def)
  qed
  ultimately show ?thesis by (auto simp: backed_def w' set_index_def)
qed

section \<open>The dispatch and the other programs\<close>

lemma process_backed:
  assumes "token_contract (ce_cpi env)" "pda_contract env" "signers_ok env accounts" "backed env w"
    and "process env accounts ix w = Inr w'"
  shows "backed env w'"
  using assms
  by (cases ix)
    (auto intro: init_index_backed add_component_backed seal_index_backed issue_tokens_backed redeem_tokens_backed
      accrue_fees_backed propose_backed place_bid_backed end_rebalance_backed set_params_backed set_authority_backed
      set_paused_backed)

text \<open>
  What transactions of other programs may do between two instructions: they cannot write index
  accounts; a mint whose authority is an index keeps it and can only lose supply; an undelegated
  token account owned by an index keeps its mint and owner and can only receive. Everything else
  is theirs.
\<close>

definition external_step :: "chain_env \<Rightarrow> world \<Rightarrow> world \<Rightarrow> bool" where
  "external_step env w w' \<longleftrightarrow>
     w_indexes w' = w_indexes w
     \<and> (\<forall>m a k. w_mints w m = Some a \<and> m_authority a = Some k \<and> \<not> user_key env k \<longrightarrow>
          (\<exists>a'. w_mints w' m = Some a' \<and> m_authority a' = Some k \<and> (m_freeze a = None \<longrightarrow> m_freeze a' = None)
             \<and> uint (m_supply a') \<le> uint (m_supply a)))
     \<and> (\<forall>v t. w_tokens w v = Some t \<and> \<not> user_key env (t_owner t) \<and> t_delegate t = None \<longrightarrow>
          (\<exists>t'. w_tokens w' v = Some t' \<and> t_mint t' = t_mint t \<and> t_owner t' = t_owner t \<and> t_delegate t' = None
             \<and> uint (t_amount t) \<le> uint (t_amount t')))"

lemma external_backed:
  assumes inv: "backed env w" and ext: "external_step env w w'"
  shows "backed env w'"
  unfolding backed_def
proof (intro allI impI)
  fix k x assume "w_indexes w' k = Some x"
  then have "w_indexes w k = Some x" using ext by (simp add: external_step_def)
  then have st: "index_struct env w k x" and un: "units_ok env w x" using inv by (auto simp: backed_def)
  have "k = fst (index_pda env (x_index_mint x))" using st by (simp add: index_struct_def)
  then have pk: "\<not> user_key env k" by (auto simp: user_key_def)
  obtain m where m: "w_mints w (x_index_mint x) = Some m" "m_authority m = Some k" "m_freeze m = None"
    "x_state x = STATE_BOOTSTRAPPING \<longrightarrow> m_supply m = 0" using struct_mint [OF st] .
  obtain m' where m': "w_mints w' (x_index_mint x) = Some m'" "m_authority m' = Some k" "m_freeze m' = None"
    "uint (m_supply m') \<le> uint (m_supply m)"
    using ext m pk unfolding external_step_def by blast
  have boot: "x_state x = STATE_BOOTSTRAPPING \<longrightarrow> m_supply m' = 0" using m(4) m'(4) by (auto simp: uint_0_iff)
  have vault: "\<exists>t t'. w_tokens w (vault_key env x c) = Some t \<and> w_tokens w' (vault_key env x c) = Some t'
      \<and> t_mint t' = c_mint c \<and> t_owner t' = k \<and> t_delegate t' = None \<and> uint (t_amount t) \<le> uint (t_amount t')"
    if c: "c \<in> set (components_of x)" for c
  proof -
    obtain t where t: "w_tokens w (vault_key env x c) = Some t" "t_mint t = c_mint c" "t_owner t = k" "t_delegate t = None"
      using struct_vault [OF st c] .
    then show ?thesis using ext pk unfolding external_step_def by metis
  qed
  have "\<exists>t'. w_tokens w' (vault_key env x c) = Some t' \<and> t_mint t' = c_mint c \<and> t_owner t' = k \<and> t_delegate t' = None"
    if "c \<in> set (components_of x)" for c using vault [OF that] by blast
  then have "index_struct env w' k x" using st m' boot unfolding index_struct_def by blast
  moreover have "units_ok env w' x"
    unfolding units_ok_def
  proof
    fix c assume c: "c \<in> set (components_of x)"
    have b: "balance_of w (vault_key env x c) * UNIT_SCALE \<le> balance_of w' (vault_key env x c) * UNIT_SCALE"
      using vault [OF c] by (auto simp: balance_of_def UNIT_SCALE_def)
    have "uint (c_units c) * uint (m_supply m') \<le> uint (c_units c) * uint (m_supply m)"
      using m'(4) by (intro mult_left_mono) simp_all
    also have "\<dots> \<le> balance_of w (vault_key env x c) * UNIT_SCALE"
      using un c m(1) by (auto simp: units_ok_def supply_of_def)
    also note b
    finally show "uint (c_units c) * supply_of w' (x_index_mint x) \<le> balance_of w' (vault_key env x c) * UNIT_SCALE"
      using m'(1) by (simp add: supply_of_def)
  qed
  ultimately show "index_struct env w' k x \<and> units_ok env w' x" by simp
qed

section \<open>Reachable worlds\<close>

text \<open>
  The chain starts without indexes; any instruction may run at any time with any accounts, as long
  as the signatures are those of keys that exist, interleaved with other programs. A failed
  instruction changes nothing.
\<close>

inductive reachable :: "chain_env \<Rightarrow> world \<Rightarrow> bool" for env where
  genesis: "w_indexes w = (\<lambda>k. None) \<Longrightarrow> reachable env w"
| run: "reachable env w \<Longrightarrow> signers_ok env accounts \<Longrightarrow>
    process (env\<lparr>ce_now := t\<rparr>) accounts ix w = Inr w' \<Longrightarrow> reachable env w'"
| other: "reachable env w \<Longrightarrow> external_step env w w' \<Longrightarrow> reachable env w'"

lemma clock_simps [simp]:
  "index_pda (env\<lparr>ce_now := t\<rparr>) = index_pda env" "vault_pda (env\<lparr>ce_now := t\<rparr>) = vault_pda env"
  by (simp_all add: index_pda_def vault_pda_def fun_eq_iff)

lemma clock_irrelevant [simp]:
  "pda_contract (env\<lparr>ce_now := t\<rparr>) = pda_contract env" "user_key (env\<lparr>ce_now := t\<rparr>) = user_key env"
  "signers_ok (env\<lparr>ce_now := t\<rparr>) = signers_ok env" "backed (env\<lparr>ce_now := t\<rparr>) = backed env"
  by (simp_all add: pda_contract_def user_key_def signers_ok_def backed_def index_struct_def units_ok_def vault_key_def fun_eq_iff)

lemma reachable_backed:
  assumes "reachable env w" "token_contract (ce_cpi env)" "pda_contract env"
  shows "backed env w"
  using assms(1)
proof induction
  case (run w accounts t ix w')
  then show ?case using process_backed [of "env\<lparr>ce_now := t\<rparr>" accounts w ix w'] assms(2,3) by simp
next
  case (genesis w)
  then show ?case by (simp add: backed_def)
next
  case (other w w')
  then show ?case by (blast intro: external_backed)
qed

end
