(* ===== verification/ChainSample.thy ===== *)
theory ChainSample
  imports ChainSafety
begin

text \<open>
  A concrete instance of what the model leaves open: an injective address derivation, an
  executable token program that meets \<open>token_contract\<close>, and a small history on it (an index is
  created, given one component, sealed, and issued).
\<close>

section \<open>An address derivation\<close>

text \<open>Each seed is written with a marker before every byte and a terminator, so lists of seeds are told apart.\<close>

fun mark :: "bytes \<Rightarrow> bytes" where
  "mark [] = [0]"
| "mark (b # bs) = 1 # b # mark bs"

definition sample_pda :: pda_finder where
  "sample_pda seeds program = (PublicKey (concat (map mark seeds)), 255)"

lemma mark_append: "mark xs @ ys = mark xs' @ ys' \<Longrightarrow> xs = xs' \<and> ys = ys'"
proof (induction xs arbitrary: xs')
  case Nil
  then show ?case by (cases xs') auto
next
  case (Cons b bs)
  then show ?case by (cases xs') auto
qed

lemma mark_inj [simp]: "mark xs = mark ys \<longleftrightarrow> xs = ys"
  using mark_append [of xs "[]" ys "[]"] by auto

lemma key_bytes_eq [simp]: "key_bytes a = key_bytes b \<longleftrightarrow> a = b"
  by (cases a; cases b) simp

section \<open>A token program\<close>

definition ledger_transfer :: "pubkey \<Rightarrow> pubkey \<Rightarrow> pubkey \<Rightarrow> u64 \<Rightarrow> world \<Rightarrow> world prog" where
  "ledger_transfer src dst auth n w =
     (case w_tokens w src of None \<Rightarrow> Inl (CpiFailed 0) | Some s \<Rightarrow>
      case w_tokens w dst of None \<Rightarrow> Inl (CpiFailed 0) | Some d \<Rightarrow>
        if \<not> may_spend auth s \<or> t_mint s \<noteq> t_mint d \<or> t_amount s < n then Inl (CpiFailed 1)
        else if src = dst then Inr w
        else if 2 ^ 64 \<le> uint (t_amount d) + uint n then Inl (CpiFailed 2)
        else Inr (w\<lparr>w_tokens := (w_tokens w)(src \<mapsto> debit n s, dst \<mapsto> credit n d)\<rparr>))"

definition ledger_mint :: "pubkey \<Rightarrow> pubkey \<Rightarrow> pubkey \<Rightarrow> u64 \<Rightarrow> world \<Rightarrow> world prog" where
  "ledger_mint mint dst auth n w =
     (case w_mints w mint of None \<Rightarrow> Inl (CpiFailed 0) | Some m \<Rightarrow>
      case w_tokens w dst of None \<Rightarrow> Inl (CpiFailed 0) | Some d \<Rightarrow>
        if t_mint d \<noteq> mint \<or> m_authority m \<noteq> Some auth \<or> 2 ^ 64 \<le> uint (m_supply m) + uint n
          \<or> 2 ^ 64 \<le> uint (t_amount d) + uint n then Inl (CpiFailed 1)
        else Inr (w\<lparr>w_mints := (w_mints w)(mint \<mapsto> m\<lparr>m_supply := m_supply m + n\<rparr>),
                    w_tokens := (w_tokens w)(dst \<mapsto> credit n d)\<rparr>))"

definition ledger_burn :: "pubkey \<Rightarrow> pubkey \<Rightarrow> pubkey \<Rightarrow> u64 \<Rightarrow> world \<Rightarrow> world prog" where
  "ledger_burn src mint auth n w =
     (case w_mints w mint of None \<Rightarrow> Inl (CpiFailed 0) | Some m \<Rightarrow>
      case w_tokens w src of None \<Rightarrow> Inl (CpiFailed 0) | Some s \<Rightarrow>
        if t_mint s \<noteq> mint \<or> \<not> may_spend auth s \<or> t_amount s < n \<or> m_supply m < n then Inl (CpiFailed 1)
        else Inr (w\<lparr>w_mints := (w_mints w)(mint \<mapsto> m\<lparr>m_supply := m_supply m - n\<rparr>),
                    w_tokens := (w_tokens w)(src \<mapsto> debit n s)\<rparr>))"

definition unused :: "pubkey \<Rightarrow> world \<Rightarrow> bool" where
  "unused k w \<longleftrightarrow> w_tokens w k = None \<and> w_mints w k = None \<and> w_indexes w k = None"

definition ledger_cpi :: cpi where
  "ledger_cpi = \<lparr>cpi_transfer = ledger_transfer, cpi_mint_to = ledger_mint, cpi_burn = ledger_burn,
     cpi_create_index = (\<lambda>payer k x w. if unused k w then Inr (set_index k x w) else Inl (CpiFailed 0)),
     cpi_create_vault = (\<lambda>payer k mint owner w. if unused k w
        then Inr (w\<lparr>w_tokens := (w_tokens w)(k \<mapsto> \<lparr>t_mint = mint, t_owner = owner, t_delegate = None, t_amount = 0\<rparr>)\<rparr>)
        else Inl (CpiFailed 0))\<rparr>"

lemma ledger_transfer_meets: "ledger_transfer src dst a n w = Inr w' \<Longrightarrow> transfer_spec src dst a n w w'"
  by (auto simp: ledger_transfer_def transfer_spec_def word_less_def not_less not_le split: option.splits if_splits)

lemma ledger_mint_meets: "ledger_mint m dst a n w = Inr w' \<Longrightarrow> mint_spec m dst a n w w'"
  by (auto simp: ledger_mint_def mint_spec_def word_less_def not_less not_le split: option.splits if_splits)

lemma ledger_burn_meets: "ledger_burn src m a n w = Inr w' \<Longrightarrow> burn_spec src m a n w w'"
  by (auto simp: ledger_burn_def burn_spec_def word_less_def not_less not_le split: option.splits if_splits)

lemma ledger_contract: "token_contract ledger_cpi"
  unfolding token_contract_def
  by (simp add: ledger_cpi_def ledger_transfer_meets ledger_mint_meets ledger_burn_meets)
    (auto simp: create_vault_spec_def create_index_spec_def unused_def split: if_splits)

section \<open>A history\<close>

definition sample_env :: chain_env where
  "sample_env = \<lparr>ce_program = PublicKey [9], ce_find_pda = sample_pda, ce_token_id = PublicKey [7], ce_system_id = PublicKey [8],
     ce_now = 1000, ce_cpi = ledger_cpi\<rparr>"

lemma sample_pda_contract: "pda_contract sample_env"
  by (auto simp: pda_contract_def index_pda_def vault_pda_def sample_env_def sample_pda_def
      dest!: mark_append dest: mark_append)

definition signed :: "8 word \<Rightarrow> account_arg" where "signed n = \<lparr>ac_key = PublicKey [n], ac_signer = True\<rparr>"
definition plain :: "pubkey \<Rightarrow> account_arg" where "plain k = \<lparr>ac_key = k, ac_signer = False\<rparr>"

definition index_at :: pubkey where "index_at = fst (index_pda sample_env (PublicKey [1]))"
definition vault_at :: pubkey where "vault_at = fst (vault_pda sample_env (PublicKey [1]) (PublicKey [2]))"

text \<open>Mint 1 is the index mint, mint 2 the component; account 3 holds the user's component tokens, 4 its index tokens.\<close>

definition world0 :: world where
  "world0 = \<lparr>w_indexes = (\<lambda>k. None),
     w_mints = (\<lambda>k. None)(PublicKey [1] \<mapsto> \<lparr>m_authority = Some index_at, m_supply = 0, m_decimals = 9, m_freeze = None\<rparr>,
       PublicKey [2] \<mapsto> \<lparr>m_authority = None, m_supply = 5000, m_decimals = 6, m_freeze = None\<rparr>),
     w_tokens = (\<lambda>k. None)(
       PublicKey [3] \<mapsto> \<lparr>t_mint = PublicKey [2], t_owner = PublicKey [6], t_delegate = None, t_amount = 5000\<rparr>,
       PublicKey [4] \<mapsto> \<lparr>t_mint = PublicKey [1], t_owner = PublicKey [6], t_delegate = None, t_amount = 0\<rparr>,
       PublicKey [5] \<mapsto> \<lparr>t_mint = PublicKey [1], t_owner = PublicKey [11], t_delegate = None, t_amount = 0\<rparr>)\<rparr>"

definition sample_calls :: "(account_arg list \<times> flock_instruction) list" where
  "sample_calls =
    [([signed 6, plain index_at, plain (PublicKey [1]), plain (PublicKey [10]), plain (PublicKey [6]), plain (PublicKey [11]),
       plain (PublicKey [8])],
      InitIndex (replicate 32 0) (replicate 12 0) 100 50 50 500 300),
     ([signed 6, signed 6, plain index_at, plain (PublicKey [1]), plain (PublicKey [2]), plain vault_at, plain (PublicKey [8]),
       plain (PublicKey [7])], AddComponent 2000),
     ([signed 6, plain index_at, plain (PublicKey [1])], SealIndex),
     ([signed 6, plain index_at, plain (PublicKey [1]), plain (PublicKey [4]), plain (PublicKey [5]), plain (PublicKey [7]),
       plain vault_at, plain (PublicKey [3])], Issue 1000000000 [5000])]"

fun run_calls :: "chain_env \<Rightarrow> (account_arg list \<times> flock_instruction) list \<Rightarrow> world \<Rightarrow> world prog" where
  "run_calls env [] w = Inr w"
| "run_calls env ((accounts, ix) # calls) w = rbind (process env accounts ix w) (run_calls env calls)"

lemma run_calls_reachable:
  assumes "reachable env w" "\<forall>(accounts, ix)\<in>set calls. signers_ok env accounts" "run_calls env calls w = Inr w'"
  shows "reachable env w'"
  using assms
proof (induction calls arbitrary: w)
  case (Cons call calls)
  obtain accounts ix where call: "call = (accounts, ix)" by (cases call)
  then obtain w1 where w1: "process env accounts ix w = Inr w1" "run_calls env calls w1 = Inr w'"
    using Cons.prems(3) by (auto simp: rbind_Inr_iff)
  have "process (env\<lparr>ce_now := ce_now env\<rparr>) accounts ix w = Inr w1" using w1(1) by simp
  then have "reachable env w1" using reachable.run [of env w accounts "ce_now env" ix w1] Cons.prems(1,2) call by simp
  then show ?case using Cons.IH [OF _ _ w1(2)] Cons.prems(2) by simp
qed simp

text \<open>After the history: one billion issued with a fee of five million, the vault holding 2010.\<close>

lemma sample_run:
  "case run_calls sample_env sample_calls world0 of Inl e \<Rightarrow> False
   | Inr w \<Rightarrow> supply_of w (PublicKey [1]) = 1005000000 \<and> balance_of w vault_at = 2010
       \<and> (case w_indexes w index_at of None \<Rightarrow> False
          | Some x \<Rightarrow> x_index_mint x = PublicKey [1] \<and> map c_units (components_of x) = [2000]
              \<and> map c_mint (components_of x) = [PublicKey [2]])"
  by code_simp

lemma mark_not_key: "[6] \<noteq> mark xs @ ys"
  by (cases xs) auto

lemma sample_signers: "\<forall>(accounts, ix)\<in>set sample_calls. signers_ok sample_env accounts"
  by (simp add: sample_calls_def signers_ok_def signed_def plain_def user_key_def index_pda_def sample_env_def sample_pda_def mark_not_key)

lemma sample_history:
  obtains w x where "run_calls sample_env sample_calls world0 = Inr w" "reachable sample_env w"
    "w_indexes w index_at = Some x" "x_index_mint x = PublicKey [1]" "supply_of w (PublicKey [1]) = 1005000000"
    "map c_units (components_of x) = [2000]" "map c_mint (components_of x) = [PublicKey [2]]"
proof -
  obtain w where w: "run_calls sample_env sample_calls world0 = Inr w"
    using sample_run by (cases "run_calls sample_env sample_calls world0") auto
  have "reachable sample_env world0" by (rule genesis) (simp add: world0_def)
  then have "reachable sample_env w" using w by (rule run_calls_reachable [OF _ sample_signers])
  then show ?thesis using that [OF w] sample_run unfolding w by (auto split: option.splits)
qed

text \<open>A month later the same user issues half as much again, or redeems a quarter.\<close>

definition month_later :: i64 where "month_later = 2593000"

definition user_accounts :: "account_arg list" where
  "user_accounts = [signed 6, plain index_at, plain (PublicKey [1]), plain (PublicKey [4]), plain (PublicKey [5]),
     plain (PublicKey [7]), plain vault_at, plain (PublicKey [3])]"

definition after_history :: "(world \<Rightarrow> bool) \<Rightarrow> bool" where
  "after_history P = (case run_calls sample_env sample_calls world0 of Inl e \<Rightarrow> False | Inr w \<Rightarrow> P w)"

lemma sample_second_issue:
  "after_history (\<lambda>w. case process (sample_env\<lparr>ce_now := month_later\<rparr>) user_accounts (Issue 500000000 [5000]) w of
     Inl e \<Rightarrow> False | Inr w' \<Rightarrow> supply_of w' (PublicKey [1]) = 1508326706 \<and> balance_of w' vault_at = 3014)"
  by code_simp

lemma sample_redeem:
  "after_history (\<lambda>w. case process (sample_env\<lparr>ce_now := month_later\<rparr>) user_accounts (Redeem 250000000 [1]) w of
     Inl e \<Rightarrow> False | Inr w' \<Rightarrow> supply_of w' (PublicKey [1]) = 757076706 \<and> balance_of w' vault_at = 1513)"
  by code_simp

lemma sample_index_facts:
  "after_history (\<lambda>w. case w_indexes w index_at of None \<Rightarrow> False
     | Some x \<Rightarrow> x_streaming_fee_bps x = 100 \<and> x_last_fee_accrual x = 1000)"
  by code_simp

lemma sample_governor:
  "after_history (\<lambda>w. case w_indexes w index_at of None \<Rightarrow> False | Some x \<Rightarrow> x_governor x = PublicKey [10])"
  by code_simp

lemma sample_vault:
  "after_history (\<lambda>w. case w_tokens w vault_at of None \<Rightarrow> False | Some t \<Rightarrow> t_owner t = index_at \<and> t_delegate t = None)"
  by code_simp

lemma sample_user_signs: "signers_ok sample_env user_accounts"
  by (simp add: user_accounts_def signers_ok_def signed_def plain_def user_key_def index_pda_def sample_env_def
      sample_pda_def mark_not_key)

lemma sample_count:
  assumes "reachable sample_env w" "w_indexes w index_at = Some x" "map c_units (components_of x) = [2000]"
  shows "count x = 1"
proof -
  have tc: "token_contract (ce_cpi sample_env)" by (simp add: sample_env_def ledger_contract)
  have "length (components_of x) = 1" using assms(3) by (metis One_nat_def length_Cons length_map list.size(3))
  moreover have "count x \<le> length (x_components x)"
    by (rule backed_table [OF reachable_backed [OF assms(1) tc sample_pda_contract] assms(2)])
  ultimately show ?thesis by (simp add: components_of_def)
qed

end
