(* ===== verification/ChainDilution.thy ===== *)
theory ChainDilution
  imports ChainSafety
begin

text \<open>
  What issuing and redeeming do to the holders who do neither: the holdings of the vaults and the
  supply are followed through the handlers, and the units per token never fall.
\<close>

section \<open>Holdings that can only grow\<close>

definition held :: "pubkey \<Rightarrow> world \<Rightarrow> pubkey \<Rightarrow> bool" where
  "held A w v \<longleftrightarrow> (\<exists>t. w_tokens w v = Some t \<and> t_owner t = A \<and> t_delegate t = None)"

definition grows :: "pubkey \<Rightarrow> world \<Rightarrow> world \<Rightarrow> bool" where
  "grows A w w' \<longleftrightarrow> (\<forall>v. held A w v \<longrightarrow> held A w' v \<and> balance_of w v \<le> balance_of w' v)"

lemma grows_refl [simp]: "grows A w w" by (simp add: grows_def)

lemma grows_trans [trans]: "grows A w w1 \<Longrightarrow> grows A w1 w2 \<Longrightarrow> grows A w w2"
  by (auto simp: grows_def intro: order_trans)

lemma growsD: "grows A w w' \<Longrightarrow> held A w v \<Longrightarrow> held A w' v \<and> balance_of w v \<le> balance_of w' v"
  by (simp add: grows_def)

lemma grows_same_tokens: "w_tokens w' = w_tokens w \<Longrightarrow> grows A w w'"
  by (simp add: grows_def held_def balance_of_def)

text \<open>A transfer in full: the source gives what the destination gets, and only the owner's account gives.\<close>

lemma transfer_grows:
  assumes "transfer_spec src dst auth n w w'" "auth \<noteq> A"
  shows "grows A w w'"
proof -
  from assms(1) obtain s d where sd: "w_tokens w src = Some s" "w_tokens w dst = Some d" "may_spend auth s"
    and w': "if src = dst then w' = w else uint (t_amount d) + uint n < 2 ^ 64
             \<and> w' = w\<lparr>w_tokens := (w_tokens w)(src \<mapsto> debit n s, dst \<mapsto> credit n d)\<rparr>"
    by (auto simp: transfer_spec_def)
  have "\<not> held A w src" using sd assms(2) by (auto simp: held_def may_spend_def)
  then show ?thesis using sd w' uint_credit [of d n] by (auto simp: grows_def held_def balance_of_def split: if_splits)
qed

lemma mint_grows:
  assumes "mint_spec m dst auth n w w'" shows "grows A w w'"
proof -
  from assms obtain a d where md: "w_mints w m = Some a" "w_tokens w dst = Some d" "uint (t_amount d) + uint n < 2 ^ 64"
    and w': "w' = w\<lparr>w_mints := (w_mints w)(m \<mapsto> a\<lparr>m_supply := m_supply a + n\<rparr>), w_tokens := (w_tokens w)(dst \<mapsto> credit n d)\<rparr>"
    by (auto simp: mint_spec_def)
  show ?thesis using md uint_credit [OF md(3)] by (auto simp: w' grows_def held_def balance_of_def)
qed

lemma burn_grows:
  assumes "burn_spec src m auth n w w'" "auth \<noteq> A" shows "grows A w w'"
proof -
  from assms(1) obtain a s where ms: "w_mints w m = Some a" "w_tokens w src = Some s" "may_spend auth s"
    and w': "w' = w\<lparr>w_mints := (w_mints w)(m \<mapsto> a\<lparr>m_supply := m_supply a - n\<rparr>), w_tokens := (w_tokens w)(src \<mapsto> debit n s)\<rparr>"
    by (auto simp: burn_spec_def)
  have "\<not> held A w src" using ms assms(2) by (auto simp: held_def may_spend_def)
  then show ?thesis using ms by (auto simp: w' grows_def held_def balance_of_def)
qed

text \<open>The supply after minting and burning.\<close>

lemma mint_supply: "mint_spec m dst auth n w w' \<Longrightarrow> supply_of w' m = supply_of w m + uint n"
  by (auto simp: mint_spec_def supply_of_def uint_word_ariths)

lemma burn_supply: "burn_spec src m auth n w w' \<Longrightarrow> supply_of w' m = supply_of w m - uint n"
  by (auto simp: burn_spec_def supply_of_def uint_sub_lem)

lemma spec_indexes:
  "transfer_spec src dst auth n w w' \<Longrightarrow> w_indexes w' = w_indexes w"
  "mint_spec m dst auth n w w' \<Longrightarrow> w_indexes w' = w_indexes w"
  "burn_spec src m auth n w w' \<Longrightarrow> w_indexes w' = w_indexes w"
  by (auto simp: transfer_spec_def mint_spec_def burn_spec_def split: if_splits)

lemmas contract_mint = token_contract_def [THEN iffD1, THEN conjunct2, THEN conjunct1, rule_format]
lemmas contract_burn = token_contract_def [THEN iffD1, THEN conjunct2, THEN conjunct2, THEN conjunct1, rule_format]

text \<open>The same for the processor's helpers.\<close>

lemma transfer_from_user_effect:
  assumes "token_contract (ce_cpi env)" "transfer_from_user env src v user n w = Inr w'" "user \<noteq> A" "held A w v"
  shows "grows A w w'" "w_indexes w' = w_indexes w" "w_mints w' = w_mints w" "balance_of w' v = balance_of w v + uint n"
proof -
  have "n = 0 \<and> w' = w \<or> transfer_spec src v user n w w'"
    using assms(2) contract_transfer [OF assms(1)] by (auto simp: transfer_from_user_def split: if_splits)
  moreover have "balance_of w' v = balance_of w v + uint n" if t: "transfer_spec src v user n w w'"
  proof -
    obtain s d where sd: "w_tokens w src = Some s" "w_tokens w v = Some d" "may_spend user s"
      and w': "if src = v then w' = w else uint (t_amount d) + uint n < 2 ^ 64
             \<and> w' = w\<lparr>w_tokens := (w_tokens w)(src \<mapsto> debit n s, v \<mapsto> credit n d)\<rparr>"
      using t by (auto simp: transfer_spec_def)
    have "src \<noteq> v" using sd assms(3,4) by (auto simp: held_def may_spend_def)
    then show ?thesis using sd w' uint_credit [of d n] by (simp add: balance_of_def)
  qed
  ultimately show "grows A w w'" "w_indexes w' = w_indexes w" "w_mints w' = w_mints w" "balance_of w' v = balance_of w v + uint n"
    using transfer_grows assms(3) spec_indexes(1) transfer_spec_mints by auto
qed

lemma mint_index_tokens_effect:
  assumes "token_contract (ce_cpi env)" "mint_index_tokens env m dst auth n w = Inr w'"
  shows "grows A w w'" "w_indexes w' = w_indexes w" "supply_of w' m = supply_of w m + uint n"
proof -
  have "n = 0 \<and> w' = w \<or> mint_spec m dst auth n w w'"
    using assms(2) contract_mint [OF assms(1)] by (auto simp: mint_index_tokens_def split: if_splits)
  then show "grows A w w'" "w_indexes w' = w_indexes w" "supply_of w' m = supply_of w m + uint n"
    using mint_grows spec_indexes(2) mint_supply by auto
qed

lemma burn_index_tokens_effect:
  assumes "token_contract (ce_cpi env)" "burn_index_tokens env m src user n w = Inr w'" "user \<noteq> A"
  shows "grows A w w'" "w_indexes w' = w_indexes w" "supply_of w' m = supply_of w m - uint n"
proof -
  have "burn_spec src m user n w w'"
    using assms(2) contract_burn [OF assms(1)] by (auto simp: burn_index_tokens_def)
  then show "grows A w w'" "w_indexes w' = w_indexes w" "supply_of w' m = supply_of w m - uint n"
    using burn_grows assms(3) spec_indexes(3) burn_supply by auto
qed

lemma mint_fee_effect:
  assumes "token_contract (ce_cpi env)" "mint_fee env A m fee n w = Inr w'"
  shows "grows B w w'" "w_indexes w' = w_indexes w" "supply_of w' m = supply_of w m + uint n"
proof -
  have "n = 0 \<and> w' = w \<or> mint_index_tokens env m fee A n w = Inr w'"
    using assms(2) by (auto simp: mint_fee_def rbind_Inr_iff word_gt_0 split: if_splits)
  then show "grows B w w'" "w_indexes w' = w_indexes w" "supply_of w' m = supply_of w m + uint n"
    using mint_index_tokens_effect [OF assms(1)] by auto
qed

lemma accrue_effect:
  assumes "token_contract (ce_cpi env)" "accrue env A m fee w = Inr (owed, w')" "w_indexes w A = Some x"
  shows "grows B w w'" "supply_of w' m = supply_of w m + uint owed"
    "w_indexes w' = (w_indexes w)(A \<mapsto> x\<lparr>x_last_fee_accrual := ce_now env\<rparr>)"
    "\<exists>s. uint s = supply_of w m \<and> streaming_fee_tokens s (x_streaming_fee_bps x)
        (saturating_sub (ce_now env) (x_last_fee_accrual x)) = Inr owed"
proof -
  obtain a w1 where a: "w_mints w m = Some a"
    "streaming_fee_tokens (m_supply a) (x_streaming_fee_bps x) (saturating_sub (ce_now env) (x_last_fee_accrual x)) = Inr owed"
    and w1: "index_update A (\<lambda>y. y\<lparr>x_last_fee_accrual := ce_now env\<rparr>) w = Inr w1"
    and w': "owed = 0 \<and> w' = w1 \<or> mint_index_tokens env m fee A owed w1 = Inr w'"
    using assms(2,3) by (auto simp: accrue_def rbind_Inr_iff read_mint_Inr dest!: index_ref_Inr split: if_splits)
  have w1': "w1 = set_index A (x\<lparr>x_last_fee_accrual := ce_now env\<rparr>) w"
    using index_update_Inr [OF w1] assms(3) by (metis option.inject)
  have "grows B w w1" "supply_of w1 m = supply_of w m"
    by (simp_all add: w1' set_index_def grows_same_tokens supply_of_def)
  then show "grows B w w'" "supply_of w' m = supply_of w m + uint owed"
    using w' mint_index_tokens_effect [OF assms(1)] by (auto intro: grows_trans)
  have "w_indexes w' = w_indexes w1" using w' mint_index_tokens_effect(2) [OF assms(1)] by auto
  then show "w_indexes w' = (w_indexes w)(A \<mapsto> x\<lparr>x_last_fee_accrual := ce_now env\<rparr>)"
    by (simp add: w1' set_index_def)
  show "\<exists>s. uint s = supply_of w m \<and> streaming_fee_tokens s (x_streaming_fee_bps x)
        (saturating_sub (ce_now env) (x_last_fee_accrual x)) = Inr owed"
    using a by (intro exI [of _ "m_supply a"]) (simp add: supply_of_def)
qed

section \<open>Units after a refresh\<close>

lemma units_from_balance_value:
  assumes "units_from_balance b s = Inr u" shows "uint u = uint b * UNIT_SCALE div uint s"
proof -
  have s: "s \<noteq> 0" using assms by (auto simp: units_from_balance_def)
  then have pos: "0 < uint s" by (simp add: uint_pos_iff)
  have "narrow (uint b * UNIT_SCALE div uint s) = Inr u" using assms units_from_balance_parity(2) [OF s] by simp
  then show ?thesis by (rule narrow_value) (use pos in \<open>simp add: UNIT_SCALE_def pos_imp_zdiv_nonneg_iff\<close>)
qed

definition vault_of_index :: "chain_env \<Rightarrow> index \<Rightarrow> nat \<Rightarrow> pubkey" where
  "vault_of_index env x i = fst (vault_pda env (x_index_mint x) (c_mint (x_components x ! i)))"

lemma vault_of_index_clock [simp]: "vault_of_index (env\<lparr>ce_now := t\<rparr>) = vault_of_index env"
  by (simp add: vault_of_index_def fun_eq_iff)

lemma same_shape_vault:
  assumes "same_shape x x'" "i < length (x_components x)"
  shows "vault_of_index env x' i = vault_of_index env x i"
proof -
  have "map c_mint (x_components x') ! i = map c_mint (x_components x) ! i"
    by (simp only: same_shape_table [OF assms(1)])
  then show ?thesis using assms same_shape_facts [OF assms(1)] by (simp add: vault_of_index_def)
qed

text \<open>What \<open>sync_units\<close> leaves in the account, from balances that \<open>verify_vaults\<close> read.\<close>

lemma sync_units_values:
  assumes ver: "verify_vaults env A (x_index_mint x) vaults w = Inr balances"
    and sync: "sync_units A balances supply w = Inr w'" and sup: "uint supply = supply_of w (x_index_mint x)"
    and x: "w_indexes w A = Some x" "count x \<le> length (x_components x)"
  obtains x' where "w_indexes w' A = Some x'" "same_shape x x'" "w_tokens w' = w_tokens w" "w_mints w' = w_mints w"
    "supply_of w (x_index_mint x) = 0 \<longrightarrow> w' = w"
    "\<And>i. i < count x \<Longrightarrow> supply_of w (x_index_mint x) \<noteq> 0 \<Longrightarrow> uint (c_units (x_components x' ! i))
         = balance_of w (vault_of_index env x i) * UNIT_SCALE div supply_of w (x_index_mint x)"
proof -
  obtain x' where x': "w_indexes w' A = Some x'" "same_shape x x'"
    and u: "\<And>i. supply \<noteq> 0 \<Longrightarrow> i < count x \<Longrightarrow> units_from_balance (balances ! i) supply = Inr (c_units (x_components x' ! i))"
    using sync_units_result [OF sync x] by metis
  have z: "supply_of w (x_index_mint x) = 0 \<longleftrightarrow> supply = 0" using sup by (metis uint_0_iff)
  show ?thesis
  proof (rule that [OF x' sync_units_step(3,2) [OF sync x]])
    show "supply_of w (x_index_mint x) = 0 \<longrightarrow> w' = w" using sync z by (cases "supply = 0") (simp_all add: sync_units_def)
    fix i assume i: "i < count x" "supply_of w (x_index_mint x) \<noteq> 0"
    have "uint (balances ! i) = balance_of w (vault_of_index env x i)"
      using verify_vaults_balance(2) [OF ver x(1), of i] i x(2) by (simp add: components_of_def vault_of_index_def)
    moreover have "supply \<noteq> 0" using i z by simp
    ultimately show "uint (c_units (x_components x' ! i))
         = balance_of w (vault_of_index env x i) * UNIT_SCALE div supply_of w (x_index_mint x)"
      using units_from_balance_value [OF u] i sup by simp
  qed
qed

lemma refresh_values:
  assumes "refresh env A (x_index_mint x) vaults w = Inr w'" "w_indexes w A = Some x" "count x \<le> length (x_components x)"
  obtains x' where "w_indexes w' A = Some x'" "same_shape x x'" "w_tokens w' = w_tokens w" "w_mints w' = w_mints w"
    "\<forall>i<count x. supply_of w (x_index_mint x) \<noteq> 0 \<longrightarrow> uint (c_units (x_components x' ! i))
         = balance_of w (vault_of_index env x i) * UNIT_SCALE div supply_of w (x_index_mint x)"
    "supply_of w (x_index_mint x) = 0 \<longrightarrow> w' = w"
proof -
  obtain balances m where r: "verify_vaults env A (x_index_mint x) vaults w = Inr balances" "w_mints w (x_index_mint x) = Some m"
    "sync_units A balances (m_supply m) w = Inr w'" using assms(1) by (rule refresh_split)
  have "uint (m_supply m) = supply_of w (x_index_mint x)" using r(2) by (simp add: supply_of_def)
  from sync_units_values [OF r(1,3) this assms(2,3)] that show ?thesis by metis
qed

section \<open>Issuing\<close>

lemma issue_leg_effect:
  assumes tc: "token_contract (ce_cpi env)" and leg: "issue_leg env A user rest gross max_in w i = Inr w'"
    and user: "user \<noteq> A" and x: "w_indexes w A = Some x" and held: "held A w (ac_key (rest ! (i * 2)))"
  shows "grows A w w'" "w_indexes w' = w_indexes w" "w_mints w' = w_mints w"
    "balance_of w (ac_key (rest ! (i * 2))) * UNIT_SCALE + uint (c_units (x_components x ! i)) * uint gross
       \<le> balance_of w' (ac_key (rest ! (i * 2))) * UNIT_SCALE"
proof -
  obtain req where r: "units_in (c_units (x_components x ! i)) gross = Inr req"
    and t: "transfer_from_user env (ac_key (rest ! (i * 2 + 1))) (ac_key (rest ! (i * 2))) user req w = Inr w'"
    using leg x by (auto simp: issue_leg_def rbind_Inr_iff component_at_def dest!: index_ref_Inr)
  note e = transfer_from_user_effect [OF tc t user held]
  show "grows A w w'" "w_indexes w' = w_indexes w" "w_mints w' = w_mints w" using e by simp_all
  let ?p = "uint (c_units (x_components x ! i)) * uint gross"
  have "narrow (ceil_div ?p UNIT_SCALE) = Inr req" using r units_in_parity(2) by simp
  then have "uint req = ceil_div ?p UNIT_SCALE" by (rule narrow_value) (rule ceil_div_nonneg, simp_all add: UNIT_SCALE_def)
  moreover have "?p \<le> ceil_div ?p UNIT_SCALE * UNIT_SCALE" by (rule ceil_div_ge) (simp add: UNIT_SCALE_def)
  ultimately show "balance_of w (ac_key (rest ! (i * 2))) * UNIT_SCALE + ?p \<le> balance_of w' (ac_key (rest ! (i * 2))) * UNIT_SCALE"
    using e(4) by (simp add: distrib_right)
qed

lemma issue_legs_effect:
  assumes tc: "token_contract (ce_cpi env)" and user: "user \<noteq> A"
    and fold: "rfold (issue_leg env A user rest gross max_in) w is = Inr w'"
    and x: "w_indexes w A = Some x" and held: "\<forall>i\<in>set is. held A w (ac_key (rest ! (i * 2)))"
  shows "grows A w w' \<and> w_indexes w' = w_indexes w \<and> w_mints w' = w_mints w
    \<and> (\<forall>i\<in>set is. balance_of w (ac_key (rest ! (i * 2))) * UNIT_SCALE + uint (c_units (x_components x ! i)) * uint gross
       \<le> balance_of w' (ac_key (rest ! (i * 2))) * UNIT_SCALE)"
  using fold x held
proof (induction "is" arbitrary: w)
  case (Cons i js)
  obtain w1 where w1: "issue_leg env A user rest gross max_in w i = Inr w1"
    and r: "rfold (issue_leg env A user rest gross max_in) w1 js = Inr w'"
    using Cons.prems(1) by (auto simp: rbind_Inr_iff)
  have h: "held A w (ac_key (rest ! (i * 2)))" using Cons.prems(3) by simp
  note e = issue_leg_effect [OF tc w1 user Cons.prems(2) h]
  have x1: "w_indexes w1 A = Some x" using e(2) Cons.prems(2) by simp
  have g: "held A w1 (ac_key (rest ! (j * 2))) \<and> balance_of w (ac_key (rest ! (j * 2))) \<le> balance_of w1 (ac_key (rest ! (j * 2)))"
    if "j \<in> set (i # js)" for j using growsD [OF e(1)] Cons.prems(3) that by auto
  have h1: "\<forall>j\<in>set js. held A w1 (ac_key (rest ! (j * 2)))" using g by simp
  note ih = Cons.IH [OF r x1 h1]
  have "balance_of w (ac_key (rest ! (j * 2))) * UNIT_SCALE + uint (c_units (x_components x ! j)) * uint gross
      \<le> balance_of w' (ac_key (rest ! (j * 2))) * UNIT_SCALE" if j: "j \<in> set (i # js)" for j
  proof -
    let ?v = "ac_key (rest ! (j * 2))"
    have m: "balance_of w ?v * UNIT_SCALE \<le> balance_of w1 ?v * UNIT_SCALE" "balance_of w1 ?v * UNIT_SCALE \<le> balance_of w' ?v * UNIT_SCALE"
      using g [OF j] growsD [of A w1 w' ?v] ih by (auto simp: UNIT_SCALE_def)
    show ?thesis
    proof (cases "j = i")
      case True
      show ?thesis using e(4) m(2) unfolding True by (rule order_trans)
    next
      case False
      then have "j \<in> set js" using j by simp
      then have "balance_of w1 ?v * UNIT_SCALE + uint (c_units (x_components x ! j)) * uint gross \<le> balance_of w' ?v * UNIT_SCALE"
        using ih by blast
      then show ?thesis using m(1) by linarith
    qed
  qed
  then show ?case using e(2,3) ih grows_trans [OF e(1)] by auto
qed simp

lemma issue_parts:
  assumes "issue_tokens env accounts amount max_in w = Inr w'"
  obtains user mA user_ata fee rest x owed w1 w2 w3 w4 w5 fees gross A where
    "accounts \<noteq> []" "hd accounts = user" "ac_signer user" "A = fst (index_pda env mA)" "A = ac_key (accounts ! 1)"
    "w_indexes w A = Some x" "x_state x = STATE_LIVE"
    "accrue env A mA fee w = Inr (owed, w1)"
    "refresh env A mA (vault_args (count x) rest) w1 = Inr w2"
    "checked_add_u64 amount fees = Inr gross"
    "rfold (issue_leg env A (ac_key user) rest gross max_in) w2 [0..<count x] = Inr w3"
    "mint_index_tokens env mA user_ata A amount w3 = Inr w4"
    "mint_fee env A mA fee fees w4 = Inr w5"
    "refresh env A mA (vault_args (count x) rest) w5 = Inr w'"
    "lift_err (rbind (mul_div_ceil (ucast amount) (ucast (x_issue_fee_bps x)) bps_whole) to_u64) = Inr fees"
  using assms
  by (simp add: issue_tokens_def rbind_Inr_iff Let_def split: list.splits if_splits)
    (auto dest!: index_ref_Inr)

text \<open>The vault of a component in the account list, once the vaults have been verified.\<close>

lemma verified_vault_key:
  assumes "verify_vaults env A mA vaults w = Inr balances" "w_indexes w A = Some x" "i < count x"
    "count x \<le> length (x_components x)"
  shows "ac_key (vaults ! i) = fst (vault_pda env mA (c_mint (x_components x ! i)))"
proof -
  have "rmapM (verify_vault env A mA w) (zip (components_of x) vaults) = Inr balances" "length vaults = count x"
    using assms(1,2) by (auto simp: verify_vaults_def rbind_Inr_iff dest!: index_ref_Inr split: if_splits)
  from rmapM_nth [OF this(1), of i] this(2) have "verify_vault env A mA w (components_of x ! i, vaults ! i) = Inr (balances ! i)"
    using assms(3,4) by (simp add: components_of_def)
  then show ?thesis using assms(3) by (auto simp: verify_vault_def rbind_Inr_iff components_of_def)
qed

lemma verified_key:
  assumes "verify_vaults env A mA (vault_args n rest) w = Inr balances" "w_indexes w A = Some x" "i < count x"
    "count x \<le> length (x_components x)" "n = count x"
  shows "ac_key (rest ! (i * 2)) = fst (vault_pda env mA (c_mint (x_components x ! i)))"
  using verified_vault_key [OF assms(1-4)] assms(3,5) by (simp add: vault_args_def)

lemma balance_nonneg [simp]: "0 \<le> balance_of w v" "0 \<le> supply_of w m"
  by (simp_all add: balance_of_def supply_of_def split: option.splits)

lemma vault_held:
  assumes "index_struct env w A x" "i < count x" shows "held A w (vault_of_index env x i)"
proof -
  have "x_components x ! i \<in> set (components_of x)"
    using assms by (auto simp: index_struct_def components_of_def in_set_conv_nth intro!: exI [of _ i])
  from struct_vault [OF assms(1) this] show ?thesis by (auto simp: held_def vault_of_index_def vault_key_def)
qed

text \<open>
  The way into both handlers: the streaming fee is accrued, the vaults are verified and the cached
  units are recomputed. From there on the handler starts from units that are no smaller than the
  holders' share after the fee, and that the vaults cover.
\<close>

lemma entered:
  assumes tc: "token_contract (ce_cpi env)" and pda: "pda_contract env" and inv: "backed env w"
    and A: "A = fst (index_pda env mA)" and x: "w_indexes w A = Some x"
    and acc: "accrue env A mA fee w = Inr (owed, w1)"
    and ver: "verify_vaults env A mA (vault_args (count x) rest) w1 = Inr balances"
    and m: "w_mints w1 mA = Some m" and sync: "sync_units A balances (m_supply m) w1 = Inr w2"
  obtains s x2 where "uint s = supply_of w mA" "x_index_mint x = mA" "index_struct env w A x"
    "streaming_fee_tokens s (x_streaming_fee_bps x) (saturating_sub (ce_now env) (x_last_fee_accrual x)) = Inr owed"
    "w_indexes w2 A = Some x2" "same_shape x x2" "supply_of w2 mA = uint s + uint owed" "supply_of w1 mA = uint s + uint owed"
    "\<forall>i<count x. ac_key (rest ! (i * 2)) = vault_of_index env x i \<and> held A w2 (vault_of_index env x i)"
    "\<forall>i<count x. balance_of w (vault_of_index env x i) * UNIT_SCALE div (uint s + uint owed) \<le> uint (c_units (x_components x2 ! i))"
    "\<forall>i<count x. uint (c_units (x_components x2 ! i)) * supply_of w2 mA \<le> balance_of w2 (vault_of_index env x i) * UNIT_SCALE"
    "\<forall>i<count x. uint (c_units (x_components x2 ! i)) = (if uint s + uint owed = 0 then uint (c_units (x_components x ! i))
        else balance_of w2 (vault_of_index env x i) * UNIT_SCALE div (uint s + uint owed))"
    "w_tokens w2 = w_tokens w1"
proof -
  have st: "index_struct env w A x" using inv x by (simp add: backed_def)
  have mint: "x_index_mint x = mA" by (rule own_mint [OF st A pda])
  define x1 where "x1 = x\<lparr>x_last_fee_accrual := ce_now env\<rparr>"
  note ac = accrue_effect [OF tc acc x]
  have x1: "w_indexes w1 A = Some x1" "x_index_mint x1 = mA" "count x1 = count x" "x_components x1 = x_components x"
    "vault_of_index env x1 = vault_of_index env x"
    using ac(3) mint by (simp_all add: x1_def count_def vault_of_index_def fun_eq_iff)
  have len1: "count x1 \<le> length (x_components x1)" using backed_table [OF inv x] x1 by simp
  have "uint (m_supply m) = supply_of w1 mA" using m by (simp add: supply_of_def)
  from sync_units_values [OF ver [folded x1(2)] sync this [folded x1(2)] x1(1) len1]
  obtain x2 where x2: "w_indexes w2 A = Some x2" "same_shape x1 x2" "w_tokens w2 = w_tokens w1" "w_mints w2 = w_mints w1"
    and u2: "\<And>i. i < count x \<Longrightarrow> supply_of w1 mA \<noteq> 0 \<Longrightarrow> uint (c_units (x_components x2 ! i))
         = balance_of w1 (vault_of_index env x i) * UNIT_SCALE div supply_of w1 mA"
    and u2z: "supply_of w1 mA = 0 \<longrightarrow> w2 = w1"
    unfolding x1(2,3,5) by metis
  obtain s where s: "uint s = supply_of w mA"
    "streaming_fee_tokens s (x_streaming_fee_bps x) (saturating_sub (ce_now env) (x_last_fee_accrual x)) = Inr owed"
    using ac(4) mint by blast
  have s1: "supply_of w1 mA = uint s + uint owed" using ac(2) s(1) mint by simp
  have same: "balance_of w2 = balance_of w1" "held A w2 = held A w1" "supply_of w2 = supply_of w1"
    using x2(3,4) by (simp_all add: balance_of_def held_def supply_of_def fun_eq_iff)
  show ?thesis
  proof (rule that [OF s(1) mint st s(2) x2(1)])
    show "same_shape x x2" using x2(2) by (simp add: same_shape_def x1_def)
    show "\<forall>i<count x. ac_key (rest ! (i * 2)) = vault_of_index env x i \<and> held A w2 (vault_of_index env x i)"
    proof (intro allI impI conjI)
      fix i assume i: "i < count x"
      have "ac_key (rest ! (i * 2)) = fst (vault_pda env mA (c_mint (x_components x1 ! i)))"
        by (rule verified_key [OF ver x1(1) _ len1]) (simp_all only: x1(3) i)
      then show "ac_key (rest ! (i * 2)) = vault_of_index env x i" by (simp add: vault_of_index_def mint x1(4))
      show "held A w2 (vault_of_index env x i)" using growsD [OF ac(1) vault_held [OF st i]] same by simp
    qed
    show "\<forall>i<count x. balance_of w (vault_of_index env x i) * UNIT_SCALE div (uint s + uint owed) \<le> uint (c_units (x_components x2 ! i))"
    proof (intro allI impI)
      fix i assume i: "i < count x"
      show "balance_of w (vault_of_index env x i) * UNIT_SCALE div (uint s + uint owed) \<le> uint (c_units (x_components x2 ! i))"
      proof (cases "supply_of w1 mA = 0")
        case False
        then have "0 < uint s + uint owed" using s1 balance_nonneg(2) [of w1 mA] by linarith
        then show ?thesis using growsD [OF ac(1) vault_held [OF st i]] u2 [OF i False] s1
          by (simp add: UNIT_SCALE_def zdiv_mono1)
      qed (use s1 in simp)
    qed
    show "\<forall>i<count x. uint (c_units (x_components x2 ! i)) * supply_of w2 mA \<le> balance_of w2 (vault_of_index env x i) * UNIT_SCALE"
    proof (intro allI impI)
      fix i assume i: "i < count x"
      show "uint (c_units (x_components x2 ! i)) * supply_of w2 mA \<le> balance_of w2 (vault_of_index env x i) * UNIT_SCALE"
      proof (cases "supply_of w1 mA = 0")
        case False
        then have "0 < supply_of w1 mA" using balance_nonneg(2) [of w1 mA] by linarith
        then show ?thesis unfolding same u2 [OF i False] by (rule div_mult_bounds(1))
      qed (simp add: same UNIT_SCALE_def)
    qed
    show "\<forall>i<count x. uint (c_units (x_components x2 ! i)) = (if uint s + uint owed = 0 then uint (c_units (x_components x ! i))
        else balance_of w2 (vault_of_index env x i) * UNIT_SCALE div (uint s + uint owed))"
      using u2 u2z x2(1) x1(1,4) unfolding same s1 by (auto simp only: option.inject split: if_splits)
  qed (use s1 same x2(3) in simp_all)
qed

text \<open>
  The way out of both handlers: the units are recomputed once more. What covers the units of the
  way in for the new supply keeps every unit at that value or above.
\<close>

lemma left_covered:
  assumes ref: "refresh env A mA (vault_args (count x) rest) w5 = Inr w'" and x2: "w_indexes w5 A = Some x2" "same_shape x x2"
    and mint: "x_index_mint x = mA" and len: "count x \<le> length (x_components x)"
    and cover: "\<forall>i<count x. uint (c_units (x_components x2 ! i)) * supply_of w5 mA \<le> balance_of w5 (vault_of_index env x i) * UNIT_SCALE"
  shows "\<exists>x'. w_indexes w' A = Some x' \<and> same_shape x x'
    \<and> (\<forall>i<count x. uint (c_units (x_components x2 ! i)) \<le> uint (c_units (x_components x' ! i)))"
proof -
  have sh: "x_index_mint x2 = mA" "count x2 = count x" "length (x_components x2) = length (x_components x)"
    using same_shape_facts [OF x2(2)] mint by simp_all
  have len2: "count x2 \<le> length (x_components x2)" using sh len by simp
  obtain x' where x': "w_indexes w' A = Some x'" "same_shape x2 x'" "w_tokens w' = w_tokens w5" "w_mints w' = w_mints w5"
    and u': "\<forall>i<count x2. supply_of w5 (x_index_mint x2) \<noteq> 0 \<longrightarrow> uint (c_units (x_components x' ! i))
         = balance_of w5 (vault_of_index env x2 i) * UNIT_SCALE div supply_of w5 (x_index_mint x2)"
    and z': "supply_of w5 (x_index_mint x2) = 0 \<longrightarrow> w' = w5"
    using refresh_values [OF ref [folded sh(1)] x2(1) len2] .
  have "uint (c_units (x_components x2 ! i)) \<le> uint (c_units (x_components x' ! i))" if i: "i < count x" for i
  proof (cases "supply_of w5 mA = 0")
    case True
    then show ?thesis using z' x'(1) x2(1) sh(1) by simp
  next
    case False
    then have pos: "0 < supply_of w5 mA" using balance_nonneg(2) [of w5 mA] by linarith
    have "uint (c_units (x_components x2 ! i)) = uint (c_units (x_components x2 ! i)) * supply_of w5 mA div supply_of w5 mA"
      using False by simp
    also have "\<dots> \<le> balance_of w5 (vault_of_index env x i) * UNIT_SCALE div supply_of w5 mA"
      using cover i by (intro zdiv_mono1 pos) blast
    also have "\<dots> = uint (c_units (x_components x' ! i))"
      using u' False i sh same_shape_vault [OF x2(2), of i env] len by simp
    finally show ?thesis .
  qed
  then show ?thesis using x'(1) same_shape_trans [OF x2(2) x'(2)] by blast
qed

lemma issue_keeps_units:
  assumes tc: "token_contract (ce_cpi env)" and pda: "pda_contract env" and inv: "backed env w"
    and sig: "signers_ok env accounts" and ok: "issue_tokens env accounts amount max_in w = Inr w'"
  shows "\<exists>x x' s owed. w_indexes w (ac_key (accounts ! 1)) = Some x \<and> w_indexes w' (ac_key (accounts ! 1)) = Some x'
    \<and> same_shape x x' \<and> uint s = supply_of w (x_index_mint x)
    \<and> streaming_fee_tokens s (x_streaming_fee_bps x) (saturating_sub (ce_now env) (x_last_fee_accrual x)) = Inr owed
    \<and> (\<forall>i<count x. balance_of w (vault_of_index env x i) * UNIT_SCALE div (uint s + uint owed)
          \<le> uint (c_units (x_components x' ! i)))"
proof -
  obtain user mA user_ata fee rest x owed w1 w2 w3 w4 w5 fees gross A where h:
    "accounts \<noteq> []" "hd accounts = user" "ac_signer user" "A = fst (index_pda env mA)" "A = ac_key (accounts ! 1)"
    "w_indexes w A = Some x" "x_state x = STATE_LIVE"
    "accrue env A mA fee w = Inr (owed, w1)"
    "refresh env A mA (vault_args (count x) rest) w1 = Inr w2"
    "checked_add_u64 amount fees = Inr gross"
    "rfold (issue_leg env A (ac_key user) rest gross max_in) w2 [0..<count x] = Inr w3"
    "mint_index_tokens env mA user_ata A amount w3 = Inr w4"
    "mint_fee env A mA fee fees w4 = Inr w5"
    "refresh env A mA (vault_args (count x) rest) w5 = Inr w'"
    "lift_err (rbind (mul_div_ceil (ucast amount) (ucast (x_issue_fee_bps x)) bps_whole) to_u64) = Inr fees"
    by (rule issue_parts [OF ok])
  have user: "ac_key user \<noteq> A" using sig h(1-4) by (auto simp: signers_ok_def user_key_def)
  obtain balances m where v: "verify_vaults env A mA (vault_args (count x) rest) w1 = Inr balances" "w_mints w1 mA = Some m"
    "sync_units A balances (m_supply m) w1 = Inr w2" using h(9) by (rule refresh_split)
  obtain s x2 where e: "uint s = supply_of w mA" "x_index_mint x = mA" "index_struct env w A x"
    "streaming_fee_tokens s (x_streaming_fee_bps x) (saturating_sub (ce_now env) (x_last_fee_accrual x)) = Inr owed"
    "w_indexes w2 A = Some x2" "same_shape x x2" "supply_of w2 mA = uint s + uint owed" "supply_of w1 mA = uint s + uint owed"
    "\<forall>i<count x. ac_key (rest ! (i * 2)) = vault_of_index env x i \<and> held A w2 (vault_of_index env x i)"
    "\<forall>i<count x. balance_of w (vault_of_index env x i) * UNIT_SCALE div (uint s + uint owed) \<le> uint (c_units (x_components x2 ! i))"
    "\<forall>i<count x. uint (c_units (x_components x2 ! i)) * supply_of w2 mA \<le> balance_of w2 (vault_of_index env x i) * UNIT_SCALE"
    "\<forall>i<count x. uint (c_units (x_components x2 ! i)) = (if uint s + uint owed = 0 then uint (c_units (x_components x ! i))
        else balance_of w2 (vault_of_index env x i) * UNIT_SCALE div (uint s + uint owed))"
    "w_tokens w2 = w_tokens w1"
    by (rule entered [OF tc pda inv h(4,6,8) v])
  have legs: "grows A w2 w3" "w_indexes w3 = w_indexes w2" "w_mints w3 = w_mints w2"
    "\<And>i. i < count x \<Longrightarrow> balance_of w2 (vault_of_index env x i) * UNIT_SCALE + uint (c_units (x_components x2 ! i)) * uint gross
       \<le> balance_of w3 (vault_of_index env x i) * UNIT_SCALE"
    using issue_legs_effect [OF tc user h(11) e(5)] e(9) by (simp_all add: atLeast0LessThan)
  note mi = mint_index_tokens_effect [OF tc h(12)] and mf = mint_fee_effect [OF tc h(13)]
  have x5: "w_indexes w5 A = Some x2" using mi(2) mf(2) legs(2) e(5) by simp
  have "uint gross = uint amount + uint fees"
    using h(10) by (auto simp: checked_add_u64_def uint_word_ariths split: if_splits)
  then have s5: "supply_of w5 mA = supply_of w2 mA + uint gross"
    using mi(3) mf(3) legs(3) by (simp add: supply_of_def)
  have "uint (c_units (x_components x2 ! i)) * supply_of w5 mA \<le> balance_of w5 (vault_of_index env x i) * UNIT_SCALE" if i: "i < count x" for i
  proof -
    let ?v = "vault_of_index env x i"
    have "held A w3 ?v" using growsD [OF legs(1)] e(9) i by blast
    then have "balance_of w3 ?v * UNIT_SCALE \<le> balance_of w5 ?v * UNIT_SCALE"
      using growsD [OF grows_trans [OF mi(1) mf(1)]] by (simp add: UNIT_SCALE_def)
    then show ?thesis using legs(4) [OF i] e(11) [rule_format, OF i] unfolding s5 distrib_left by linarith
  qed
  then obtain x' where x': "w_indexes w' A = Some x'" "same_shape x x'"
    "\<forall>i<count x. uint (c_units (x_components x2 ! i)) \<le> uint (c_units (x_components x' ! i))"
    using left_covered [OF h(14) x5 e(6,2) backed_table [OF inv h(6)]] by blast
  have "\<forall>i<count x. balance_of w (vault_of_index env x i) * UNIT_SCALE div (uint s + uint owed) \<le> uint (c_units (x_components x' ! i))"
    using e(10) x'(3) order_trans by blast
  then show ?thesis unfolding h(5) [symmetric] e(2) [symmetric] using h(6) x'(1,2) e(1,4) unfolding e(2) [symmetric]
    by (intro exI [of _ x] exI [of _ x'] exI [of _ s] exI [of _ owed] conjI)
qed

section \<open>Redeeming\<close>

text \<open>What the index pays out itself leaves exactly one of its accounts.\<close>

lemma transfer_from_vault_effect:
  assumes "token_contract (ce_cpi env)" "transfer_from_vault env src dst A n w = Inr w'"
  shows "w_indexes w' = w_indexes w" "w_mints w' = w_mints w"
    "held A w v \<Longrightarrow> held A w' v \<and> balance_of w v - (if v = src then uint n else 0) \<le> balance_of w' v"
proof -
  have t: "n = 0 \<and> w' = w \<or> transfer_spec src dst A n w w'"
    using assms(2) contract_transfer [OF assms(1)] by (auto simp: transfer_from_vault_def split: if_splits)
  show "w_indexes w' = w_indexes w" "w_mints w' = w_mints w" using t spec_indexes(1) transfer_spec_mints by auto
  have "held A w' v \<and> balance_of w v - (if v = src then uint n else 0) \<le> balance_of w' v"
    if h: "held A w v" and tr: "transfer_spec src dst A n w w'"
  proof -
    obtain s d where sd: "w_tokens w src = Some s" "w_tokens w dst = Some d" "uint n \<le> uint (t_amount s)"
      and w': "if src = dst then w' = w else uint (t_amount d) + uint n < 2 ^ 64
             \<and> w' = w\<lparr>w_tokens := (w_tokens w)(src \<mapsto> debit n s, dst \<mapsto> credit n d)\<rparr>"
      using tr by (auto simp: transfer_spec_def)
    show ?thesis
    proof (cases "src = dst")
      case False
      have "uint (t_amount (debit n s)) = uint (t_amount s) - uint n" by (rule uint_debit [OF sd(3)])
      moreover have "uint (t_amount (credit n d)) = uint (t_amount d) + uint n" using w' False uint_credit by simp
      ultimately show ?thesis using w' False sd h by (auto simp: held_def balance_of_def)
    qed (use w' h in simp)
  qed
  then show "held A w v \<Longrightarrow> held A w' v \<and> balance_of w v - (if v = src then uint n else 0) \<le> balance_of w' v"
    using t by auto
qed

text \<open>The payout of one component, and what a list of legs takes out of an account.\<close>

definition payout_of :: "index \<Rightarrow> u64 \<Rightarrow> nat \<Rightarrow> int" where
  "payout_of x net i = uint (c_units (x_components x ! i)) * uint net div UNIT_SCALE"

definition taken :: "index \<Rightarrow> account_arg list \<Rightarrow> u64 \<Rightarrow> nat list \<Rightarrow> pubkey \<Rightarrow> int" where
  "taken x rest net is v = sum_list (map (\<lambda>i. if v = ac_key (rest ! (i * 2)) then payout_of x net i else 0) is)"

lemma redeem_legs_effect:
  assumes tc: "token_contract (ce_cpi env)"
    and fold: "rfold (redeem_leg env A rest net min_out) w is = Inr w'" and x: "w_indexes w A = Some x"
  shows "w_indexes w' = w_indexes w \<and> w_mints w' = w_mints w
    \<and> (\<forall>v. held A w v \<longrightarrow> held A w' v \<and> balance_of w v - taken x rest net is v \<le> balance_of w' v)"
  using fold x
proof (induction "is" arbitrary: w)
  case (Cons i js)
  obtain w1 where w1: "redeem_leg env A rest net min_out w i = Inr w1"
    and r: "rfold (redeem_leg env A rest net min_out) w1 js = Inr w'"
    using Cons.prems(1) by (auto simp: rbind_Inr_iff)
  obtain payout where p: "units_out (c_units (x_components x ! i)) net = Inr payout"
    and t: "transfer_from_vault env (ac_key (rest ! (i * 2))) (ac_key (rest ! (i * 2 + 1))) A payout w = Inr w1"
    using w1 Cons.prems(2) by (auto simp: redeem_leg_def rbind_Inr_iff component_at_def dest!: index_ref_Inr)
  note e = transfer_from_vault_effect [OF tc t]
  have "narrow (payout_of x net i) = Inr payout" using p units_out_parity(2) by (simp add: payout_of_def)
  then have payout: "uint payout = payout_of x net i"
    by (rule narrow_value) (simp add: payout_of_def UNIT_SCALE_def pos_imp_zdiv_nonneg_iff)
  have "w_indexes w1 A = Some x" using e(1) Cons.prems(2) by simp
  note ih = Cons.IH [OF r this]
  have "held A w' v \<and> balance_of w v - taken x rest net (i # js) v \<le> balance_of w' v" if "held A w v" for v
  proof -
    have 1: "held A w1 v \<and> balance_of w v - (if v = ac_key (rest ! (i * 2)) then payout_of x net i else 0) \<le> balance_of w1 v"
      using e(3) [OF that] unfolding payout .
    then have "held A w' v" "balance_of w1 v - taken x rest net js v \<le> balance_of w' v" using ih by auto
    moreover have "taken x rest net (i # js) v
        = (if v = ac_key (rest ! (i * 2)) then payout_of x net i else 0) + taken x rest net js v" by (simp add: taken_def)
    ultimately show ?thesis using conjunct2 [OF 1] by linarith
  qed
  then show ?case using e(1,2) ih by simp
qed (simp add: taken_def)

lemma sum_once:
  fixes f :: "nat \<Rightarrow> int"
  assumes "distinct is" "i \<in> set is" "\<And>j. j \<in> set is \<Longrightarrow> k j = k i \<Longrightarrow> j = i"
  shows "sum_list (map (\<lambda>j. if k i = k j then f j else 0) is) = f i"
proof -
  have "sum_list (map (\<lambda>j. if k i = k j then f j else 0) is) = sum_list (map (\<lambda>j. if j = i then f i else 0) is)"
    by (rule arg_cong [where f = sum_list], rule map_cong) (use assms(3) in fastforce)+
  also have "\<dots> = f i" using assms(1,2) by (simp add: sum_list_distinct_conv_sum_set sum.delta)
  finally show ?thesis .
qed

lemma sum_never:
  fixes f :: "nat \<Rightarrow> int"
  assumes "\<forall>j\<in>set is. v \<noteq> k j"
  shows "sum_list (map (\<lambda>j. if v = k j then f j else 0) is) = 0"
  using assms by (induction "is") auto

lemma taken_once:
  assumes "distinct is" "i \<in> set is" "\<And>j. j \<in> set is \<Longrightarrow> ac_key (rest ! (j * 2)) = ac_key (rest ! (i * 2)) \<Longrightarrow> j = i"
  shows "taken x rest net is (ac_key (rest ! (i * 2))) = payout_of x net i"
  unfolding taken_def by (rule sum_once [where k = "\<lambda>j. ac_key (rest ! (j * 2))", OF assms])

lemma vault_of_index_inj:
  assumes "index_struct env w A x" "pda_contract env" "i < count x" "j < count x"
    "vault_of_index env x i = vault_of_index env x j"
  shows "i = j"
proof -
  have m: "c_mint (x_components x ! i) = c_mint (x_components x ! j)"
    using assms(2,5) unfolding pda_contract_def vault_of_index_def by blast
  have d: "distinct (map c_mint (components_of x))" "count x \<le> length (x_components x)"
    using assms(1) by (simp_all add: index_struct_def)
  have "map c_mint (components_of x) ! i = map c_mint (components_of x) ! j"
    using m assms(3,4) d(2) by (simp add: components_of_def)
  moreover have "length (map c_mint (components_of x)) = count x" using d(2) by (simp add: components_of_def)
  ultimately show ?thesis using nth_eq_iff_index_eq [OF d(1), of i j] assms(3,4) by simp
qed

lemma redeem_parts:
  assumes "redeem_tokens env accounts amount min_out w = Inr w'"
  obtains user mA user_ata fee rest x owed w1 w2 w3 w4 w5 fees balances m A where
    "accounts \<noteq> []" "hd accounts = user" "ac_signer user" "A = fst (index_pda env mA)" "A = ac_key (accounts ! 1)"
    "w_indexes w A = Some x" "amount \<noteq> 0"
    "accrue env A mA fee w = Inr (owed, w1)"
    "verify_vaults env A mA (vault_args (count x) rest) w1 = Inr balances" "w_mints w1 mA = Some m" "\<not> m_supply m < amount"
    "sync_units A balances (m_supply m) w1 = Inr w2" "\<not> amount < fees"
    "burn_index_tokens env mA user_ata (ac_key user) amount w2 = Inr w3"
    "mint_fee env A mA fee fees w3 = Inr w4"
    "rfold (redeem_leg env A rest (amount - fees) min_out) w4 [0..<count x] = Inr w5"
    "refresh env A mA (vault_args (count x) rest) w5 = Inr w'"
    "lift_err (rbind (mul_div_ceil (ucast amount) (ucast (x_redeem_fee_bps x)) bps_whole) to_u64) = Inr fees"
    "rest = drop 6 accounts"
  using assms
  by (simp add: redeem_tokens_def rbind_Inr_iff Let_def read_mint_Inr split: list.splits if_splits)
    (auto dest!: index_ref_Inr)

lemma redeem_keeps_units:
  assumes tc: "token_contract (ce_cpi env)" and pda: "pda_contract env" and inv: "backed env w"
    and sig: "signers_ok env accounts" and ok: "redeem_tokens env accounts amount min_out w = Inr w'"
  shows "\<exists>x x' s owed. w_indexes w (ac_key (accounts ! 1)) = Some x \<and> w_indexes w' (ac_key (accounts ! 1)) = Some x'
    \<and> same_shape x x' \<and> uint s = supply_of w (x_index_mint x)
    \<and> streaming_fee_tokens s (x_streaming_fee_bps x) (saturating_sub (ce_now env) (x_last_fee_accrual x)) = Inr owed
    \<and> (\<forall>i<count x. balance_of w (vault_of_index env x i) * UNIT_SCALE div (uint s + uint owed)
          \<le> uint (c_units (x_components x' ! i)))"
proof -
  obtain user mA user_ata fee rest x owed w1 w2 w3 w4 w5 fees balances m A where h:
    "accounts \<noteq> []" "hd accounts = user" "ac_signer user" "A = fst (index_pda env mA)" "A = ac_key (accounts ! 1)"
    "w_indexes w A = Some x" "amount \<noteq> 0"
    "accrue env A mA fee w = Inr (owed, w1)"
    "verify_vaults env A mA (vault_args (count x) rest) w1 = Inr balances" "w_mints w1 mA = Some m" "\<not> m_supply m < amount"
    "sync_units A balances (m_supply m) w1 = Inr w2" "\<not> amount < fees"
    "burn_index_tokens env mA user_ata (ac_key user) amount w2 = Inr w3"
    "mint_fee env A mA fee fees w3 = Inr w4"
    "rfold (redeem_leg env A rest (amount - fees) min_out) w4 [0..<count x] = Inr w5"
    "refresh env A mA (vault_args (count x) rest) w5 = Inr w'"
    "lift_err (rbind (mul_div_ceil (ucast amount) (ucast (x_redeem_fee_bps x)) bps_whole) to_u64) = Inr fees"
    "rest = drop 6 accounts"
    by (rule redeem_parts [OF ok])
  have user: "ac_key user \<noteq> A" using sig h(1-4) by (auto simp: signers_ok_def user_key_def)
  obtain s x2 where e: "uint s = supply_of w mA" "x_index_mint x = mA" "index_struct env w A x"
    "streaming_fee_tokens s (x_streaming_fee_bps x) (saturating_sub (ce_now env) (x_last_fee_accrual x)) = Inr owed"
    "w_indexes w2 A = Some x2" "same_shape x x2" "supply_of w2 mA = uint s + uint owed" "supply_of w1 mA = uint s + uint owed"
    "\<forall>i<count x. ac_key (rest ! (i * 2)) = vault_of_index env x i \<and> held A w2 (vault_of_index env x i)"
    "\<forall>i<count x. balance_of w (vault_of_index env x i) * UNIT_SCALE div (uint s + uint owed) \<le> uint (c_units (x_components x2 ! i))"
    "\<forall>i<count x. uint (c_units (x_components x2 ! i)) * supply_of w2 mA \<le> balance_of w2 (vault_of_index env x i) * UNIT_SCALE"
    "\<forall>i<count x. uint (c_units (x_components x2 ! i)) = (if uint s + uint owed = 0 then uint (c_units (x_components x ! i))
        else balance_of w2 (vault_of_index env x i) * UNIT_SCALE div (uint s + uint owed))"
    "w_tokens w2 = w_tokens w1"
    by (rule entered [OF tc pda inv h(4,6,8,9,10,12)])
  note bu = burn_index_tokens_effect [OF tc h(14) user] and mf = mint_fee_effect [OF tc h(15)]
  have x4: "w_indexes w4 A = Some x2" using bu(2) mf(2) e(5) by simp
  note legs = redeem_legs_effect [OF tc h(16) x4]
  have x5: "w_indexes w5 A = Some x2" using legs x4 by simp
  have "uint (amount - fees) = uint amount - uint fees" using h(13) by (simp add: uint_sub_lem word_less_def not_less)
  then have s5: "supply_of w5 mA = supply_of w2 mA - uint (amount - fees)"
    using bu(3) mf(3) legs by (simp add: supply_of_def)
  have "uint (c_units (x_components x2 ! i)) * supply_of w5 mA \<le> balance_of w5 (vault_of_index env x i) * UNIT_SCALE" if i: "i < count x" for i
  proof -
    let ?v = "vault_of_index env x i"
    let ?p = "payout_of x2 (amount - fees) i"
    have held4: "held A w4 ?v" "balance_of w2 ?v \<le> balance_of w4 ?v"
      using growsD [OF grows_trans [OF bu(1) mf(1)]] e(9) i by blast+
    have "taken x2 rest (amount - fees) [0..<count x] ?v = ?p"
      using taken_once [of "[0..<count x]" i rest x2 "amount - fees"] i e(9) vault_of_index_inj [OF e(3) pda] by simp
    then have "balance_of w4 ?v - ?p \<le> balance_of w5 ?v" using legs held4(1) by metis
    then have "(balance_of w2 ?v - ?p) * UNIT_SCALE \<le> balance_of w5 ?v * UNIT_SCALE"
      using held4(2) by (intro mult_right_mono) (simp_all add: UNIT_SCALE_def)
    moreover have "?p * UNIT_SCALE \<le> uint (c_units (x_components x2 ! i)) * uint (amount - fees)"
      unfolding payout_of_def by (rule div_mult_bounds(1)) (simp add: UNIT_SCALE_def)
    ultimately show ?thesis using e(11) [rule_format, OF i] unfolding s5 right_diff_distrib left_diff_distrib by linarith
  qed
  then obtain x' where x': "w_indexes w' A = Some x'" "same_shape x x'"
    "\<forall>i<count x. uint (c_units (x_components x2 ! i)) \<le> uint (c_units (x_components x' ! i))"
    using left_covered [OF h(17) x5 e(6,2) backed_table [OF inv h(6)]] by blast
  have "\<forall>i<count x. balance_of w (vault_of_index env x i) * UNIT_SCALE div (uint s + uint owed) \<le> uint (c_units (x_components x' ! i))"
    using e(10) x'(3) order_trans by blast
  then show ?thesis unfolding h(5) [symmetric] e(2) [symmetric] using h(6) x'(1,2) e(1,4) unfolding e(2) [symmetric]
    by (intro exI [of _ x] exI [of _ x'] exI [of _ s] exI [of _ owed] conjI)
qed

end
