(* ===== verification/ChainClaims.thy ===== *)
theory ChainClaims
  imports ChainSample ChainDilution
begin

text \<open>
  What the invariant of the on-chain program gives its users, over every reachable world.
\<close>

section \<open>The vaults back the supply\<close>

text \<open>C1: In every world reachable by interleaving the program's instructions with other programs'
  transactions, every vault of every index holds at least what its cached units promise to the
  whole supply of index tokens.
\<close>

theorem vaults_back_the_supply:
  assumes "reachable env w" "token_contract (ce_cpi env)" "pda_contract env"
    and "w_indexes w k = Some x" "c \<in> set (components_of x)"
  shows "uint (c_units c) * supply_of w (x_index_mint x) \<le> balance_of w (vault_key env x c) * UNIT_SCALE"
  using reachable_backed [OF assms(1-3)] assms(4,5) by (auto simp: backed_def units_ok_def)

theorem vaults_back_the_supply_witness:
  "\<exists>w x c. reachable sample_env w \<and> w_indexes w index_at = Some x \<and> c \<in> set (components_of x)
     \<and> uint (c_units c) = 2000 \<and> supply_of w (x_index_mint x) = 1005000000
     \<and> uint (c_units c) * supply_of w (x_index_mint x) \<le> balance_of w (vault_key sample_env x c) * UNIT_SCALE"
proof -
  obtain w x where h: "run_calls sample_env sample_calls world0 = Inr w" "reachable sample_env w"
    "w_indexes w index_at = Some x" "x_index_mint x = PublicKey [1]" "supply_of w (PublicKey [1]) = 1005000000"
    "map c_units (components_of x) = [2000]" "map c_mint (components_of x) = [PublicKey [2]]" by (rule sample_history)
  then obtain c where c: "components_of x = [c]" "c_units c = 2000" by auto
  have "token_contract (ce_cpi sample_env)" by (simp add: sample_env_def ledger_contract)
  from vaults_back_the_supply [OF h(2) this sample_pda_contract h(3), of c] show ?thesis
    using h c by (intro exI [of _ w] exI [of _ x] exI [of _ c]) simp
qed

section \<open>Only the index can create its tokens\<close>

text \<open>C8: In every reachable world an index account sits at its derived address, lists at most
  sixteen distinct components, is the only mint authority of an index mint nobody can freeze,
  has no supply while bootstrapping, and owns each of its undelegated vaults.
\<close>

theorem index_accounts_stay_sound:
  assumes "reachable env w" "token_contract (ce_cpi env)" "pda_contract env" "w_indexes w k = Some x"
  shows "k = fst (index_pda env (x_index_mint x)) \<and> count x \<le> ChainData.MAX_COMPONENTS
    \<and> distinct (map c_mint (components_of x))
    \<and> (\<exists>m. w_mints w (x_index_mint x) = Some m \<and> m_authority m = Some k \<and> m_freeze m = None
         \<and> (x_state x = STATE_BOOTSTRAPPING \<longrightarrow> m_supply m = 0))
    \<and> (\<forall>c\<in>set (components_of x). \<exists>t. w_tokens w (vault_key env x c) = Some t \<and> t_mint t = c_mint c
         \<and> t_owner t = k \<and> t_delegate t = None)"
  using reachable_backed [OF assms(1-3)] assms(4) unfolding backed_def index_struct_def by blast

theorem index_accounts_stay_sound_witness:
  "\<exists>w x. reachable sample_env w \<and> w_indexes w index_at = Some x \<and> count x = 1
     \<and> (\<exists>m. w_mints w (PublicKey [1]) = Some m \<and> m_authority m = Some index_at)"
proof -
  obtain w x where h: "run_calls sample_env sample_calls world0 = Inr w" "reachable sample_env w"
    "w_indexes w index_at = Some x" "x_index_mint x = PublicKey [1]" "supply_of w (PublicKey [1]) = 1005000000"
    "map c_units (components_of x) = [2000]" "map c_mint (components_of x) = [PublicKey [2]]" by (rule sample_history)
  have tc: "token_contract (ce_cpi sample_env)" by (simp add: sample_env_def ledger_contract)
  note s = index_accounts_stay_sound [OF h(2) tc sample_pda_contract h(3)]
  have "count x = 1" by (rule sample_count [OF h(2,3,6)])
  then show ?thesis using s h by auto
qed

section \<open>Nobody is diluted by an entry or an exit\<close>

text \<open>C6: In every reachable world an accepted issue leaves every component with at least the units
  per index token that the vault afforded right after the streaming fee was accrued: an entry
  never dilutes the holders.
\<close>

theorem issue_never_dilutes:
  assumes "reachable env w" "token_contract (ce_cpi env)" "pda_contract env" "signers_ok env accounts"
    and "process (env\<lparr>ce_now := t\<rparr>) accounts (Issue amount max_in) w = Inr w'"
  shows "\<exists>x x' s owed. w_indexes w (ac_key (accounts ! 1)) = Some x \<and> w_indexes w' (ac_key (accounts ! 1)) = Some x'
    \<and> map c_mint (components_of x') = map c_mint (components_of x) \<and> uint s = supply_of w (x_index_mint x)
    \<and> streaming_fee_tokens s (x_streaming_fee_bps x) (saturating_sub t (x_last_fee_accrual x)) = Inr owed
    \<and> (\<forall>i<count x. balance_of w (vault_of_index env x i) * UNIT_SCALE div (uint s + uint owed)
          \<le> uint (c_units (x_components x' ! i)))"
proof -
  have "issue_tokens (env\<lparr>ce_now := t\<rparr>) accounts amount max_in w = Inr w'" using assms(5) by simp
  from issue_keeps_units [OF _ _ _ _ this] reachable_backed [OF assms(1-3)] assms(2-4)
  obtain x x' s owed where h: "w_indexes w (ac_key (accounts ! 1)) = Some x" "w_indexes w' (ac_key (accounts ! 1)) = Some x'"
    "same_shape x x'" "uint s = supply_of w (x_index_mint x)"
    "streaming_fee_tokens s (x_streaming_fee_bps x) (saturating_sub t (x_last_fee_accrual x)) = Inr owed"
    "\<forall>i<count x. balance_of w (vault_of_index env x i) * UNIT_SCALE div (uint s + uint owed) \<le> uint (c_units (x_components x' ! i))"
    by auto
  then show ?thesis using same_shape_mints [OF h(3)] by (intro exI [of _ x] exI [of _ x'] exI [of _ s] exI [of _ owed] conjI)
qed

theorem issue_never_dilutes_witness:
  "\<exists>w w' x x' owed. reachable sample_env w
     \<and> process (sample_env\<lparr>ce_now := month_later\<rparr>) user_accounts (Issue 500000000 [5000]) w = Inr w'
     \<and> w_indexes w index_at = Some x \<and> w_indexes w' index_at = Some x' \<and> count x = 1 \<and> supply_of w (x_index_mint x) = 1005000000
     \<and> balance_of w (vault_of_index sample_env x 0) * UNIT_SCALE div (1005000000 + uint (owed :: u64)) \<le> uint (c_units (x_components x' ! 0))"
proof -
  obtain w x where h: "run_calls sample_env sample_calls world0 = Inr w" "reachable sample_env w"
    "w_indexes w index_at = Some x" "x_index_mint x = PublicKey [1]" "supply_of w (PublicKey [1]) = 1005000000"
    "map c_units (components_of x) = [2000]" "map c_mint (components_of x) = [PublicKey [2]]" by (rule sample_history)
  have tc: "token_contract (ce_cpi sample_env)" by (simp add: sample_env_def ledger_contract)
  obtain w' where w': "process (sample_env\<lparr>ce_now := month_later\<rparr>) user_accounts (Issue 500000000 [5000]) w = Inr w'"
    using sample_second_issue unfolding after_history_def h(1) by (auto split: sum.splits)
  have k: "ac_key (user_accounts ! 1) = index_at" by (simp add: user_accounts_def plain_def)
  have c: "count x = 1" by (rule sample_count [OF h(2,3,6)])
  obtain x' and s owed :: u64 where n: "w_indexes w' index_at = Some x'" "uint s = supply_of w (x_index_mint x)"
    "\<forall>i<count x. balance_of w (vault_of_index sample_env x i) * UNIT_SCALE div (uint s + uint owed)
       \<le> uint (c_units (x_components x' ! i))"
    using issue_never_dilutes [OF h(2) tc sample_pda_contract sample_user_signs w'] unfolding k h(3) option.inject
    by blast
  have "balance_of w (vault_of_index sample_env x 0) * UNIT_SCALE div (1005000000 + uint owed)
      \<le> uint (c_units (x_components x' ! 0))"
    using n(3) c unfolding n(2) h(4,5) by simp
  then show ?thesis using h(2,3,4,5) w' n(1) c
    by (intro exI [of _ w] exI [of _ w'] exI [of _ x] exI [of _ x'] exI [of _ owed]) (simp del: process.simps)
qed

text \<open>C4: In every reachable world an accepted redemption leaves every component with at least the
  units per index token that the vault afforded right after the streaming fee was accrued: an
  exit never dilutes those who stay.
\<close>

theorem redeem_never_dilutes:
  assumes "reachable env w" "token_contract (ce_cpi env)" "pda_contract env" "signers_ok env accounts"
    and "process (env\<lparr>ce_now := t\<rparr>) accounts (Redeem amount min_out) w = Inr w'"
  shows "\<exists>x x' s owed. w_indexes w (ac_key (accounts ! 1)) = Some x \<and> w_indexes w' (ac_key (accounts ! 1)) = Some x'
    \<and> map c_mint (components_of x') = map c_mint (components_of x) \<and> uint s = supply_of w (x_index_mint x)
    \<and> streaming_fee_tokens s (x_streaming_fee_bps x) (saturating_sub t (x_last_fee_accrual x)) = Inr owed
    \<and> (\<forall>i<count x. balance_of w (vault_of_index env x i) * UNIT_SCALE div (uint s + uint owed)
          \<le> uint (c_units (x_components x' ! i)))"
proof -
  have "redeem_tokens (env\<lparr>ce_now := t\<rparr>) accounts amount min_out w = Inr w'" using assms(5) by simp
  from redeem_keeps_units [OF _ _ _ _ this] reachable_backed [OF assms(1-3)] assms(2-4)
  obtain x x' s owed where h: "w_indexes w (ac_key (accounts ! 1)) = Some x" "w_indexes w' (ac_key (accounts ! 1)) = Some x'"
    "same_shape x x'" "uint s = supply_of w (x_index_mint x)"
    "streaming_fee_tokens s (x_streaming_fee_bps x) (saturating_sub t (x_last_fee_accrual x)) = Inr owed"
    "\<forall>i<count x. balance_of w (vault_of_index env x i) * UNIT_SCALE div (uint s + uint owed) \<le> uint (c_units (x_components x' ! i))"
    by auto
  then show ?thesis using same_shape_mints [OF h(3)] by (intro exI [of _ x] exI [of _ x'] exI [of _ s] exI [of _ owed] conjI)
qed

theorem redeem_never_dilutes_witness:
  "\<exists>w w' x x' owed. reachable sample_env w
     \<and> process (sample_env\<lparr>ce_now := month_later\<rparr>) user_accounts (Redeem 250000000 [1]) w = Inr w'
     \<and> w_indexes w index_at = Some x \<and> w_indexes w' index_at = Some x' \<and> count x = 1 \<and> supply_of w (x_index_mint x) = 1005000000
     \<and> balance_of w (vault_of_index sample_env x 0) * UNIT_SCALE div (1005000000 + uint (owed :: u64)) \<le> uint (c_units (x_components x' ! 0))"
proof -
  obtain w x where h: "run_calls sample_env sample_calls world0 = Inr w" "reachable sample_env w"
    "w_indexes w index_at = Some x" "x_index_mint x = PublicKey [1]" "supply_of w (PublicKey [1]) = 1005000000"
    "map c_units (components_of x) = [2000]" "map c_mint (components_of x) = [PublicKey [2]]" by (rule sample_history)
  have tc: "token_contract (ce_cpi sample_env)" by (simp add: sample_env_def ledger_contract)
  obtain w' where w': "process (sample_env\<lparr>ce_now := month_later\<rparr>) user_accounts (Redeem 250000000 [1]) w = Inr w'"
    using sample_redeem unfolding after_history_def h(1) by (auto split: sum.splits)
  have k: "ac_key (user_accounts ! 1) = index_at" by (simp add: user_accounts_def plain_def)
  have c: "count x = 1" by (rule sample_count [OF h(2,3,6)])
  obtain x' and s owed :: u64 where n: "w_indexes w' index_at = Some x'" "uint s = supply_of w (x_index_mint x)"
    "\<forall>i<count x. balance_of w (vault_of_index sample_env x i) * UNIT_SCALE div (uint s + uint owed)
       \<le> uint (c_units (x_components x' ! i))"
    using redeem_never_dilutes [OF h(2) tc sample_pda_contract sample_user_signs w'] unfolding k h(3) option.inject
    by blast
  have "balance_of w (vault_of_index sample_env x 0) * UNIT_SCALE div (1005000000 + uint owed)
      \<le> uint (c_units (x_components x' ! 0))"
    using n(3) c unfolding n(2) h(4,5) by simp
  then show ?thesis using h(2,3,4,5) w' n(1) c
    by (intro exI [of _ w] exI [of _ w'] exI [of _ x] exI [of _ x'] exI [of _ owed]) (simp del: process.simps)
qed

end
