(* ===== verification/ChainExact.thy ===== *)
theory ChainExact
  imports ChainDilution
begin

text \<open>
  What issuing and redeeming do to a vault, to the unit: \<open>foreign m A w v\<close> is an account the index
  \<open>A\<close> owns alone and whose mint is not \<open>m\<close>, the index's own. Minting and burning index tokens leave
  it alone, and every leg of an entry or an exit moves exactly its amount.
\<close>

definition foreign :: "pubkey \<Rightarrow> pubkey \<Rightarrow> world \<Rightarrow> pubkey \<Rightarrow> bool" where
  "foreign m A w v \<longleftrightarrow> (\<exists>t. w_tokens w v = Some t \<and> t_owner t = A \<and> t_delegate t = None \<and> t_mint t \<noteq> m)"

definition moved :: "pubkey \<Rightarrow> pubkey \<Rightarrow> world \<Rightarrow> world \<Rightarrow> pubkey \<Rightarrow> int \<Rightarrow> bool" where
  "moved m A w w' v d \<longleftrightarrow> (foreign m A w v \<longrightarrow> foreign m A w' v \<and> balance_of w' v = balance_of w v + d)"

lemma moved_refl [simp]: "moved m A w w v 0" by (simp add: moved_def)

lemma moved_trans: "moved m A w w1 v d \<Longrightarrow> moved m A w1 w2 v e \<Longrightarrow> moved m A w w2 v (d + e)"
  by (simp add: moved_def)

lemma moved_trans0: "moved m A w w1 v 0 \<Longrightarrow> moved m A w1 w2 v 0 \<Longrightarrow> moved m A w w2 v 0"
  using moved_trans [of m A w w1 v 0 w2 0] by simp

lemma moved_same_tokens: "w_tokens w' = w_tokens w \<Longrightarrow> moved m A w w' v 0"
  by (simp add: moved_def foreign_def balance_of_def)

lemma movedD: "moved m A w w' v d \<Longrightarrow> foreign m A w v \<Longrightarrow> foreign m A w' v" 
  "moved m A w w' v d \<Longrightarrow> foreign m A w v \<Longrightarrow> balance_of w' v = balance_of w v + d"
  by (simp_all add: moved_def)

section \<open>Single invocations\<close>

lemma mint_spec_moved:
  assumes "mint_spec m dst auth n w w'" shows "moved m A w w' v 0"
  using assms by (auto simp: mint_spec_def moved_def foreign_def balance_of_def)

lemma burn_spec_moved:
  assumes "burn_spec src m auth n w w'" shows "moved m A w w' v 0"
  using assms by (auto simp: burn_spec_def moved_def foreign_def balance_of_def)

text \<open>A transfer by another authority only adds to the index's accounts.\<close>

lemma transfer_in_moved:
  assumes "transfer_spec src dst auth n w w'" "auth \<noteq> A"
  shows "moved m A w w' v (if v = dst then uint n else 0)"
proof -
  from assms(1) obtain s d where sd: "w_tokens w src = Some s" "w_tokens w dst = Some d" "may_spend auth s"
    and w': "if src = dst then w' = w else uint (t_amount d) + uint n < 2 ^ 64
             \<and> w' = w\<lparr>w_tokens := (w_tokens w)(src \<mapsto> debit n s, dst \<mapsto> credit n d)\<rparr>"
    by (auto simp: transfer_spec_def)
  have "\<not> foreign m A w src" using sd assms(2) by (auto simp: foreign_def may_spend_def)
  then show ?thesis using sd w' uint_credit [of d n] by (auto simp: moved_def foreign_def balance_of_def split: if_splits)
qed

text \<open>What the index pays out leaves the source account, if the destination is another.\<close>

lemma transfer_out_moved:
  assumes "transfer_spec src dst auth n w w'" "dst \<noteq> v"
  shows "moved m A w w' v (- (if v = src then uint n else 0))"
proof -
  from assms(1) obtain s d where sd: "w_tokens w src = Some s" "w_tokens w dst = Some d" "uint n \<le> uint (t_amount s)"
    and w': "if src = dst then w' = w else uint (t_amount d) + uint n < 2 ^ 64
             \<and> w' = w\<lparr>w_tokens := (w_tokens w)(src \<mapsto> debit n s, dst \<mapsto> credit n d)\<rparr>"
    by (auto simp: transfer_spec_def)
  have "uint (t_amount (debit n s)) = uint (t_amount s) - uint n" using sd(3) by (simp add: debit_def uint_sub_lem)
  moreover have "foreign m A w v \<Longrightarrow> v = src \<Longrightarrow> src \<noteq> dst" using assms(2) by simp
  ultimately show ?thesis using sd w' assms(2)
    by (auto simp: moved_def foreign_def balance_of_def debit_def split: if_splits)
qed

section \<open>The processor's helpers\<close>

lemma mint_index_tokens_moved:
  assumes "token_contract (ce_cpi env)" "mint_index_tokens env m dst auth n w = Inr w'"
  shows "moved m A w w' v 0"
  using assms(2) by (auto simp: mint_index_tokens_def split: if_splits dest!: contract_mint [OF assms(1)] intro: mint_spec_moved)

lemma mint_fee_moved:
  assumes "token_contract (ce_cpi env)" "mint_fee env B m fee n w = Inr w'"
  shows "moved m A w w' v 0"
  using assms(2) mint_index_tokens_moved [OF assms(1)] by (auto simp: mint_fee_def rbind_Inr_iff split: if_splits)

lemma burn_index_tokens_moved:
  assumes "token_contract (ce_cpi env)" "burn_index_tokens env m src user n w = Inr w'"
  shows "moved m A w w' v 0"
  using assms(2) by (auto simp: burn_index_tokens_def dest!: contract_burn [OF assms(1)] intro: burn_spec_moved)

lemma accrue_moved:
  assumes "token_contract (ce_cpi env)" "accrue env A m fee w = Inr (owed, w')"
  shows "moved m A w w' v 0"
proof -
  obtain w1 where w1: "index_update A (\<lambda>y. y\<lparr>x_last_fee_accrual := ce_now env\<rparr>) w = Inr w1"
    and w': "owed = 0 \<and> w' = w1 \<or> mint_index_tokens env m fee A owed w1 = Inr w'"
    using assms(2) by (auto simp: accrue_def rbind_Inr_iff split: if_splits)
  have "w_tokens w1 = w_tokens w" using w1 by (auto simp: index_update_def rbind_Inr_iff set_index_def)
  from moved_same_tokens [OF this] show ?thesis using w' mint_index_tokens_moved [OF assms(1)] moved_trans0 by blast
qed

lemma transfer_from_user_moved:
  assumes "token_contract (ce_cpi env)" "transfer_from_user env src dst user n w = Inr w'" "user \<noteq> A"
  shows "moved m A w w' v (if v = dst then uint n else 0)"
proof (cases "n = 0")
  case False
  then have "transfer_spec src dst user n w w'"
    using assms(2) contract_transfer [OF assms(1)] by (simp add: transfer_from_user_def)
  then show ?thesis by (rule transfer_in_moved [OF _ assms(3)])
qed (use assms(2) in \<open>simp add: transfer_from_user_def\<close>)

lemma transfer_from_vault_moved:
  assumes "token_contract (ce_cpi env)" "transfer_from_vault env src dst auth n w = Inr w'" "dst \<noteq> v"
  shows "moved m A w w' v (- (if v = src then uint n else 0))"
proof (cases "n = 0")
  case False
  then have "transfer_spec src dst auth n w w'"
    using assms(2) contract_transfer [OF assms(1)] by (simp add: transfer_from_vault_def)
  then show ?thesis by (rule transfer_out_moved [OF _ assms(3)])
qed (use assms(2) in \<open>simp add: transfer_from_vault_def\<close>)

lemma transfer_indexes:
  assumes "token_contract (ce_cpi env)"
  shows "transfer_from_user env src dst auth n w = Inr w' \<Longrightarrow> w_indexes w' = w_indexes w"
    "transfer_from_vault env src dst auth n w = Inr w' \<Longrightarrow> w_indexes w' = w_indexes w"
  by (auto simp: transfer_from_user_def transfer_from_vault_def split: if_splits
      dest!: contract_transfer [OF assms] spec_indexes(1))

lemma refresh_tokens:
  assumes "refresh env A m vaults w = Inr w'"
  shows "w_tokens w' = w_tokens w" "w_mints w' = w_mints w"
  using assms by (auto simp: sync_units_def rbind_Inr_iff set_index_def split: if_splits elim!: refresh_split)

section \<open>The legs\<close>

definition charge_of :: "index \<Rightarrow> u64 \<Rightarrow> nat \<Rightarrow> int" where
  "charge_of x gross i = ceil_div (uint (c_units (x_components x ! i)) * uint gross) UNIT_SCALE"

lemma charge_nonneg: "0 \<le> charge_of x gross i"
  unfolding charge_of_def by (rule ceil_div_nonneg) (simp_all add: UNIT_SCALE_def)

lemma issue_legs_moved:
  assumes tc: "token_contract (ce_cpi env)" and user: "user \<noteq> A"
    and fold: "rfold (issue_leg env A user rest gross max_in) w is = Inr w'" and x: "w_indexes w A = Some x"
  shows "moved m A w w' v (sum_list (map (\<lambda>i. if v = ac_key (rest ! (i * 2)) then charge_of x gross i else 0) is))
    \<and> (\<forall>i\<in>set is. charge_of x gross i \<le> uint (max_in ! i))"
  using fold x
proof (induction "is" arbitrary: w)
  case (Cons i js)
  obtain w1 where w1: "issue_leg env A user rest gross max_in w i = Inr w1"
    and r: "rfold (issue_leg env A user rest gross max_in) w1 js = Inr w'"
    using Cons.prems(1) by (auto simp: rbind_Inr_iff)
  obtain req where req: "units_in (c_units (x_components x ! i)) gross = Inr req" "\<not> max_in ! i < req"
    and t: "transfer_from_user env (ac_key (rest ! (i * 2 + 1))) (ac_key (rest ! (i * 2))) user req w = Inr w1"
    using w1 Cons.prems(2) by (auto simp: issue_leg_def rbind_Inr_iff component_at_def dest!: index_ref_Inr split: if_splits)
  have "narrow (charge_of x gross i) = Inr req" using req(1) units_in_parity(2) by (simp add: charge_of_def)
  then have u: "uint req = charge_of x gross i" by (rule narrow_value [OF _ charge_nonneg])
  have "w_indexes w1 A = Some x" using transfer_indexes(1) [OF tc t] Cons.prems(2) by simp
  note ih = Cons.IH [OF r this]
  have "charge_of x gross i \<le> uint (max_in ! i)" using req(2) by (simp add: word_less_def u)
  then show ?case using moved_trans [OF transfer_from_user_moved [OF tc t user, of m v], unfolded u, OF conjunct1 [OF ih]] ih by simp
qed simp

lemma redeem_legs_moved:
  assumes tc: "token_contract (ce_cpi env)"
    and fold: "rfold (redeem_leg env A rest net min_out) w is = Inr w'" and x: "w_indexes w A = Some x"
    and dst: "\<forall>i\<in>set is. ac_key (rest ! (i * 2 + 1)) \<noteq> v"
  shows "moved m A w w' v (- taken x rest net is v) \<and> (\<forall>i\<in>set is. uint (min_out ! i) \<le> payout_of x net i)"
  using fold x dst
proof (induction "is" arbitrary: w)
  case (Cons i js)
  obtain w1 where w1: "redeem_leg env A rest net min_out w i = Inr w1"
    and r: "rfold (redeem_leg env A rest net min_out) w1 js = Inr w'"
    using Cons.prems(1) by (auto simp: rbind_Inr_iff)
  obtain payout where p: "units_out (c_units (x_components x ! i)) net = Inr payout" "\<not> payout < min_out ! i"
    and t: "transfer_from_vault env (ac_key (rest ! (i * 2))) (ac_key (rest ! (i * 2 + 1))) A payout w = Inr w1"
    using w1 Cons.prems(2) by (auto simp: redeem_leg_def rbind_Inr_iff component_at_def dest!: index_ref_Inr split: if_splits)
  have "narrow (payout_of x net i) = Inr payout" using p(1) units_out_parity(2) by (simp add: payout_of_def)
  then have u: "uint payout = payout_of x net i"
    by (rule narrow_value) (simp add: payout_of_def UNIT_SCALE_def pos_imp_zdiv_nonneg_iff)
  have "w_indexes w1 A = Some x" using transfer_indexes(2) [OF tc t] Cons.prems(2) by simp
  note ih = Cons.IH [OF r this]
  have d: "ac_key (rest ! (i * 2 + 1)) \<noteq> v" "\<forall>j\<in>set js. ac_key (rest ! (j * 2 + 1)) \<noteq> v" using Cons.prems(3) by simp_all
  have "uint (min_out ! i) \<le> payout_of x net i" using p(2) by (simp add: word_less_def u)
  moreover have "taken x rest net (i # js) v
      = (if v = ac_key (rest ! (i * 2)) then payout_of x net i else 0) + taken x rest net js v" by (simp add: taken_def)
  ultimately show ?case
    using moved_trans [OF transfer_from_vault_moved [OF tc t d(1), of m A], unfolded u, OF conjunct1 [OF ih [OF d(2)]]] ih [OF d(2)]
    by (simp add: algebra_simps)
qed (simp add: taken_def)

text \<open>The entry and exit fees, as the program rounds them.\<close>

lemma entry_fee_value:
  assumes "lift_err (rbind (mul_div_ceil (ucast (amount :: u64)) (ucast (bps :: u16)) bps_whole) to_u64) = Inr (fees :: u64)"
  shows "uint fees = ceil_div (uint amount * uint bps) BPS"
proof -
  obtain q where q: "mul_div_ceil (ucast amount) (ucast bps) bps_whole = Inr q" "to_u64 q = Inr fees"
    using assms by (auto simp: rbind_Inr_iff)
  have "uint q = ceil_div (uint amount * uint bps) BPS"
    using mul_div_ceil_Inr [OF q(1)] by (simp add: chain_simps BPS_def)
  with to_u64_Inr [OF q(2)] show ?thesis by simp
qed

lemma vault_foreign:
  assumes "index_struct env w A x" "i < count x" "x_index_mint x \<notin> c_mint ` set (components_of x)"
  shows "foreign (x_index_mint x) A w (vault_of_index env x i)"
proof -
  have c: "x_components x ! i \<in> set (components_of x)"
    using assms(1,2) by (auto simp: index_struct_def components_of_def in_set_conv_nth intro!: exI [of _ i])
  then have "c_mint (x_components x ! i) \<noteq> x_index_mint x" using assms(3) by (metis imageI)
  moreover obtain t where "w_tokens w (vault_key env x (x_components x ! i)) = Some t"
    "t_mint t = c_mint (x_components x ! i)" "t_owner t = A" "t_delegate t = None"
    using struct_vault [OF assms(1) c] .
  ultimately show ?thesis by (simp add: foreign_def vault_of_index_def vault_key_def)
qed

section \<open>The terms of an accepted bid\<close>

lemma premium_window:
  assumes "premium_at sb eb st en now = Inr p"
  shows "sint st \<le> sint now" "sint now \<le> sint en"
  using assms by (auto simp: premium_at_def Let_def split: if_splits)

lemma bid_terms:
  assumes "place_bid env accounts sc bc amount max_buy w = Inr w'"
  obtains bidder mA A x premium balances m st bt slack cap vo vi pay w1 w2 balances2 nav x2 where
    "accounts \<noteq> []" "hd accounts = bidder" "ac_signer bidder" "A = fst (index_pda env mA)" "A = ac_key (accounts ! 1)"
    "w_indexes w A = Some x" "x_state x = STATE_LIVE" "sc \<noteq> bc" "unat sc < count x" "unat bc < count x"
    "premium_at (r_start_premium_bps (x_rebalance x)) (r_end_premium_bps (x_rebalance x))
       (r_start_ts (x_rebalance x)) (r_end_ts (x_rebalance x)) (ce_now env) = Inr premium"
    "verify_vaults env A mA (drop 6 accounts) w = Inr balances" "w_mints w mA = Some m"
    "scaled (c_target_units (x_components x ! unat sc)) (ucast (m_supply m)) unit_scale = Inr st"
    "scaled (c_target_units (x_components x ! unat bc)) (ucast (m_supply m)) unit_scale = Inr bt"
    "scaled bt (ucast (x_max_premium_bps x)) bps_whole = Inr slack" "checked_add_u64 bt slack = Inr cap"
    "\<not> balances ! unat sc \<le> st" "\<not> balances ! unat sc - st < amount" "\<not> cap \<le> balances ! unat bc"
    "value_e9 amount (c_decimals (x_components x ! unat sc)) (c_ref_price_e9 (x_components x ! unat sc)) = Inr vo"
    "\<not> 10000 - sint premium < 0" "mul_div_ceil vo (word_of_int (10000 - sint premium)) bps_whole = Inr vi"
    "amount_from_value_ceil vi (c_decimals (x_components x ! unat bc)) (c_ref_price_e9 (x_components x ! unat bc)) = Inr pay"
    "\<not> max_buy < pay" "\<not> cap - balances ! unat bc < pay"
    "transfer_from_user env (ac_key (accounts ! 4)) (ac_key (drop 6 accounts ! unat bc)) (ac_key bidder) pay w = Inr w1"
    "transfer_from_vault env (ac_key (drop 6 accounts ! unat sc)) (ac_key (accounts ! 3)) A amount w1 = Inr w2"
    "verify_vaults env A mA (drop 6 accounts) w2 = Inr balances2" "nav_e6 A balances2 w2 = Inr nav"
    "w_indexes w2 A = Some x2" "\<not> nav < r_nav_floor_e6 (x_rebalance x2)"
    "sync_units A balances2 (m_supply m) w2 = Inr w'"
proof -
  obtain bidder ii mi br bp tp vaults where acc: "accounts = bidder # ii # mi # br # bp # tp # vaults"
    using six_accounts [of accounts] assms by (auto simp: place_bid_def)
  show ?thesis
    using assms unfolding acc place_bid_def list.case Let_def
    by (elim check_elims)
      (rule that; simp add: acc index_ref_Inr read_mint_Inr component_at_def is_live_def require_simps split: if_splits)
qed

end
