(* ===== verification/ClientChain.thy ===== *)
theory ClientChain
  imports ChainExact ChainSample SdkClient LayoutParity
begin

text \<open>
  The client against the program, end to end. \<open>reads\<close> says when a snapshot of \<open>client.ts\<close> shows an
  index of the on-chain world at a given time; the quotes computed from such a snapshot are compared
  with what \<open>issue\<close> and \<open>redeem\<close> of \<open>processor.rs\<close> then move.
\<close>

definition reads :: "chain_env \<Rightarrow> world \<Rightarrow> index \<Rightarrow> i64 \<Rightarrow> index_snapshot \<Rightarrow> bool" where
  "reads env w x t snap \<longleftrightarrow>
     sn_account snap = index_view x \<and> sn_supply snap = supply_of w (x_index_mint x)
     \<and> sn_balances snap = map (\<lambda>i. balance_of w (vault_of_index env x i)) [0..<count x]
     \<and> streamingFeeTokens (sn_supply snap) (xa_streamingFeeBps (sn_account snap))
         (nsub (nint (sint t)) (xa_lastFeeAccrual (sn_account snap))) = Inr (sn_pendingFee snap)"

text \<open>Timestamps that a double holds exactly.\<close>

definition safe_clock :: "i64 \<Rightarrow> index \<Rightarrow> bool" where
  "safe_clock t x \<longleftrightarrow> safe_int (sint t) \<and> safe_int (sint (x_last_fee_accrual x)) \<and> safe_int (sint t - sint (x_last_fee_accrual x))"

lemma saturating_sub_safe:
  assumes "safe_int (sint a - sint b)" shows "sint (saturating_sub a b) = sint a - sint b"
proof -
  have b: "\<bar>sint a - sint b\<bar> < 2 ^ 53" using assms by (simp add: safe_int_def)
  then have "sint (a - b) = sint a - sint b"
    by (simp add: sint_word_ariths signed_take_bit_int_eq_self)
  then show ?thesis using b by (auto simp: saturating_sub_def Let_def)
qed

text \<open>The pending fee of the snapshot is the fee the program accrues.\<close>

lemma pending_fee_value:
  assumes "reads env w x t snap" "safe_clock t x" "uint s = supply_of w (x_index_mint x)"
    and "streaming_fee_tokens s (x_streaming_fee_bps x) (saturating_sub t (x_last_fee_accrual x)) = Inr owed"
  shows "sn_pendingFee snap = uint owed"
proof -
  let ?d = "saturating_sub t (x_last_fee_accrual x)"
  have d: "nsub (nint (sint t)) (xa_lastFeeAccrual (index_view x)) = nint (sint ?d)"
    using assms(2) by (simp add: safe_clock_def index_view_def nsub_nint saturating_sub_safe)
  have f: "streamingFeeTokens (uint s) (nint (uint (x_streaming_fee_bps x))) (nint (sint ?d)) = Inr (sn_pendingFee snap)"
    using assms(1) d unfolding reads_def assms(3) by (auto simp: index_view_def)
  have "0 \<le> sn_pendingFee snap" by (rule streamingFeeTokens_nonneg [OF f]) simp_all
  moreover have "narrow (sn_pendingFee snap) = Inr owed"
    using streaming_fee_parity [of s "x_streaming_fee_bps x" ?d] by (simp add: fee_agrees_def f assms(4))
  ultimately show ?thesis using narrow_value by metis
qed

lemma view_recipe:
  assumes "reads env w x t snap" "count x \<le> length (x_components x)"
  shows "sane_snapshot snap \<longleftrightarrow> 0 \<le> sn_pendingFee snap"
    "recipe snap supply = map (\<lambda>i. if supply = 0 then uint (c_units (x_components x ! i))
       else balance_of w (vault_of_index env x i) * UNIT_SCALE div supply) [0..<count x]"
proof -
  have c: "xa_components (sn_account snap) = map (\<lambda>i. component_view (x_components x ! i)) [0..<count x]"
    using assms by (simp add: reads_def index_view_def count_def map_nth take_map list_eq_iff_nth_eq)
  show "sane_snapshot snap \<longleftrightarrow> 0 \<le> sn_pendingFee snap"
    using assms(1) c by (auto simp: sane_snapshot_def reads_def component_view_def)
  show "recipe snap supply = map (\<lambda>i. if supply = 0 then uint (c_units (x_components x ! i))
       else balance_of w (vault_of_index env x i) * UNIT_SCALE div supply) [0..<count x]"
    using assms(1) c by (simp add: recipe_def reads_def component_view_def)
qed

section \<open>Issuing\<close>

lemma issue_moves:
  assumes tc: "token_contract (ce_cpi env)" and pda: "pda_contract env" and inv: "backed env w"
    and sig: "signers_ok env accounts" and ok: "issue_tokens env accounts amount max_in w = Inr w'"
    and x: "w_indexes w (ac_key (accounts ! 1)) = Some x" "x_index_mint x \<notin> c_mint ` set (components_of x)"
    and rd: "reads env w x (ce_now env) snap" and clock: "safe_clock (ce_now env) x"
  shows "\<exists>required fee. quoteIssue snap (uint amount) = Inr (required, fee) \<and> length required = count x
    \<and> (\<forall>i<count x. required ! i \<le> uint (max_in ! i)
          \<and> balance_of w' (vault_of_index env x i) = balance_of w (vault_of_index env x i) + required ! i)
    \<and> supply_of w' (x_index_mint x) = supply_of w (x_index_mint x) + sn_pendingFee snap + uint amount + fee"
proof -
  obtain user mA user_ata fee rest y owed w1 w2 w3 w4 w5 fees gross A where h:
    "accounts \<noteq> []" "hd accounts = user" "ac_signer user" "A = fst (index_pda env mA)" "A = ac_key (accounts ! 1)"
    "w_indexes w A = Some y" "x_state y = STATE_LIVE"
    "accrue env A mA fee w = Inr (owed, w1)"
    "refresh env A mA (vault_args (count y) rest) w1 = Inr w2"
    "checked_add_u64 amount fees = Inr gross"
    "rfold (issue_leg env A (ac_key user) rest gross max_in) w2 [0..<count y] = Inr w3"
    "mint_index_tokens env mA user_ata A amount w3 = Inr w4"
    "mint_fee env A mA fee fees w4 = Inr w5"
    "refresh env A mA (vault_args (count y) rest) w5 = Inr w'"
    "lift_err (rbind (mul_div_ceil (ucast amount) (ucast (x_issue_fee_bps y)) bps_whole) to_u64) = Inr fees"
    by (rule issue_parts [OF ok])
  have [simp]: "y = x" using x(1) h(5,6) by simp
  have user: "ac_key user \<noteq> A" using sig h(1-4) by (auto simp: signers_ok_def user_key_def)
  obtain balances m where v: "verify_vaults env A mA (vault_args (count x) rest) w1 = Inr balances" "w_mints w1 mA = Some m"
    "sync_units A balances (m_supply m) w1 = Inr w2" using h(9) by (auto elim: refresh_split)
  obtain s x2 where e: "uint s = supply_of w mA" "x_index_mint x = mA" "index_struct env w A x"
    "streaming_fee_tokens s (x_streaming_fee_bps x) (saturating_sub (ce_now env) (x_last_fee_accrual x)) = Inr owed"
    "w_indexes w2 A = Some x2" "same_shape x x2" "supply_of w2 mA = uint s + uint owed" "supply_of w1 mA = uint s + uint owed"
    "\<forall>i<count x. ac_key (rest ! (i * 2)) = vault_of_index env x i \<and> held A w2 (vault_of_index env x i)"
    "\<forall>i<count x. balance_of w (vault_of_index env x i) * UNIT_SCALE div (uint s + uint owed) \<le> uint (c_units (x_components x2 ! i))"
    "\<forall>i<count x. uint (c_units (x_components x2 ! i)) * supply_of w2 mA \<le> balance_of w2 (vault_of_index env x i) * UNIT_SCALE"
    "\<forall>i<count x. uint (c_units (x_components x2 ! i)) = (if uint s + uint owed = 0 then uint (c_units (x_components x ! i))
        else balance_of w2 (vault_of_index env x i) * UNIT_SCALE div (uint s + uint owed))"
    "w_tokens w2 = w_tokens w1"
    by (rule entered [OF tc pda inv h(4,6) [simplified] h(8) v])
  let ?v = "vault_of_index env x"
  let ?fee = "ceil_div (uint amount * uint (x_issue_fee_bps x)) BPS"
  have len: "count x \<le> length (x_components x)" by (rule backed_table [OF inv h(6) [simplified]])
  have own: "foreign mA A w (?v i)" if "i < count x" for i using vault_foreign [OF e(3) that x(2)] e(2) by simp
  have m12: "moved mA A w w2 (?v i) 0" for i
    using accrue_moved [OF tc h(8)] moved_same_tokens [OF e(13)] by (rule moved_trans0)
  have m35: "moved mA A w3 w' (?v i) 0" for i
    by (rule moved_trans0 [OF moved_trans0 [OF mint_index_tokens_moved [OF tc h(12)] mint_fee_moved [OF tc h(13)]]
          moved_same_tokens [OF refresh_tokens(1) [OF h(14)]]])
  have fee: "uint fees = ?fee" using entry_fee_value [OF h(15)] by simp
  have "uint gross = uint amount + uint fees"
    using h(10) by (auto simp: checked_add_u64_def uint_word_ariths split: if_splits)
  then have gross: "uint gross = uint amount + ?fee" by (simp only: fee)
  have pend: "sn_pendingFee snap = uint owed"
    by (rule pending_fee_value [OF rd clock _ e(4)]) (simp add: e(1,2))
  note legs = issue_legs_moved [OF tc user h(11) [simplified] e(5)]
  have once: "sum_list (map (\<lambda>j. if ?v i = ac_key (rest ! (j * 2)) then charge_of x2 gross j else 0) [0..<count x]) = charge_of x2 gross i"
    if i: "i < count x" for i
    using sum_once [of "[0..<count x]" i "\<lambda>j. ac_key (rest ! (j * 2))"] i e(9) vault_of_index_inj [OF e(3) pda] by simp
  have moves: "balance_of w' (?v i) = balance_of w (?v i) + charge_of x2 gross i" if i: "i < count x" for i
    using movedD(2) [OF moved_trans [OF moved_trans [OF m12 conjunct1 [OF legs]] m35] own [OF i]] once [OF i] by simp
  have w2: "balance_of w2 (?v i) = balance_of w (?v i)" if "i < count x" for i
    using movedD(2) [OF m12 own [OF that]] by simp
  have supplies: "sn_supply snap + sn_pendingFee snap = uint s + uint owed" using rd e(1,2) pend by (simp add: reads_def)
  have quote: "quoteIssue snap (uint amount) = Inr (map (charge_of x2 gross) [0..<count x], ?fee)"
  proof -
    have "quoteIssue snap (uint amount)
       = Inr (map (\<lambda>u. ceil_div (u * uint gross) UNIT_SCALE) (recipe snap (uint s + uint owed)), ?fee)"
      using quoteIssue_value [of snap "uint amount" "uint (x_issue_fee_bps x)"] view_recipe(1) [OF rd len] rd pend
      unfolding gross supplies Let_def by (simp add: reads_def index_view_def)
    then show ?thesis unfolding view_recipe(2) [OF rd len] charge_of_def using e(12) w2 by (auto simp: o_def)
  qed
  have "w_mints w3 = w_mints w2"
    using issue_legs_effect [OF tc user h(11) [simplified] e(5)] e(9) by (simp add: atLeast0LessThan)
  then have total: "supply_of w' mA = uint s + uint owed + uint amount + ?fee"
    using mint_index_tokens_effect(3) [OF tc h(12)] mint_fee_effect(3) [OF tc h(13)] e(7) refresh_tokens(2) [OF h(14)] fee
    by (simp add: supply_of_def)
  show ?thesis
    by (rule exI [of _ "map (charge_of x2 gross) [0..<count x]"], rule exI [of _ ?fee])
      (use quote moves conjunct2 [OF legs] total e(1,2) pend in \<open>simp add: atLeast0LessThan\<close>)
qed

section \<open>Redeeming\<close>

lemma redeem_moves:
  assumes tc: "token_contract (ce_cpi env)" and pda: "pda_contract env" and inv: "backed env w"
    and sig: "signers_ok env accounts" and ok: "redeem_tokens env accounts amount min_out w = Inr w'"
    and x: "w_indexes w (ac_key (accounts ! 1)) = Some x" "x_index_mint x \<notin> c_mint ` set (components_of x)"
    and rd: "reads env w x (ce_now env) snap" and clock: "safe_clock (ce_now env) x"
    and dst: "\<forall>i<count x. \<forall>j<count x. ac_key (drop 6 accounts ! (j * 2 + 1)) \<noteq> vault_of_index env x i"
  shows "\<exists>payout fee. quoteRedeem snap (uint amount) = Inr (payout, fee) \<and> length payout = count x
    \<and> (\<forall>i<count x. uint (min_out ! i) \<le> payout ! i
          \<and> balance_of w' (vault_of_index env x i) = balance_of w (vault_of_index env x i) - payout ! i)
    \<and> supply_of w' (x_index_mint x) = supply_of w (x_index_mint x) + sn_pendingFee snap - (uint amount - fee)"
proof -
  obtain user mA user_ata fee rest y owed w1 w2 w3 w4 w5 fees balances m A where h:
    "accounts \<noteq> []" "hd accounts = user" "ac_signer user" "A = fst (index_pda env mA)" "A = ac_key (accounts ! 1)"
    "w_indexes w A = Some y" "amount \<noteq> 0"
    "accrue env A mA fee w = Inr (owed, w1)"
    "verify_vaults env A mA (vault_args (count y) rest) w1 = Inr balances" "w_mints w1 mA = Some m" "\<not> m_supply m < amount"
    "sync_units A balances (m_supply m) w1 = Inr w2" "\<not> amount < fees"
    "burn_index_tokens env mA user_ata (ac_key user) amount w2 = Inr w3"
    "mint_fee env A mA fee fees w3 = Inr w4"
    "rfold (redeem_leg env A rest (amount - fees) min_out) w4 [0..<count y] = Inr w5"
    "refresh env A mA (vault_args (count y) rest) w5 = Inr w'"
    "lift_err (rbind (mul_div_ceil (ucast amount) (ucast (x_redeem_fee_bps y)) bps_whole) to_u64) = Inr fees"
    "rest = drop 6 accounts"
    by (rule redeem_parts [OF ok])
  have [simp]: "y = x" using x(1) h(5,6) by simp
  have user: "ac_key user \<noteq> A" using sig h(1-4) by (auto simp: signers_ok_def user_key_def)
  obtain s x2 where e: "uint s = supply_of w mA" "x_index_mint x = mA" "index_struct env w A x"
    "streaming_fee_tokens s (x_streaming_fee_bps x) (saturating_sub (ce_now env) (x_last_fee_accrual x)) = Inr owed"
    "w_indexes w2 A = Some x2" "same_shape x x2" "supply_of w2 mA = uint s + uint owed" "supply_of w1 mA = uint s + uint owed"
    "\<forall>i<count x. ac_key (rest ! (i * 2)) = vault_of_index env x i \<and> held A w2 (vault_of_index env x i)"
    "\<forall>i<count x. balance_of w (vault_of_index env x i) * UNIT_SCALE div (uint s + uint owed) \<le> uint (c_units (x_components x2 ! i))"
    "\<forall>i<count x. uint (c_units (x_components x2 ! i)) * supply_of w2 mA \<le> balance_of w2 (vault_of_index env x i) * UNIT_SCALE"
    "\<forall>i<count x. uint (c_units (x_components x2 ! i)) = (if uint s + uint owed = 0 then uint (c_units (x_components x ! i))
        else balance_of w2 (vault_of_index env x i) * UNIT_SCALE div (uint s + uint owed))"
    "w_tokens w2 = w_tokens w1"
    by (rule entered [OF tc pda inv h(4,6,8,9,10,12) [simplified]])
  let ?v = "vault_of_index env x"
  let ?net = "amount - fees"
  let ?fee = "ceil_div (uint amount * uint (x_redeem_fee_bps x)) BPS"
  have len: "count x \<le> length (x_components x)" by (rule backed_table [OF inv h(6) [simplified]])
  have own: "foreign mA A w (?v i)" if "i < count x" for i using vault_foreign [OF e(3) that x(2)] e(2) by simp
  have m12: "moved mA A w w2 (?v i) 0" for i
    using accrue_moved [OF tc h(8)] moved_same_tokens [OF e(13)] by (rule moved_trans0)
  have m24: "moved mA A w2 w4 (?v i) 0" for i
    by (rule moved_trans0 [OF burn_index_tokens_moved [OF tc h(14)] mint_fee_moved [OF tc h(15)]])
  have fee: "uint fees = ?fee" using entry_fee_value [OF h(18)] by simp
  have le: "uint fees \<le> uint amount" using h(13) by (simp add: word_less_def)
  have "uint ?net = uint amount - uint fees" using le by (simp add: uint_sub_lem)
  then have net: "uint ?net = uint amount - ?fee" by (simp only: fee)
  have bps: "uint (x_redeem_fee_bps x) \<le> BPS"
  proof -
    have pos: "0 < uint amount" using h(7) by (simp add: uint_pos_iff)
    have "uint amount * uint (x_redeem_fee_bps x) \<le> ?fee * BPS" by (rule ceil_div_ge) simp
    also have "\<dots> \<le> uint amount * BPS" using le fee by simp
    finally show ?thesis using pos by simp
  qed
  have pend: "sn_pendingFee snap = uint owed"
    by (rule pending_fee_value [OF rd clock _ e(4)]) (simp add: e(1,2))
  have x4: "w_indexes w4 A = Some x2"
    using burn_index_tokens_effect(2) [OF tc h(14) user] mint_fee_effect(2) [OF tc h(15)] e(5) by simp
  have legs: "moved mA A w4 w5 (?v i) (- taken x2 rest ?net [0..<count x] (?v i))"
    "\<forall>j<count x. uint (min_out ! j) \<le> payout_of x2 ?net j" if "i < count x" for i
    using redeem_legs_moved [OF tc h(16) [simplified] x4, of "?v i" mA] dst that h(19) by (simp_all add: atLeast0LessThan)
  have once: "taken x2 rest ?net [0..<count x] (?v i) = payout_of x2 ?net i" if i: "i < count x" for i
    using taken_once [of "[0..<count x]" i rest x2 ?net] i e(9) vault_of_index_inj [OF e(3) pda] by simp
  have moves: "balance_of w' (?v i) = balance_of w (?v i) - payout_of x2 ?net i" if i: "i < count x" for i
    using movedD(2) [OF moved_trans [OF moved_trans [OF moved_trans0 [OF m12 m24] legs(1) [OF i]]
        moved_same_tokens [OF refresh_tokens(1) [OF h(17)]]] own [OF i]] once [OF i] by simp
  have w2: "balance_of w2 (?v i) = balance_of w (?v i)" if "i < count x" for i
    using movedD(2) [OF m12 own [OF that]] by simp
  have supplies: "sn_supply snap + sn_pendingFee snap = uint s + uint owed" using rd e(1,2) pend by (simp add: reads_def)
  have quote: "quoteRedeem snap (uint amount) = Inr (map (payout_of x2 ?net) [0..<count x], ?fee)"
  proof -
    have "quoteRedeem snap (uint amount)
       = Inr (map (\<lambda>u. u * uint ?net div UNIT_SCALE) (recipe snap (uint s + uint owed)), ?fee)"
      using quoteRedeem_value(1) [of snap "uint amount" "uint (x_redeem_fee_bps x)"] view_recipe(1) [OF rd len] rd pend bps
      unfolding net supplies Let_def by (simp add: reads_def index_view_def)
    then show ?thesis unfolding view_recipe(2) [OF rd len] payout_of_def using e(12) w2 by (auto simp: o_def)
  qed
  have "w_mints w5 = w_mints w4" using redeem_legs_effect [OF tc h(16) [simplified] x4] by simp
  then have total: "supply_of w' mA = uint s + uint owed - (uint amount - ?fee)"
    using burn_index_tokens_effect(3) [OF tc h(14) user] mint_fee_effect(3) [OF tc h(15)] e(7) refresh_tokens(2) [OF h(17)] fee
    by (simp add: supply_of_def)
  show ?thesis
    by (rule exI [of _ "map (payout_of x2 ?net) [0..<count x]"], rule exI [of _ ?fee])
      (use quote moves legs(2) total e(1,2) pend in \<open>simp add: atLeast0LessThan\<close>)
qed

section \<open>Snapshots\<close>

text \<open>
  A connection that answers from the world: the bytes of an index account are its C layout, and what
  the token library unpacks from a mint or a token account is its supply or its amount.
\<close>

definition serves :: "spl_token \<Rightarrow> connection \<Rightarrow> world \<Rightarrow> bool" where
  "serves spl conn w \<longleftrightarrow>
     (\<forall>k x. w_indexes w k = Some x \<longrightarrow> (\<exists>i. getAccountInfo conn k = Inr (Some i) \<and> ai_data i = index_bytes x))
     \<and> (\<exists>f. (\<forall>ks. getMultipleAccountsInfo conn ks = Inr (map f ks))
          \<and> (\<forall>k m. w_mints w k = Some m \<longrightarrow> (\<exists>i. f k = Some i \<and> unpackMint_supply spl k i = Inr (uint (m_supply m))))
          \<and> (\<forall>k a. w_tokens w k = Some a \<longrightarrow> (\<exists>i. f k = Some i \<and> unpackAccount_amount spl k i = Inr (uint (t_amount a)))))"

lemma vault_keys_of_view:
  assumes "find_pda w3 = ce_find_pda env" "count x \<le> length (x_components x)"
  shows "map (\<lambda>c. vault_of w3 (ce_program env) (x_index_mint x) (ca_mint c)) (xa_components (index_view x))
       = map (vault_of_index env x) [0..<count x]"
  using assms by (simp add: index_view_def component_view_def vault_of_def vaultPda_def vault_of_index_def vault_pda_def
      count_def list_eq_iff_nth_eq)

text \<open>C11: On a connection that answers from the world, snapshot returns the index account, the
  supply, every vault balance, the units of the recipe and the streaming fee due at that time.
\<close>

theorem snapshot_reads_world:
  assumes srv: "serves spl conn w" and pda: "find_pda w3 = ce_find_pda env" "x_index_mint x = mint"
    and x: "w_indexes w (index_of w3 (ce_program env) mint) = Some x"
    and typed: "index_typed x" "x_tag x = TAG_INDEX" "count x \<le> ChainData.MAX_COMPONENTS" "uint (x_state x) \<le> 2"
    and m: "w_mints w mint = Some m" and vaults: "\<forall>i<count x. w_tokens w (vault_of_index env x i) \<noteq> None"
    and clock: "safe_clock t x"
    and fee: "streamingFeeTokens (uint (m_supply m)) (nint (uint (x_streaming_fee_bps x)))
                (nint (sint t - sint (x_last_fee_accrual x))) = Inr fee"
  shows "\<exists>snap. snapshot w3 spl conn (ce_program env) mint (nint (sint t)) = Inr snap \<and> reads env w x t snap
    \<and> sn_pendingFee snap = fee \<and> sn_asOf snap = nint (sint t) \<and> sn_units snap = recipe snap (sn_supply snap)"
proof -
  obtain info where info: "getAccountInfo conn (index_of w3 (ce_program env) mint) = Inr (Some info)" "ai_data info = index_bytes x"
    using srv x unfolding serves_def by blast
  obtain f where f: "\<And>ks. getMultipleAccountsInfo conn ks = Inr (map f ks)"
    "\<And>k m. w_mints w k = Some m \<Longrightarrow> \<exists>i. f k = Some i \<and> unpackMint_supply spl k i = Inr (uint (m_supply m))"
    "\<And>k a. w_tokens w k = Some a \<Longrightarrow> \<exists>i. f k = Some i \<and> unpackAccount_amount spl k i = Inr (uint (t_amount a))"
    using srv unfolding serves_def by blast
  obtain i where i: "f mint = Some i" "unpackMint_supply spl mint i = Inr (uint (m_supply m))" using f(2) [OF m] by blast
  have len: "count x \<le> length (x_components x)" using typed(1,3) by (simp add: index_typed_def)
  have dec: "decodeIndex (ai_data info) = Inr (index_view x)"
    unfolding info(2) by (rule decode_index_of_layout [OF typed(1,2) _ typed(4)]) (use typed(3) in \<open>simp add: count_def\<close>)
  let ?vs = "map (vault_of_index env x) [0..<count x]"
  let ?bs = "map (\<lambda>i. balance_of w (vault_of_index env x i)) [0..<count x]"
  have keys: "map (\<lambda>c. vault_of w3 (ce_program env) mint (ca_mint c)) (xa_components (index_view x)) = ?vs"
    using vault_keys_of_view [OF pda(1) len] pda(2) by simp
  have bal: "vaultBalance spl (f mint # map f ?vs) j (?vs ! j) = Inr (?bs ! j)" if j: "j < count x" for j
  proof -
    obtain a where a: "w_tokens w (vault_of_index env x j) = Some a" using vaults j by blast
    then obtain i where "f (vault_of_index env x j) = Some i"
      "unpackAccount_amount spl (vault_of_index env x j) i = Inr (uint (t_amount a))" using f(3) by blast
    then show ?thesis using a j by (simp add: vaultBalance_def balance_of_def)
  qed
  have "rmapM_idx (vaultBalance spl (f mint # map f ?vs)) ?vs = Inr (map_idx (\<lambda>i k. balance_of w k) ?vs)"
    by (rule rmapM_idx_all_Inr) (use bal in simp)
  also have "map_idx (\<lambda>i k. balance_of w k) ?vs = ?bs" by (rule nth_equalityI) simp_all
  finally have bals: "rmapM_idx (vaultBalance spl (f mint # map f ?vs)) ?vs = Inr ?bs" .
  have first: "nth_or None (f mint # fs) 0 = Some i" for fs using i(1) by (simp add: nth_or_def)
  let ?snap = "\<lambda>us. \<lparr>sn_indexMint = mint, sn_address = index_of w3 (ce_program env) mint, sn_account = index_view x,
    sn_supply = uint (m_supply m), sn_balances = ?bs, sn_units = us, sn_pendingFee = fee, sn_asOf = nint (sint t)\<rparr>"
  have due: "streamingFeeTokens (uint (m_supply m)) (xa_streamingFeeBps (index_view x))
      (nsub (nint (sint t)) (xa_lastFeeAccrual (index_view x))) = Inr fee"
    using fee clock by (simp add: index_view_def safe_clock_def nsub_nint)
  have rd: "reads env w x t (?snap us)" for us using due m pda(2) by (simp add: reads_def supply_of_def)
  have "0 \<le> fee" by (rule streamingFeeTokens_nonneg [OF fee]) simp_all
  then have "unitsAt (?snap us) (uint (m_supply m)) = Inr (recipe (?snap us) (uint (m_supply m)))" for us
    using view_recipe(1) [OF rd len] by (intro unitsAt_recipe) simp_all
  then have units: "(if uint (m_supply m) = 0 then Inr (map ca_units (xa_components (index_view x)))
      else rmapM (\<lambda>b. unitsFromBalance b (uint (m_supply m))) ?bs) = Inr (recipe (?snap us) (uint (m_supply m)))" for us
    unfolding unitsAt_def index_snapshot.simps .
  let ?r = "?snap (recipe (?snap []) (uint (m_supply m)))"
  have "snapshot w3 spl conn (ce_program env) mint (nint (sint t)) = Inr ?r"
    unfolding snapshot_def Let_def info(1) rbind_simps option.case dec keys f(1) list.map
      first i(2) bals units [of "[]"] due ..
  then show ?thesis using rd by (intro exI [of _ ?r]) (simp add: recipe_def)
qed

definition open_conn :: "world \<Rightarrow> connection" where
  "open_conn w = \<lparr>getAccountInfo = (\<lambda>k. Inr (map_option (\<lambda>x. \<lparr>ai_owner = PublicKey [9], ai_data = index_bytes x\<rparr>) (w_indexes w k))),
     getMultipleAccountsInfo = (\<lambda>ks. Inr (map (\<lambda>k. Some \<lparr>ai_owner = PublicKey [7], ai_data = []\<rparr>) ks))\<rparr>"

definition open_spl :: "world \<Rightarrow> spl_token" where
  "open_spl w = \<lparr>unpackMint_supply = (\<lambda>k i. Inr (supply_of w k)), unpackAccount_amount = (\<lambda>k i. Inr (balance_of w k)),
     associatedTokenAddress = (\<lambda>m a b. Inr a), createAssociatedTokenAccountIdempotent = (\<lambda>a b c d. undefined)\<rparr>"

lemma open_serves: "serves (open_spl w) (open_conn w) w"
  unfolding serves_def open_conn_def open_spl_def
  by (auto simp: supply_of_def balance_of_def intro!: exI [of _ "\<lambda>k. Some \<lparr>ai_owner = PublicKey [7], ai_data = []\<rparr>"])

definition sample_web3 :: web3 where
  "sample_web3 = \<lparr>find_pda = sample_pda, SystemProgram_id = PublicKey [8], TOKEN_PROGRAM_ID = PublicKey [7]\<rparr>"

definition typed_world :: world where
  "typed_world = \<lparr>w_indexes = (\<lambda>k. None)(index_of sample_web3 (PublicKey [9]) (x_index_mint sample_index) \<mapsto> sample_index),
     w_mints = (\<lambda>k. None)(x_index_mint sample_index \<mapsto> \<lparr>m_authority = None, m_supply = 1000000000, m_decimals = 9, m_freeze = None\<rparr>),
     w_tokens = (\<lambda>k. Some \<lparr>t_mint = k, t_owner = k, t_delegate = None, t_amount = 4321\<rparr>)\<rparr>"

theorem snapshot_reads_world_witness:
  "\<exists>snap. snapshot sample_web3 (open_spl typed_world) (open_conn typed_world) (PublicKey [9]) (PublicKey (replicate 32 1))
      (nint 1700086400) = Inr snap \<and> sn_supply snap = 1000000000 \<and> sn_balances snap = [4321, 4321] \<and> sn_pendingFee snap = 54797"
proof -
  have mint: "x_index_mint sample_index = PublicKey (replicate 32 1)" by (simp add: sample_index_def)
  have program: "ce_program sample_env = PublicKey [9]" by (simp add: sample_env_def)
  have fee: "streamingFeeTokens (uint (1000000000 :: u64)) (nint (uint (x_streaming_fee_bps sample_index)))
      (nint (sint (1700086400 :: i64) - sint (x_last_fee_accrual sample_index))) = Inr 54797"
    by (simp add: sample_index_def streamingFeeTokens_nat BPS_def SECONDS_PER_YEAR_def)
  have "\<exists>snap. snapshot sample_web3 (open_spl typed_world) (open_conn typed_world) (ce_program sample_env) (PublicKey (replicate 32 1))
      (nint (sint (1700086400 :: i64))) = Inr snap \<and> reads sample_env typed_world sample_index 1700086400 snap
    \<and> sn_pendingFee snap = 54797 \<and> sn_asOf snap = nint (sint (1700086400 :: i64)) \<and> sn_units snap = recipe snap (sn_supply snap)"
    by (rule snapshot_reads_world [OF open_serves _ mint _ sample_index_typed])
      (use fee in \<open>simp_all add: typed_world_def sample_web3_def sample_env_def mint count_def safe_clock_def safe_int_def,
        simp_all add: sample_index_def ChainData.MAX_COMPONENTS_def STATE_LIVE_def\<close>)
  then obtain snap where snap: "snapshot sample_web3 (open_spl typed_world) (open_conn typed_world) (PublicKey [9])
      (PublicKey (replicate 32 1)) (nint 1700086400) = Inr snap"
    "reads sample_env typed_world sample_index 1700086400 snap" "sn_pendingFee snap = 54797" unfolding program by auto
  have "count sample_index = 2" by (simp add: count_def sample_index_def)
  then have "sn_supply snap = 1000000000" "sn_balances snap = [4321, 4321]"
    using snap(2) by (simp_all add: reads_def typed_world_def supply_of_def balance_of_def mint upt_rec)
  then show ?thesis using snap(1,3) by blast
qed

lemma vault_not_user: "PublicKey [3] \<noteq> vault_at"
  by (simp add: vault_at_def vault_pda_def sample_env_def sample_pda_def SEED_VAULT_def ascii_def)

section \<open>Quotes and what the program moves\<close>

lemma reads_clock [simp]: "reads (env\<lparr>ce_now := t'\<rparr>) w x t snap = reads env w x t snap"
  by (simp add: reads_def vault_of_index_def)

lemma reads_exists:
  assumes "safe_clock t x" "0 < sint t - sint (x_last_fee_accrual x)"
    "uint (x_streaming_fee_bps x) * (sint t - sint (x_last_fee_accrual x)) < BPS * SECONDS_PER_YEAR"
  shows "\<exists>snap. reads env w x t snap"
proof -
  let ?S = "supply_of w (x_index_mint x)"
  obtain fee where "streamingFeeTokens ?S (nint (uint (x_streaming_fee_bps x))) (nint (sint t - sint (x_last_fee_accrual x))) = Inr fee"
    using streamingFeeTokens_nat [OF _ _ assms(2,3)] by auto
  then have "reads env w x t \<lparr>sn_indexMint = x_index_mint x, sn_address = x_index_mint x, sn_account = index_view x, sn_supply = ?S,
      sn_balances = map (\<lambda>i. balance_of w (vault_of_index env x i)) [0..<count x], sn_units = [], sn_pendingFee = fee, sn_asOf = NaN\<rparr>"
    using assms(1) by (simp add: reads_def index_view_def safe_clock_def nsub_nint)
  then show ?thesis ..
qed

lemma sample_reading:
  obtains w x snap where "run_calls sample_env sample_calls world0 = Inr w" "reachable sample_env w"
    "w_indexes w (ac_key (user_accounts ! 1)) = Some x" "x_index_mint x \<notin> c_mint ` set (components_of x)"
    "reads sample_env w x month_later snap" "safe_clock month_later x" "count x = 1" "vault_of_index sample_env x 0 = vault_at"
proof -
  obtain w x where h: "run_calls sample_env sample_calls world0 = Inr w" "reachable sample_env w"
    "w_indexes w index_at = Some x" "x_index_mint x = PublicKey [1]" "supply_of w (PublicKey [1]) = 1005000000"
    "map c_units (components_of x) = [2000]" "map c_mint (components_of x) = [PublicKey [2]]" by (rule sample_history)
  have f: "x_streaming_fee_bps x = 100" "x_last_fee_accrual x = 1000"
    using sample_index_facts h(1,3) by (simp_all add: after_history_def)
  have clock: "safe_clock month_later x" by (simp add: safe_clock_def f month_later_def safe_int_def)
  obtain snap where snap: "reads sample_env w x month_later snap"
    using reads_exists [OF clock] by (auto simp: f month_later_def BPS_def SECONDS_PER_YEAR_def)
  have c: "count x = 1" by (rule sample_count [OF h(2,3,6)])
  have own: "x_index_mint x \<notin> c_mint ` set (components_of x)" unfolding set_map [symmetric] h(4,7) by simp
  have k: "ac_key (user_accounts ! 1) = index_at" by (simp add: user_accounts_def plain_def)
  have "components_of x = [x_components x ! 0]" using c h(7) by (cases "x_components x") (auto simp: components_of_def)
  then have "c_mint (x_components x ! 0) = PublicKey [2]" using h(7) by simp
  then have v: "vault_of_index sample_env x 0 = vault_at" by (simp add: vault_of_index_def vault_at_def h(4))
  show ?thesis using that h(1,2) own snap clock c v h(3) [folded k] by blast
qed

text \<open>C2: In every reachable world an accepted issue moves into every vault exactly what quoteIssue
  said from a snapshot of that world and time, within the caller's limits, and creates exactly
  the quoted fees on top of the amount.
\<close>

theorem issue_charges_the_quote:
  assumes "reachable env w" "token_contract (ce_cpi env)" "pda_contract env" "signers_ok env accounts"
    and "process (env\<lparr>ce_now := t\<rparr>) accounts (Issue amount max_in) w = Inr w'"
    and "w_indexes w (ac_key (accounts ! 1)) = Some x" "x_index_mint x \<notin> c_mint ` set (components_of x)"
    and "reads env w x t snap" "safe_clock t x"
  shows "\<exists>required fee. quoteIssue snap (uint amount) = Inr (required, fee) \<and> length required = count x
    \<and> (\<forall>i<count x. required ! i \<le> uint (max_in ! i)
          \<and> balance_of w' (vault_of_index env x i) = balance_of w (vault_of_index env x i) + required ! i)
    \<and> supply_of w' (x_index_mint x) = supply_of w (x_index_mint x) + sn_pendingFee snap + uint amount + fee"
proof -
  have ok: "issue_tokens (env\<lparr>ce_now := t\<rparr>) accounts amount max_in w = Inr w'" using assms(5) by simp
  have safe: "backed (env\<lparr>ce_now := t\<rparr>) w" using reachable_backed [OF assms(1-3)] by simp
  show ?thesis using issue_moves [OF _ _ safe _ ok assms(6,7), of snap] assms(2-4,8,9) by (simp add: reads_clock)
qed

theorem issue_charges_the_quote_witness:
  "\<exists>w w' x snap required fee. reachable sample_env w \<and> reads sample_env w x month_later snap
     \<and> process (sample_env\<lparr>ce_now := month_later\<rparr>) user_accounts (Issue 500000000 [5000]) w = Inr w'
     \<and> quoteIssue snap 500000000 = Inr (required, fee)
     \<and> balance_of w' (vault_of_index sample_env x 0) = balance_of w (vault_of_index sample_env x 0) + required ! 0"
proof -
  obtain w x snap where h: "run_calls sample_env sample_calls world0 = Inr w" "reachable sample_env w"
    "w_indexes w (ac_key (user_accounts ! 1)) = Some x" "x_index_mint x \<notin> c_mint ` set (components_of x)"
    "reads sample_env w x month_later snap" "safe_clock month_later x" "count x = 1" "vault_of_index sample_env x 0 = vault_at"
    by (rule sample_reading)
  have tc: "token_contract (ce_cpi sample_env)" by (simp add: sample_env_def ledger_contract)
  obtain w' where w': "process (sample_env\<lparr>ce_now := month_later\<rparr>) user_accounts (Issue 500000000 [5000]) w = Inr w'"
    using sample_second_issue unfolding after_history_def h(1) by (auto split: sum.splits)
  have u: "uint (500000000 :: u64) = 500000000" by simp
  obtain required fee where q: "quoteIssue snap 500000000 = Inr (required, fee)"
    "balance_of w' (vault_of_index sample_env x 0) = balance_of w (vault_of_index sample_env x 0) + required ! 0"
    using issue_charges_the_quote [OF h(2) tc sample_pda_contract sample_user_signs w' h(3-6)] h(7) unfolding u by auto
  show ?thesis
    by (intro exI [of _ w] exI [of _ w'] exI [of _ x] exI [of _ snap] exI [of _ required] exI [of _ fee] conjI h(2,5) w' q)
qed



end
