(* ===== verification/AuctionSample.thy ===== *)
theory AuctionSample
  imports ChainSample
begin

text \<open>
  A second history on the sample environment: an index of two components is created and issued at
  time 1000, and its manager opens an auction that runs from 1300 to 1900. At 1400 anyone may bid.
\<close>

definition second_vault :: pubkey where "second_vault = fst (vault_pda sample_env (PublicKey [1]) (PublicKey [12]))"

definition two_world :: world where
  "two_world = world0\<lparr>
     w_mints := (w_mints world0)(PublicKey [12] \<mapsto> \<lparr>m_authority = None, m_supply = 5000, m_decimals = 6, m_freeze = None\<rparr>),
     w_tokens := (w_tokens world0)(PublicKey [13] \<mapsto>
       \<lparr>t_mint = PublicKey [12], t_owner = PublicKey [6], t_delegate = None, t_amount = 5000\<rparr>)\<rparr>"

definition auction_calls :: "(account_arg list \<times> flock_instruction) list" where
  "auction_calls =
    [([signed 6, plain index_at, plain (PublicKey [1]), plain (PublicKey [10]), plain (PublicKey [6]), plain (PublicKey [11]),
       plain (PublicKey [8])],
      InitIndex (replicate 32 0) (replicate 12 0) 100 50 50 500 300),
     ([signed 6, signed 6, plain index_at, plain (PublicKey [1]), plain (PublicKey [2]), plain vault_at, plain (PublicKey [8]),
       plain (PublicKey [7])], AddComponent 2000),
     ([signed 6, signed 6, plain index_at, plain (PublicKey [1]), plain (PublicKey [12]), plain second_vault, plain (PublicKey [8]),
       plain (PublicKey [7])], AddComponent 2000),
     ([signed 6, plain index_at, plain (PublicKey [1])], SealIndex),
     ([signed 6, plain index_at, plain (PublicKey [1]), plain (PublicKey [4]), plain (PublicKey [5]), plain (PublicKey [7]),
       plain vault_at, plain (PublicKey [3]), plain second_vault, plain (PublicKey [13])], Issue 1000000000 [5000, 5000]),
     ([signed 6, plain index_at, plain (PublicKey [1]), plain vault_at, plain second_vault],
      ProposeRebalance [1000, 3000] [1000000000, 1000000000] 600 (- 50) 200 100)]"

definition bid_time :: i64 where "bid_time = 1400"

definition bidder_accounts :: "account_arg list" where
  "bidder_accounts = [signed 6, plain index_at, plain (PublicKey [1]), plain (PublicKey [3]), plain (PublicKey [13]),
     plain (PublicKey [7]), plain vault_at, plain second_vault]"

definition after_auction :: "(world \<Rightarrow> bool) \<Rightarrow> bool" where
  "after_auction P = (case run_calls sample_env auction_calls two_world of Inl e \<Rightarrow> False | Inr w \<Rightarrow> P w)"

lemma sample_auction:
  "after_auction (\<lambda>w. case w_indexes w index_at of None \<Rightarrow> False
     | Some x \<Rightarrow> x_index_mint x = PublicKey [1] \<and> x_component_count x = 2 \<and> map c_mint (components_of x) = [PublicKey [2], PublicKey [12]]
         \<and> r_active (x_rebalance x) = 1 \<and> r_start_ts (x_rebalance x) = 1300 \<and> r_end_ts (x_rebalance x) = 1900
         \<and> r_nav_floor_e6 (x_rebalance x) = 3979)"
  by code_simp

lemma sample_bid:
  "after_auction (\<lambda>w. case process (sample_env\<lparr>ce_now := bid_time\<rparr>) bidder_accounts (Bid 0 1 500 1000) w of
     Inl e \<Rightarrow> False | Inr w' \<Rightarrow> balance_of w' vault_at = 1510 \<and> balance_of w' second_vault = 2511)"
  by code_simp

lemma auction_signers: "\<forall>(accounts, ix)\<in>set auction_calls. signers_ok sample_env accounts"
  by (simp add: auction_calls_def signers_ok_def signed_def plain_def user_key_def index_pda_def sample_env_def sample_pda_def mark_not_key)

lemma bidder_signs: "signers_ok sample_env bidder_accounts"
  by (simp add: bidder_accounts_def signers_ok_def signed_def plain_def user_key_def index_pda_def sample_env_def
      sample_pda_def mark_not_key)

lemma auction_history:
  obtains w x where "run_calls sample_env auction_calls two_world = Inr w" "reachable sample_env w"
    "w_indexes w (ac_key (bidder_accounts ! 1)) = Some x" "x_index_mint x = PublicKey [1]" "count x = 2"
    "r_active (x_rebalance x) = 1" "r_start_ts (x_rebalance x) = 1300" "r_end_ts (x_rebalance x) = 1900"
    "r_nav_floor_e6 (x_rebalance x) = 3979"
proof -
  obtain w where w: "run_calls sample_env auction_calls two_world = Inr w"
    using sample_auction unfolding after_auction_def by (auto split: sum.splits)
  have "reachable sample_env two_world" by (rule genesis) (simp add: two_world_def world0_def)
  then have "reachable sample_env w" using w by (rule run_calls_reachable [OF _ auction_signers])
  moreover have "ac_key (bidder_accounts ! 1) = index_at" by (simp add: bidder_accounts_def plain_def)
  moreover obtain x where "w_indexes w index_at = Some x" "x_index_mint x = PublicKey [1]" "x_component_count x = 2"
    "r_active (x_rebalance x) = 1" "r_start_ts (x_rebalance x) = 1300" "r_end_ts (x_rebalance x) = 1900"
    "r_nav_floor_e6 (x_rebalance x) = 3979"
    using sample_auction unfolding after_auction_def w by (auto split: option.splits)
  ultimately show ?thesis using that [OF w] by (simp add: count_def)
qed

end
