(* ===== verification/AuctionChain.thy ===== *)
theory AuctionChain
  imports ClientChain AuctionSample
begin

text \<open>
  The auction seen by the client and by the program: what \<open>auction\<close> of \<open>client.ts\<close> shows of an
  index, what \<open>bidCost\<close> of \<open>math.ts\<close> quotes, and what \<open>bid\<close> of \<open>processor.rs\<close> then enforces and moves.
\<close>

text \<open>The part of a snapshot the auction view reads.\<close>

definition shows_index :: "chain_env \<Rightarrow> world \<Rightarrow> index \<Rightarrow> index_snapshot \<Rightarrow> bool" where
  "shows_index env w x snap \<longleftrightarrow>
     sn_account snap = index_view x \<and> sn_supply snap = supply_of w (x_index_mint x)
     \<and> sn_balances snap = map (\<lambda>i. balance_of w (vault_of_index env x i)) [0..<count x]"

definition auction_clock :: "i64 \<Rightarrow> index \<Rightarrow> bool" where
  "auction_clock t x \<longleftrightarrow> safe_int (sint t) \<and> safe_int (sint (r_start_ts (x_rebalance x))) \<and> safe_int (sint (r_end_ts (x_rebalance x)))
     \<and> sint (r_end_ts (x_rebalance x)) - sint (r_start_ts (x_rebalance x)) < 2 ^ 36"

definition target_of :: "world \<Rightarrow> index \<Rightarrow> nat \<Rightarrow> int" where
  "target_of w x i = uint (c_target_units (x_components x ! i)) * supply_of w (x_index_mint x) div UNIT_SCALE"

definition cap_of :: "world \<Rightarrow> index \<Rightarrow> nat \<Rightarrow> int" where
  "cap_of w x i = target_of w x i + target_of w x i * uint (x_max_premium_bps x) div BPS"

section \<open>The view\<close>

lemma target_nonneg: "0 \<le> target_of w x i"
  by (simp add: target_of_def pos_imp_zdiv_nonneg_iff)

lemma auction_shows:
  assumes snap: "shows_index env w x snap" and len: "count x \<le> length (x_components x)" and clock: "auction_clock t x"
    and act: "r_active (x_rebalance x) = 1"
    and p: "premium_at (r_start_premium_bps (x_rebalance x)) (r_end_premium_bps (x_rebalance x))
              (r_start_ts (x_rebalance x)) (r_end_ts (x_rebalance x)) t = Inr p"
  shows "\<exists>view. auction snap (nint (sint t)) = Inr view \<and> av_premiumBps view = Some (nint (sint p)) \<and> length (av_legs view) = count x
    \<and> (\<forall>i<count x. al_sellable (av_legs view ! i) = max 0 (balance_of w (vault_of_index env x i) - target_of w x i)
          \<and> al_buyable (av_legs view ! i) = max 0 (cap_of w x i - balance_of w (vault_of_index env x i)))"
proof -
  let ?r = "x_rebalance x"
  let ?leg = "\<lambda>i c. \<lparr>al_mint = ca_mint c, al_balance = balance_of w (vault_of_index env x i), al_target = target_of w x i,
    al_sellable = max 0 (balance_of w (vault_of_index env x i) - target_of w x i),
    al_buyable = max 0 (cap_of w x i - balance_of w (vault_of_index env x i))\<rparr>"
  have comps: "xa_components (index_view x) = map component_view (components_of x)"
    by (simp add: index_view_def components_of_def count_def)
  have n: "length (components_of x) = count x" using len by (simp add: components_of_def)
  have leg: "auctionLeg snap i (component_view (components_of x ! i)) = Inr (?leg i (component_view (components_of x ! i)))"
    if i: "i < count x" for i
  proof -
    have "components_of x ! i = x_components x ! i" using i by (simp add: components_of_def)
    then have "(ca_targetUnits (component_view (components_of x ! i)) * sn_supply snap) sdiv UNIT_SCALE = target_of w x i"
      using snap by (simp add: target_of_def shows_index_def component_view_def)
    moreover have "nth_or 0 (sn_balances snap) i = balance_of w (vault_of_index env x i)" using snap i by (simp add: shows_index_def)
    moreover have "xa_maxPremiumBps (sn_account snap) = nint (uint (x_max_premium_bps x))" using snap by (simp add: shows_index_def index_view_def)
    ultimately show ?thesis using target_nonneg [of w x i]
      by (simp add: auctionLeg_def Let_def cap_of_def max_def)
  qed
  have legs: "rmapM_idx (auctionLeg snap) (xa_components (index_view x)) = Inr (map_idx ?leg (xa_components (index_view x)))"
    by (rule rmapM_idx_all_Inr) (use leg n comps in simp)
  have view: "sn_account snap = index_view x" using snap by (simp add: shows_index_def)
  have prem: "premiumAt (nint (sint (r_start_premium_bps ?r))) (nint (sint (r_end_premium_bps ?r))) (nint (sint (r_start_ts ?r)))
      (nint (sint (r_end_ts ?r))) (nint (sint t)) = Inr (nint (sint p))"
    using premium_parity [of "r_end_ts ?r" "r_start_ts ?r" "r_start_premium_bps ?r" "r_end_premium_bps ?r" t] clock p
    by (simp add: premium_agrees_def auction_clock_def)
  have reb: "ra_active (xa_rebalance (index_view x))" "ra_startTs (xa_rebalance (index_view x)) = nint (sint (r_start_ts ?r))"
    "ra_endTs (xa_rebalance (index_view x)) = nint (sint (r_end_ts ?r))"
    "ra_startPremiumBps (xa_rebalance (index_view x)) = nint (sint (r_start_premium_bps ?r))"
    "ra_endPremiumBps (xa_rebalance (index_view x)) = nint (sint (r_end_premium_bps ?r))"
    using act clock by (simp_all add: index_view_def rebalance_view_def auction_clock_def)
  have "auction snap (nint (sint t)) = Inr \<lparr>av_active = True, av_opensAt = nint (sint (r_start_ts ?r)), av_closesAt = nint (sint (r_end_ts ?r)),
     av_premiumBps = Some (nint (sint p)), av_legs = map_idx ?leg (xa_components (index_view x))\<rparr>"
    using premium_window [OF p] by (simp add: auction_def view Let_def legs reb prem)
  then show ?thesis using n comps by simp
qed

section \<open>The bid\<close>

lemma scaled_value: "scaled a d k = Inr r \<Longrightarrow> uint r = uint a * uint d div uint k"
  by (auto simp: scaled_def rbind_Inr_iff chain_simps dest!: mul_div_floor_Inr to_u64_Inr)

lemma uint_minus_le: "b \<le> a \<Longrightarrow> uint (a - b) = uint (a :: u64) - uint b"
  by (simp add: uint_sub_lem word_le_def)

lemma other_mint: "\<exists>m. held A w v \<longrightarrow> foreign m A w v"
proof (cases "w_tokens w v")
  case (Some t)
  have "PublicKey (0 # key_bytes (t_mint t)) \<noteq> t_mint t" by (cases "t_mint t") simp
  then show ?thesis using Some by (auto simp: held_def foreign_def intro!: exI [of _ "PublicKey (0 # key_bytes (t_mint t))"])
qed (simp add: held_def)

lemma bid_moves:
  assumes tc: "token_contract (ce_cpi env)" and pda: "pda_contract env" and inv: "backed env w"
    and sig: "signers_ok env accounts" and ok: "place_bid env accounts sc bc amount max_buy w = Inr w'"
    and x: "w_indexes w (ac_key (accounts ! 1)) = Some x"
    and dst: "\<forall>i<count x. ac_key (accounts ! 3) \<noteq> vault_of_index env x i"
  shows "\<exists>p pay vo vi. premium_at (r_start_premium_bps (x_rebalance x)) (r_end_premium_bps (x_rebalance x))
       (r_start_ts (x_rebalance x)) (r_end_ts (x_rebalance x)) (ce_now env) = Inr p
    \<and> unat sc < count x \<and> unat bc < count x
    \<and> bidCost \<lparr>ba_sellAmount = uint amount, ba_sellDecimals = nint (uint (c_decimals (x_components x ! unat sc))),
        ba_sellPriceE9 = uint (c_ref_price_e9 (x_components x ! unat sc)),
        ba_buyDecimals = nint (uint (c_decimals (x_components x ! unat bc))),
        ba_buyPriceE9 = uint (c_ref_price_e9 (x_components x ! unat bc)), ba_premiumBps = nint (sint p)\<rparr>
      = Inr \<lparr>bq_valueOutE9 = vo, bq_valueInE9 = vi, bq_buyAmount = pay\<rparr>
    \<and> pay \<le> uint max_buy
    \<and> uint amount \<le> balance_of w (vault_of_index env x (unat sc)) - target_of w x (unat sc)
    \<and> pay \<le> cap_of w x (unat bc) - balance_of w (vault_of_index env x (unat bc))
    \<and> (\<forall>i<count x. balance_of w' (vault_of_index env x i) = balance_of w (vault_of_index env x i)
          - (if i = unat sc then uint amount else 0) + (if i = unat bc then pay else 0))"
proof -
  obtain bidder mA A y premium balances m st bt slack cap vo vi pay w1 w2 balances2 nav x2 where h:
    "accounts \<noteq> []" "hd accounts = bidder" "ac_signer bidder" "A = fst (index_pda env mA)" "A = ac_key (accounts ! 1)"
    "w_indexes w A = Some y" "x_state y = STATE_LIVE" "sc \<noteq> bc" "unat sc < count y" "unat bc < count y"
    "premium_at (r_start_premium_bps (x_rebalance y)) (r_end_premium_bps (x_rebalance y))
       (r_start_ts (x_rebalance y)) (r_end_ts (x_rebalance y)) (ce_now env) = Inr premium"
    "verify_vaults env A mA (drop 6 accounts) w = Inr balances" "w_mints w mA = Some m"
    "scaled (c_target_units (x_components y ! unat sc)) (ucast (m_supply m)) unit_scale = Inr st"
    "scaled (c_target_units (x_components y ! unat bc)) (ucast (m_supply m)) unit_scale = Inr bt"
    "scaled bt (ucast (x_max_premium_bps y)) bps_whole = Inr slack" "checked_add_u64 bt slack = Inr cap"
    "\<not> balances ! unat sc \<le> st" "\<not> balances ! unat sc - st < amount" "\<not> cap \<le> balances ! unat bc"
    "value_e9 amount (c_decimals (x_components y ! unat sc)) (c_ref_price_e9 (x_components y ! unat sc)) = Inr vo"
    "\<not> 10000 - sint premium < 0" "mul_div_ceil vo (word_of_int (10000 - sint premium)) bps_whole = Inr vi"
    "amount_from_value_ceil vi (c_decimals (x_components y ! unat bc)) (c_ref_price_e9 (x_components y ! unat bc)) = Inr pay"
    "\<not> max_buy < pay" "\<not> cap - balances ! unat bc < pay"
    "transfer_from_user env (ac_key (accounts ! 4)) (ac_key (drop 6 accounts ! unat bc)) (ac_key bidder) pay w = Inr w1"
    "transfer_from_vault env (ac_key (drop 6 accounts ! unat sc)) (ac_key (accounts ! 3)) A amount w1 = Inr w2"
    "verify_vaults env A mA (drop 6 accounts) w2 = Inr balances2" "nav_e6 A balances2 w2 = Inr nav"
    "w_indexes w2 A = Some x2" "\<not> nav < r_nav_floor_e6 (x_rebalance x2)"
    "sync_units A balances2 (m_supply m) w2 = Inr w'"
    by (rule bid_terms [OF ok])
  have y: "y = x" using x h(5,6) by simp
  note h = h [unfolded y]
  have user: "ac_key bidder \<noteq> A" using sig h(1-4) by (auto simp: signers_ok_def user_key_def)
  have str: "index_struct env w A x" using inv h(6) by (simp add: backed_def)
  have mint: "x_index_mint x = mA" by (rule own_mint [OF str h(4) pda])
  have len: "count x \<le> length (x_components x)" by (rule backed_table [OF inv h(6)])
  let ?v = "vault_of_index env x"
  have key: "ac_key (drop 6 accounts ! i) = ?v i" if "i < count x" for i
    using verified_vault_key [OF h(12,6) that len] by (simp add: vault_of_index_def mint)
  have bal: "uint (balances ! i) = balance_of w (?v i)" if "i < count x" for i
    using verify_vaults_balance(2) [OF h(12,6), of i] that len by (simp add: components_of_def vault_of_index_def mint)
  have sup: "uint (m_supply m) = supply_of w (x_index_mint x)" using h(13) by (simp add: supply_of_def mint)
  have target: "uint st = target_of w x (unat sc)" "uint bt = target_of w x (unat bc)"
    using scaled_value [OF h(14)] scaled_value [OF h(15)] by (simp_all add: target_of_def sup chain_simps UNIT_SCALE_def)
  have "uint cap = uint bt + uint slack"
    using h(17) by (auto simp: checked_add_u64_def uint_word_ariths split: if_splits)
  then have cap: "uint cap = cap_of w x (unat bc)"
    using scaled_value [OF h(16)] target by (simp add: cap_of_def chain_simps BPS_def)
  have "uint (balances ! unat sc - st) = uint (balances ! unat sc) - uint st" by (rule uint_minus_le) (use h(18) in simp)
  then have sell: "uint amount \<le> balance_of w (?v (unat sc)) - target_of w x (unat sc)"
    using h(19) bal [OF h(9)] target(1) unfolding not_less word_le_def by simp
  have "uint (cap - balances ! unat bc) = uint cap - uint (balances ! unat bc)" by (rule uint_minus_le) (use h(20) in simp)
  then have buy: "uint pay \<le> cap_of w x (unat bc) - balance_of w (?v (unat bc))"
    using h(26) bal [OF h(10)] cap unfolding not_less word_le_def by simp
  have tok: "w_tokens w' = w_tokens w2" using h(33) by (auto simp: sync_units_def rbind_Inr_iff set_index_def split: if_splits)
  have moves: "balance_of w' (?v i) = balance_of w (?v i) - (if i = unat sc then uint amount else 0) + (if i = unat bc then uint pay else 0)"
    if i: "i < count x" for i
  proof -
    obtain f where f: "foreign f A w (?v i)" using other_mint vault_held [OF str i] by blast
    have inj: "?v i = ?v j \<longleftrightarrow> i = j" if "j < count x" for j using vault_of_index_inj [OF str pda i that] by auto
    have "moved f A w w1 (?v i) (if ?v i = ac_key (drop 6 accounts ! unat bc) then uint pay else 0)"
      by (rule transfer_from_user_moved [OF tc h(27) user])
    moreover have "moved f A w1 w2 (?v i) (- (if ?v i = ac_key (drop 6 accounts ! unat sc) then uint amount else 0))"
      by (rule transfer_from_vault_moved [OF tc h(28)]) (use dst i in simp)
    ultimately show ?thesis using movedD(2) [OF moved_trans [OF moved_trans moved_same_tokens [OF tok]] f]
      unfolding key [OF h(9)] key [OF h(10)] inj [OF h(9)] inj [OF h(10)] by fastforce
  qed
  have pb: "- (2 ^ 31) \<le> sint premium" using sint_ge [of premium] by simp
  have "uint pay \<le> uint max_buy" using h(25) by (simp add: word_less_def)
  then show ?thesis using h(9-11) bid_cost_parity [OF h(21,22) pb h(23,24)] sell buy moves
    by (intro exI [of _ premium] exI [of _ "uint pay"] exI [of _ "uint vo"] exI [of _ "uint vi"] conjI allI impI) simp_all
qed

lemma shows_index_clock [simp]: "shows_index (env\<lparr>ce_now := t\<rparr>) w x snap = shows_index env w x snap"
  by (simp add: shows_index_def)

lemma bid_history:
  obtains w x w' snap where "reachable sample_env w" "w_indexes w (ac_key (bidder_accounts ! 1)) = Some x"
    "process (sample_env\<lparr>ce_now := bid_time\<rparr>) bidder_accounts (Bid 0 1 500 1000) w = Inr w'"
    "shows_index sample_env w x snap" "auction_clock bid_time x" "r_active (x_rebalance x) = 1" "count x = 2"
    "\<forall>i<count x. ac_key (bidder_accounts ! 3) \<noteq> vault_of_index sample_env x i" "r_nav_floor_e6 (x_rebalance x) = 3979"
proof -
  obtain w x where h: "run_calls sample_env auction_calls two_world = Inr w" "reachable sample_env w"
    "w_indexes w (ac_key (bidder_accounts ! 1)) = Some x" "x_index_mint x = PublicKey [1]" "count x = 2"
    "r_active (x_rebalance x) = 1" "r_start_ts (x_rebalance x) = 1300" "r_end_ts (x_rebalance x) = 1900"
    "r_nav_floor_e6 (x_rebalance x) = 3979"
    by (rule auction_history)
  obtain w' where w': "process (sample_env\<lparr>ce_now := bid_time\<rparr>) bidder_accounts (Bid 0 1 500 1000) w = Inr w'"
    using sample_bid unfolding after_auction_def h(1) by (auto split: sum.splits)
  have "shows_index sample_env w x \<lparr>sn_indexMint = x_index_mint x, sn_address = x_index_mint x, sn_account = index_view x,
      sn_supply = supply_of w (x_index_mint x), sn_balances = map (\<lambda>i. balance_of w (vault_of_index sample_env x i)) [0..<count x],
      sn_units = [], sn_pendingFee = 0, sn_asOf = NaN\<rparr>" by (simp add: shows_index_def)
  moreover have "auction_clock bid_time x" using h(7,8) by (simp add: auction_clock_def bid_time_def safe_int_def)
  moreover have "\<forall>i<count x. ac_key (bidder_accounts ! 3) \<noteq> vault_of_index sample_env x i"
    by (auto simp: bidder_accounts_def plain_def vault_of_index_def vault_pda_def sample_env_def sample_pda_def SEED_VAULT_def ascii_def)
  ultimately show ?thesis using that h(2,3,5,6,9) w' by blast
qed



section \<open>The NAV floor\<close>

definition value_of :: "index \<Rightarrow> (nat \<Rightarrow> int) \<Rightarrow> nat \<Rightarrow> int" where
  "value_of x b i = b i * uint (c_ref_price_e9 (x_components x ! i)) div 10 ^ unat (c_decimals (x_components x ! i))"

lemma nav_fold:
  assumes "rfold (\<lambda>total i. lift_err (rbind (value_e9 (balances ! i) (c_decimals (x_components x ! i)) (c_ref_price_e9 (x_components x ! i)))
      (checked_add_u128 total))) t0 is = Inr t"
  shows "uint t = uint t0 + sum_list (map (value_of x (\<lambda>i. uint (balances ! i))) is)"
  using assms
proof (induction "is" arbitrary: t0)
  case (Cons i js)
  then obtain v t1 where v: "value_e9 (balances ! i) (c_decimals (x_components x ! i)) (c_ref_price_e9 (x_components x ! i)) = Inr v"
    and add: "checked_add_u128 t0 v = Inr t1"
    and r: "rfold (\<lambda>total i. lift_err (rbind (value_e9 (balances ! i) (c_decimals (x_components x ! i)) (c_ref_price_e9 (x_components x ! i)))
      (checked_add_u128 total))) t1 js = Inr t"
    by (auto simp: rbind_Inr_iff)
  have "uint v = value_of x (\<lambda>i. uint (balances ! i)) i"
    using value_parity [OF v] by (simp add: math_simps nat_uint_eq value_of_def)
  moreover have "uint t1 = uint t0 + uint v"
    using add by (auto simp: checked_add_u128_def uint_word_ariths split: if_splits)
  ultimately show ?case using Cons.IH [OF r] by simp
qed simp

lemma nav_value:
  assumes "nav_e6 A balances w = Inr nav" "w_indexes w A = Some x"
  shows "uint nav = sum_list (map (value_of x (\<lambda>i. uint (balances ! i))) [0..<count x]) div 1000"
proof -
  obtain t where f: "rfold (\<lambda>total i. lift_err (rbind (value_e9 (balances ! i) (c_decimals (x_components x ! i)) (c_ref_price_e9 (x_components x ! i)))
      (checked_add_u128 total))) 0 [0..<count x] = Inr t" and n: "to_u64 (t div 1000) = Inr nav"
    using assms by (auto simp: nav_e6_def rbind_Inr_iff dest!: index_ref_Inr)
  show ?thesis using to_u64_Inr [OF n] nav_fold [OF f] by (simp add: uint_div)
qed

text \<open>The client's valuation of a snapshot is the same sum.\<close>

lemma nav_at_reference_prices_value:
  assumes "shows_index env w x snap" "count x \<le> length (x_components x)"
  shows "navAtReferencePrices snap = Inr (sum_list (map (value_of x (\<lambda>i. balance_of w (vault_of_index env x i))) [0..<count x]))"
proof -
  let ?f = "\<lambda>total (i, component).
      rbind (valueE9 (nth_or 0 (sn_balances snap) i) (ca_decimals component) (ca_refPriceE9 component)) (\<lambda>v. Inr (total + v))"
  have fold: "rfold ?f t (map (\<lambda>i. (i, component_view (x_components x ! i))) is)
      = Inr (t + sum_list (map (value_of x (\<lambda>i. balance_of w (vault_of_index env x i))) is))" if "\<forall>i\<in>set is. i < count x" for t "is"
    using that
  proof (induction "is" arbitrary: t)
    case (Cons i js)
    then show ?case using assms(1)
      by (simp add: component_view_def math_simps nat_uint_eq value_of_def shows_index_def add.assoc)
  qed simp
  have "enumerate 0 (xa_components (sn_account snap)) = map (\<lambda>i. (i, component_view (x_components x ! i))) [0..<count x]"
    using assms by (intro nth_equalityI) (simp_all add: shows_index_def index_view_def count_def nth_enumerate_eq)
  then show ?thesis using fold [of "[0..<count x]" 0] by (simp add: navAtReferencePrices_def)
qed

text \<open>Recomputing the units leaves prices, decimals and the auction alone.\<close>

definition same_terms :: "index \<Rightarrow> index \<Rightarrow> bool" where
  "same_terms x y \<longleftrightarrow> x_rebalance y = x_rebalance x \<and> map c_decimals (x_components y) = map c_decimals (x_components x)
     \<and> map c_ref_price_e9 (x_components y) = map c_ref_price_e9 (x_components x) \<and> count y = count x
     \<and> x_index_mint y = x_index_mint x \<and> map c_mint (x_components y) = map c_mint (x_components x)"

lemma set_units_terms: "same_terms x (set_units x i u)"
  by (simp add: same_terms_def set_units_def count_def map_update_same)

lemma sync_terms:
  assumes "sync_units A balances supply w = Inr w'" "w_indexes w A = Some x"
  shows "\<exists>y. w_indexes w' A = Some y \<and> same_terms x y"
proof -
  have fold: "rfold (\<lambda>y i. rbind (lift_err (units_from_balance (balances ! i) supply)) (\<lambda>u. Inr (set_units y i u))) z is = Inr y
      \<Longrightarrow> same_terms z y" for y z "is"
  proof (induction "is" arbitrary: z)
    case (Cons i js)
    then obtain u where "rfold (\<lambda>y i. rbind (lift_err (units_from_balance (balances ! i) supply)) (\<lambda>u. Inr (set_units y i u)))
       (set_units z i u) js = Inr y" by (auto simp: rbind_Inr_iff)
    from Cons.IH [OF this] show ?case using set_units_terms [of z i u] by (simp add: same_terms_def)
  qed (simp add: same_terms_def)
  show ?thesis using assms fold
    by (auto simp: sync_units_def rbind_Inr_iff set_index_def same_terms_def dest!: index_ref_Inr split: if_splits)
qed

lemma value_of_terms:
  assumes "same_terms x y" "i < length (x_components x)" shows "value_of y b i = value_of x b i"
proof -
  have l: "length (x_components y) = length (x_components x)" using assms(1) by (metis same_terms_def length_map)
  have "c_decimals (x_components y ! i) = c_decimals (x_components x ! i)" "c_ref_price_e9 (x_components y ! i) = c_ref_price_e9 (x_components x ! i)"
    using assms l unfolding same_terms_def by (metis nth_map)+
  then show ?thesis by (simp add: value_of_def)
qed

lemma bid_keeps_floor:
  assumes tc: "token_contract (ce_cpi env)" and pda: "pda_contract env" and inv: "backed env w"
    and ok: "place_bid env accounts sc bc amount max_buy w = Inr w'"
  shows "\<exists>x y. w_indexes w (ac_key (accounts ! 1)) = Some x \<and> w_indexes w' (ac_key (accounts ! 1)) = Some y
    \<and> x_state x = STATE_LIVE \<and> sint (r_start_ts (x_rebalance x)) \<le> sint (ce_now env) \<and> sint (ce_now env) \<le> sint (r_end_ts (x_rebalance x))
    \<and> x_rebalance y = x_rebalance x
    \<and> (\<forall>snap. shows_index env w' y snap \<longrightarrow>
         (\<exists>nav. navAtReferencePrices snap = Inr nav \<and> uint (r_nav_floor_e6 (x_rebalance x)) \<le> nav div 1000))"
proof -
  obtain bidder mA A x premium balances m st bt slack cap vo vi pay w1 w2 balances2 nav x2 where h:
    "accounts \<noteq> []" "hd accounts = bidder" "ac_signer bidder" "A = fst (index_pda env mA)" "A = ac_key (accounts ! 1)"
    "w_indexes w A = Some x" "x_state x = STATE_LIVE" "sc \<noteq> bc" "unat sc < count x" "unat bc < count x"
    "premium_at (r_start_premium_bps (x_rebalance x)) (r_end_premium_bps (x_rebalance x))
       (r_start_ts (x_rebalance x)) (r_end_ts (x_rebalance x)) (ce_now env) = Inr premium"
    "verify_vaults env A mA (drop 6 accounts) w = Inr balances" "w_mints w mA = Some m"
    "scaled (c_target_units (x_components x ! unat sc)) (ucast (m_supply m)) unit_scale = Inr st"
    "scaled (c_target_units (x_components x ! unat bc)) (ucast (m_supply m)) unit_scale = Inr bt"
    "scaled bt (ucast (x_max_premium_bps x)) bps_whole = Inr slack" "checked_add_u64 bt slack = Inr cap"
    "\<not> balances ! unat sc \<le> st" "\<not> balances ! unat sc - st < amount" "\<not> cap \<le> balances ! unat bc"
    "value_e9 amount (c_decimals (x_components x ! unat sc)) (c_ref_price_e9 (x_components x ! unat sc)) = Inr vo"
    "\<not> 10000 - sint premium < 0" "mul_div_ceil vo (word_of_int (10000 - sint premium)) bps_whole = Inr vi"
    "amount_from_value_ceil vi (c_decimals (x_components x ! unat bc)) (c_ref_price_e9 (x_components x ! unat bc)) = Inr pay"
    "\<not> max_buy < pay" "\<not> cap - balances ! unat bc < pay"
    "transfer_from_user env (ac_key (accounts ! 4)) (ac_key (drop 6 accounts ! unat bc)) (ac_key bidder) pay w = Inr w1"
    "transfer_from_vault env (ac_key (drop 6 accounts ! unat sc)) (ac_key (accounts ! 3)) A amount w1 = Inr w2"
    "verify_vaults env A mA (drop 6 accounts) w2 = Inr balances2" "nav_e6 A balances2 w2 = Inr nav"
    "w_indexes w2 A = Some x2" "\<not> nav < r_nav_floor_e6 (x_rebalance x2)"
    "sync_units A balances2 (m_supply m) w2 = Inr w'"
    by (rule bid_terms [OF ok])
  have str: "index_struct env w A x" using inv h(6) unfolding backed_def by blast
  have mint: "x_index_mint x = mA" by (rule own_mint [OF str h(4) pda])
  have len: "count x \<le> length (x_components x)" by (rule backed_table [OF inv h(6)])
  have x2: "x2 = x" using transfer_indexes(1) [OF tc h(27)] transfer_indexes(2) [OF tc h(28)] h(6,31) by simp
  obtain y where y: "w_indexes w' A = Some y" "same_terms x y" using sync_terms [OF h(33,31)] x2 by blast
  have tok: "w_tokens w' = w_tokens w2" using h(33) by (auto simp: sync_units_def rbind_Inr_iff set_index_def split: if_splits)
  have bal: "uint (balances2 ! i) = balance_of w' (vault_of_index env y i)" if "i < count x" for i
  proof -
    have "map c_mint (x_components y) ! i = map c_mint (x_components x) ! i" using y(2) by (simp add: same_terms_def)
    moreover have "length (x_components y) = length (x_components x)" using y(2) by (metis same_terms_def length_map)
    ultimately have "vault_of_index env y i = vault_of_index env x i" using that len y(2)
      by (simp add: vault_of_index_def same_terms_def)
    then show ?thesis using verify_vaults_balance(2) [OF h(29,31), of i] that len tok
      by (simp add: x2 components_of_def vault_of_index_def mint balance_of_def)
  qed
  have sums: "map (value_of x (\<lambda>i. uint (balances2 ! i))) [0..<count x]
      = map (value_of y (\<lambda>i. balance_of w' (vault_of_index env y i))) [0..<count x]"
  proof (rule map_cong [OF refl])
    fix i assume "i \<in> set [0..<count x]"
    then have i: "i < count x" by simp
    then have "value_of y (\<lambda>i. balance_of w' (vault_of_index env y i)) i = value_of x (\<lambda>i. balance_of w' (vault_of_index env y i)) i"
      using len by (intro value_of_terms [OF y(2)]) simp
    then show "value_of x (\<lambda>i. uint (balances2 ! i)) i = value_of y (\<lambda>i. balance_of w' (vault_of_index env y i)) i"
      using bal [OF i] by (simp add: value_of_def)
  qed
  have "uint (r_nav_floor_e6 (x_rebalance x)) \<le> uint nav" using h(32) x2 by (simp add: word_less_def)
  also have "uint nav = sum_list (map (value_of y (\<lambda>i. balance_of w' (vault_of_index env y i))) [0..<count x]) div 1000"
    using nav_value [OF h(30,31)] unfolding x2 sums .
  finally have floor: "uint (r_nav_floor_e6 (x_rebalance x))
      \<le> sum_list (map (value_of y (\<lambda>i. balance_of w' (vault_of_index env y i))) [0..<count y]) div 1000"
    using y(2) by (simp add: same_terms_def)
  have len': "count y \<le> length (x_components y)" using y(2) len by (metis same_terms_def length_map)
  show ?thesis unfolding h(5) [symmetric]
    using h(6,7) y premium_window [OF h(11)] floor nav_at_reference_prices_value [of env w' y, OF _ len']
    by (intro exI [of _ x] exI [of _ y]) (auto simp: same_terms_def)
qed

text \<open>C10: A bid is filled only on a live index inside its auction window, and afterwards the
  client's valuation of the fund at reference prices is at or above the floor the auction was
  opened with.
\<close>

theorem filled_bid_keeps_nav_floor:
  assumes "reachable env w" "token_contract (ce_cpi env)" "pda_contract env"
    and "process (env\<lparr>ce_now := t\<rparr>) accounts (Bid sc bc amount max_buy) w = Inr w'"
  shows "\<exists>x y. w_indexes w (ac_key (accounts ! 1)) = Some x \<and> w_indexes w' (ac_key (accounts ! 1)) = Some y
    \<and> x_state x = STATE_LIVE \<and> sint (r_start_ts (x_rebalance x)) \<le> sint t \<and> sint t \<le> sint (r_end_ts (x_rebalance x))
    \<and> x_rebalance y = x_rebalance x
    \<and> (\<forall>snap. shows_index env w' y snap \<longrightarrow>
         (\<exists>nav. navAtReferencePrices snap = Inr nav \<and> uint (r_nav_floor_e6 (x_rebalance x)) \<le> nav div 1000))"
  using bid_keeps_floor [of "env\<lparr>ce_now := t\<rparr>" w accounts sc bc amount max_buy w'] reachable_backed [OF assms(1-3)] assms(2-4)
  by simp

theorem filled_bid_keeps_nav_floor_witness:
  "\<exists>w w' y. reachable sample_env w
     \<and> process (sample_env\<lparr>ce_now := bid_time\<rparr>) bidder_accounts (Bid 0 1 500 1000) w = Inr w'
     \<and> w_indexes w' (ac_key (bidder_accounts ! 1)) = Some y \<and> r_nav_floor_e6 (x_rebalance y) = 3979
     \<and> (\<forall>snap. \<not> shows_index sample_env w' y snap \<or> (\<exists>nav. navAtReferencePrices snap = Inr nav \<and> 3979 \<le> nav div 1000))"
proof -
  obtain w x w' snap where h: "reachable sample_env w" "w_indexes w (ac_key (bidder_accounts ! 1)) = Some x"
    "process (sample_env\<lparr>ce_now := bid_time\<rparr>) bidder_accounts (Bid 0 1 500 1000) w = Inr w'"
    "shows_index sample_env w x snap" "auction_clock bid_time x" "r_active (x_rebalance x) = 1" "count x = 2"
    "\<forall>i<count x. ac_key (bidder_accounts ! 3) \<noteq> vault_of_index sample_env x i" "r_nav_floor_e6 (x_rebalance x) = 3979"
    by (rule bid_history)
  have tc: "token_contract (ce_cpi sample_env)" by (simp add: sample_env_def ledger_contract)
  have u: "uint (3979 :: u64) = 3979" by simp
  obtain y where "w_indexes w' (ac_key (bidder_accounts ! 1)) = Some y" "x_rebalance y = x_rebalance x"
    "\<forall>snap. shows_index sample_env w' y snap \<longrightarrow> (\<exists>nav. navAtReferencePrices snap = Inr nav \<and> uint (r_nav_floor_e6 (x_rebalance x)) \<le> nav div 1000)"
    using filled_bid_keeps_nav_floor [OF h(1) tc sample_pda_contract h(3)] unfolding h(2) option.inject by blast
  then show ?thesis using h(1,3) unfolding h(9) u
    by (intro exI [of _ w] exI [of _ w'] exI [of _ y]) (simp add: h(9) del: process.simps)
qed

end
