(* ===== verification/ChainAuthority.thy ===== *)
theory ChainAuthority
  imports ChainExact ChainSample
begin

text \<open>
  Who may change what. A view of an index account is what some group of its fields shows; the views
  below are untouched by fee accrual and by recomputing units, so that issuing, redeeming, accruing
  and bidding keep them, whoever signs.
\<close>

definition keeps :: "(index \<Rightarrow> 'a) \<Rightarrow> world \<Rightarrow> world \<Rightarrow> bool" where
  "keeps view w w' \<longleftrightarrow> (\<forall>k x. w_indexes w k = Some x \<longrightarrow> (\<exists>y. w_indexes w' k = Some y \<and> view y = view x))"

lemma keeps_same: "w_indexes w' = w_indexes w \<Longrightarrow> keeps view w w'"
  by (simp add: keeps_def)

lemma keeps_trans [trans]: "keeps view w w1 \<Longrightarrow> keeps view w1 w2 \<Longrightarrow> keeps view w w2"
  unfolding keeps_def by metis

lemma keeps_set: "w_indexes w A = Some x \<Longrightarrow> view y = view x \<Longrightarrow> keeps view w (set_index A y w)"
  by (simp add: keeps_def set_index_def)

lemma keeps_new: "w_indexes w A = None \<Longrightarrow> keeps view w (set_index A y w)"
  by (simp add: keeps_def set_index_def)

lemma issue_legs_indexes:
  assumes "token_contract (ce_cpi env)" "rfold (issue_leg env A user rest gross max_in) w is = Inr w'"
  shows "w_indexes w' = w_indexes w"
  using assms(2)
proof (induction "is" arbitrary: w)
  case (Cons i js)
  then obtain w1 where w1: "issue_leg env A user rest gross max_in w i = Inr w1"
    "rfold (issue_leg env A user rest gross max_in) w1 js = Inr w'" by (auto simp: rbind_Inr_iff)
  have "w_indexes w1 = w_indexes w"
    using w1(1) unfolding issue_leg_def by (elim check_elims) (rule transfer_indexes(1) [OF assms(1)])
  then show ?case using Cons.IH [OF w1(2)] by simp
qed simp

lemma redeem_legs_indexes:
  assumes "token_contract (ce_cpi env)" "rfold (redeem_leg env A rest net min_out) w is = Inr w'"
  shows "w_indexes w' = w_indexes w"
  using assms(2)
proof (induction "is" arbitrary: w)
  case (Cons i js)
  then obtain w1 where w1: "redeem_leg env A rest net min_out w i = Inr w1"
    "rfold (redeem_leg env A rest net min_out) w1 js = Inr w'" by (auto simp: rbind_Inr_iff)
  have "w_indexes w1 = w_indexes w"
    using w1(1) unfolding redeem_leg_def by (elim check_elims) (rule transfer_indexes(2) [OF assms(1)])
  then show ?case using Cons.IH [OF w1(2)] by simp
qed simp

lemma burn_indexes:
  assumes "token_contract (ce_cpi env)" "burn_index_tokens env m src user n w = Inr w'"
  shows "w_indexes w' = w_indexes w"
  using assms(2) by (auto simp: burn_index_tokens_def dest!: contract_burn [OF assms(1)] spec_indexes(3))

section \<open>Handlers that keep every view\<close>

locale index_view =
  fixes view :: "index \<Rightarrow> 'a"
  assumes view_units: "view (set_units x i u) = view x"
    and view_clock: "view (x\<lparr>x_last_fee_accrual := t\<rparr>) = view x"
begin

lemma view_fold:
  assumes "rfold (\<lambda>y i. rbind (lift_err (units_from_balance (balances ! i) s)) (\<lambda>u. Inr (set_units y i u))) x is = Inr y"
  shows "view y = view x"
  using assms by (induction "is" arbitrary: x) (auto simp: rbind_Inr_iff view_units)

lemma keeps_sync: "sync_units A balances s w = Inr w' \<Longrightarrow> keeps view w w'"
  using view_fold
  by (auto simp: sync_units_def rbind_Inr_iff keeps_same dest!: index_ref_Inr intro!: keeps_set split: if_splits)

lemma keeps_refresh: "refresh env A m vaults w = Inr w' \<Longrightarrow> keeps view w w'"
  by (erule refresh_split) (rule keeps_sync)

lemma keeps_accrue:
  assumes "token_contract (ce_cpi env)" "accrue env A m fee w = Inr (owed, w')"
  shows "keeps view w w'"
proof -
  obtain x where "w_indexes w A = Some x" using assms(2) by (auto simp: accrue_def rbind_Inr_iff dest!: index_ref_Inr)
  then show ?thesis using accrue_effect(3) [OF assms] view_clock by (auto simp: keeps_def)
qed

lemma keeps_issue:
  assumes tc: "token_contract (ce_cpi env)" and ok: "issue_tokens env accounts amount max_in w = Inr w'"
  shows "keeps view w w'"
  using ok
proof (rule issue_parts)
  fix A mA fee x owed w1 w2 w3 w4 w5 rest fees gross user_ata and user :: account_arg
  assume h: "accrue env A mA fee w = Inr (owed, w1)" "refresh env A mA (vault_args (count x) rest) w1 = Inr w2"
    "rfold (issue_leg env A (ac_key user) rest gross max_in) w2 [0..<count x] = Inr w3"
    "mint_index_tokens env mA user_ata A amount w3 = Inr w4" "mint_fee env A mA fee fees w4 = Inr w5"
    "refresh env A mA (vault_args (count x) rest) w5 = Inr w'"
  have "keeps view w w2" using keeps_accrue [OF tc h(1)] keeps_refresh [OF h(2)] by (rule keeps_trans)
  also have "keeps view w2 w5"
    using issue_legs_indexes [OF tc h(3)] mint_index_tokens_effect(2) [OF tc h(4)] mint_fee_effect(2) [OF tc h(5)]
    by (intro keeps_same) simp
  also have "keeps view w5 w'" by (rule keeps_refresh [OF h(6)])
  finally show ?thesis .
qed

lemma keeps_redeem:
  assumes tc: "token_contract (ce_cpi env)" and ok: "redeem_tokens env accounts amount min_out w = Inr w'"
  shows "keeps view w w'"
  using ok
proof (rule redeem_parts)
  fix A mA fee x owed w1 w2 w3 w4 w5 rest fees balances m user_ata and user :: account_arg
  assume h: "accrue env A mA fee w = Inr (owed, w1)" "sync_units A balances (m_supply m) w1 = Inr w2"
    "burn_index_tokens env mA user_ata (ac_key user) amount w2 = Inr w3" "mint_fee env A mA fee fees w3 = Inr w4"
    "rfold (redeem_leg env A rest (amount - fees) min_out) w4 [0..<count x] = Inr w5"
    "refresh env A mA (vault_args (count x) rest) w5 = Inr w'"
  have "keeps view w w2" using keeps_accrue [OF tc h(1)] keeps_sync [OF h(2)] by (rule keeps_trans)
  also have "keeps view w2 w5"
    using burn_indexes [OF tc h(3)] mint_fee_effect(2) [OF tc h(4)] redeem_legs_indexes [OF tc h(5)] by (intro keeps_same) simp
  also have "keeps view w5 w'" by (rule keeps_refresh [OF h(6)])
  finally show ?thesis .
qed

lemma keeps_accrue_fees:
  assumes tc: "token_contract (ce_cpi env)" and ok: "accrue_fees_ix env accounts w = Inr w'"
  shows "keeps view w w'"
  using ok by (auto simp: accrue_fees_ix_def rbind_Inr_iff Let_def split: list.splits if_splits
      dest!: keeps_accrue [OF tc] keeps_refresh intro: keeps_trans)

lemma keeps_bid:
  assumes tc: "token_contract (ce_cpi env)" and ok: "place_bid env accounts s b n max_buy w = Inr w'"
  shows "keeps view w w'"
  using ok
proof (rule place_bid_parts)
  fix A m src dst dst' v v' pay n' w1 w2 balances and bidder :: account_arg
  assume h: "transfer_from_user env src v (ac_key bidder) pay w = Inr w1" "transfer_from_vault env v' dst' A n' w1 = Inr w2"
    "sync_units A balances (m_supply m) w2 = Inr w'"
  have "keeps view w w2" using transfer_indexes(1) [OF tc h(1)] transfer_indexes(2) [OF tc h(2)] by (intro keeps_same) simp
  then show ?thesis using keeps_sync [OF h(3)] by (rule keeps_trans)
qed

lemma keeps_init:
  assumes tc: "token_contract (ce_cpi env)" and ok: "init_index env accounts p w = Inr w'"
  shows "keeps view w w'"
  by (rule init_index_parts [OF tc ok]) (simp add: keeps_new)

end

section \<open>Two views\<close>

text \<open>Who runs the index and what it charges; and what it holds, for which targets, in which state.\<close>

definition policy :: "index \<Rightarrow> pubkey \<times> pubkey \<times> pubkey \<times> u16 \<times> u16 \<times> u16 \<times> u16 \<times> u32" where
  "policy x = (x_governor x, x_manager x, x_fee_recipient x, x_streaming_fee_bps x, x_issue_fee_bps x, x_redeem_fee_bps x,
     x_max_premium_bps x, x_rebalance_delay x)"

definition terms :: "index \<Rightarrow> u8 \<times> u8 \<times> pubkey list \<times> u64 list \<times> u64 list \<times> rebalance" where
  "terms x = (x_state x, x_component_count x, map c_mint (x_components x), map c_target_units (x_components x),
     map c_ref_price_e9 (x_components x), x_rebalance x)"

interpretation pv: index_view policy
  by unfold_locales (simp_all add: policy_def set_units_def)

interpretation tv: index_view terms
  by unfold_locales (simp_all add: terms_def set_units_def map_update_same)

definition signed_by :: "account_arg list \<Rightarrow> pubkey \<Rightarrow> bool" where
  "signed_by accounts k \<longleftrightarrow> accounts \<noteq> [] \<and> ac_signer (hd accounts) \<and> ac_key (hd accounts) = k"

text \<open>\<open>edited w w' A x y\<close>: the step keeps both views of every index but \<open>A\<close>, which goes from \<open>x\<close> to \<open>y\<close>.\<close>

definition edited :: "world \<Rightarrow> world \<Rightarrow> pubkey \<Rightarrow> index \<Rightarrow> index \<Rightarrow> bool" where
  "edited w w' A x y \<longleftrightarrow> w_indexes w A = Some x \<and> w_indexes w' A = Some y
     \<and> (\<forall>k u. k \<noteq> A \<longrightarrow> w_indexes w k = Some u \<longrightarrow> (\<exists>v. w_indexes w' k = Some v \<and> policy v = policy u \<and> terms v = terms u))"

lemma edited_set: "w_indexes w A = Some x \<Longrightarrow> edited w (set_index A y w) A x y"
  by (simp add: edited_def set_index_def)

lemma edited_cases:
  assumes "edited w w' A x y" "w_indexes w k = Some u"
  shows "\<exists>v. w_indexes w' k = Some v \<and> (policy v = policy u \<and> terms v = terms u \<or> k = A \<and> u = x \<and> v = y)"
  using assms unfolding edited_def by (metis option.inject)

lemma fold_state: "(\<And>y i. f (g y i) = f y) \<Longrightarrow> f (foldl g y is) = f y"
  by (induction "is" arbitrary: y) simp_all

lemma set_targets_policy: "policy (set_targets ts ps x) = policy x" "x_state (set_targets ts ps x) = x_state x"
  unfolding set_targets_def by (rule fold_state; simp add: policy_def)+

lemma targets_from_units_policy: "policy (targets_from_units x) = policy x" "x_state (targets_from_units x) = x_state x"
  unfolding targets_from_units_def by (rule fold_state; simp add: policy_def)+

section \<open>What each handler edits, and who signed\<close>

lemma manager_edits:
  assumes tc: "token_contract (ce_cpi env)"
  shows "add_component env accounts units w = Inr w' \<Longrightarrow>
      \<exists>A x y. edited w w' A x y \<and> signed_by accounts (x_manager x) \<and> policy y = policy x \<and> x_state y = x_state x"
    and "seal_index env accounts w = Inr w' \<Longrightarrow>
      \<exists>A x y. edited w w' A x y \<and> signed_by accounts (x_manager x) \<and> policy y = policy x \<and> x_state x = STATE_BOOTSTRAPPING"
    and "propose_rebalance env accounts ts ps p w = Inr w' \<Longrightarrow>
      \<exists>A x y. edited w w' A x y \<and> signed_by accounts (x_manager x) \<and> policy y = policy x \<and> x_state y = x_state x"
proof -
  assume ok: "add_component env accounts units w = Inr w'"
  show "\<exists>A x y. edited w w' A x y \<and> signed_by accounts (x_manager x) \<and> policy y = policy x \<and> x_state y = x_state x"
    using ok
    by (auto simp: add_component_def rbind_Inr_iff Let_def index_update_def set_index_def edited_def signed_by_def policy_def
        create_vault_spec_def dest!: index_ref_Inr contract_create_vault [OF tc] split: list.splits if_splits)
next
  assume ok: "seal_index env accounts w = Inr w'"
  show "\<exists>A x y. edited w w' A x y \<and> signed_by accounts (x_manager x) \<and> policy y = policy x \<and> x_state x = STATE_BOOTSTRAPPING"
    using ok
    by (auto simp: seal_index_def rbind_Inr_iff set_index_def edited_def signed_by_def policy_def
        dest!: index_ref_Inr split: list.splits if_splits)
next
  assume ok: "propose_rebalance env accounts ts ps p w = Inr w'"
  obtain A w1 r x where h: "index_update A (set_targets ts ps) w = Inr w1"
    "index_update A (\<lambda>y. y\<lparr>x_rebalance := r\<rparr>) w1 = Inr w'" "w_indexes w A = Some x" "signed_by accounts (x_manager x)"
    using ok
    by (simp add: propose_rebalance_def rbind_Inr_iff Let_def signed_by_def split: list.splits if_splits) (auto dest!: index_ref_Inr)
  obtain z where z: "w_indexes w A = Some z" "w1 = set_index A (set_targets ts ps z) w" by (rule index_update_Inr [OF h(1)])
  obtain y where y: "w_indexes w1 A = Some y" "w' = set_index A (y\<lparr>x_rebalance := r\<rparr>) w1" by (rule index_update_Inr [OF h(2)])
  have "z = x" "y = set_targets ts ps x" using z y(1) h(3) by (simp_all add: set_index_def)
  then have "edited w w' A x (set_targets ts ps x\<lparr>x_rebalance := r\<rparr>)" using h(3) by (simp add: y(2) z(2) edited_def set_index_def)
  then show "\<exists>A x y. edited w w' A x y \<and> signed_by accounts (x_manager x) \<and> policy y = policy x \<and> x_state y = x_state x"
    using h(4) set_targets_policy [of ts ps x]
    by (intro exI [of _ A] exI [of _ x] exI [of _ "set_targets ts ps x\<lparr>x_rebalance := r\<rparr>"]) (simp add: policy_def)
qed

lemma governor_edits:
  "set_params env accounts sf isf rf mp delay w = Inr w' \<Longrightarrow>
     \<exists>A x y. edited w w' A x y \<and> signed_by accounts (x_governor x) \<and> terms y = terms x"
  "set_authority env accounts r a w = Inr w' \<Longrightarrow>
     \<exists>A x y. edited w w' A x y \<and> signed_by accounts (x_governor x) \<and> terms y = terms x"
  "set_paused env accounts paused w = Inr w' \<Longrightarrow>
     \<exists>A x y. edited w w' A x y \<and> policy y = policy x
       \<and> (signed_by accounts (x_governor x) \<or> signed_by accounts (x_manager x) \<and> x_state y = STATE_PAUSED)"
  by (auto simp: set_params_def set_authority_def set_paused_def rbind_Inr_iff set_index_def edited_def signed_by_def policy_def
      terms_def dest!: index_ref_Inr split: list.splits if_splits)

lemma end_edits:
  assumes "end_rebalance env accounts w = Inr w'"
  shows "\<exists>A x y. edited w w' A x y \<and> policy y = policy x \<and> x_state y = x_state x
    \<and> (signed_by accounts (x_manager x) \<or> r_active (x_rebalance x) \<noteq> 0 \<and> sint (r_end_ts (x_rebalance x)) < sint (ce_now env))"
proof -
  obtain A mA vaults x w1 where h: "w_indexes w A = Some x" "refresh env A mA vaults w = Inr w1"
    "index_update A (\<lambda>y. close_rebalance (targets_from_units y)) w1 = Inr w'"
    "signed_by accounts (x_manager x) \<or> r_active (x_rebalance x) \<noteq> 0 \<and> sint (r_end_ts (x_rebalance x)) < sint (ce_now env)"
    using assms
    by (simp add: end_rebalance_def rbind_Inr_iff Let_def signed_by_def not_le split: list.splits if_splits)
      (auto dest!: index_ref_Inr)
  obtain z where z: "w_indexes w1 A = Some z" "w' = set_index A (close_rebalance (targets_from_units z)) w1"
    by (rule index_update_Inr [OF h(3)])
  have k: "keeps policy w w1" "keeps terms w w1" by (rule pv.keeps_refresh tv.keeps_refresh; rule h(2))+
  have zx: "policy z = policy x" "terms z = terms x"
    using k h(1) z(1) unfolding keeps_def by (metis option.inject)+
  let ?y = "close_rebalance (targets_from_units z)"
  have "policy ?y = policy x" "x_state ?y = x_state x"
    using zx targets_from_units_policy [of z] by (simp_all add: close_rebalance_def policy_def terms_def)
  moreover have "\<exists>v. w_indexes w1 j = Some v \<and> policy v = policy u \<and> terms v = terms u" if "w_indexes w j = Some u" for j u
    using k that unfolding keeps_def by (metis option.inject)
  then have "edited w w' A x ?y" using h(1) by (simp add: z(2) edited_def set_index_def)
  ultimately show ?thesis using h(4) by blast
qed

text \<open>The handlers together. \<open>allowed\<close> is what the text of the property below says of one index.\<close>

definition allowed :: "chain_env \<Rightarrow> account_arg list \<Rightarrow> flock_instruction \<Rightarrow> index \<Rightarrow> index \<Rightarrow> bool" where
  "allowed env accounts ix x y \<longleftrightarrow>
     (policy y = policy x \<or> signed_by accounts (x_governor x))
     \<and> (terms y = terms x \<or> signed_by accounts (x_manager x) \<or> signed_by accounts (x_governor x)
        \<or> ix = EndRebalance \<and> r_active (x_rebalance x) \<noteq> 0 \<and> sint (r_end_ts (x_rebalance x)) < sint (ce_now env))
     \<and> (x_state x = STATE_PAUSED \<longrightarrow> x_state y = STATE_PAUSED \<or> signed_by accounts (x_governor x))"

lemma boot_not_paused [simp]: "STATE_BOOTSTRAPPING \<noteq> STATE_PAUSED"
  by (simp add: STATE_BOOTSTRAPPING_def STATE_PAUSED_def)

lemma terms_state: "terms y = terms x \<Longrightarrow> x_state y = x_state x"
  by (simp add: terms_def)

lemma allowed_same: "policy y = policy x \<Longrightarrow> terms y = terms x \<Longrightarrow> allowed env accounts ix x y"
  using terms_state [of y x] by (auto simp: allowed_def)

lemma keeps_allowed:
  assumes "keeps policy w w'" "keeps terms w w'" "w_indexes w k = Some x"
  shows "\<exists>y. w_indexes w' k = Some y \<and> allowed env accounts ix x y"
  using assms allowed_same unfolding keeps_def by (metis option.inject)

lemma edited_allowed:
  assumes "\<exists>A x y. edited w w' A x y \<and> Q x y" "\<And>x y. Q x y \<Longrightarrow> allowed env accounts ix x y" "w_indexes w k = Some x"
  shows "\<exists>y. w_indexes w' k = Some y \<and> allowed env accounts ix x y"
proof -
  obtain A u z where e: "edited w w' A u z" "Q u z" using assms(1) by blast
  obtain v where v: "w_indexes w' k = Some v" "policy v = policy x \<and> terms v = terms x \<or> k = A \<and> x = u \<and> v = z"
    using edited_cases [OF e(1) assms(3)] by blast
  then have "allowed env accounts ix x v" using assms(2) e(2) allowed_same by blast
  then show ?thesis using v(1) by blast
qed

lemma process_allowed:
  assumes tc: "token_contract (ce_cpi env)" and ok: "process env accounts ix w = Inr w'" and x: "w_indexes w k = Some x"
  shows "\<exists>y. w_indexes w' k = Some y \<and> allowed env accounts ix x y"
proof (cases ix)
  case (InitIndex nm sy sf isf rf mp delay)
  then show ?thesis using ok pv.keeps_init [OF tc] tv.keeps_init [OF tc] keeps_allowed [OF _ _ x] by simp
next
  case (AddComponent units)
  then have "add_component env accounts units w = Inr w'" using ok by simp
  from manager_edits(1) [OF tc this] show ?thesis
    by (rule edited_allowed [OF _ _ x]) (auto simp: allowed_def AddComponent dest: terms_state)
next
  case SealIndex
  then have "seal_index env accounts w = Inr w'" using ok by simp
  from manager_edits(2) [OF tc this] show ?thesis
    by (rule edited_allowed [OF _ _ x]) (auto simp: allowed_def SealIndex)
next
  case (Issue amount max_in)
  then show ?thesis using ok pv.keeps_issue [OF tc] tv.keeps_issue [OF tc] keeps_allowed [OF _ _ x] by simp
next
  case (Redeem amount min_out)
  then show ?thesis using ok pv.keeps_redeem [OF tc] tv.keeps_redeem [OF tc] keeps_allowed [OF _ _ x] by simp
next
  case AccrueFees
  then show ?thesis using ok pv.keeps_accrue_fees [OF tc] tv.keeps_accrue_fees [OF tc] keeps_allowed [OF _ _ x] by simp
next
  case (ProposeRebalance ts ps dur sp ep loss)
  then have "propose_rebalance env accounts ts ps \<lparr>ap_duration = dur, ap_start_premium_bps = sp, ap_end_premium_bps = ep, ap_max_nav_loss_bps = loss\<rparr> w = Inr w'" using ok by simp
  from manager_edits(3) [OF tc this] show ?thesis
    by (rule edited_allowed [OF _ _ x]) (auto simp: allowed_def ProposeRebalance dest: terms_state)
next
  case (Bid s b n mx)
  then show ?thesis using ok pv.keeps_bid [OF tc] tv.keeps_bid [OF tc] keeps_allowed [OF _ _ x] by simp
next
  case EndRebalance
  then have "end_rebalance env accounts w = Inr w'" using ok by simp
  from end_edits [OF this] show ?thesis
    by (rule edited_allowed [OF _ _ x]) (auto simp: allowed_def EndRebalance dest: terms_state)
next
  case (SetParams sf isf rf mp delay)
  then have "set_params env accounts sf isf rf mp delay w = Inr w'" using ok by simp
  from governor_edits(1) [OF this] show ?thesis
    by (rule edited_allowed [OF _ _ x]) (auto simp: allowed_def SetParams dest: terms_state)
next
  case (SetAuthority r a)
  then have "set_authority env accounts r a w = Inr w'" using ok by simp
  from governor_edits(2) [OF this] show ?thesis
    by (rule edited_allowed [OF _ _ x]) (auto simp: allowed_def SetAuthority dest: terms_state)
next
  case (SetPaused paused)
  then have "set_paused env accounts paused w = Inr w'" using ok by simp
  from governor_edits(3) [OF this] show ?thesis
    by (rule edited_allowed [OF _ _ x]) (auto simp: allowed_def SetPaused dest: terms_state)
qed

section \<open>What leaves a vault\<close>

lemma transfer_user_grows:
  assumes "token_contract (ce_cpi env)" "transfer_from_user env src dst auth n w = Inr w'" "auth \<noteq> A"
  shows "grows A w w'"
  using assms(2) by (auto simp: transfer_from_user_def split: if_splits
      dest!: contract_transfer [OF assms(1)] intro: transfer_grows [OF _ assms(3)])

lemma transfer_vault_grows:
  assumes "token_contract (ce_cpi env)" "transfer_from_vault env src dst B n w = Inr w'" "B \<noteq> A"
  shows "grows A w w'"
  using assms(2) by (auto simp: transfer_from_vault_def split: if_splits
      dest!: contract_transfer [OF assms(1)] intro: transfer_grows [OF _ assms(3)])

lemma legs_grow:
  assumes "\<And>w i w'. leg w i = Inr w' \<Longrightarrow> grows A w w'" "rfold leg w is = Inr w'"
  shows "grows A w w'"
  using assms(2)
proof (induction "is" arbitrary: w)
  case (Cons i js)
  then obtain w1 where w1: "leg w i = Inr w1" "rfold leg w1 js = Inr w'" by (auto simp: rbind_Inr_iff)
  show ?case using assms(1) [OF w1(1)] Cons.IH [OF w1(2)] by (rule grows_trans)
qed simp

lemma issue_leg_grows:
  assumes "token_contract (ce_cpi env)" "user \<noteq> A" "issue_leg env B user rest gross max_in w i = Inr w'"
  shows "grows A w w'"
  using assms(3) unfolding issue_leg_def by (elim check_elims) (rule transfer_user_grows [OF assms(1) _ assms(2)])

lemma redeem_leg_grows:
  assumes "token_contract (ce_cpi env)" "B \<noteq> A" "redeem_leg env B rest net min_out w i = Inr w'"
  shows "grows A w w'"
  using assms(3) unfolding redeem_leg_def by (elim check_elims) (rule transfer_vault_grows [OF assms(1) _ assms(2)])

lemma refresh_grows: "refresh env B m vaults w = Inr w' \<Longrightarrow> grows A w w'"
  by (rule grows_same_tokens) (rule refresh_tokens(1))

lemma sync_tokens: "sync_units B balances s w = Inr w' \<Longrightarrow> w_tokens w' = w_tokens w"
  by (auto simp: sync_units_def rbind_Inr_iff set_index_def split: if_splits)

lemma accrue_grows:
  assumes "token_contract (ce_cpi env)" "accrue env B m fee w = Inr (owed, w')" shows "grows A w w'"
proof -
  obtain x where "w_indexes w B = Some x" using assms(2) by (auto simp: accrue_def rbind_Inr_iff dest!: index_ref_Inr)
  from accrue_effect(1) [OF assms this] show ?thesis .
qed

lemma issue_grows:
  assumes tc: "token_contract (ce_cpi env)" and user: "ac_signer (hd accounts) \<Longrightarrow> accounts \<noteq> [] \<Longrightarrow> ac_key (hd accounts) \<noteq> A"
    and ok: "issue_tokens env accounts amount max_in w = Inr w'"
  shows "grows A w w'"
  using ok
proof (rule issue_parts)
  fix B mA fee x owed w1 w2 w3 w4 w5 rest fees gross user_ata and user :: account_arg
  assume h: "accrue env B mA fee w = Inr (owed, w1)" "refresh env B mA (vault_args (count x) rest) w1 = Inr w2"
    "rfold (issue_leg env B (ac_key user) rest gross max_in) w2 [0..<count x] = Inr w3"
    "mint_index_tokens env mA user_ata B amount w3 = Inr w4" "mint_fee env B mA fee fees w4 = Inr w5"
    "refresh env B mA (vault_args (count x) rest) w5 = Inr w'"
    and u: "accounts \<noteq> []" "hd accounts = user" "ac_signer user"
  have "ac_key user \<noteq> A" using user u by simp
  then have "grows A w2 w3" by (rule legs_grow [OF issue_leg_grows [OF tc] h(3)])
  with accrue_grows [OF tc h(1)] refresh_grows [OF h(2)] mint_index_tokens_effect(1) [OF tc h(4)]
    mint_fee_effect(1) [OF tc h(5)] refresh_grows [OF h(6)]
  show ?thesis using grows_trans by metis
qed

lemma redeem_other_grows:
  assumes tc: "token_contract (ce_cpi env)" and user: "ac_signer (hd accounts) \<Longrightarrow> accounts \<noteq> [] \<Longrightarrow> ac_key (hd accounts) \<noteq> A"
    and other: "A \<noteq> ac_key (accounts ! 1)" and ok: "redeem_tokens env accounts amount min_out w = Inr w'"
  shows "grows A w w'"
  using ok
proof (rule redeem_parts)
  fix B mA fee x owed w1 w2 w3 w4 w5 rest fees balances m user_ata and user :: account_arg
  assume h: "accrue env B mA fee w = Inr (owed, w1)" "sync_units B balances (m_supply m) w1 = Inr w2"
    "burn_index_tokens env mA user_ata (ac_key user) amount w2 = Inr w3" "mint_fee env B mA fee fees w3 = Inr w4"
    "rfold (redeem_leg env B rest (amount - fees) min_out) w4 [0..<count x] = Inr w5"
    "refresh env B mA (vault_args (count x) rest) w5 = Inr w'"
    and u: "accounts \<noteq> []" "hd accounts = user" "ac_signer user" "B = ac_key (accounts ! 1)"
  have "ac_key user \<noteq> A" using user u by simp
  note burn = burn_index_tokens_effect(1) [OF tc h(3) this]
  have "B \<noteq> A" using other u(4) by simp
  then have "grows A w4 w5" by (rule legs_grow [OF redeem_leg_grows [OF tc] h(5)])
  with accrue_grows [OF tc h(1)] grows_same_tokens [OF sync_tokens [OF h(2)]] burn
    mint_fee_effect(1) [OF tc h(4)] refresh_grows [OF h(6)]
  show ?thesis using grows_trans by metis
qed

lemma bid_other_grows:
  assumes tc: "token_contract (ce_cpi env)" and user: "ac_signer (hd accounts) \<Longrightarrow> accounts \<noteq> [] \<Longrightarrow> ac_key (hd accounts) \<noteq> A"
    and ok: "place_bid env accounts s b n mx w = Inr w'"
  shows "grows A w w' \<or> A = ac_key (accounts ! 1) \<and> (\<exists>x. w_indexes w A = Some x \<and> x_state x = STATE_LIVE
      \<and> sint (r_start_ts (x_rebalance x)) \<le> sint (ce_now env) \<and> sint (ce_now env) \<le> sint (r_end_ts (x_rebalance x)))"
proof -
  obtain bidder mA B x premium balances m st bt slack cap vo vi pay w1 w2 balances2 nav x2 where h:
    "accounts \<noteq> []" "hd accounts = bidder" "ac_signer bidder" "B = fst (index_pda env mA)" "B = ac_key (accounts ! 1)"
    "w_indexes w B = Some x" "x_state x = STATE_LIVE" "s \<noteq> b" "unat s < count x" "unat b < count x"
    "premium_at (r_start_premium_bps (x_rebalance x)) (r_end_premium_bps (x_rebalance x))
       (r_start_ts (x_rebalance x)) (r_end_ts (x_rebalance x)) (ce_now env) = Inr premium"
    "verify_vaults env B mA (drop 6 accounts) w = Inr balances" "w_mints w mA = Some m"
    "scaled (c_target_units (x_components x ! unat s)) (ucast (m_supply m)) unit_scale = Inr st"
    "scaled (c_target_units (x_components x ! unat b)) (ucast (m_supply m)) unit_scale = Inr bt"
    "scaled bt (ucast (x_max_premium_bps x)) bps_whole = Inr slack" "checked_add_u64 bt slack = Inr cap"
    "\<not> balances ! unat s \<le> st" "\<not> balances ! unat s - st < n" "\<not> cap \<le> balances ! unat b"
    "value_e9 n (c_decimals (x_components x ! unat s)) (c_ref_price_e9 (x_components x ! unat s)) = Inr vo"
    "\<not> 10000 - sint premium < 0" "mul_div_ceil vo (word_of_int (10000 - sint premium)) bps_whole = Inr vi"
    "amount_from_value_ceil vi (c_decimals (x_components x ! unat b)) (c_ref_price_e9 (x_components x ! unat b)) = Inr pay"
    "\<not> mx < pay" "\<not> cap - balances ! unat b < pay"
    "transfer_from_user env (ac_key (accounts ! 4)) (ac_key (drop 6 accounts ! unat b)) (ac_key bidder) pay w = Inr w1"
    "transfer_from_vault env (ac_key (drop 6 accounts ! unat s)) (ac_key (accounts ! 3)) B n w1 = Inr w2"
    "verify_vaults env B mA (drop 6 accounts) w2 = Inr balances2" "nav_e6 B balances2 w2 = Inr nav"
    "w_indexes w2 B = Some x2" "\<not> nav < r_nav_floor_e6 (x_rebalance x2)"
    "sync_units B balances2 (m_supply m) w2 = Inr w'"
    by (rule bid_terms [OF ok])
  show ?thesis
  proof (cases "B = A")
    case True
    show ?thesis unfolding True [symmetric] using h(5-7) premium_window [OF h(11)]
      by (intro disjI2 conjI exI [of _ x]) simp_all
  next
    case False
    have "grows A w w1" by (rule transfer_user_grows [OF tc h(27)]) (use user h(1-3) in simp)
    also have "grows A w1 w2" by (rule transfer_vault_grows [OF tc h(28) False])
    also have "grows A w2 w'" by (rule grows_same_tokens [OF sync_tokens [OF h(33)]])
    finally show ?thesis ..
  qed
qed

lemma other_handlers_grow:
  assumes tc: "token_contract (ce_cpi env)"
  shows "init_index env accounts p w = Inr w' \<Longrightarrow> grows A w w'"
    and "add_component env accounts units w = Inr w' \<Longrightarrow> grows A w w'"
    and "seal_index env accounts w = Inr w' \<Longrightarrow> grows A w w'"
    and "accrue_fees_ix env accounts w = Inr w' \<Longrightarrow> grows A w w'"
    and "propose_rebalance env accounts ts ps q w = Inr w' \<Longrightarrow> grows A w w'"
    and "end_rebalance env accounts w = Inr w' \<Longrightarrow> grows A w w'"
    and "set_params env accounts sf isf rf mp delay w = Inr w' \<Longrightarrow> grows A w w'"
    and "set_authority env accounts r a w = Inr w' \<Longrightarrow> grows A w w'"
    and "set_paused env accounts paused w = Inr w' \<Longrightarrow> grows A w w'"
proof -
  show "grows A w w'" if "init_index env accounts p w = Inr w'"
    by (rule init_index_parts [OF tc that]) (simp add: set_index_def grows_same_tokens)
  show "grows A w w'" if "add_component env accounts units w = Inr w'"
    by (rule add_component_parts [OF tc that]) (auto simp: set_index_def grows_def held_def balance_of_def)
  show "grows A w w'" if "seal_index env accounts w = Inr w'"
    using that by (auto simp: seal_index_def rbind_Inr_iff set_index_def grows_same_tokens split: list.splits if_splits)
  show "grows A w w'" if ok: "accrue_fees_ix env accounts w = Inr w'"
  proof -
    obtain ii mi fee tp vaults where acc: "accounts = ii # mi # fee # tp # vaults"
      using ok by (auto simp: accrue_fees_ix_def split: list.splits)
    show ?thesis using ok unfolding acc accrue_fees_ix_def list.case Let_def
      by (elim check_elims) (auto intro: grows_trans dest: accrue_grows [OF tc] refresh_grows)
  qed
  show "grows A w w'" if "propose_rebalance env accounts ts ps q w = Inr w'"
    using that by (auto simp: propose_rebalance_def rbind_Inr_iff Let_def index_update_def set_index_def grows_same_tokens
        split: list.splits if_splits)
  show "grows A w w'" if "end_rebalance env accounts w = Inr w'"
    using that by (auto simp: end_rebalance_def rbind_Inr_iff Let_def index_update_def set_index_def
        split: list.splits if_splits dest!: refresh_tokens(1) intro!: grows_same_tokens)
  show "grows A w w'" if "set_params env accounts sf isf rf mp delay w = Inr w'"
    using that by (auto simp: set_params_def rbind_Inr_iff set_index_def grows_same_tokens split: list.splits if_splits)
  show "grows A w w'" if "set_authority env accounts r a w = Inr w'"
    using that by (auto simp: set_authority_def rbind_Inr_iff set_index_def grows_same_tokens split: list.splits if_splits)
  show "grows A w w'" if "set_paused env accounts paused w = Inr w'"
    using that by (auto simp: set_paused_def rbind_Inr_iff set_index_def grows_same_tokens split: list.splits if_splits)
qed

text \<open>Every handler, for an address that signs nothing.\<close>

lemma process_grows:
  assumes tc: "token_contract (ce_cpi env)" and ok: "process env accounts ix w = Inr w'"
    and user: "ac_signer (hd accounts) \<Longrightarrow> accounts \<noteq> [] \<Longrightarrow> ac_key (hd accounts) \<noteq> A"
  shows "grows A w w' \<or> A = ac_key (accounts ! 1)
    \<and> ((\<exists>amount min_out. ix = Redeem amount min_out)
       \<or> (\<exists>s b n mx x. ix = Bid s b n mx \<and> w_indexes w A = Some x \<and> x_state x = STATE_LIVE
            \<and> sint (r_start_ts (x_rebalance x)) \<le> sint (ce_now env) \<and> sint (ce_now env) \<le> sint (r_end_ts (x_rebalance x))))"
proof (cases ix)
  case (Issue amount max_in)
  then show ?thesis using ok issue_grows [OF tc user] by simp
next
  case (Redeem amount min_out)
  then show ?thesis using ok redeem_other_grows [OF tc user] by auto
next
  case (Bid s b n mx)
  then show ?thesis using ok bid_other_grows [OF tc user, of s b n mx] by auto
qed (use ok other_handlers_grow [OF tc] in auto)

section \<open>Authority\<close>

text \<open>C9: Whoever runs an index and what it charges changes only with the governor's signature; its
  targets, state and auction only with the manager's or governor's, or when anyone closes an
  expired auction; and a pause is lifted by the governor alone.
\<close>

theorem changes_need_authority:
  assumes "token_contract (ce_cpi env)" "process env accounts ix w = Inr w'" "w_indexes w k = Some x"
  shows "\<exists>y. w_indexes w' k = Some y
    \<and> (policy y = policy x \<or> signed_by accounts (x_governor x))
    \<and> (terms y = terms x \<or> signed_by accounts (x_manager x) \<or> signed_by accounts (x_governor x)
        \<or> ix = EndRebalance \<and> r_active (x_rebalance x) \<noteq> 0 \<and> sint (r_end_ts (x_rebalance x)) < sint (ce_now env))
    \<and> (x_state x \<noteq> STATE_PAUSED \<or> x_state y = STATE_PAUSED \<or> signed_by accounts (x_governor x))"
  using process_allowed [OF assms] unfolding allowed_def by blast

theorem changes_need_authority_witness:
  "\<exists>w w' x y. process (sample_env\<lparr>ce_now := month_later\<rparr>) user_accounts (Issue 500000000 [5000]) w = Inr w'
     \<and> w_indexes w index_at = Some x \<and> w_indexes w' index_at = Some y \<and> x_governor x = PublicKey [10] \<and> policy y = policy x"
proof -
  obtain w x where h: "run_calls sample_env sample_calls world0 = Inr w" "reachable sample_env w"
    "w_indexes w index_at = Some x" "x_index_mint x = PublicKey [1]" "supply_of w (PublicKey [1]) = 1005000000"
    "map c_units (components_of x) = [2000]" "map c_mint (components_of x) = [PublicKey [2]]" by (rule sample_history)
  have tc: "token_contract (ce_cpi (sample_env\<lparr>ce_now := month_later\<rparr>))" by (simp add: sample_env_def ledger_contract)
  have g: "x_governor x = PublicKey [10]" using sample_governor h(1,3) by (simp add: after_history_def)
  obtain w' where w': "process (sample_env\<lparr>ce_now := month_later\<rparr>) user_accounts (Issue 500000000 [5000]) w = Inr w'"
    using sample_second_issue unfolding after_history_def h(1) by (auto split: sum.splits)
  have "\<not> signed_by user_accounts (x_governor x)" by (simp add: signed_by_def user_accounts_def signed_def g)
  then obtain y where "w_indexes w' index_at = Some y" "policy y = policy x"
    using changes_need_authority [OF tc w' h(3)] by blast
  then show ?thesis using h(3) w' g by blast
qed

text \<open>C7: No instruction lowers the balance of an account an index holds, except a redemption of
  that index or a bid in its own live auction window.
\<close>

theorem vaults_pay_only_redeemers_and_bidders:
  assumes "token_contract (ce_cpi env)" "signers_ok env accounts" "process env accounts ix w = Inr w'"
    and "A = fst (index_pda env mint)" "w_tokens w v = Some t" "t_owner t = A" "t_delegate t = None"
  shows "balance_of w v \<le> balance_of w' v \<or> A = ac_key (accounts ! 1)
    \<and> ((\<exists>amount min_out. ix = Redeem amount min_out)
       \<or> (\<exists>s b n mx x. ix = Bid s b n mx \<and> w_indexes w A = Some x \<and> x_state x = STATE_LIVE
            \<and> sint (r_start_ts (x_rebalance x)) \<le> sint (ce_now env) \<and> sint (ce_now env) \<le> sint (r_end_ts (x_rebalance x))))"
proof -
  have "ac_key (hd accounts) \<noteq> A" if "ac_signer (hd accounts)" "accounts \<noteq> []"
    using assms(2,4) that by (auto simp: signers_ok_def user_key_def)
  note g = process_grows [OF assms(1,3) this]
  have "held A w v" using assms(5-7) by (simp add: held_def)
  then show ?thesis using g growsD by blast
qed

theorem vaults_pay_only_redeemers_and_bidders_witness:
  "\<exists>w w' t. w_tokens w vault_at = Some t \<and> t_owner t = index_at
     \<and> process (sample_env\<lparr>ce_now := month_later\<rparr>) user_accounts (Issue 500000000 [5000]) w = Inr w'
     \<and> balance_of w vault_at \<le> balance_of w' vault_at"
proof -
  let ?env = "sample_env\<lparr>ce_now := month_later\<rparr>"
  obtain w x where h: "run_calls sample_env sample_calls world0 = Inr w" "reachable sample_env w"
    "w_indexes w index_at = Some x" "x_index_mint x = PublicKey [1]" "supply_of w (PublicKey [1]) = 1005000000"
    "map c_units (components_of x) = [2000]" "map c_mint (components_of x) = [PublicKey [2]]" by (rule sample_history)
  have tc: "token_contract (ce_cpi ?env)" by (simp add: sample_env_def ledger_contract)
  have sig: "signers_ok ?env user_accounts" using sample_user_signs by simp
  obtain w' where w': "process ?env user_accounts (Issue 500000000 [5000]) w = Inr w'"
    using sample_second_issue unfolding after_history_def h(1) by (auto split: sum.splits)
  obtain t where t: "w_tokens w vault_at = Some t" "t_owner t = index_at" "t_delegate t = None"
    using sample_vault h(1) by (auto simp: after_history_def split: option.splits)
  have A: "index_at = fst (index_pda ?env (PublicKey [1]))" by (simp add: index_at_def)
  have "balance_of w vault_at \<le> balance_of w' vault_at"
    using vaults_pay_only_redeemers_and_bidders [OF tc sig w' A t] by blast
  then show ?thesis using t(1,2) w' by blast
qed

end
