(* ===== verification/ChainLiveness.thy ===== *)
theory ChainLiveness
  imports AuctionChain ChainAuthority
begin

text \<open>
  What can always be done: once an auction has expired, the transaction the client builds for
  \<open>endRebalance\<close> succeeds for whoever signs it, as long as the units of every component fit 64 bits.
\<close>

section \<open>Steps that succeed\<close>

lemma rfold_succeeds: "(\<And>s x. x \<in> set xs \<Longrightarrow> \<exists>t. f s x = Inr t) \<Longrightarrow> \<exists>t. rfold f s xs = Inr t"
proof (induction xs arbitrary: s)
  case (Cons x xs)
  then obtain t where t: "f s x = Inr t" by fastforce
  obtain u where "rfold f t xs = Inr u" using Cons.IH [of t] Cons.prems by auto
  then show ?case using t by simp
qed simp

definition vault_infos :: "chain_env \<Rightarrow> index \<Rightarrow> account_arg list" where
  "vault_infos env x = map (\<lambda>c. \<lparr>ac_key = vault_key env x c, ac_signer = False\<rparr>) (components_of x)"

lemma verify_vaults_succeeds:
  assumes st: "index_struct env w A x" and ref: "index_ref w A = Inr x"
  obtains balances where "verify_vaults env A (x_index_mint x) (vault_infos env x) w = Inr balances"
    "length balances = count x" "\<forall>i<count x. uint (balances ! i) = balance_of w (vault_of_index env x i)"
proof -
  let ?zs = "zip (components_of x) (vault_infos env x)"
  let ?bal = "\<lambda>(c, v). t_amount (the (w_tokens w (vault_key env x c)))"
  have len: "length (components_of x) = count x" using st by (simp add: index_struct_def components_of_def)
  have good: "verify_vault env A (x_index_mint x) w z = Inr (?bal z)" if "z \<in> set ?zs" for z
  proof -
    obtain c where c: "c \<in> set (components_of x)" "z = (c, \<lparr>ac_key = vault_key env x c, ac_signer = False\<rparr>)"
      using \<open>z \<in> set ?zs\<close> by (auto simp: vault_infos_def zip_map2 zip_same_conv_map)
    obtain t where "w_tokens w (vault_key env x c) = Some t" "t_mint t = c_mint c" "t_owner t = A"
      using struct_vault [OF st c(1)] by metis
    then show ?thesis unfolding c(2)
      by (simp add: verify_vault_def require_key_def require_token_account_def read_token_account_def guard_def) (simp add: vault_key_def guard_def)
  qed
  have r: "rmapM (verify_vault env A (x_index_mint x) w) ?zs = Inr (map ?bal ?zs)"
    by (rule rmapM_all_Inr) (use good in blast)
  have "\<forall>i<count x. uint (map ?bal ?zs ! i) = balance_of w (vault_of_index env x i)"
  proof (intro allI impI)
    fix i assume i: "i < count x"
    have c: "components_of x ! i = x_components x ! i" using i by (simp add: components_of_def)
    have c2: "components_of x ! i \<in> set (components_of x)" by (rule nth_mem) (simp add: len i)
    obtain t where t: "w_tokens w (vault_key env x (x_components x ! i)) = Some t"
      using struct_vault [OF st c2] c by metis
    then show "uint (map ?bal ?zs ! i) = balance_of w (vault_of_index env x i)" using i len c
      by (simp add: vault_infos_def balance_of_def) (simp add: vault_of_index_def vault_key_def)
  qed
  then show thesis
    by (rule that [rotated 2]) (use ref r len in \<open>simp_all add: verify_vaults_def vault_infos_def\<close>)
qed

text \<open>The units of every component fit their field.\<close>

definition units_fit :: "chain_env \<Rightarrow> world \<Rightarrow> index \<Rightarrow> bool" where
  "units_fit env w x \<longleftrightarrow>
     supply_of w (x_index_mint x) = 0
     \<or> list_all (\<lambda>i. balance_of w (vault_of_index env x i) * UNIT_SCALE div supply_of w (x_index_mint x) < 2 ^ 64) [0..<count x]"

lemma sync_units_succeeds:
  assumes ref: "index_ref w A = Inr x" and fit: "units_fit env w x" and s: "uint s = supply_of w (x_index_mint x)"
    and bal: "\<forall>i<count x. uint (balances ! i) = balance_of w (vault_of_index env x i)"
    and tab: "count x \<le> length (x_components x)"
  obtains y w' where "sync_units A balances s w = Inr w'" "index_ref w' A = Inr y" "same_shape x y"
    "w_tokens w' = w_tokens w" "w_mints w' = w_mints w" "x_fee_recipient y = x_fee_recipient x"
proof (cases "s = 0")
  case True
  then show ?thesis using that [of w x] ref by (simp add: sync_units_def)
next
  case False
  let ?f = "\<lambda>y i. rbind (lift_err (units_from_balance (balances ! i) s)) (\<lambda>u. Inr (set_units y i u))"
  have "\<exists>z. ?f y i = Inr z" if "i \<in> set [0..<count x]" for y i
  proof -
    have "uint (balances ! i) * UNIT_SCALE div uint s < 2 ^ 64"
      using fit False that s bal by (auto simp: units_fit_def list_all_iff)
    then show ?thesis using units_from_balance_parity(2) [OF False] by (simp add: narrow_def lift_err_def)
  qed
  then obtain y where y: "rfold ?f x [0..<count x] = Inr y" using rfold_succeeds [of "[0..<count x]" ?f x] by blast
  then have sync: "sync_units A balances s w = Inr (set_index A y w)" using False ref by (simp add: sync_units_def)
  have idx: "w_indexes w A = Some x" using ref by (auto dest!: index_ref_Inr)
  note loop = sync_loop [OF y tab]
  have "same_shape x y" "x_tag y = x_tag x" "x_version y = x_version x" "x_fee_recipient y = x_fee_recipient x"
    using loop(1,2) by (cases x; cases y; simp add: same_shape_def)+
  then show ?thesis using ref idx
    by (intro that [OF sync, of y]) (auto simp: index_ref_def set_index_def split: if_splits)
qed

lemma targets_from_units_value:
  assumes "i < count x" "count x \<le> length (x_components x)"
  shows "c_target_units (x_components (targets_from_units x) ! i) = c_units (x_components x ! i)"
proof -
  define g :: "index \<Rightarrow> nat \<Rightarrow> index" where "g = (\<lambda>y i. y\<lparr>x_components := (x_components y)[i := (x_components y ! i)\<lparr>c_target_units := c_units (x_components y ! i)\<rparr>]\<rparr>)"
  have "length (x_components (foldl g x [0..<n])) = length (x_components x)
    \<and> (\<forall>k<length (x_components x). c_units (x_components (foldl g x [0..<n]) ! k) = c_units (x_components x ! k)
         \<and> (k < n \<longrightarrow> c_target_units (x_components (foldl g x [0..<n]) ! k) = c_units (x_components x ! k)))" for n
  proof (induction n)
    case (Suc n)
    have "foldl g x [0..<Suc n] = g (foldl g x [0..<n]) n" by simp
    moreover have "x_components (g y i) = (x_components y)[i := (x_components y ! i)\<lparr>c_target_units := c_units (x_components y ! i)\<rparr>]"
      for y i by (simp add: g_def)
    ultimately show ?case using Suc.IH by (cases "n < length (x_components x)") (auto simp: list_update_beyond nth_list_update less_Suc_eq simp del: upt_Suc)
  qed simp
  then show ?thesis using assms unfolding targets_from_units_def g_def [symmetric] by simp
qed

section \<open>Closing an expired auction\<close>

text \<open>The accounts of a client transaction as the program receives them.\<close>

definition passed :: "account_meta list \<Rightarrow> account_arg list" where
  "passed = map (\<lambda>m. \<lparr>ac_key = am_pubkey m, ac_signer = am_isSigner m\<rparr>)"

lemma end_rebalance_succeeds:
  assumes inv: "backed env w" and ref: "index_ref w A = Inr x" and act: "r_active (x_rebalance x) \<noteq> 0"
    and late: "sint (r_end_ts (x_rebalance x)) < sint (ce_now env)" and fit: "units_fit env w x"
  shows "\<exists>w' y. end_rebalance env (\<lparr>ac_key = caller, ac_signer = True\<rparr> # \<lparr>ac_key = A, ac_signer = False\<rparr>
      # \<lparr>ac_key = x_index_mint x, ac_signer = False\<rparr> # vault_infos env x) w = Inr w'
    \<and> w_indexes w' A = Some y \<and> r_active (x_rebalance y) = 0 \<and> w_tokens w' = w_tokens w \<and> w_mints w' = w_mints w
    \<and> (\<forall>i<count x. c_target_units (x_components y ! i) = c_units (x_components y ! i))"
proof -
  have idx: "w_indexes w A = Some x" using ref by (auto dest!: index_ref_Inr)
  have st: "index_struct env w A x" using inv idx by (simp add: backed_def)
  have tab: "count x \<le> length (x_components x)" by (rule backed_table [OF inv idx])
  have at: "A = fst (index_pda env (x_index_mint x))" using st by (simp add: index_struct_def)
  obtain m where m: "w_mints w (x_index_mint x) = Some m" using struct_mint [OF st] by metis
  then have s: "uint (m_supply m) = supply_of w (x_index_mint x)" by (simp add: supply_of_def)
  obtain balances where b: "verify_vaults env A (x_index_mint x) (vault_infos env x) w = Inr balances"
    "length balances = count x" "\<forall>i<count x. uint (balances ! i) = balance_of w (vault_of_index env x i)"
    by (rule verify_vaults_succeeds [OF st ref])
  obtain y w1 where y: "sync_units A balances (m_supply m) w = Inr w1" "index_ref w1 A = Inr y" "same_shape x y"
    "w_tokens w1 = w_tokens w" "w_mints w1 = w_mints w" "x_fee_recipient y = x_fee_recipient x"
    by (rule sync_units_succeeds [OF ref fit s b(3) tab])
  let ?y = "close_rebalance (targets_from_units y)"
  have len: "count x = count y" "count y \<le> length (x_components y)"
    using y(3) tab by (simp_all add: same_shape_def count_def) (metis length_map)
  have comps: "x_components ?y = x_components (targets_from_units y)" by (simp add: close_rebalance_def)
  have units: "c_units (x_components (targets_from_units y) ! i) = c_units (x_components y ! i)" if "i < count x" for i
  proof -
    have "map c_units (x_components (targets_from_units y)) ! i = map c_units (x_components y) ! i"
      by (simp only: targets_from_units_shape(2))
    moreover have "length (x_components (targets_from_units y)) = length (x_components y)"
      using targets_from_units_shape(2) [of y] by (metis length_map)
    ultimately show ?thesis using that len by simp
  qed
  have "refresh env A (x_index_mint x) (vault_infos env x) w = Inr w1" using b(1) m y(1) by (simp add: refresh_def read_mint_def)
  then have "end_rebalance env (\<lparr>ac_key = caller, ac_signer = True\<rparr> # \<lparr>ac_key = A, ac_signer = False\<rparr>
      # \<lparr>ac_key = x_index_mint x, ac_signer = False\<rparr> # vault_infos env x) w = Inr (set_index A ?y w1)"
    using ref act late y(2) at
    by (simp add: end_rebalance_def require_signer_def check_index_pda_def require_key_def index_update_def guard_def)
  moreover have "w_indexes (set_index A ?y w1) A = Some ?y" by (simp add: set_index_def)
  moreover have "r_active (x_rebalance ?y) = 0" by (simp add: close_rebalance_def default_rebalance_def)
  ultimately show ?thesis using y(4,5) units targets_from_units_value len unfolding comps [symmetric]
    by (intro exI [of _ "set_index A ?y w1"] exI [of _ ?y] conjI) (simp_all add: set_index_def comps)
qed

text \<open>C12: Once an auction of a reachable world has expired, the endRebalance transaction the client
  builds succeeds for whoever signs it, as long as the units fit 64 bits: it closes the auction,
  makes the current units the targets and moves no token.
\<close>

theorem expired_auction_can_be_closed:
  assumes "reachable env w" "token_contract (ce_cpi env)" "pda_contract env" "find_pda w3 = ce_find_pda env"
    and "index_ref w A = Inr x" "r_active (x_rebalance x) \<noteq> 0" "sint (r_end_ts (x_rebalance x)) < sint t" "units_fit env w x"
  shows "\<exists>i w' y. endRebalance w3 (ce_program env) caller (x_index_mint x) (map c_mint (components_of x)) = Inr i
    \<and> ti_programId i = ce_program env \<and> ti_data i = borsh EndRebalance
    \<and> process (env\<lparr>ce_now := t\<rparr>) (passed (ti_keys i)) EndRebalance w = Inr w'
    \<and> w_indexes w' A = Some y \<and> r_active (x_rebalance y) = 0 \<and> w_tokens w' = w_tokens w \<and> w_mints w' = w_mints w
    \<and> (\<forall>k<count x. c_target_units (x_components y ! k) = c_units (x_components y ! k))"
proof -
  let ?m = "x_index_mint x"
  let ?keys = "[signerRo caller, rw (index_of w3 (ce_program env) ?m), ro ?m]
        @ map (\<lambda>mint. ro (vault_of w3 (ce_program env) ?m mint)) (map c_mint (components_of x))"
  have inv: "backed env w" by (rule reachable_backed [OF assms(1-3)])
  have "w_indexes w A = Some x" using assms(5) by (auto dest!: index_ref_Inr)
  then have at: "A = fst (index_pda env ?m)" using inv by (simp add: backed_def index_struct_def)
  have i: "endRebalance w3 (ce_program env) caller ?m (map c_mint (components_of x))
     = Inr \<lparr>ti_programId = ce_program env, ti_keys = ?keys, ti_data = borsh EndRebalance\<rparr>"
  proof -
    have "list_all2 writes [tag V_EndRebalance] [le_bytes 1 (VARIANT V_EndRebalance)]"
      by (simp only: list_all2_Cons list_all2_Nil writes_tag simp_thms)
    from instruction_build [OF this] show ?thesis by (simp add: endRebalance_def)
  qed
  have "index_of w3 (ce_program env) ?m = A" "vault_of w3 (ce_program env) ?m = (\<lambda>c. fst (vault_pda env ?m c))"
    using assms(4) at by (simp_all add: index_of_def vault_of_def indexPda_def vaultPda_def index_pda_def vault_pda_def
        SdkProgram.SEED_INDEX_def fun_eq_iff)
  then have keys: "passed ?keys = \<lparr>ac_key = caller, ac_signer = True\<rparr> # \<lparr>ac_key = A, ac_signer = False\<rparr>
      # \<lparr>ac_key = ?m, ac_signer = False\<rparr> # vault_infos env x"
    by (simp add: passed_def vault_infos_def signerRo_def rw_def ro_def vault_key_def)
  have fit: "units_fit (env\<lparr>ce_now := t\<rparr>) w x" using assms(8) by (simp add: units_fit_def)
  have va: "vault_infos (env\<lparr>ce_now := t\<rparr>) x = vault_infos env x" by (simp add: vault_infos_def vault_key_def)
  from end_rebalance_succeeds [of "env\<lparr>ce_now := t\<rparr>" w A x caller] inv assms(5-7) fit
  obtain w' y where "process (env\<lparr>ce_now := t\<rparr>) (passed ?keys) EndRebalance w = Inr w'"
    "w_indexes w' A = Some y" "r_active (x_rebalance y) = 0" "w_tokens w' = w_tokens w" "w_mints w' = w_mints w"
    "\<forall>k<count x. c_target_units (x_components y ! k) = c_units (x_components y ! k)"
    unfolding keys va by auto
  then show ?thesis using i by (intro exI [of _ "\<lparr>ti_programId = ce_program env, ti_keys = ?keys, ti_data = borsh EndRebalance\<rparr>"]
      exI [of _ w'] exI [of _ y]) simp
qed

lemma sample_expiry:
  "after_auction (\<lambda>w. case index_ref w index_at of Inl e \<Rightarrow> False
     | Inr x \<Rightarrow> units_fit sample_env w x \<and> r_active (x_rebalance x) = 1 \<and> r_end_ts (x_rebalance x) = 1900
         \<and> x_index_mint x = PublicKey [1] \<and> map c_mint (components_of x) = [PublicKey [2], PublicKey [12]])"
  by code_simp

theorem expired_auction_can_be_closed_witness:
  "\<exists>w w' i y. reachable sample_env w
     \<and> endRebalance \<lparr>find_pda = sample_pda, SystemProgram_id = PublicKey [8], TOKEN_PROGRAM_ID = PublicKey [7]\<rparr> (PublicKey [9]) (PublicKey [99])
         (PublicKey [1]) [PublicKey [2], PublicKey [12]] = Inr i
     \<and> process (sample_env\<lparr>ce_now := 2000\<rparr>) (passed (ti_keys i)) EndRebalance w = Inr w'
     \<and> w_indexes w' index_at = Some y \<and> r_active (x_rebalance y) = 0"
proof -
  obtain w x where w: "run_calls sample_env auction_calls two_world = Inr w" "reachable sample_env w" by (rule auction_history)
  obtain x where x: "index_ref w index_at = Inr x" "units_fit sample_env w x" "r_active (x_rebalance x) = 1"
    "r_end_ts (x_rebalance x) = 1900" "x_index_mint x = PublicKey [1]" "map c_mint (components_of x) = [PublicKey [2], PublicKey [12]]"
    using sample_expiry unfolding after_auction_def w(1) by (auto split: sum.splits)
  have tc: "token_contract (ce_cpi sample_env)" by (simp add: sample_env_def ledger_contract)
  have act: "r_active (x_rebalance x) \<noteq> 0" and late: "sint (r_end_ts (x_rebalance x)) < sint (2000 :: i64)" using x(3,4) by simp_all
  have p: "ce_program sample_env = PublicKey [9]" by (simp add: sample_env_def)
  have f: "find_pda \<lparr>find_pda = sample_pda, SystemProgram_id = PublicKey [8], TOKEN_PROGRAM_ID = PublicKey [7]\<rparr> = ce_find_pda sample_env"
    by (simp add: sample_env_def)
  from expired_auction_can_be_closed [OF w(2) tc sample_pda_contract f x(1) act late x(2), where caller = "PublicKey [99]"] w(2)
  show ?thesis unfolding x(5,6) p by blast
qed

end
