(* ===== verification/Spec2Isabelle.thy ===== *)
theory Spec2Isabelle
  imports MathParity LayoutParity ErrorParity InspectProps CliMain KeeperMain DeployScript ChainClaims ChainLiveness
begin

text \<open>
  The Flock protocol: on-chain index funds, the TypeScript SDK that talks to them, the keeper
  that operates them and the command line tool. This development models the TypeScript packages
  function by function and, because half of what they promise is agreement with the on-chain
  program, the Rust program as well.

  \<^bold>\<open>Foundations.\<close>
  \<open>Prelude\<close>: results (a thrown error or a value), their sequencing, folds and maps that stop at the
  first error, truncating and ceiling division.
  \<open>JsNumber\<close>: the numbers of the language as rationals rounded to double precision, with the
  conversions to and from unbounded integers. \<open>JsBytes\<close>: buffers and fixed-width little-endian
  fields. \<open>JsString\<close>: UTF-16 strings, code points and UTF-8. \<open>JsParse\<close>: \<open>Number\<close>, \<open>BigInt\<close>,
  \<open>trim\<close>, \<open>split\<close> and decimal text; \<open>JsText\<close>: \<open>String\<close> of a number, \<open>toFixed\<close> and padding;
  \<open>JsJson\<close>: JSON values, their conversions and \<open>JSON.stringify\<close>; \<open>NodeArgs\<close>: the strict argument
  parser of the platform. \<open>Rounding\<close>: what multiply-then-divide promises, stated once
  as a locale and interpreted on the SDK's and on the program's routine.

  \<^bold>\<open>The SDK\<close> (\<open>packages/sdk/src\<close>).
  \<open>SdkMath\<close> is \<open>math.ts\<close>, \<open>SdkEncode\<close> is \<open>encode.ts\<close>, \<open>SdkProgram\<close> is \<open>program.ts\<close>,
  \<open>SdkInstructions\<close> is \<open>instructions.ts\<close>, \<open>SdkState\<close> is \<open>state.ts\<close>, \<open>SdkErrors\<close> is \<open>errors.ts\<close>,
  \<open>SdkPrices\<close> and \<open>SdkTokens\<close> are the two endpoints of \<open>prices.ts\<close>, \<open>SdkClient\<close> is \<open>client.ts\<close>. Definitions
  keep the names of the functions they translate; interfaces become records with a two-letter
  prefix. The RPC connection, base 58, address derivation and the SPL token helpers are parameters.

  \<^bold>\<open>The applications.\<close>
  \<open>KeeperPlanner\<close> is \<open>apps/keeper/src/planner.ts\<close> with its two nested loops as folds;
  \<open>KeeperLoop\<close> is \<open>apps/keeper/src/index.ts\<close>, a pass being a function from the effects so far (log
  lines, transactions, requests) to the effects after it; the endless loop is a list of rounds.
  \<open>KeeperMain\<close> adds its command line, its start-up and the text of its log.
  \<open>CliContext\<close>, \<open>CliCommands\<close>, \<open>CliInspect\<close> and \<open>CliMain\<close> are \<open>apps/cli/src\<close>: every command as the
  transactions it sends with their signers and the lines it prints, and \<open>main\<close> from the command
  line to the exit code. \<open>DeployScript\<close> is \<open>scripts/deploy.mjs\<close> as a sequence of events.

  \<^bold>\<open>The on-chain program\<close> (\<open>program/src\<close>).
  \<open>ChainMath\<close> is \<open>math.rs\<close> on machine words; \<open>ChainData\<close> is \<open>instruction.rs\<close> and the C layout of
  \<open>state.rs\<close>; \<open>ChainBuilders\<close> is \<open>builders.rs\<close>; \<open>ChainWorld\<close> is \<open>guards.rs\<close>, the accessors of
  \<open>state.rs\<close> and the helpers of \<open>processor.rs\<close>; \<open>ChainProcessor\<close> holds its twelve handlers, check by
  check, and the dispatch. A world maps addresses to index accounts, mints and token accounts. The
  token and system programs are a record of functions; \<open>token_contract\<close> states what their
  documentation promises, and \<open>pda_contract\<close> that derived addresses do not collide.

  \<^bold>\<open>What is proved.\<close>
  About the arithmetic (\<open>SdkMath\<close>): rounding always favours the fund and by less than one unit,
  fees are exact shares, auction premiums run monotonically between their ends, sizing a weighting
  never asks for more than the fund is worth. About agreement: the SDK's arithmetic and the
  program's give the same results on every machine input (\<open>MathParity\<close>), all twelve instruction
  builders produce the same accounts and bytes (\<open>InstructionParity\<close>), decoding inverts the C
  layout (\<open>LayoutParity\<close>), every program error is explained by its own sentence
  (\<open>ErrorParity\<close>). About the applications: planned bids respect the program's limits and the
  operator's policy (\<open>KeeperPlanner\<close>), a keeper that was not told to execute on its command line
  sends nothing (\<open>KeeperMain\<close>), prices, statistics and weights reach the component they belong to
  (\<open>SdkPrices\<close>, \<open>SdkTokens\<close>, \<open>CliProps\<close>), a written command line parses back (\<open>CliMain\<close>), \<open>inspect\<close>
  reports amounts exactly (\<open>InspectProps\<close>), and the record of a deployment names the program the
  tools then talk to (\<open>DeployScript\<close>).
  About the program: \<open>reachable\<close> (\<open>ChainSafety\<close>) interleaves arbitrary instructions with arbitrary
  steps of other programs, and in every reachable world the vaults back the supply, an index alone
  can mint its token, and its accounts keep their shape (\<open>ChainInvariant\<close>, \<open>ChainClaims\<close>);
  neither an issue nor a redemption lowers what a token is backed by (\<open>ChainDilution\<close>); what an
  index charges and who runs it changes only with the right signature, and only redemptions and
  bids take tokens out of a vault (\<open>ChainAuthority\<close>); an expired auction can be closed by anyone
  (\<open>ChainLiveness\<close>).
  About both together: \<open>ChainExact\<close> gives the exact balances after every step of the handlers, and
  with them a snapshot shows the world it was read from, issue and redeem move exactly the amounts
  of the client's quotes (\<open>ClientChain\<close>), and a filled bid costs exactly what \<open>bidCost\<close> says and
  leaves the fund above its floor (\<open>AuctionChain\<close>).
  \<open>ChainSample\<close> and \<open>AuctionSample\<close> run histories on a concrete token program to show the
  hypotheses can be met. Where the code departs from its own comments, a theorem shows the
  departure on an input.

  \<^bold>\<open>Bounds.\<close> Every loop of the sources is bounded (three attempts per request, one pass over
  components, batches or arguments) and is a structural recursion; the keeper's endless loop is a
  list of rounds. Two recursions count down: decimal digits (as many as the number has bits) and
  the digits of a shortest decimal (sixteen tries, since seventeen digits determine a double).

  \<^bold>\<open>Not modelled.\<close> The entry points and re-exports; delays between attempts and rounds; compute
  limits, rent and the account-borrow rules of the runtime; the text of the platform's own error
  messages and its currency format. A delegate's remaining allowance is not tracked, and negative
  zero is not told apart from zero.
\<close>

end
